(* ===== verification/Contract_Prelude.thy ===== *)
theory Contract_Prelude
  imports Main "HOL-Library.Word"
begin

text \<open>
  Shared vocabulary of the development.

  \<^item> The widths of Rust's integers and the error type of
    \<^verbatim>\<open>crates/soac_contracts/src/error.rs\<close>. \<open>Result<T, ContractError>\<close> is the sum
    \<open>contract_error + 'a\<close>, \<open>Inl\<close> being \<open>Err\<close>.
  \<^item> Rust's control flow with \<open>?\<close> and early \<open>return Err(..)\<close>: \<open>and_then\<close>, \<open>fail_if\<close>
    and the loops \<open>for_each\<close>, \<open>for_unique\<close> and \<open>map_result\<close>, each with the lemma
    that says when it succeeds. Those lemmas are simp rules, so that a validator that returns
    \<open>Ok\<close> unfolds to the conjunction of its checks.
  \<^item> UTF-8 text. A Rust \<open>String\<close> is the list of its bytes, a HOL \<open>string\<close>; lengths
    are byte lengths, as \<open>str::len\<close> counts them.
\<close>

section \<open>Machine integers and errors\<close>

type_synonym u8 = "8 word"
type_synonym u32 = "32 word"
type_synonym u64 = "64 word"

datatype contract_error =
    Encoding string
  | SizeLimit string nat
  | NonCanonicalEncoding
  | VersionMismatch string u32 u32
  | UntrustedSignature
  | GenerationMismatch
  | EnvironmentMismatch string
  | InvalidPolicy string
  | InvalidStructure string
  | InvalidSourceIdentity string
  | InvalidType string
  | BlockingDiagnostic string
  | MissingModule string
  | MissingShard string
  | SourceMismatch string
  | PolicyMismatch string
  | DependencyMismatch string
  | ShardMismatch string

type_synonym 'a result = "contract_error + 'a"

named_theorems result_simps \<open>when the result combinators succeed\<close>

section \<open>Results with early return\<close>

definition and_then :: "'e + 'a \<Rightarrow> ('a \<Rightarrow> 'e + 'b) \<Rightarrow> 'e + 'b" where
  "and_then r f = (case r of Inl e \<Rightarrow> Inl e | Inr x \<Rightarrow> f x)"

definition fail_if :: "bool \<Rightarrow> 'e \<Rightarrow> 'e + unit" where
  "fail_if b e = (if b then Inl e else Inr ())"

definition ok_or :: "'a option \<Rightarrow> 'e \<Rightarrow> 'e + 'a" where
  "ok_or x e = (case x of None \<Rightarrow> Inl e | Some y \<Rightarrow> Inr y)"

definition is_err :: "'e + 'a \<Rightarrow> bool" where
  "is_err r = (case r of Inl _ \<Rightarrow> True | Inr _ \<Rightarrow> False)"

primrec for_each :: "('a \<Rightarrow> 'e + unit) \<Rightarrow> 'a list \<Rightarrow> 'e + unit" where
  "for_each f [] = Inr ()"
| "for_each f (x # xs) = and_then (f x) (\<lambda>_. for_each f xs)"

primrec for_option :: "('a \<Rightarrow> 'e + unit) \<Rightarrow> 'a option \<Rightarrow> 'e + unit" where
  "for_option f None = Inr ()"
| "for_option f (Some x) = f x"

primrec map_result :: "('a \<Rightarrow> 'e + 'b) \<Rightarrow> 'a list \<Rightarrow> 'e + 'b list" where
  "map_result f [] = Inr []"
| "map_result f (x # xs) =
     and_then (f x) (\<lambda>y. and_then (map_result f xs) (\<lambda>ys. Inr (y # ys)))"

primrec map_option_result :: "('a \<Rightarrow> 'e + 'b) \<Rightarrow> 'a option \<Rightarrow> 'e + 'b option" where
  "map_option_result f None = Inr None"
| "map_option_result f (Some x) = and_then (f x) (\<lambda>y. Inr (Some y))"

primrec fold_result :: "('s \<Rightarrow> 'a \<Rightarrow> 'e + 's) \<Rightarrow> 's \<Rightarrow> 'a list \<Rightarrow> 'e + 's" where
  "fold_result f s [] = Inr s"
| "fold_result f s (x # xs) = and_then (f s x) (\<lambda>s'. fold_result f s' xs)"

text \<open>
  The loop \<open>for x in xs { pre(x)?; if !seen.insert(key(x)) { return Err(dup(x)); } post(x)?; }\<close>,
  which the validators use wherever a catalogue must not repeat a key.
\<close>

primrec for_unique ::
  "('a \<Rightarrow> 'e + unit) \<Rightarrow> ('a \<Rightarrow> 'k) \<Rightarrow> ('a \<Rightarrow> 'e) \<Rightarrow> ('a \<Rightarrow> 'e + unit) \<Rightarrow> 'k set \<Rightarrow> 'a list \<Rightarrow> 'e + unit"
where
  "for_unique pre key dup post seen [] = Inr ()"
| "for_unique pre key dup post seen (x # xs) =
     and_then (pre x) (\<lambda>_.
     and_then (fail_if (key x \<in> seen) (dup x)) (\<lambda>_.
     and_then (post x) (\<lambda>_.
       for_unique pre key dup post (insert (key x) seen) xs)))"

section \<open>Text\<close>

text \<open>
  \<open>char::is_control\<close> is Unicode category Cc: U+0000..U+001F and U+007F..U+009F. The latter half
  of the second block is the UTF-8 pair C2 80 .. C2 9F; C2 starts nothing else.
\<close>

fun has_control :: "string \<Rightarrow> bool" where
  "has_control [] = False"
| "has_control (c # cs) =
     ((of_char c :: nat) < 32 \<or> (of_char c :: nat) = 127 \<or>
      ((of_char c :: nat) = 194 \<and>
       (case cs of [] \<Rightarrow> False | d # _ \<Rightarrow> 128 \<le> (of_char d :: nat) \<and> (of_char d :: nat) \<le> 159)) \<or>
      has_control cs)"

fun split_on :: "char \<Rightarrow> string \<Rightarrow> string list" where
  "split_on sep [] = [[]]"
| "split_on sep (c # cs) =
     (if c = sep then [] # split_on sep cs
      else case split_on sep cs of [] \<Rightarrow> [[c]] | part # parts \<Rightarrow> (c # part) # parts)"

definition is_ascii_digit :: "char \<Rightarrow> bool" where
  "is_ascii_digit c = (48 \<le> (of_char c :: nat) \<and> (of_char c :: nat) \<le> 57)"

definition bytes_of_string :: "string \<Rightarrow> u8 list" where
  "bytes_of_string s = map (\<lambda>c. of_nat (of_char c)) s"

definition starts_with :: "string \<Rightarrow> string \<Rightarrow> bool" where
  "starts_with p s = (take (length p) s = p)"

definition ends_with :: "string \<Rightarrow> string \<Rightarrow> bool" where
  "ends_with p s = (length p \<le> length s \<and> drop (length s - length p) s = p)"

fun nat_decimal :: "nat \<Rightarrow> string" where
  "nat_decimal n =
     (if n < 10 then [char_of (48 + n)] else nat_decimal (n div 10) @ [char_of (48 + n mod 10)])"

declare nat_decimal.simps [simp del]

definition is_continuation :: "u8 \<Rightarrow> bool" where
  "is_continuation b = (128 \<le> unat b \<and> unat b \<le> 191)"

text \<open>\<open>std::str::from_utf8\<close>: the well-formed byte sequences of the Unicode standard.\<close>

fun utf8_valid :: "u8 list \<Rightarrow> bool" where
  "utf8_valid [] = True"
| "utf8_valid (a # rest) =
     (if unat a < 128 then utf8_valid rest
      else if 194 \<le> unat a \<and> unat a \<le> 223 then
        (case rest of b # r \<Rightarrow> is_continuation b \<and> utf8_valid r | _ \<Rightarrow> False)
      else if 224 \<le> unat a \<and> unat a \<le> 239 then
        (case rest of
           b # c # r \<Rightarrow>
             is_continuation b \<and> is_continuation c \<and>
             (unat a = 224 \<longrightarrow> 160 \<le> unat b) \<and> (unat a = 237 \<longrightarrow> unat b \<le> 159) \<and> utf8_valid r
         | _ \<Rightarrow> False)
      else if 240 \<le> unat a \<and> unat a \<le> 244 then
        (case rest of
           b # c # d # r \<Rightarrow>
             is_continuation b \<and> is_continuation c \<and> is_continuation d \<and>
             (unat a = 240 \<longrightarrow> 144 \<le> unat b) \<and> (unat a = 244 \<longrightarrow> unat b \<le> 143) \<and> utf8_valid r
         | _ \<Rightarrow> False)
      else False)"

text \<open>\<open>str::is_char_boundary\<close>.\<close>

definition is_char_boundary :: "u8 list \<Rightarrow> nat \<Rightarrow> bool" where
  "is_char_boundary s i =
     (i = 0 \<or> i = length s \<or> (i < length s \<and> \<not> is_continuation (s ! i)))"

section \<open>When the combinators succeed\<close>

lemma and_then_Inr [simp]: "and_then (Inr x) f = f x"
  by (simp add: and_then_def)

lemma and_then_Inl [simp]: "and_then (Inl e) f = Inl e"
  by (simp add: and_then_def)

lemma and_then_eq_Inr [simp, result_simps]:
  "and_then r f = Inr y \<longleftrightarrow> (\<exists>x. r = Inr x \<and> f x = Inr y)"
  by (cases r) auto

lemma and_then_cong [fundef_cong]:
  "r = r' \<Longrightarrow> (\<And>x. r' = Inr x \<Longrightarrow> f x = g x) \<Longrightarrow> and_then r f = and_then r' g"
  by (cases r') auto

lemma and_then_assoc: "and_then (and_then r f) g = and_then r (\<lambda>x. and_then (f x) g)"
  by (cases r) auto

lemma fail_if_eq_Inr [simp, result_simps]: "fail_if b e = Inr u \<longleftrightarrow> \<not> b"
  by (simp add: fail_if_def)

lemma fail_if_True [simp]: "fail_if True e = Inl e"
  by (simp add: fail_if_def)

lemma fail_if_False [simp]: "fail_if False e = Inr ()"
  by (simp add: fail_if_def)

lemma ok_or_eq_Inr [simp, result_simps]: "ok_or x e = Inr y \<longleftrightarrow> x = Some y"
  by (simp add: ok_or_def split: option.splits)

lemma is_err_iff: "is_err r \<longleftrightarrow> (\<forall>x. r \<noteq> Inr x)"
  by (cases r) (auto simp: is_err_def)

lemma is_err_unit [simp]: "\<not> is_err (r :: 'e + unit) \<longleftrightarrow> r = Inr ()"
  by (cases r) (auto simp: is_err_def)

lemma for_each_eq_Inr [simp, result_simps]:
  "for_each f xs = Inr u \<longleftrightarrow> (\<forall>x \<in> set xs. f x = Inr ())"
  by (induction xs) auto

lemma for_option_eq_Inr [simp, result_simps]:
  "for_option f x = Inr u \<longleftrightarrow> (\<forall>y. x = Some y \<longrightarrow> f y = Inr ())"
  by (cases x) auto

lemma for_each_cong [fundef_cong]:
  "xs = ys \<Longrightarrow> (\<And>x. x \<in> set ys \<Longrightarrow> f x = g x) \<Longrightarrow> for_each f xs = for_each g ys"
  by (induction ys arbitrary: xs) (auto cong: and_then_cong)

lemma for_option_cong [fundef_cong]:
  "x = y \<Longrightarrow> (\<And>z. y = Some z \<Longrightarrow> f z = g z) \<Longrightarrow> for_option f x = for_option g y"
  by (cases y) auto

lemma map_result_eq_Inr [result_simps]:
  "map_result f xs = Inr ys \<longleftrightarrow> list_all2 (\<lambda>x y. f x = Inr y) xs ys"
proof (induction xs arbitrary: ys)
  case Nil
  then show ?case by auto
next
  case (Cons x xs)
  then show ?case by (cases ys) auto
qed

lemma map_result_cong [fundef_cong]:
  "xs = ys \<Longrightarrow> (\<And>x. x \<in> set ys \<Longrightarrow> f x = g x) \<Longrightarrow> map_result f xs = map_result g ys"
  by (induction ys arbitrary: xs) (auto cong: and_then_cong)

lemma map_result_Inr_id: "(\<And>x. x \<in> set xs \<Longrightarrow> f x = Inr x) \<Longrightarrow> map_result f xs = Inr xs"
  by (induction xs) auto

lemma map_result_id_iff: "map_result f xs = Inr xs \<longleftrightarrow> (\<forall>x \<in> set xs. f x = Inr x)"
  by (induction xs) auto

lemma map_result_set:
  assumes "map_result f xs = Inr ys" "y \<in> set ys"
  shows "\<exists>x \<in> set xs. f x = Inr y"
  using assms by (induction xs arbitrary: ys) auto

lemma map_result_set':
  assumes "map_result f xs = Inr ys" "x \<in> set xs"
  shows "\<exists>y \<in> set ys. f x = Inr y"
  using assms by (induction xs arbitrary: ys) auto

lemma map_result_Ex_iff:
  "(\<exists>ys. map_result f xs = Inr ys) \<longleftrightarrow> (\<forall>x \<in> set xs. \<exists>y. f x = Inr y)"
  by (induction xs) auto

lemma map_option_result_eq_Inr [simp, result_simps]:
  "map_option_result f x = Inr y \<longleftrightarrow>
     (case x of None \<Rightarrow> y = None | Some a \<Rightarrow> \<exists>b. f a = Inr b \<and> y = Some b)"
  by (cases x) auto

lemma map_option_result_cong [fundef_cong]:
  "x = y \<Longrightarrow> (\<And>z. y = Some z \<Longrightarrow> f z = g z) \<Longrightarrow> map_option_result f x = map_option_result g y"
  by (cases y) auto

lemma for_unique_eq_Inr [simp, result_simps]:
  "for_unique pre key dup post seen xs = Inr u \<longleftrightarrow>
     (\<forall>x \<in> set xs. pre x = Inr () \<and> post x = Inr ()) \<and>
     distinct (map key xs) \<and> key ` set xs \<inter> seen = {}"
  by (induction xs arbitrary: seen) auto

section \<open>Text facts\<close>

lemma split_on_not_Nil [simp]: "split_on sep s \<noteq> []"
  by (induction s) (auto split: list.splits)

lemma bytes_of_string_inj: "bytes_of_string s = bytes_of_string t \<Longrightarrow> s = t"
proof -
  have inj: "inj (\<lambda>c. (of_nat (of_char c) :: u8))"
  proof (rule injI)
    fix c d :: char
    assume "(of_nat (of_char c) :: u8) = of_nat (of_char d)"
    then have "unat (of_nat (of_char c) :: u8) = unat (of_nat (of_char d) :: u8)" by simp
    moreover have "(of_char c :: nat) < 256" "(of_char d :: nat) < 256"
      by (rule nat_of_char_less_256)+
    ultimately have "(of_char c :: nat) = of_char d"
      by (simp add: unat_of_nat take_bit_nat_def)
    then show "c = d" by simp
  qed
  assume "bytes_of_string s = bytes_of_string t"
  then show "s = t" by (simp add: bytes_of_string_def inj_map_eq_map [OF inj])
qed

end
