(* ===== verification/Contract_Order.thy ===== *)
theory Contract_Order
  imports Contract_Prelude "HOL-Library.Multiset"
begin

text \<open>
  Rust's \<open>#[derive(PartialOrd, Ord)]\<close>. A derived order compares a struct field by field, an enum
  by variant position and then by payload, a \<open>Vec\<close> or a \<open>String\<close> lexicographically (a
  proper prefix is smaller), \<open>None\<close> before \<open>Some\<close>, and a \<open>BTreeSet\<close> as its
  ascending element sequence. All of these are the one lexicographic order on finitely branching
  trees over the natural numbers: every ordered type of the model has an injection into the tree
  type \<open>okey\<close> below, and \<open>xs.sort()\<close> is the library's stable \<open>sort_key\<close> along
  that injection.

  The locale \<open>order_key\<close> states what such an injection promises; every ordered type of the
  model interprets it.
\<close>

section \<open>Order keys\<close>

datatype okey = OAtom nat | OSeq "okey list"

fun okey_less :: "okey \<Rightarrow> okey \<Rightarrow> bool"
and okeys_less :: "okey list \<Rightarrow> okey list \<Rightarrow> bool"
where
  "okey_less (OAtom m) (OAtom n) = (m < n)"
| "okey_less (OAtom m) (OSeq ys) = True"
| "okey_less (OSeq xs) (OAtom n) = False"
| "okey_less (OSeq xs) (OSeq ys) = okeys_less xs ys"
| "okeys_less [] [] = False"
| "okeys_less [] (y # ys) = True"
| "okeys_less (x # xs) [] = False"
| "okeys_less (x # xs) (y # ys) = (okey_less x y \<or> (x = y \<and> okeys_less xs ys))"

definition nat_key :: "nat \<Rightarrow> okey" where
  "nat_key = OAtom"

definition word_key :: "'a::len word \<Rightarrow> okey" where
  "word_key w = OAtom (unat w)"

definition bool_key :: "bool \<Rightarrow> okey" where
  "bool_key b = OAtom (if b then 1 else 0)"

definition string_key :: "string \<Rightarrow> okey" where
  "string_key s = OSeq (map (\<lambda>c. OAtom (of_char c)) s)"

definition option_key :: "('a \<Rightarrow> okey) \<Rightarrow> 'a option \<Rightarrow> okey" where
  "option_key k x = (case x of None \<Rightarrow> OSeq [] | Some y \<Rightarrow> OSeq [k y])"

definition list_key :: "('a \<Rightarrow> okey) \<Rightarrow> 'a list \<Rightarrow> okey" where
  "list_key k xs = OSeq (map k xs)"

text \<open>
  \<open>BTreeSet\<close> of a field-less enum: the members in variant order, given the list of all variants.
\<close>

definition enum_set_key :: "'a list \<Rightarrow> ('a \<Rightarrow> okey) \<Rightarrow> 'a set \<Rightarrow> okey" where
  "enum_set_key variants k A = OSeq (map k (filter (\<lambda>x. x \<in> A) variants))"

section \<open>The keys are linearly ordered\<close>

lemma okeys_less_irreflI: "(\<And>x. x \<in> set xs \<Longrightarrow> \<not> okey_less x x) \<Longrightarrow> \<not> okeys_less xs xs"
  by (induction xs) auto

lemma okey_less_irrefl: "\<not> okey_less x x"
proof (induction x)
  case (OSeq xs)
  then show ?case by (simp add: okeys_less_irreflI)
qed simp

lemma okeys_less_transI:
  "(\<And>x y z. x \<in> set xs \<Longrightarrow> okey_less x y \<Longrightarrow> okey_less y z \<Longrightarrow> okey_less x z) \<Longrightarrow>
   okeys_less xs ys \<Longrightarrow> okeys_less ys zs \<Longrightarrow> okeys_less xs zs"
proof (induction xs arbitrary: ys zs)
  case Nil
  then show ?case by (cases ys; cases zs) auto
next
  case (Cons x xs)
  obtain y ys' where ys: "ys = y # ys'" using Cons.prems(2) by (cases ys) auto
  obtain z zs' where zs: "zs = z # zs'" using Cons.prems(3) ys by (cases zs) auto
  show ?case
    using Cons.prems Cons.IH [of ys' zs'] by (auto simp: ys zs)
qed

lemma okey_less_trans: "okey_less x y \<Longrightarrow> okey_less y z \<Longrightarrow> okey_less x z"
proof (induction x arbitrary: y z)
  case (OAtom m)
  then show ?case by (cases y; cases z) auto
next
  case (OSeq xs)
  obtain ys where ys: "y = OSeq ys" using OSeq.prems(1) by (cases y) auto
  obtain zs where zs: "z = OSeq zs" using OSeq.prems(2) ys by (cases z) auto
  have "okeys_less xs zs"
    by (rule okeys_less_transI [of xs ys zs]) (use OSeq ys zs in auto)
  then show ?case by (simp add: zs)
qed

lemma okeys_less_totalI:
  "(\<And>x y. x \<in> set xs \<Longrightarrow> okey_less x y \<or> x = y \<or> okey_less y x) \<Longrightarrow>
   okeys_less xs ys \<or> xs = ys \<or> okeys_less ys xs"
proof (induction xs arbitrary: ys)
  case Nil
  then show ?case by (cases ys) auto
next
  case (Cons x xs)
  show ?case
  proof (cases ys)
    case (Cons y ys')
    then show ?thesis
      using Cons.prems [of x y] Cons.IH [of ys'] Cons.prems by auto
  qed simp
qed

lemma okey_less_total: "okey_less x y \<or> x = y \<or> okey_less y x"
proof (induction x arbitrary: y)
  case (OAtom m)
  then show ?case by (cases y) auto
next
  case (OSeq xs)
  then have "okeys_less xs ys \<or> xs = ys \<or> okeys_less ys xs" for ys
    by (intro okeys_less_totalI)
  then show ?case by (cases y) simp_all
qed

instantiation okey :: linorder
begin

definition less_okey :: "okey \<Rightarrow> okey \<Rightarrow> bool" where
  "less_okey = okey_less"

definition less_eq_okey :: "okey \<Rightarrow> okey \<Rightarrow> bool" where
  "less_eq_okey x y = (okey_less x y \<or> x = y)"

instance
proof
  fix x y z :: okey
  show "(x < y) = (x \<le> y \<and> \<not> y \<le> x)"
    using okey_less_trans [of x y x] okey_less_irrefl [of x]
    by (auto simp: less_okey_def less_eq_okey_def)
  show "x \<le> x" by (simp add: less_eq_okey_def)
  show "x \<le> z" if "x \<le> y" "y \<le> z"
    using that okey_less_trans by (auto simp: less_eq_okey_def)
  show "x = y" if "x \<le> y" "y \<le> x"
    using that okey_less_trans [of x y x] okey_less_irrefl [of x] by (auto simp: less_eq_okey_def)
  show "x \<le> y \<or> y \<le> x"
    using okey_less_total [of x y] by (auto simp: less_eq_okey_def)
qed

end

text \<open>\<open>Vec::sort\<close> followed by \<open>Vec::dedup\<close>, and collecting into a \<open>BTreeSet\<close>.\<close>

definition sort_dedup :: "('a \<Rightarrow> okey) \<Rightarrow> 'a list \<Rightarrow> 'a list" where
  "sort_dedup key xs = remdups_adj (sort_key key xs)"

section \<open>The interface of an ordered type\<close>

locale order_key =
  fixes key :: "'a \<Rightarrow> okey"
  assumes key_inj: "key x = key y \<Longrightarrow> x = y"
begin

lemma key_eq_iff: "key x = key y \<longleftrightarrow> x = y"
  using key_inj by blast

lemma inj_key: "inj key"
  by (simp add: inj_def key_inj)

lemma option_key_inj: "option_key key x = option_key key y \<Longrightarrow> x = y"
  by (auto simp: option_key_def key_inj split: option.splits)

lemma list_key_inj: "list_key key xs = list_key key ys \<Longrightarrow> xs = ys"
  by (simp add: list_key_def inj_map_eq_map [OF inj_key])

lemma enum_set_key_inj:
  assumes "enum_set_key variants key A = enum_set_key variants key B" "\<And>x. x \<in> set variants"
  shows "A = B"
proof -
  have "map key (filter (\<lambda>x. x \<in> A) variants) = map key (filter (\<lambda>x. x \<in> B) variants)"
    using assms(1) by (simp add: enum_set_key_def)
  then have "filter (\<lambda>x. x \<in> A) variants = filter (\<lambda>x. x \<in> B) variants"
    by (simp add: inj_map_eq_map [OF inj_key])
  then have "set (filter (\<lambda>x. x \<in> A) variants) = set (filter (\<lambda>x. x \<in> B) variants)" by simp
  then show ?thesis using assms(2) by auto
qed

text \<open>Sorting and deduplicating gives one representative list per set of members.\<close>

lemma set_sort_dedup [simp]: "set (sort_dedup key xs) = set xs"
  by (simp add: sort_dedup_def)

lemma strictly_sorted_sort_dedup: "sorted_wrt (<) (map key (sort_dedup key xs))"
proof -
  have "sorted_wrt (<) (map key (remdups_adj ys))" if "sorted (map key ys)" for ys
    using that
  proof (induction ys rule: remdups_adj.induct)
    case (3 x y xs)
    show ?case
    proof (cases "x = y")
      case False
      then have lt: "key x < key y"
        using "3.prems" key_inj [of x y] by (auto simp: order.order_iff_strict)
      have "sorted_wrt (<) (map key (remdups_adj (y # xs)))"
        using "3.IH"(2) [OF False] "3.prems" by simp
      moreover have "\<forall>z \<in> set (y # xs). key x < key z"
        using lt "3.prems" by auto
      ultimately show ?thesis using False by simp
    qed (use "3" in auto)
  qed auto
  then show ?thesis by (simp add: sort_dedup_def)
qed

lemma strictly_sorted_unique:
  assumes "sorted_wrt (<) (map key xs)" "sorted_wrt (<) (map key ys)" "set xs = set ys"
  shows "xs = ys"
proof -
  have "map key xs = map key ys"
    using assms by (intro strict_sorted_equal) auto
  then show ?thesis by (simp add: inj_map_eq_map [OF inj_key])
qed

lemma strictly_sorted_distinct: "sorted_wrt (<) (map key xs) \<Longrightarrow> distinct xs"
  by (simp add: strict_sorted_iff distinct_map)

lemma sort_dedup_id: "sorted_wrt (<) (map key xs) \<Longrightarrow> sort_dedup key xs = xs"
  using strictly_sorted_sort_dedup strictly_sorted_unique set_sort_dedup by blast

lemma sort_dedup_cong: "set xs = set ys \<Longrightarrow> sort_dedup key xs = sort_dedup key ys"
  using strictly_sorted_sort_dedup strictly_sorted_unique set_sort_dedup by metis

lemma sort_dedup_idem [simp]: "sort_dedup key (sort_dedup key xs) = sort_dedup key xs"
  using strictly_sorted_sort_dedup by (rule sort_dedup_id)

lemma sort_dedup_eq_Nil [simp]: "sort_dedup key xs = [] \<longleftrightarrow> xs = []"
  by (metis set_sort_dedup set_empty)

text \<open>A stable sort by an injective key depends on the multiset of elements only.\<close>

lemma sort_key_perm: "mset xs = mset ys \<Longrightarrow> sort_key key xs = sort_key key ys"
proof -
  assume "mset xs = mset ys"
  then have "sort (map key xs) = sort (map key ys)"
    by (intro properties_for_sort) simp_all
  moreover have "sort (map key zs) = map key (sort_key key zs)" for zs
    by (intro properties_for_sort) simp_all
  ultimately have "map key (sort_key key xs) = map key (sort_key key ys)" by simp
  then show ?thesis by (simp add: inj_map_eq_map [OF inj_key])
qed

end

section \<open>Keys of the primitive types\<close>

interpretation nat_ok: order_key nat_key
  by unfold_locales (simp add: nat_key_def)

interpretation word_ok: order_key word_key
  by unfold_locales (simp add: word_key_def word_unat_eq_iff)

interpretation bool_ok: order_key bool_key
  by unfold_locales (simp add: bool_key_def split: if_splits)

interpretation string_ok: order_key string_key
proof
  fix s t
  assume "string_key s = string_key t"
  then have "map (\<lambda>c. OAtom (of_char c)) s = map (\<lambda>c. OAtom (of_char c)) t"
    by (simp add: string_key_def)
  then show "s = t"
    by (rule map_injective) (simp add: inj_def)
qed

lemmas key_injs =
  nat_ok.key_inj word_ok.key_inj bool_ok.key_inj string_ok.key_inj

lemma sort_key_id: "sorted (map f xs) \<Longrightarrow> sort_key f xs = xs"
  by (rule sort_key_id_if_sorted)

lemma sort_key_idem [simp]: "sort_key f (sort_key f xs) = sort_key f xs"
  by (rule sort_key_id_if_sorted) (rule sorted_sort_key)

text \<open>A stable sort whose keys are distinct depends on the multiset of elements only.\<close>

lemma sort_key_distinct_perm:
  fixes f :: "'a \<Rightarrow> 'k::linorder"
  assumes "mset xs = mset ys" "distinct (map f xs)"
  shows "sort_key f xs = sort_key f ys"
proof -
  have "sort (map f xs) = sort (map f ys)"
    using assms(1) by (intro properties_for_sort) simp_all
  moreover have "sort (map f zs) = map f (sort_key f zs)" for zs
    by (intro properties_for_sort) simp_all
  ultimately have "map f (sort_key f xs) = map f (sort_key f ys)" by simp
  moreover have "set ys = set xs" using assms(1) by (metis set_mset_mset)
  ultimately show ?thesis
    using assms(2) by (intro map_inj_on [of f]) (simp_all add: distinct_map)
qed

context order_key
begin

lemma distinct_key: "distinct (map (\<lambda>x. key (f x)) xs) = distinct (map f xs)"
  using distinct_map [of key "map f xs"] inj_on_subset [OF inj_key] by (simp add: comp_def)

lemma catalogue_perm:
  assumes "mset xs = mset ys" "distinct (map f xs)"
  shows "sort_key (\<lambda>x. key (f x)) xs = sort_key (\<lambda>x. key (f x)) ys"
  using assms by (intro sort_key_distinct_perm) (simp_all add: distinct_key)

end

end
