(* ===== verification/Contract_Identity.thy ===== *)
theory Contract_Identity
  imports Contract_Order
begin

text \<open>
  Source identities and fingerprints: \<^verbatim>\<open>crates/soac_contracts/src/identity.rs\<close>.

  A \<open>Fingerprint\<close> wraps the 32 bytes of a SHA-256 digest; the digest function itself (crate
  \<open>sha2\<close>) is the parameter \<open>sha256\<close>. Theorems: the lower-case hexadecimal encoding is a
  bijection between byte arrays of length \<open>N\<close> and the strings \<open>decode_hex\<close> accepts; the
  historical FNV-1a source hash, computed with wrapping 64-bit arithmetic, always distinguishes
  sources of one length that differ in one byte; source ranges are ordered by containment.
\<close>

section \<open>Data\<close>

record module_content_id =
  mci_name :: string
  source_hash :: u64

datatype fingerprint = Fingerprint (as_bytes: "u8 list")

datatype artifact_generation_id = ArtifactGenerationId (generation_fingerprint: fingerprint)

record source_range =
  range_start :: u32
  range_end :: u32

datatype definition_kind =
  DKModule | DKClass | DKFunction | DKLambda | DKAssignment | DKParameter | DKTypeAlias

record source_identity =
  id_module :: module_content_id
  lexical_qualname :: string
  id_range :: source_range
  id_kind :: definition_kind

record class_reference =
  class_definition :: source_identity
  class_source_digest :: fingerprint

datatype call_expression_kind = CallExpr | AttributeCallExpr | SuperCallExpr

record call_site_identity =
  cs_module :: module_content_id
  cs_source_digest :: fingerprint
  cs_enclosing_function :: source_identity
  cs_expression_range :: source_range
  cs_expression_kind :: call_expression_kind

record attribute_site_identity =
  as_module :: module_content_id
  as_source_digest :: fingerprint
  as_enclosing_function :: source_identity
  as_expression_range :: source_range

section \<open>Operations\<close>

definition module_content_id_new :: "string \<Rightarrow> u64 \<Rightarrow> module_content_id" where
  "module_content_id_new name hash = \<lparr>mci_name = name, source_hash = hash\<rparr>"

definition digest :: "(u8 list \<Rightarrow> u8 list) \<Rightarrow> u8 list \<Rightarrow> fingerprint" where
  "digest sha256 bytes = Fingerprint (sha256 bytes)"

definition hex_table :: string where
  "hex_table = ''0123456789abcdef''"

unbundle bit_operations_syntax

definition encode_hex_byte :: "u8 \<Rightarrow> string" where
  "encode_hex_byte byte =
     [hex_table ! unat (drop_bit 4 byte), hex_table ! unat (byte AND 15)]"

definition encode_hex :: "u8 list \<Rightarrow> string" where
  "encode_hex bytes = concat (map encode_hex_byte bytes)"

definition hex_digit :: "char \<Rightarrow> u8 option" where
  "hex_digit c =
     (let byte = of_char c :: nat in
      if 48 \<le> byte \<and> byte \<le> 57 then Some (of_nat (byte - 48))
      else if 97 \<le> byte \<and> byte \<le> 102 then Some (of_nat (byte - 97 + 10))
      else None)"

fun decode_hex_pairs :: "string \<Rightarrow> u8 list result" where
  "decode_hex_pairs (a # b # rest) =
     (case (hex_digit a, hex_digit b) of
        (Some high, Some low) \<Rightarrow>
          and_then (decode_hex_pairs rest) (\<lambda>bytes. Inr ((push_bit 4 high OR low) # bytes))
      | _ \<Rightarrow> Inl (Encoding ''fingerprints and signatures require lower-case hexadecimal''))"
| "decode_hex_pairs _ = Inr []"

definition decode_hex :: "nat \<Rightarrow> string \<Rightarrow> u8 list result" where
  "decode_hex n hex =
     (if length hex \<noteq> n * 2
      then Inl (Encoding (''expected '' @ nat_decimal (n * 2) @ '' lower-case hexadecimal digits''))
      else decode_hex_pairs hex)"

definition fingerprint_from_hex :: "string \<Rightarrow> fingerprint result" where
  "fingerprint_from_hex hex = and_then (decode_hex 32 hex) (\<lambda>bytes. Inr (Fingerprint bytes))"

definition fingerprint_to_hex :: "fingerprint \<Rightarrow> string" where
  "fingerprint_to_hex f = encode_hex (as_bytes f)"

definition source_range_new :: "u32 \<Rightarrow> u32 \<Rightarrow> source_range" where
  "source_range_new s e = \<lparr>range_start = s, range_end = e\<rparr>"

definition range_contains :: "source_range \<Rightarrow> source_range \<Rightarrow> bool" where
  "range_contains self other =
     (range_start self \<le> range_start other \<and> range_end other \<le> range_end self)"

definition module_body :: "module_content_id \<Rightarrow> u32 \<Rightarrow> source_identity" where
  "module_body m size32 =
     \<lparr>id_module = m, lexical_qualname = ''<module>'',
      id_range = source_range_new 0 size32, id_kind = DKModule\<rparr>"

definition fnv_offset :: u64 where
  "fnv_offset = 0xcbf29ce484222325"

definition fnv_prime :: u64 where
  "fnv_prime = 0x100000001b3"

definition fnv_step :: "u64 \<Rightarrow> u8 \<Rightarrow> u64" where
  "fnv_step hash byte = (hash XOR ucast byte) * fnv_prime"

definition legacy_source_hash :: "u8 list \<Rightarrow> u64" where
  "legacy_source_hash source = foldl fnv_step fnv_offset source"

section \<open>Derived orders\<close>

primrec definition_kind_index :: "definition_kind \<Rightarrow> nat" where
  "definition_kind_index DKModule = 0"
| "definition_kind_index DKClass = 1"
| "definition_kind_index DKFunction = 2"
| "definition_kind_index DKLambda = 3"
| "definition_kind_index DKAssignment = 4"
| "definition_kind_index DKParameter = 5"
| "definition_kind_index DKTypeAlias = 6"

primrec call_expression_kind_index :: "call_expression_kind \<Rightarrow> nat" where
  "call_expression_kind_index CallExpr = 0"
| "call_expression_kind_index AttributeCallExpr = 1"
| "call_expression_kind_index SuperCallExpr = 2"

definition module_content_id_key :: "module_content_id \<Rightarrow> okey" where
  "module_content_id_key m = OSeq [string_key (mci_name m), word_key (source_hash m)]"

definition fingerprint_key :: "fingerprint \<Rightarrow> okey" where
  "fingerprint_key f = list_key word_key (as_bytes f)"

definition source_range_key :: "source_range \<Rightarrow> okey" where
  "source_range_key r = OSeq [word_key (range_start r), word_key (range_end r)]"

definition source_identity_key :: "source_identity \<Rightarrow> okey" where
  "source_identity_key i =
     OSeq [module_content_id_key (id_module i), string_key (lexical_qualname i),
           source_range_key (id_range i), OAtom (definition_kind_index (id_kind i))]"

definition class_reference_key :: "class_reference \<Rightarrow> okey" where
  "class_reference_key c =
     OSeq [source_identity_key (class_definition c), fingerprint_key (class_source_digest c)]"

definition call_site_identity_key :: "call_site_identity \<Rightarrow> okey" where
  "call_site_identity_key i =
     OSeq [module_content_id_key (cs_module i), fingerprint_key (cs_source_digest i),
           source_identity_key (cs_enclosing_function i), source_range_key (cs_expression_range i),
           OAtom (call_expression_kind_index (cs_expression_kind i))]"

definition attribute_site_identity_key :: "attribute_site_identity \<Rightarrow> okey" where
  "attribute_site_identity_key i =
     OSeq [module_content_id_key (as_module i), fingerprint_key (as_source_digest i),
           source_identity_key (as_enclosing_function i), source_range_key (as_expression_range i)]"

interpretation module_content_id_ok: order_key module_content_id_key
  by unfold_locales (auto simp: module_content_id_key_def dest!: key_injs)

interpretation fingerprint_ok: order_key fingerprint_key
  by unfold_locales
    (auto simp: fingerprint_key_def intro: fingerprint.expand dest!: word_ok.list_key_inj)

interpretation source_range_ok: order_key source_range_key
  by unfold_locales (auto simp: source_range_key_def dest!: key_injs)

lemma definition_kind_index_inj: "definition_kind_index x = definition_kind_index y \<Longrightarrow> x = y"
  by (cases x; cases y) simp_all

lemma call_expression_kind_index_inj:
  "call_expression_kind_index x = call_expression_kind_index y \<Longrightarrow> x = y"
  by (cases x; cases y) simp_all

interpretation source_identity_ok: order_key source_identity_key
  by unfold_locales
    (auto simp: source_identity_key_def
       dest!: key_injs module_content_id_ok.key_inj source_range_ok.key_inj definition_kind_index_inj)

interpretation class_reference_ok: order_key class_reference_key
  by unfold_locales
    (auto simp: class_reference_key_def dest!: source_identity_ok.key_inj fingerprint_ok.key_inj)

lemmas identity_key_injs =
  module_content_id_ok.key_inj fingerprint_ok.key_inj source_range_ok.key_inj
  source_identity_ok.key_inj class_reference_ok.key_inj

interpretation call_site_identity_ok: order_key call_site_identity_key
  by unfold_locales
    (auto simp: call_site_identity_key_def
       dest!: identity_key_injs call_expression_kind_index_inj)

interpretation attribute_site_identity_ok: order_key attribute_site_identity_key
  by unfold_locales (auto simp: attribute_site_identity_key_def dest!: identity_key_injs)

section \<open>Hexadecimal text\<close>

lemma hex_digit_table: "n < 16 \<Longrightarrow> hex_digit (hex_table ! n) = Some (of_nat n)"
proof -
  have "\<forall>n \<in> {..<16}. hex_digit (hex_table ! n) = Some (of_nat n)"
    by code_simp
  then show "n < 16 \<Longrightarrow> ?thesis" by simp
qed

lemma hex_table_char:
  "n < 10 \<Longrightarrow> hex_table ! n = char_of (48 + n)" "n < 6 \<Longrightarrow> hex_table ! (n + 10) = char_of (97 + n)"
proof -
  have "\<forall>n \<in> {..<10}. hex_table ! n = char_of (48 + n)"
    and "\<forall>n \<in> {..<6}. hex_table ! (n + 10) = char_of (97 + n)"
    by code_simp+
  then show "n < 10 \<Longrightarrow> hex_table ! n = char_of (48 + n)"
    and "n < 6 \<Longrightarrow> hex_table ! (n + 10) = char_of (97 + n)"
    by blast+
qed

lemma hex_digit_SomeD:
  assumes "hex_digit c = Some d"
  shows "unat d < 16" "hex_table ! unat d = c"
proof -
  define n where "n = (of_char c :: nat)"
  have c: "c = char_of n" by (simp add: n_def)
  consider "48 \<le> n" "n \<le> 57" "d = of_nat (n - 48)" | "97 \<le> n" "n \<le> 102" "d = of_nat (n - 97 + 10)"
    using assms by (auto simp: hex_digit_def Let_def n_def split: if_splits)
  then have "unat d < 16 \<and> hex_table ! unat d = c"
  proof cases
    case 1
    then have "unat d = n - 48"
      by (simp only: unsigned_of_nat) (simp add: take_bit_nat_eq_self)
    then show ?thesis using 1 hex_table_char(1) [of "n - 48"] by (simp add: c)
  next
    case 2
    then have "unat d = n - 97 + 10"
      by (simp only: unsigned_of_nat) (simp add: take_bit_nat_eq_self)
    then show ?thesis using 2 hex_table_char(2) [of "n - 97"] by (simp add: c)
  qed
  then show "unat d < 16" "hex_table ! unat d = c" by simp_all
qed

lemma and_15: "(b :: u8) AND 15 = take_bit 4 b"
  by (simp add: take_bit_eq_mask mask_eq_exp_minus_1)

lemma byte_nibbles: "push_bit 4 (drop_bit 4 b) OR (b AND 15) = (b :: u8)"
  unfolding and_15 by (rule bit_word_eqI) (auto simp: bit_simps)

lemma unat_less_byte: "unat (b :: u8) < 256"
  using unsigned_less [of b] by simp

lemma nibble_bounds: "unat (drop_bit 4 (b :: u8)) < 16" "unat (b AND 15) < 16"
proof -
  show "unat (drop_bit 4 b) < 16"
    using unat_less_byte [of b]
    by (simp add: drop_bit_eq_div unat_div less_mult_imp_div_less)
  show "unat (b AND 15) < 16"
    using take_bit_nat_less_exp [of 4 "unat b"]
    by (simp add: and_15 unsigned_take_bit_eq)
qed

lemma small_byte_take_bit: "unat (h :: u8) < 16 \<Longrightarrow> take_bit 4 h = h"
  by (simp add: word_unat_eq_iff unsigned_take_bit_eq take_bit_nat_eq_self)

lemma nibbles_join:
  assumes "unat (h :: u8) < 16" "unat (l :: u8) < 16"
  shows "drop_bit 4 (push_bit 4 h OR l) = h" "(push_bit 4 h OR l) AND 15 = l"
proof -
  have "drop_bit 4 (push_bit 4 (take_bit 4 h) OR take_bit 4 l) = take_bit 4 h"
    by (rule bit_word_eqI) (auto simp: bit_simps)
  moreover have "take_bit 4 (push_bit 4 (take_bit 4 h) OR take_bit 4 l) = take_bit 4 l"
    by (rule bit_word_eqI) (auto simp: bit_simps)
  ultimately show "drop_bit 4 (push_bit 4 h OR l) = h" "(push_bit 4 h OR l) AND 15 = l"
    using assms by (simp_all only: small_byte_take_bit and_15)
qed

lemma length_encode_hex [simp]: "length (encode_hex bytes) = 2 * length bytes"
  by (induction bytes) (auto simp: encode_hex_def encode_hex_byte_def)

lemma decode_hex_pairs_encode: "decode_hex_pairs (encode_hex bytes) = Inr bytes"
  by (induction bytes)
    (simp_all add: encode_hex_def encode_hex_byte_def hex_digit_table nibble_bounds byte_nibbles)

lemma encode_decode_hex_pairs:
  "decode_hex_pairs hex = Inr bytes \<Longrightarrow> even (length hex) \<Longrightarrow> encode_hex bytes = hex"
proof (induction hex arbitrary: bytes rule: decode_hex_pairs.induct)
  case (1 a b rest)
  then obtain h l bs where "hex_digit a = Some h" "hex_digit b = Some l"
    "decode_hex_pairs rest = Inr bs" "bytes = (push_bit 4 h OR l) # bs"
    by (auto split: option.splits)
  moreover have "encode_hex_byte (push_bit 4 h OR l) = [a, b]"
    unfolding encode_hex_byte_def using calculation(1,2) by (simp only: nibbles_join hex_digit_SomeD)
  ultimately show ?case
    using 1 by (simp add: encode_hex_def)
qed (auto simp: encode_hex_def)

lemma decode_hex_pairs_length:
  "decode_hex_pairs hex = Inr bytes \<Longrightarrow> length bytes = length hex div 2"
  by (induction hex arbitrary: bytes rule: decode_hex_pairs.induct) (auto split: option.splits)

lemma decode_hex_text:
  "decode_hex n hex = Inr bytes \<longleftrightarrow> hex = encode_hex bytes \<and> length bytes = n"
proof
  assume "decode_hex n hex = Inr bytes"
  then have len: "length hex = n * 2" and dec: "decode_hex_pairs hex = Inr bytes"
    by (auto simp: decode_hex_def split: if_splits)
  then show "hex = encode_hex bytes \<and> length bytes = n"
    using encode_decode_hex_pairs [OF dec] decode_hex_pairs_length [OF dec] by simp
next
  assume "hex = encode_hex bytes \<and> length bytes = n"
  then show "decode_hex n hex = Inr bytes"
    by (simp add: decode_hex_def decode_hex_pairs_encode)
qed

text \<open>
  C29. The hexadecimal codec of fingerprints and signatures is a bijection: for every width
  \<open>n\<close>, \<open>decode_hex\<close> accepts a text and yields \<open>bytes\<close> exactly when the text is
  \<open>encode_hex bytes\<close> and there are \<open>n\<close> bytes. So every array is recovered from its text,
  and no upper-case, short or padded text is a second name for it.
\<close>

theorem decode_hex_iff:
  "decode_hex n hex = Inr bytes \<longleftrightarrow> hex = encode_hex bytes \<and> length bytes = n"
  by (rule decode_hex_text)

section \<open>The FNV-1a source hash\<close>

lemma fnv_prime_invertible: "fnv_prime * 0xce965057aff6957b = 1"
  by (simp add: fnv_prime_def)

lemma fnv_step_inj: "fnv_step h b = fnv_step h' b' \<Longrightarrow> h XOR ucast b = h' XOR ucast b'"
proof -
  assume "fnv_step h b = fnv_step h' b'"
  then have "(h XOR ucast b) * fnv_prime * 0xce965057aff6957b =
      (h' XOR ucast b') * fnv_prime * 0xce965057aff6957b"
    by (simp only: fnv_step_def)
  then show ?thesis by (simp only: mult.assoc fnv_prime_invertible mult_1_right)
qed

lemma xor_cancel_left: "(a :: u64) XOR b = a XOR c \<Longrightarrow> b = c"
proof -
  assume "a XOR b = a XOR c"
  then have "a XOR a XOR b = a XOR a XOR c" by (simp only: xor.assoc)
  then show "b = c" by simp
qed

lemma xor_cancel_right: "(a :: u64) XOR c = b XOR c \<Longrightarrow> a = b"
  by (rule xor_cancel_left [of c]) (simp only: xor.commute)

lemma ucast_u8_u64_inj: "(ucast (a :: u8) :: u64) = ucast b \<Longrightarrow> a = b"
proof -
  assume "(ucast a :: u64) = ucast b"
  then have "unat (ucast a :: u64) = unat (ucast b :: u64)" by simp
  moreover have "unat (ucast c :: u64) = unat c" for c :: u8
    by (simp only: unsigned_ucast_eq) (simp add: take_bit_nat_eq_self less_trans [OF unat_less_byte])
  ultimately show "a = b" by (simp add: word_unat_eq_iff)
qed

lemma fnv_step_inj_hash: "fnv_step h b = fnv_step h' b \<Longrightarrow> h = h'"
  by (blast dest: fnv_step_inj xor_cancel_right)

lemma fnv_step_inj_byte: "fnv_step h b = fnv_step h b' \<Longrightarrow> b = b'"
  by (blast dest: fnv_step_inj xor_cancel_left ucast_u8_u64_inj)

lemma fnv_fold_inj: "foldl fnv_step h bytes = foldl fnv_step h' bytes \<Longrightarrow> h = h'"
  by (induction bytes arbitrary: h h') (auto dest: fnv_step_inj_hash)

text \<open>
  C30. Every step of the hash is injective in the running hash and in the byte, since the
  FNV prime is odd. Hence the identity of a source changes with any single-byte edit: two sources
  that agree outside one position have equal hashes only if they are equal.
\<close>

theorem legacy_source_hash_detects_byte_change:
  "legacy_source_hash (before @ a # after) = legacy_source_hash (before @ b # after) \<longleftrightarrow> a = b"
  by (auto simp: legacy_source_hash_def dest: fnv_fold_inj fnv_step_inj_byte)

section \<open>Containment of ranges\<close>

lemma range_contains_refl [simp]: "range_contains r r"
  by (simp add: range_contains_def)

lemma range_contains_trans: "range_contains a b \<Longrightarrow> range_contains b c \<Longrightarrow> range_contains a c"
  by (auto simp: range_contains_def)

lemma range_contains_antisym: "range_contains a b \<Longrightarrow> range_contains b a \<Longrightarrow> a = b"
  by (auto simp: range_contains_def)

end
