(* ===== verification/Contract_Encoding.thy ===== *)
theory Contract_Encoding
  imports Contract_Identity
begin

text \<open>
  The canonical byte encoding of \<^verbatim>\<open>crates/soac_contracts/src/artifact.rs\<close>
  (\<open>canonical_bytes\<close>, \<open>sort_objects\<close>, \<open>decode_canonical\<close>, \<open>enforce_size\<close>).

  The serialization library is a parameter: a value of type \<open>'a codec\<close> holds, for one
  serializable type, the functions \<open>serde_json::to_value\<close>, \<open>serde_json::to_vec\<close> and
  \<open>serde_json::from_slice\<close>, each of which may fail with a message. Its documented law, that a
  value is read back from its own encoding whatever the order of the object keys, is the predicate
  \<open>serde_roundtrip\<close>.

  Theorems: sorting the keys gives one form for all orders in which a serializer may emit the fields
  of a struct; what \<open>decode_canonical\<close> accepts is exactly the canonical encoding of its result,
  so that no two byte strings denote the same value.
\<close>

section \<open>JSON values\<close>

text \<open>\<open>serde_json::Value\<close> and \<open>serde_json::Number\<close> (floats by their bits).\<close>

datatype json_number = PosInt "64 word" | NegInt "64 word" | JFloat "64 word"

datatype json =
    JNull
  | JBool bool
  | JNumber json_number
  | JString string
  | JArray "json list"
  | JObject "(string \<times> json) list"

definition sort_keys :: "(string \<times> json) list \<Rightarrow> (string \<times> json) list" where
  "sort_keys object = sort_key (\<lambda>entry. string_key (fst entry)) object"

lemma set_sort_keys [simp]: "set (sort_keys object) = set object"
  by (simp add: sort_keys_def)

lemma sort_keys_smaller [termination_simp]:
  "(k, v) \<in> set (sort_keys object) \<Longrightarrow> size v < Suc (size_list (size_prod (\<lambda>_. 0) size) object)"
  unfolding set_sort_keys by (induction object) auto

fun sort_objects :: "json \<Rightarrow> json" where
  "sort_objects (JObject object) = JObject (map (\<lambda>(k, v). (k, sort_objects v)) (sort_keys object))"
| "sort_objects (JArray array) = JArray (map sort_objects array)"
| "sort_objects v = v"

section \<open>Canonical bytes\<close>

record 'a codec =
  to_value :: "'a \<Rightarrow> string + json"
  to_vec :: "json \<Rightarrow> string + u8 list"
  from_slice :: "u8 list \<Rightarrow> string + 'a"

text \<open>\<open>map_err(|error| ContractError::Encoding(error.to_string()))\<close>.\<close>

definition encoding_error :: "string + 'a \<Rightarrow> 'a result" where
  "encoding_error r = (case r of Inl message \<Rightarrow> Inl (Encoding message) | Inr x \<Rightarrow> Inr x)"

definition canonical_bytes :: "('a, 'b) codec_scheme \<Rightarrow> 'a \<Rightarrow> u8 list result" where
  "canonical_bytes codec value =
     and_then (encoding_error (to_value codec value)) (\<lambda>v.
       encoding_error (to_vec codec (sort_objects v)))"

definition decode_canonical :: "('a, 'b) codec_scheme \<Rightarrow> u8 list \<Rightarrow> 'a result" where
  "decode_canonical codec bytes =
     and_then (encoding_error (from_slice codec bytes)) (\<lambda>value.
     and_then (canonical_bytes codec value) (\<lambda>encoded.
     and_then (fail_if (encoded \<noteq> bytes) NonCanonicalEncoding) (\<lambda>_. Inr value)))"

definition enforce_size :: "u8 list \<Rightarrow> string \<Rightarrow> nat \<Rightarrow> unit result" where
  "enforce_size bytes kind limit = fail_if (length bytes > limit) (SizeLimit kind limit)"

text \<open>What the encoding relies on: a value is read back from its own sorted encoding.\<close>

definition serde_roundtrip :: "('a, 'b) codec_scheme \<Rightarrow> bool" where
  "serde_roundtrip codec \<longleftrightarrow>
     (\<forall>x v bytes. to_value codec x = Inr v \<longrightarrow> to_vec codec (sort_objects v) = Inr bytes \<longrightarrow>
        from_slice codec bytes = Inr x)"

section \<open>Key order\<close>

fun unique_keys :: "json \<Rightarrow> bool" where
  "unique_keys (JObject object) \<longleftrightarrow>
     distinct (map fst object) \<and> list_all (\<lambda>(k, v). unique_keys v) object"
| "unique_keys (JArray array) \<longleftrightarrow> list_all unique_keys array"
| "unique_keys _ \<longleftrightarrow> True"

fun keys_sorted :: "json \<Rightarrow> bool" where
  "keys_sorted (JObject object) \<longleftrightarrow>
     sorted (map (\<lambda>entry. string_key (fst entry)) object) \<and> list_all (\<lambda>(k, v). keys_sorted v) object"
| "keys_sorted (JArray array) \<longleftrightarrow> list_all keys_sorted array"
| "keys_sorted _ \<longleftrightarrow> True"

text \<open>The same value with the keys of its objects in another order, at any depth.\<close>

inductive reorders :: "json \<Rightarrow> json \<Rightarrow> bool" where
  atom: "reorders a a"
| array: "list_all2 reorders xs ys \<Longrightarrow> reorders (JArray xs) (JArray ys)"
| object: "mset object = mset shuffled \<Longrightarrow>
    list_all2 (\<lambda>f g. fst f = fst g \<and> reorders (snd f) (snd g)) shuffled target \<Longrightarrow>
    reorders (JObject object) (JObject target)"

lemma sort_keys_sorted: "sorted (map (\<lambda>entry. string_key (fst entry)) object) \<Longrightarrow> sort_keys object = object"
  by (simp add: sort_keys_def sort_key_id_if_sorted case_prod_beta)

lemma sort_objects_sorted: "keys_sorted (sort_objects v)"
  by (induction v rule: sort_objects.induct)
    (auto simp: list_all_iff sort_keys_def case_prod_beta comp_def)

lemma sort_objects_fixed: "keys_sorted v \<Longrightarrow> sort_objects v = v"
proof (induction v rule: sort_objects.induct)
  case (1 object)
  then have "sort_keys object = object" by (simp add: sort_keys_sorted)
  with 1 show ?case by (auto simp: list_all_iff intro!: map_idI)
next
  case (2 array)
  then show ?case by (auto simp: list_all_iff intro!: map_idI)
qed simp_all

lemma sort_objects_reorders: "reorders v (sort_objects v)"
proof (induction v rule: sort_objects.induct)
  case (1 object)
  have "list_all2 (\<lambda>f g. fst f = fst g \<and> reorders (snd f) (snd g)) (sort_keys object)
      (map (\<lambda>(k, v). (k, sort_objects v)) (sort_keys object))"
    using 1 by (auto simp: list.rel_map case_prod_beta intro!: list.rel_refl_strong)
  moreover have "mset object = mset (sort_keys object)" by (simp add: sort_keys_def)
  ultimately show ?case by (simp add: reorders.object)
next
  case (2 array)
  then show ?case by (auto simp: list.rel_map intro!: reorders.array list.rel_refl_strong)
qed (auto intro: reorders.atom)

lemma map_sort_keys:
  "map (\<lambda>(k, v). (k, h v)) (sort_keys object) = sort_keys (map (\<lambda>(k, v). (k, h v)) object)"
proof -
  have "map (\<lambda>(k, v). (k, h v)) (insort_key (\<lambda>entry. string_key (fst entry)) x xs) =
      insort_key (\<lambda>entry. string_key (fst entry)) (case x of (k, v) \<Rightarrow> (k, h v)) (map (\<lambda>(k, v). (k, h v)) xs)" for x xs
    by (induction xs; cases x) auto
  then show ?thesis by (induction object) (simp_all add: sort_keys_def)
qed

lemma sort_keys_perm:
  assumes "mset object = mset shuffled" "distinct (map fst object)"
  shows "sort_keys object = sort_keys shuffled"
  using string_ok.catalogue_perm [OF assms] by (simp add: sort_keys_def)

lemma reorders_sort: "reorders a b \<Longrightarrow> unique_keys a \<Longrightarrow> sort_objects a = sort_objects b"
proof (induction rule: reorders.induct)
  case (array xs ys)
  then show ?case by (auto simp: list_all2_conv_all_nth list_all_length intro!: nth_equalityI)
next
  case (object object shuffled target)
  have mem: "unique_keys (snd f)" if "f \<in> set shuffled" for f
    using object.prems that mset_eq_setD [OF object.hyps(1)] by (auto simp: list_all_iff)
  have "map (\<lambda>(k, v). (k, sort_objects v)) shuffled = map (\<lambda>(k, v). (k, sort_objects v)) target"
    using object.IH(1) mem
    by (auto simp: list_all2_conv_all_nth case_prod_beta intro!: nth_equalityI)
  then show ?case
    using object.prems sort_keys_perm [OF object.hyps(1)] by (simp add: map_sort_keys)
qed simp

text \<open>
  C19. Sorting the keys is a canonical form of an encoded value: it only reorders keys, it sorts the keys
  of every object at every depth, it changes nothing the second time, and values without duplicate
  keys that differ only in key order get the same form. So the bytes do not depend on the order in
  which a serializer emits the fields of a struct.
\<close>

theorem sort_objects_canonical:
  assumes "unique_keys v"
  shows "reorders v (sort_objects v) \<and> keys_sorted (sort_objects v) \<and>
    sort_objects (sort_objects v) = sort_objects v \<and>
    (\<forall>w. reorders v w \<longrightarrow> sort_objects w = sort_objects v)"
  using assms sort_objects_reorders sort_objects_sorted sort_objects_fixed reorders_sort by metis

theorem sort_objects_canonical_witness:
  "unique_keys (JObject [(''b'', JNull), (''a'', JArray [])]) \<and>
   sort_objects (JObject [(''b'', JNull), (''a'', JArray [])]) =
   sort_objects (JObject [(''a'', JArray []), (''b'', JNull)])"
proof -
  let ?v = "JObject [(''b'', JNull), (''a'', JArray [])]"
  have "unique_keys ?v" by simp
  moreover have "reorders ?v (JObject [(''a'', JArray []), (''b'', JNull)])"
    by (rule reorders.object [of _ "[(''a'', JArray []), (''b'', JNull)]"])
      (auto intro: reorders.atom)
  ultimately show ?thesis using sort_objects_canonical [of ?v] by metis
qed

section \<open>Decoding\<close>

lemma encoding_error_Inr [simp]: "encoding_error r = Inr x \<longleftrightarrow> r = Inr x"
  by (cases r) (simp_all add: encoding_error_def)

lemma decode_canonical_iff:
  "decode_canonical codec bytes = Inr value \<longleftrightarrow>
     from_slice codec bytes = Inr value \<and> canonical_bytes codec value = Inr bytes"
  by (auto simp: decode_canonical_def)

lemma decode_encoded:
  assumes "serde_roundtrip codec" "canonical_bytes codec value = Inr bytes"
  shows "decode_canonical codec bytes = Inr value"
  using assms unfolding decode_canonical_iff by (auto simp: canonical_bytes_def serde_roundtrip_def)

lemma enforce_size_Inr [simp]: "enforce_size bytes kind limit = Inr () \<longleftrightarrow> length bytes \<le> limit"
  by (auto simp: enforce_size_def)



end
