(* ===== verification/Contract_Types.thy ===== *)
theory Contract_Types
  imports Contract_Identity
begin

text \<open>
  The logical types of \<^verbatim>\<open>crates/soac_contracts/src/facts.rs\<close>: \<open>StaticType\<close> and
  the callable signatures, parameters, defaults and type variables it is mutually recursive with,
  together with their derived order. \<open>Box\<close> is transparent; a \<open>BTreeSet\<close> of a field-less
  enum is a HOL set.
\<close>

section \<open>Data\<close>

datatype builtin_type =
    BObject | BBool | BInt | BFloat | BComplex | BStr | BBytes | BByteArray | BTuple | BList
  | BDict | BSet | BFrozenSet | BType

datatype literal_value =
    LNone
  | LBool bool
  | LInt string
  | LFloatBits u64
  | LStr string
  | LBytes "u8 list"

datatype unsupported_type_kind =
    UTMutableGeneric | UTGenericAlias | UTIntersection | UTTypeGuard | UTTypeIs | UTTypedDict
  | UTNewType | UTRecursiveType | UTCustomInstanceCheck | UTOther

datatype unsupported_reason_code =
    URNoRuntimeEnforcement | URAliasedMutableContents | URUnresolvedTypeArguments
  | URCheckerNotImplemented | URUnsafeNarrowing | URUserCodeRequired | URUnknownProvenance

datatype uncertainty_reason =
    UncAny | UncUnknown | UncCheckerTodo | UncIgnoredDiagnostic | UncUnresolvedImport
  | UncDynamicDecorator | UncDynamicMetaclass | UncDynamicDescriptor | UncUnsafeNarrowing
  | UncUnsupportedType | UncOpenWorld | UncPartialInitialization

datatype annotation_origin = AOExplicit | AOInferred | AOAbsent | AOUnresolved

datatype parameter_kind =
  PKPositionalOnly | PKPositionalOrKeyword | PKVarArgs | PKKeywordOnly | PKVarKeywords

record protocol_fact =
  protocol_definition :: "class_reference option"
  runtime_checkable :: bool

datatype static_type =
    TNone
  | TExactBuiltin builtin_type
  | TNominalBuiltin builtin_type bool
  | TNumericWidening builtin_type "builtin_type set"
  | TNominalClass class_reference
  | TExactClass class_reference
  | TUnion "static_type list"
  | TOptional static_type
  | TCallable callable_signature
  | TLiteral literal_value
  | TTypeVariable type_variable_fact
  | TStructuralProtocol protocol_fact
  | TAny
  | TUnknown
  | TTodo
  | TDivergent
  | TUnsupported unsupported_type_kind unsupported_reason_code
and callable_signature =
    CallableSignature
      (sig_parameters: "parameter_type_fact list")
      (sig_return_type: static_type)
      (sig_return_origin: annotation_origin)
      (sig_uncertainty: "uncertainty_reason set")
and parameter_type_fact =
    ParameterTypeFact
      (param_name: string)
      (param_kind: parameter_kind)
      (param_type: static_type)
      (param_origin: annotation_origin)
      (param_default: default_fact)
and default_fact =
    DefaultMissing
  | DefaultValue static_type "literal_value option"
  | DefaultFactory "source_identity option" static_type
  | DefaultUnknown
and type_variable_fact =
    TypeVariableFact
      (tv_identity: source_identity)
      (tv_upper_bound: "static_type option")
      (tv_constraints: "static_type list")

lemma size_param_type [termination_simp]: "size (param_type p) < size p"
  by (cases p) simp

lemma size_param_default [termination_simp]: "size (param_default p) < size p"
  by (cases p) simp

lemma size_sig_return_type [termination_simp]: "size (sig_return_type s) < size s"
  by (cases s) simp

lemma size_sig_parameter: "p \<in> set (sig_parameters s) \<Longrightarrow> size p < size s"
  by (cases s) (auto dest: size_list_estimation' [where f = size, OF _ order_refl])

lemma size_sig_param_type [termination_simp]:
  "p \<in> set (sig_parameters s) \<Longrightarrow> size (param_type p) < size s"
  using size_sig_parameter size_param_type by (rule less_trans [rotated])

lemma size_sig_param_default [termination_simp]:
  "p \<in> set (sig_parameters s) \<Longrightarrow> size (param_default p) < size s"
  using size_sig_parameter size_param_default by (rule less_trans [rotated])

lemma size_tv_upper_bound [termination_simp]: "tv_upper_bound v = Some t \<Longrightarrow> size t < size v"
  by (cases v) auto

lemma size_tv_constraint [termination_simp]: "t \<in> set (tv_constraints v) \<Longrightarrow> size t < size v"
  by (cases v) (auto dest: size_list_estimation' [where f = size, OF _ order_refl])

section \<open>Derived orders\<close>

primrec builtin_type_index :: "builtin_type \<Rightarrow> nat" where
  "builtin_type_index BObject = 0"
| "builtin_type_index BBool = 1"
| "builtin_type_index BInt = 2"
| "builtin_type_index BFloat = 3"
| "builtin_type_index BComplex = 4"
| "builtin_type_index BStr = 5"
| "builtin_type_index BBytes = 6"
| "builtin_type_index BByteArray = 7"
| "builtin_type_index BTuple = 8"
| "builtin_type_index BList = 9"
| "builtin_type_index BDict = 10"
| "builtin_type_index BSet = 11"
| "builtin_type_index BFrozenSet = 12"
| "builtin_type_index BType = 13"

definition builtin_types :: "builtin_type list" where
  "builtin_types =
     [BObject, BBool, BInt, BFloat, BComplex, BStr, BBytes, BByteArray, BTuple, BList,
      BDict, BSet, BFrozenSet, BType]"

primrec unsupported_type_kind_index :: "unsupported_type_kind \<Rightarrow> nat" where
  "unsupported_type_kind_index UTMutableGeneric = 0"
| "unsupported_type_kind_index UTGenericAlias = 1"
| "unsupported_type_kind_index UTIntersection = 2"
| "unsupported_type_kind_index UTTypeGuard = 3"
| "unsupported_type_kind_index UTTypeIs = 4"
| "unsupported_type_kind_index UTTypedDict = 5"
| "unsupported_type_kind_index UTNewType = 6"
| "unsupported_type_kind_index UTRecursiveType = 7"
| "unsupported_type_kind_index UTCustomInstanceCheck = 8"
| "unsupported_type_kind_index UTOther = 9"

primrec unsupported_reason_code_index :: "unsupported_reason_code \<Rightarrow> nat" where
  "unsupported_reason_code_index URNoRuntimeEnforcement = 0"
| "unsupported_reason_code_index URAliasedMutableContents = 1"
| "unsupported_reason_code_index URUnresolvedTypeArguments = 2"
| "unsupported_reason_code_index URCheckerNotImplemented = 3"
| "unsupported_reason_code_index URUnsafeNarrowing = 4"
| "unsupported_reason_code_index URUserCodeRequired = 5"
| "unsupported_reason_code_index URUnknownProvenance = 6"

primrec uncertainty_reason_index :: "uncertainty_reason \<Rightarrow> nat" where
  "uncertainty_reason_index UncAny = 0"
| "uncertainty_reason_index UncUnknown = 1"
| "uncertainty_reason_index UncCheckerTodo = 2"
| "uncertainty_reason_index UncIgnoredDiagnostic = 3"
| "uncertainty_reason_index UncUnresolvedImport = 4"
| "uncertainty_reason_index UncDynamicDecorator = 5"
| "uncertainty_reason_index UncDynamicMetaclass = 6"
| "uncertainty_reason_index UncDynamicDescriptor = 7"
| "uncertainty_reason_index UncUnsafeNarrowing = 8"
| "uncertainty_reason_index UncUnsupportedType = 9"
| "uncertainty_reason_index UncOpenWorld = 10"
| "uncertainty_reason_index UncPartialInitialization = 11"

definition uncertainty_reasons :: "uncertainty_reason list" where
  "uncertainty_reasons =
     [UncAny, UncUnknown, UncCheckerTodo, UncIgnoredDiagnostic, UncUnresolvedImport,
      UncDynamicDecorator, UncDynamicMetaclass, UncDynamicDescriptor, UncUnsafeNarrowing,
      UncUnsupportedType, UncOpenWorld, UncPartialInitialization]"

primrec annotation_origin_index :: "annotation_origin \<Rightarrow> nat" where
  "annotation_origin_index AOExplicit = 0"
| "annotation_origin_index AOInferred = 1"
| "annotation_origin_index AOAbsent = 2"
| "annotation_origin_index AOUnresolved = 3"

primrec parameter_kind_index :: "parameter_kind \<Rightarrow> nat" where
  "parameter_kind_index PKPositionalOnly = 0"
| "parameter_kind_index PKPositionalOrKeyword = 1"
| "parameter_kind_index PKVarArgs = 2"
| "parameter_kind_index PKKeywordOnly = 3"
| "parameter_kind_index PKVarKeywords = 4"

definition builtin_type_key :: "builtin_type \<Rightarrow> okey" where
  "builtin_type_key b = OAtom (builtin_type_index b)"

definition uncertainty_reason_key :: "uncertainty_reason \<Rightarrow> okey" where
  "uncertainty_reason_key u = OAtom (uncertainty_reason_index u)"

definition parameter_kind_key :: "parameter_kind \<Rightarrow> okey" where
  "parameter_kind_key k = OAtom (parameter_kind_index k)"

definition builtin_set_key :: "builtin_type set \<Rightarrow> okey" where
  "builtin_set_key = enum_set_key builtin_types builtin_type_key"

definition uncertainty_key :: "uncertainty_reason set \<Rightarrow> okey" where
  "uncertainty_key = enum_set_key uncertainty_reasons uncertainty_reason_key"

primrec literal_value_key :: "literal_value \<Rightarrow> okey" where
  "literal_value_key LNone = OSeq [OAtom 0]"
| "literal_value_key (LBool b) = OSeq [OAtom 1, bool_key b]"
| "literal_value_key (LInt s) = OSeq [OAtom 2, string_key s]"
| "literal_value_key (LFloatBits w) = OSeq [OAtom 3, word_key w]"
| "literal_value_key (LStr s) = OSeq [OAtom 4, string_key s]"
| "literal_value_key (LBytes bs) = OSeq [OAtom 5, list_key word_key bs]"

definition protocol_fact_key :: "protocol_fact \<Rightarrow> okey" where
  "protocol_fact_key p =
     OSeq [option_key class_reference_key (protocol_definition p), bool_key (runtime_checkable p)]"

fun static_type_key :: "static_type \<Rightarrow> okey"
and callable_signature_key :: "callable_signature \<Rightarrow> okey"
and parameter_type_fact_key :: "parameter_type_fact \<Rightarrow> okey"
and default_fact_key :: "default_fact \<Rightarrow> okey"
and type_variable_fact_key :: "type_variable_fact \<Rightarrow> okey"
where
  "static_type_key TNone = OSeq [OAtom 0]"
| "static_type_key (TExactBuiltin b) = OSeq [OAtom 1, builtin_type_key b]"
| "static_type_key (TNominalBuiltin b sub) = OSeq [OAtom 2, builtin_type_key b, bool_key sub]"
| "static_type_key (TNumericWidening b acc) = OSeq [OAtom 3, builtin_type_key b, builtin_set_key acc]"
| "static_type_key (TNominalClass c) = OSeq [OAtom 4, class_reference_key c]"
| "static_type_key (TExactClass c) = OSeq [OAtom 5, class_reference_key c]"
| "static_type_key (TUnion ts) = OSeq [OAtom 6, OSeq (map static_type_key ts)]"
| "static_type_key (TOptional t) = OSeq [OAtom 7, static_type_key t]"
| "static_type_key (TCallable s) = OSeq [OAtom 8, callable_signature_key s]"
| "static_type_key (TLiteral l) = OSeq [OAtom 9, literal_value_key l]"
| "static_type_key (TTypeVariable v) = OSeq [OAtom 10, type_variable_fact_key v]"
| "static_type_key (TStructuralProtocol p) = OSeq [OAtom 11, protocol_fact_key p]"
| "static_type_key TAny = OSeq [OAtom 12]"
| "static_type_key TUnknown = OSeq [OAtom 13]"
| "static_type_key TTodo = OSeq [OAtom 14]"
| "static_type_key TDivergent = OSeq [OAtom 15]"
| "static_type_key (TUnsupported k r) =
     OSeq [OAtom 16, OAtom (unsupported_type_kind_index k), OAtom (unsupported_reason_code_index r)]"
| "callable_signature_key (CallableSignature ps r ro u) =
     OSeq [OSeq (map parameter_type_fact_key ps), static_type_key r,
           OAtom (annotation_origin_index ro), uncertainty_key u]"
| "parameter_type_fact_key (ParameterTypeFact n k t ao d) =
     OSeq [string_key n, parameter_kind_key k, static_type_key t,
           OAtom (annotation_origin_index ao), default_fact_key d]"
| "default_fact_key DefaultMissing = OSeq [OAtom 0]"
| "default_fact_key (DefaultValue t l) =
     OSeq [OAtom 1, static_type_key t, option_key literal_value_key l]"
| "default_fact_key (DefaultFactory i t) =
     OSeq [OAtom 2, option_key source_identity_key i, static_type_key t]"
| "default_fact_key DefaultUnknown = OSeq [OAtom 3]"
| "type_variable_fact_key (TypeVariableFact i ub cs) =
     OSeq [source_identity_key i,
           (case ub of None \<Rightarrow> OSeq [] | Some t \<Rightarrow> OSeq [static_type_key t]),
           OSeq (map static_type_key cs)]"

section \<open>The keys are injective\<close>

interpretation builtin_type_ok: order_key builtin_type_key
proof
  fix x y
  show "builtin_type_key x = builtin_type_key y \<Longrightarrow> x = y"
    unfolding builtin_type_key_def by (cases x; cases y) simp_all
qed

interpretation uncertainty_reason_ok: order_key uncertainty_reason_key
proof
  fix x y
  show "uncertainty_reason_key x = uncertainty_reason_key y \<Longrightarrow> x = y"
    unfolding uncertainty_reason_key_def by (cases x; cases y) simp_all
qed

interpretation parameter_kind_ok: order_key parameter_kind_key
proof
  fix x y
  show "parameter_kind_key x = parameter_kind_key y \<Longrightarrow> x = y"
    unfolding parameter_kind_key_def by (cases x; cases y) simp_all
qed

lemma unsupported_type_kind_index_inj:
  "unsupported_type_kind_index x = unsupported_type_kind_index y \<Longrightarrow> x = y"
  by (cases x; cases y) simp_all

lemma unsupported_reason_code_index_inj:
  "unsupported_reason_code_index x = unsupported_reason_code_index y \<Longrightarrow> x = y"
  by (cases x; cases y) simp_all

lemma annotation_origin_index_inj:
  "annotation_origin_index x = annotation_origin_index y \<Longrightarrow> x = y"
  by (cases x; cases y) simp_all

interpretation builtin_set_ok: order_key builtin_set_key
proof
  fix A B
  assume "builtin_set_key A = builtin_set_key B"
  moreover have "x \<in> set builtin_types" for x by (cases x) (simp_all add: builtin_types_def)
  ultimately show "A = B"
    unfolding builtin_set_key_def by (rule builtin_type_ok.enum_set_key_inj)
qed

interpretation uncertainty_ok: order_key uncertainty_key
proof
  fix A B
  assume "uncertainty_key A = uncertainty_key B"
  moreover have "x \<in> set uncertainty_reasons" for x
    by (cases x) (simp_all add: uncertainty_reasons_def)
  ultimately show "A = B"
    unfolding uncertainty_key_def by (rule uncertainty_reason_ok.enum_set_key_inj)
qed

interpretation literal_value_ok: order_key literal_value_key
proof
  fix x y
  show "literal_value_key x = literal_value_key y \<Longrightarrow> x = y"
    by (cases x; cases y) (auto dest!: key_injs word_ok.list_key_inj)
qed

interpretation protocol_fact_ok: order_key protocol_fact_key
  by unfold_locales
    (auto simp: protocol_fact_key_def dest!: key_injs class_reference_ok.option_key_inj)

lemmas type_key_injs =
  key_injs identity_key_injs builtin_type_ok.key_inj builtin_set_ok.key_inj uncertainty_ok.key_inj
  parameter_kind_ok.key_inj literal_value_ok.key_inj protocol_fact_ok.key_inj
  literal_value_ok.option_key_inj source_identity_ok.option_key_inj
  unsupported_type_kind_index_inj unsupported_reason_code_index_inj annotation_origin_index_inj

lemma map_inj_on_members:
  "(\<And>x y. x \<in> set xs \<Longrightarrow> k x = k y \<Longrightarrow> x = y) \<Longrightarrow> map k xs = map k ys \<Longrightarrow> xs = ys"
proof (induction xs arbitrary: ys)
  case (Cons x xs)
  then show ?case by (cases ys) auto
qed simp

lemma static_type_keys_inj:
  "static_type_key t = static_type_key t' \<Longrightarrow> t = t'"
  "callable_signature_key s = callable_signature_key s' \<Longrightarrow> s = s'"
  "parameter_type_fact_key p = parameter_type_fact_key p' \<Longrightarrow> p = p'"
  "default_fact_key d = default_fact_key d' \<Longrightarrow> d = d'"
  "type_variable_fact_key v = type_variable_fact_key v' \<Longrightarrow> v = v'"
proof (induction t and s and p and d and v arbitrary: t' and s' and p' and d' and v')
  case (TUnion ts)
  then obtain ts' where "t' = TUnion ts'" "map static_type_key ts = map static_type_key ts'"
    by (cases t') auto
  then show ?case using TUnion.IH map_inj_on_members [of ts static_type_key ts'] by simp
next
  case (CallableSignature ps r ro u)
  obtain ps' r' ro' u' where s': "s' = CallableSignature ps' r' ro' u'" by (cases s')
  have "map parameter_type_fact_key ps = map parameter_type_fact_key ps'"
    using CallableSignature.prems by (simp add: s')
  then have "ps = ps'"
    using CallableSignature.IH(1) map_inj_on_members [of ps parameter_type_fact_key ps'] by simp
  then show ?case
    using CallableSignature by (auto simp: s' dest!: type_key_injs)
next
  case (TypeVariableFact i ub cs)
  obtain i' ub' cs' where v': "v' = TypeVariableFact i' ub' cs'" by (cases v')
  have "map static_type_key cs = map static_type_key cs'"
    using TypeVariableFact.prems by (simp add: v')
  then have "cs = cs'"
    using TypeVariableFact.IH(2) map_inj_on_members [of cs static_type_key cs'] by simp
  moreover have "ub = ub'"
    using TypeVariableFact.prems TypeVariableFact.IH(1) by (cases ub; cases ub') (auto simp: v')
  ultimately show ?case
    using TypeVariableFact.prems by (auto simp: v' dest!: type_key_injs)
next
  case (ParameterTypeFact n k t ao d)
  then show ?case by (cases p') (auto dest!: type_key_injs)
next
  case (DefaultValue t l)
  then show ?case by (cases d') (auto dest!: type_key_injs)
next
  case (DefaultFactory i t)
  then show ?case by (cases d') (auto dest!: type_key_injs)
next
  case DefaultMissing
  then show ?case by (cases d') auto
next
  case DefaultUnknown
  then show ?case by (cases d') auto
qed (case_tac t'; auto dest!: type_key_injs)+

interpretation static_type_ok: order_key static_type_key
  by unfold_locales (rule static_type_keys_inj)

section \<open>Derived instances\<close>

instantiation static_type :: linorder
begin

definition less_eq_static_type :: "static_type \<Rightarrow> static_type \<Rightarrow> bool" where
  "less_eq_static_type x y = (static_type_key x \<le> static_type_key y)"

definition less_static_type :: "static_type \<Rightarrow> static_type \<Rightarrow> bool" where
  "less_static_type x y = (static_type_key x < static_type_key y)"

instance
  by standard
    (auto simp: less_eq_static_type_def less_static_type_def intro: static_type_ok.key_inj)

end

instantiation parameter_kind :: linorder
begin

definition less_eq_parameter_kind :: "parameter_kind \<Rightarrow> parameter_kind \<Rightarrow> bool" where
  "less_eq_parameter_kind x y = (parameter_kind_index x \<le> parameter_kind_index y)"

definition less_parameter_kind :: "parameter_kind \<Rightarrow> parameter_kind \<Rightarrow> bool" where
  "less_parameter_kind x y = (parameter_kind_index x < parameter_kind_index y)"

instance
proof
  fix x y :: parameter_kind
  show "x \<le> y \<Longrightarrow> y \<le> x \<Longrightarrow> x = y"
    unfolding less_eq_parameter_kind_def by (cases x; cases y) simp_all
qed (auto simp: less_eq_parameter_kind_def less_parameter_kind_def)

end

text \<open>Structural induction over types, signatures and defaults through their selectors.\<close>

lemma type_structure_induct:
  assumes type: "\<And>t. (\<And>ts u. t = TUnion ts \<Longrightarrow> u \<in> set ts \<Longrightarrow> P u) \<Longrightarrow>
      (\<And>u. t = TOptional u \<Longrightarrow> P u) \<Longrightarrow> (\<And>s. t = TCallable s \<Longrightarrow> Q s) \<Longrightarrow>
      (\<And>v u. t = TTypeVariable v \<Longrightarrow> tv_upper_bound v = Some u \<Longrightarrow> P u) \<Longrightarrow>
      (\<And>v u. t = TTypeVariable v \<Longrightarrow> u \<in> set (tv_constraints v) \<Longrightarrow> P u) \<Longrightarrow> P t"
    and signature: "\<And>s. P (sig_return_type s) \<Longrightarrow>
      (\<And>p. p \<in> set (sig_parameters s) \<Longrightarrow> P (param_type p) \<and> R (param_default p)) \<Longrightarrow> Q s"
    and default_value: "\<And>d. (\<And>t l. d = DefaultValue t l \<Longrightarrow> P t) \<Longrightarrow>
      (\<And>i t. d = DefaultFactory i t \<Longrightarrow> P t) \<Longrightarrow> R d"
  shows "P t" "Q s" "R d"
proof -
  have "P t" and "Q s" and "P (param_type p) \<and> R (param_default p)" and "R d"
    and "(\<forall>u. tv_upper_bound v = Some u \<longrightarrow> P u) \<and> (\<forall>u \<in> set (tv_constraints v). P u)" for p v
  proof (induction t and s and p and d and v)
  qed (auto intro: type signature default_value)
  then show "P t" "Q s" "R d" by blast+
qed

end
