(* ===== verification/Contract_Facts.thy ===== *)
theory Contract_Facts
  imports Contract_Types
begin

text \<open>
  The module catalogue: the remaining data of \<^verbatim>\<open>crates/soac_contracts/src/facts.rs\<close>,
  the strict policy of \<^verbatim>\<open>policy.rs\<close>, and the dependency record of
  \<^verbatim>\<open>artifact.rs\<close> that a catalogue carries. A \<open>BTreeMap\<close> or \<open>BTreeSet\<close> over
  strings is the list of its entries in iteration order. Operations: policy selection and class
  overrides, the fields a checked class requires, lexical class ownership of a function.
\<close>

section \<open>Policy\<close>

datatype checked_field_policy = CFDisabled | CFSupportedAnnotations

record class_policy_override =
  cpo_class_range :: source_range
  cpo_checked_attr :: bool

record resolved_strict_policy =
  strict_assign :: bool
  checked_attr :: bool
  class_overrides :: "class_policy_override list"

fun has_supported_value_shape :: "static_type \<Rightarrow> bool" where
  "has_supported_value_shape TNone = True"
| "has_supported_value_shape (TExactBuiltin _) = True"
| "has_supported_value_shape (TNominalBuiltin _ _) = True"
| "has_supported_value_shape (TNumericWidening _ _) = True"
| "has_supported_value_shape (TNominalClass _) = True"
| "has_supported_value_shape (TExactClass _) = True"
| "has_supported_value_shape (TUnion elements) =
     (elements \<noteq> [] \<and> list_all has_supported_value_shape elements)"
| "has_supported_value_shape (TOptional element) = has_supported_value_shape element"
| "has_supported_value_shape _ = False"

definition required_type :: "checked_field_policy \<Rightarrow> annotation_origin \<Rightarrow> static_type \<Rightarrow> static_type option"
where
  "required_type self origin value_type =
     (if self = CFSupportedAnnotations \<and> origin = AOExplicit \<and> has_supported_value_shape value_type
      then Some value_type else None)"

definition is_selected :: "resolved_strict_policy \<Rightarrow> bool" where
  "is_selected self =
     (strict_assign self \<or> checked_attr self \<or>
      list_ex (\<lambda>rule. cpo_checked_attr rule) (class_overrides self))"

definition checked_attributes :: "resolved_strict_policy \<Rightarrow> source_range \<Rightarrow> bool" where
  "checked_attributes self class_range =
     (case List.find (\<lambda>rule. cpo_class_range rule = class_range) (class_overrides self) of
        None \<Rightarrow> checked_attr self
      | Some rule \<Rightarrow> cpo_checked_attr rule)"

definition checked_fields :: "resolved_strict_policy \<Rightarrow> source_range \<Rightarrow> checked_field_policy" where
  "checked_fields self class_range =
     (if checked_attributes self class_range then CFSupportedAnnotations else CFDisabled)"

section \<open>Catalogue data\<close>

datatype source_dialect = OrdinaryPython | SoacStrict

record dependency_fingerprint =
  dep_module :: module_content_id
  dep_source_digest :: fingerprint
  dep_source_size :: u32
  dep_import_resolution :: fingerprint
  dep_effective_configuration :: fingerprint
  dep_strict_policy :: "fingerprint option"
  dep_type_contract :: "fingerprint option"

datatype global_mutability = GMFinalAfterSeal | GMExplicitlyMutable | GMLateAppendOnly | GMUnknown

record global_binding_fact =
  gb_name :: string
  gb_mutability :: global_mutability
  gb_value_type :: static_type
  gb_definition :: "source_identity option"
  gb_uncertainty :: "uncertainty_reason set"

datatype function_kind = FnSynchronous | FnCoroutine | FnGenerator | FnAsyncGenerator

datatype decorator_kind =
    DecStdlibDataclass | DecTypingFinal | DecStaticMethod | DecClassMethod | DecProperty
  | DecStdlibCachedProperty | DecDataclassTransform | DecOther | DecUnknown

record decorator_fact =
  dec_kind :: decorator_kind
  dec_expression_range :: source_range
  dec_definition :: "source_identity option"
  dec_source_digest :: "fingerprint option"
  dec_arguments :: "(string \<times> literal_value) list"
  dec_uncertainty :: "uncertainty_reason set"

record function_type_fact =
  fn_identity :: source_identity
  fn_kind :: function_kind
  fn_signature :: callable_signature
  fn_decorators :: "decorator_fact list"
  fn_uncertainty :: "uncertainty_reason set"

datatype annotation_target = ATParameter u32 | ATReturn

record field_reference =
  fr_declaring_class :: class_reference
  fr_annotation_definition :: source_identity
  fr_name :: string

datatype nominal_binding_owner =
    NBFunction source_identity annotation_target
  | NBField field_reference

record nominal_binding_fact =
  nb_owner :: nominal_binding_owner
  nb_expression_range :: source_range
  nb_name :: string
  nb_class :: class_reference
  nb_binding :: source_identity
  nb_binding_scope :: source_identity

datatype dynamic_class_reason =
    DRPolicyOptOut | DRNonParticipatingMetaclass | DRUnknownDecorator | DRFrameworkManaged
  | DRUnknownBase | DRMutableBase | DRUnsupportedDescriptor | DRCustomAttributeHooks
  | DRConflictingLayout | DRIgnoredDiagnostic | DRUnresolvedAnalysis

datatype participation_proposal = Candidate | DynamicParticipation "dynamic_class_reason set"

datatype class_dictionary_semantics = CDDictionaryBearing | CDExplicitSlots | CDUnknown

datatype class_openness = COOpenSubclassFamily | CODeclaredFinal | COUnknown

datatype metaclass_fact = MetaBuiltinType | MetaClass class_reference | MetaDynamic

datatype base_reference = BaseClass class_reference | BaseBuiltin builtin_type

record inheritance_fact =
  linearized_bases :: "base_reference list"
  inheritance_complete :: bool

datatype field_kind =
    FKInstanceField | FKCallableInstanceField | FKShadowableClassDefault | FKCachedDescriptorField
  | FKClassVariable | FKInitOnly | FKFrameworkPrivate | FKDynamic

datatype field_read_policy =
  FRPythonAttribute | FRInstanceThenClassDefault | FRDescriptorFirst | FRCachedDescriptor

datatype field_write_policy =
    FWPythonAttribute | FWDeclaredField | FWDescriptor | FWClassVariableRejected | FWInitOnly
  | FWDynamic

datatype initialization_policy =
  IPMayBeAbsent | IPInitializedByConstructor | IPDescriptorManaged | IPUnknown

datatype descriptor_kind =
  DescNone | DescProperty | DescNonData | DescData | DescStdlibCachedProperty | DescUnknown

record descriptor_fact =
  descr_kind :: descriptor_kind
  descr_type :: "static_type option"
  descr_getter :: "source_identity option"
  descr_setter :: "source_identity option"
  descr_deleter :: "source_identity option"

record field_type_fact =
  field_name :: string
  field_declaring_class :: class_reference
  field_value_type :: static_type
  field_annotation_origin :: annotation_origin
  field_annotation_definition :: "source_identity option"
  field_field_kind :: field_kind
  field_read :: field_read_policy
  field_write :: field_write_policy
  field_initialization :: initialization_policy
  field_default :: default_fact
  field_descriptor :: descriptor_fact
  field_uncertainty :: "uncertainty_reason set"

datatype method_binding = MBInstance | MBClass | MBStatic | MBPropertyGetter | MBDescriptor

datatype override_policy = OPCompatibleSignatureRequired | OPDeclaredFinal | OPDynamic

datatype transform_kind = TKStdlibDataclass | TKDataclassTransform | TKUnsupportedFramework

record generated_function_fact =
  gen_class :: class_reference
  gen_transform :: transform_kind
  gen_name :: string

record method_type_fact =
  method_name :: string
  method_declaring_class :: class_reference
  method_bound :: method_binding
  method_signature :: callable_signature
  method_declared_final :: bool
  method_override_policy :: override_policy
  method_implementation :: "source_identity option"
  method_generated :: "generated_function_fact option"
  method_uncertainty :: "uncertainty_reason set"

datatype class_member_kind =
  MKClassVariable | MKShadowableDefault | MKNestedClass | MKDescriptor | MKDynamic

record class_member_fact =
  member_name :: string
  member_kind :: class_member_kind
  member_value_type :: static_type
  member_definition :: "source_identity option"
  member_descriptor :: descriptor_fact
  member_uncertainty :: "uncertainty_reason set"

record dataclass_options =
  opt_init :: bool
  opt_repr :: bool
  opt_eq :: bool
  opt_order :: bool
  opt_unsafe_hash :: bool
  opt_frozen :: bool
  opt_match_args :: bool
  opt_kw_only :: bool
  opt_slots :: bool
  opt_weakref_slot :: bool

record class_transform_fact =
  transform_fact_kind :: transform_kind
  transform_provenance :: "source_identity option"
  transform_dataclass_options :: "dataclass_options option"
  transform_generated_methods :: "string list"

record class_type_fact =
  class_identity :: source_identity
  class_bases :: "base_reference list"
  class_metaclass :: metaclass_fact
  class_decorators :: "decorator_fact list"
  class_participation :: participation_proposal
  class_dictionary :: class_dictionary_semantics
  class_instance_fields :: "field_type_fact list"
  class_methods :: "method_type_fact list"
  class_class_members :: "class_member_fact list"
  class_inheritance :: inheritance_fact
  class_open :: class_openness
  class_transform :: "class_transform_fact option"
  class_uncertainty :: "uncertainty_reason set"

record receiver_type_fact =
  receiver_value_type :: static_type
  receiver_uncertainty :: "uncertainty_reason set"

datatype call_binding_fact =
    CBUnboundFunction | CBBoundInstanceMethod | CBBoundClassMethod | CBStaticMethod
  | CBCallableInstanceField | CBDescriptor | CBDynamic

datatype callable_target_fact =
    CTSourceFunction source_identity
  | CTMethod class_reference string "source_identity option"
  | CTGenerated generated_function_fact
  | CTDynamic

datatype call_uncertainty =
    CUExactStaticTarget | CUOpenSubclassFamily | CUFiniteUnion | CUCallableInstanceField
  | CUCustomDescriptor | CUStructuralProtocol | CUDynamic

record call_site_fact =
  call_identity :: call_site_identity
  call_receiver :: "receiver_type_fact option"
  call_attribute_name :: "string option"
  call_candidate_targets :: "callable_target_fact list"
  call_binding :: call_binding_fact
  call_signature :: callable_signature
  call_result_type :: static_type
  call_uncertain :: call_uncertainty

datatype attribute_access = AttrRead | AttrWrite | AttrDelete

record attribute_site_fact =
  attr_identity :: attribute_site_identity
  attr_name :: string
  attr_access :: attribute_access
  attr_receiver_type :: static_type
  attr_value_type :: "static_type option"
  attr_declaring_class :: "class_reference option"
  attr_uncertainty :: "uncertainty_reason set"

datatype diagnostic_code =
    StrictFinalGlobalRebind | StrictFinalGlobalDelete | StrictClassMutation
  | StrictFinalClassSubclass | StrictFinalMethodOverride | StrictInstanceMethodShadow
  | StrictClassvarInstanceWrite | StrictUndeclaredField | StrictIncompatibleFieldWrite
  | StrictIncompatibleOverride | StrictDictReplacement | StrictUnsupportedMetaclass
  | StrictUnsupportedDecorator | StrictUnsupportedDescriptor | StrictLayoutInheritanceConflict
  | StrictUncheckedDynamicType | StrictConstructionContractMismatch | CheckerError

datatype diagnostic_severity = DSInformation | DSWarning | DSError

datatype diagnostic_scope =
    ScopeModule
  | ScopeDefinition source_identity
  | ScopeSite source_range

record strict_diagnostic =
  diag_code :: diagnostic_code
  diag_severity :: diagnostic_severity
  diag_source_range :: source_range
  diag_scope :: diagnostic_scope
  diag_related_definitions :: "source_identity list"
  diag_suppressed :: bool
  diag_message :: string

record module_type_facts =
  facts_schema_version :: u32
  facts_module :: module_content_id
  facts_source_digest :: fingerprint
  facts_source_size :: u32
  facts_source_dialect :: source_dialect
  facts_language_policy :: resolved_strict_policy
  facts_consumed_dependencies :: "dependency_fingerprint list"
  facts_global_bindings :: "global_binding_fact list"
  facts_classes :: "class_type_fact list"
  facts_functions :: "function_type_fact list"
  facts_nominal_bindings :: "nominal_binding_fact list"
  facts_attribute_sites :: "attribute_site_fact list"
  facts_call_sites :: "call_site_fact list"
  facts_diagnostics :: "strict_diagnostic list"

section \<open>Operations\<close>

definition ARTIFACT_SCHEMA_VERSION :: u32 where
  "ARTIFACT_SCHEMA_VERSION = 7"

definition module_type_facts_new ::
  "(u8 list \<Rightarrow> u8 list) \<Rightarrow> string \<Rightarrow> u8 list \<Rightarrow> source_dialect \<Rightarrow> resolved_strict_policy \<Rightarrow>
   module_type_facts result"
where
  "module_type_facts_new sha256 name source dialect policy =
     (if length source < 2 ^ 32 then
        Inr \<lparr>facts_schema_version = ARTIFACT_SCHEMA_VERSION,
             facts_module = module_content_id_new name (legacy_source_hash source),
             facts_source_digest = digest sha256 source,
             facts_source_size = of_nat (length source),
             facts_source_dialect = dialect,
             facts_language_policy = policy,
             facts_consumed_dependencies = [], facts_global_bindings = [], facts_classes = [],
             facts_functions = [], facts_nominal_bindings = [], facts_attribute_sites = [],
             facts_call_sites = [], facts_diagnostics = []\<rparr>
      else Inl (InvalidSourceIdentity ''source exceeds the parser's byte range''))"

definition module_body_identity :: "module_type_facts \<Rightarrow> source_identity" where
  "module_body_identity self = module_body (facts_module self) (facts_source_size self)"

definition is_function_like :: "definition_kind \<Rightarrow> bool" where
  "is_function_like k = (k = DKFunction \<or> k = DKLambda)"

definition intervening_scope ::
  "source_identity \<Rightarrow> source_identity \<Rightarrow> source_identity \<Rightarrow> bool"
where
  "intervening_scope class_id source scope =
     (id_module scope = id_module source \<and>
      id_range scope \<noteq> id_range class_id \<and>
      id_range scope \<noteq> id_range source \<and>
      range_contains (id_range class_id) (id_range scope) \<and>
      range_contains (id_range scope) (id_range source))"

definition owns_source :: "module_type_facts \<Rightarrow> source_identity \<Rightarrow> class_type_fact \<Rightarrow> bool" where
  "owns_source self source class =
     (id_module (class_identity class) = id_module source \<and>
      id_kind (class_identity class) = DKClass \<and>
      id_range (class_identity class) \<noteq> id_range source \<and>
      range_contains (id_range (class_identity class)) (id_range source) \<and>
      \<not> (list_ex (\<lambda>nested. intervening_scope (class_identity class) source (class_identity nested))
            (facts_classes self) \<or>
          list_ex (\<lambda>nested. intervening_scope (class_identity class) source (fn_identity nested))
            (facts_functions self)))"

definition source_class_owner :: "module_type_facts \<Rightarrow> source_identity \<Rightarrow> class_type_fact option" where
  "source_class_owner self source =
     (if id_module source \<noteq> facts_module self \<or> \<not> is_function_like (id_kind source) \<or>
         \<not> list_ex (\<lambda>function. fn_identity function = source) (facts_functions self)
      then None
      else List.find (owns_source self source) (facts_classes self))"

definition function_has_statically_dynamic_class_owner ::
  "module_type_facts \<Rightarrow> source_identity \<Rightarrow> bool"
where
  "function_has_statically_dynamic_class_owner self source =
     (case source_class_owner self source of
        None \<Rightarrow> False
      | Some class \<Rightarrow> (case class_participation class of DynamicParticipation _ \<Rightarrow> True | Candidate \<Rightarrow> False))"

fun as_function :: "nominal_binding_owner \<Rightarrow> (source_identity \<times> annotation_target) option" where
  "as_function (NBFunction function annotation) = Some (function, annotation)"
| "as_function (NBField _) = None"

fun as_class :: "base_reference \<Rightarrow> class_reference option" where
  "as_class (BaseClass class) = Some class"
| "as_class (BaseBuiltin _) = None"

fun contains_uncertainty :: "static_type \<Rightarrow> bool" where
  "contains_uncertainty TAny = True"
| "contains_uncertainty TUnknown = True"
| "contains_uncertainty TTodo = True"
| "contains_uncertainty TDivergent = True"
| "contains_uncertainty (TUnsupported _ _) = True"
| "contains_uncertainty (TTypeVariable _) = True"
| "contains_uncertainty (TStructuralProtocol _) = True"
| "contains_uncertainty (TUnion elements) = list_ex contains_uncertainty elements"
| "contains_uncertainty (TOptional element) = contains_uncertainty element"
| "contains_uncertainty (TCallable signature) =
     (contains_uncertainty (sig_return_type signature) \<or>
      list_ex (\<lambda>parameter. contains_uncertainty (param_type parameter)) (sig_parameters signature))"
| "contains_uncertainty _ = False"

definition required_write_type :: "field_type_fact \<Rightarrow> checked_field_policy \<Rightarrow> static_type option" where
  "required_write_type self policy =
     (if descr_kind (field_descriptor self) \<noteq> DescNone \<or>
         field_field_kind self \<notin> {FKInstanceField, FKCallableInstanceField, FKShadowableClassDefault}
      then None
      else required_type policy (field_annotation_origin self) (field_value_type self))"

definition annotation_reference :: "field_type_fact \<Rightarrow> field_reference option" where
  "annotation_reference self =
     (case field_annotation_definition self of
        None \<Rightarrow> None
      | Some defn \<Rightarrow> Some \<lparr>fr_declaring_class = field_declaring_class self,
                           fr_annotation_definition = defn, fr_name = field_name self\<rparr>)"

definition required_field_bindings ::
  "class_type_fact \<Rightarrow> resolved_strict_policy \<Rightarrow> field_type_fact list"
where
  "required_field_bindings self policy =
     filter (\<lambda>field. required_write_type field
                       (checked_fields policy (id_range (class_identity self))) \<noteq> None)
       (filter (\<lambda>field. class_definition (field_declaring_class field) = class_identity self)
         (class_instance_fields self))"

definition descriptor_fact_default :: descriptor_fact where
  "descriptor_fact_default =
     \<lparr>descr_kind = DescNone, descr_type = None, descr_getter = None, descr_setter = None,
      descr_deleter = None\<rparr>"

definition dataclass_options_default :: dataclass_options where
  "dataclass_options_default =
     \<lparr>opt_init = True, opt_repr = True, opt_eq = True, opt_order = False, opt_unsafe_hash = False,
      opt_frozen = False, opt_match_args = True, opt_kw_only = False, opt_slots = False,
      opt_weakref_slot = False\<rparr>"

fun contains_nominal_class :: "static_type \<Rightarrow> class_reference \<Rightarrow> bool" where
  "contains_nominal_class (TNominalClass reference) class = (reference = class)"
| "contains_nominal_class (TExactClass reference) class = (reference = class)"
| "contains_nominal_class (TUnion elements) class =
     list_ex (\<lambda>element. contains_nominal_class element class) elements"
| "contains_nominal_class (TOptional element) class = contains_nominal_class element class"
| "contains_nominal_class _ class = False"

section \<open>Derived orders of the sorted catalogues\<close>

definition class_policy_override_key :: "class_policy_override \<Rightarrow> okey" where
  "class_policy_override_key r =
     OSeq [source_range_key (cpo_class_range r), bool_key (cpo_checked_attr r)]"

primrec annotation_target_key :: "annotation_target \<Rightarrow> okey" where
  "annotation_target_key (ATParameter i) = OSeq [OAtom 0, word_key i]"
| "annotation_target_key ATReturn = OSeq [OAtom 1]"

definition field_reference_key :: "field_reference \<Rightarrow> okey" where
  "field_reference_key f =
     OSeq [class_reference_key (fr_declaring_class f),
           source_identity_key (fr_annotation_definition f), string_key (fr_name f)]"

primrec nominal_binding_owner_key :: "nominal_binding_owner \<Rightarrow> okey" where
  "nominal_binding_owner_key (NBFunction f a) =
     OSeq [OAtom 0, source_identity_key f, annotation_target_key a]"
| "nominal_binding_owner_key (NBField f) = OSeq [OAtom 1, field_reference_key f]"

definition nominal_binding_fact_key :: "nominal_binding_fact \<Rightarrow> okey" where
  "nominal_binding_fact_key b =
     OSeq [nominal_binding_owner_key (nb_owner b), source_range_key (nb_expression_range b),
           string_key (nb_name b), class_reference_key (nb_class b),
           source_identity_key (nb_binding b), source_identity_key (nb_binding_scope b)]"

primrec transform_kind_index :: "transform_kind \<Rightarrow> nat" where
  "transform_kind_index TKStdlibDataclass = 0"
| "transform_kind_index TKDataclassTransform = 1"
| "transform_kind_index TKUnsupportedFramework = 2"

definition generated_function_fact_key :: "generated_function_fact \<Rightarrow> okey" where
  "generated_function_fact_key g =
     OSeq [class_reference_key (gen_class g), OAtom (transform_kind_index (gen_transform g)),
           string_key (gen_name g)]"

primrec callable_target_fact_key :: "callable_target_fact \<Rightarrow> okey" where
  "callable_target_fact_key (CTSourceFunction i) = OSeq [OAtom 0, source_identity_key i]"
| "callable_target_fact_key (CTMethod c n i) =
     OSeq [OAtom 1, class_reference_key c, string_key n, option_key source_identity_key i]"
| "callable_target_fact_key (CTGenerated g) = OSeq [OAtom 2, generated_function_fact_key g]"
| "callable_target_fact_key CTDynamic = OSeq [OAtom 3]"

primrec diagnostic_code_index :: "diagnostic_code \<Rightarrow> nat" where
  "diagnostic_code_index StrictFinalGlobalRebind = 0"
| "diagnostic_code_index StrictFinalGlobalDelete = 1"
| "diagnostic_code_index StrictClassMutation = 2"
| "diagnostic_code_index StrictFinalClassSubclass = 3"
| "diagnostic_code_index StrictFinalMethodOverride = 4"
| "diagnostic_code_index StrictInstanceMethodShadow = 5"
| "diagnostic_code_index StrictClassvarInstanceWrite = 6"
| "diagnostic_code_index StrictUndeclaredField = 7"
| "diagnostic_code_index StrictIncompatibleFieldWrite = 8"
| "diagnostic_code_index StrictIncompatibleOverride = 9"
| "diagnostic_code_index StrictDictReplacement = 10"
| "diagnostic_code_index StrictUnsupportedMetaclass = 11"
| "diagnostic_code_index StrictUnsupportedDecorator = 12"
| "diagnostic_code_index StrictUnsupportedDescriptor = 13"
| "diagnostic_code_index StrictLayoutInheritanceConflict = 14"
| "diagnostic_code_index StrictUncheckedDynamicType = 15"
| "diagnostic_code_index StrictConstructionContractMismatch = 16"
| "diagnostic_code_index CheckerError = 17"

primrec diagnostic_severity_index :: "diagnostic_severity \<Rightarrow> nat" where
  "diagnostic_severity_index DSInformation = 0"
| "diagnostic_severity_index DSWarning = 1"
| "diagnostic_severity_index DSError = 2"

primrec diagnostic_scope_key :: "diagnostic_scope \<Rightarrow> okey" where
  "diagnostic_scope_key ScopeModule = OSeq [OAtom 0]"
| "diagnostic_scope_key (ScopeDefinition i) = OSeq [OAtom 1, source_identity_key i]"
| "diagnostic_scope_key (ScopeSite r) = OSeq [OAtom 2, source_range_key r]"

definition strict_diagnostic_key :: "strict_diagnostic \<Rightarrow> okey" where
  "strict_diagnostic_key d =
     OSeq [OAtom (diagnostic_code_index (diag_code d)),
           OAtom (diagnostic_severity_index (diag_severity d)),
           source_range_key (diag_source_range d), diagnostic_scope_key (diag_scope d),
           list_key source_identity_key (diag_related_definitions d),
           bool_key (diag_suppressed d), string_key (diag_message d)]"

interpretation class_policy_override_ok: order_key class_policy_override_key
  by unfold_locales (auto simp: class_policy_override_key_def dest!: type_key_injs)

interpretation annotation_target_ok: order_key annotation_target_key
proof
  fix x y
  show "annotation_target_key x = annotation_target_key y \<Longrightarrow> x = y"
    by (cases x; cases y) (auto dest!: type_key_injs)
qed

interpretation field_reference_ok: order_key field_reference_key
  by unfold_locales (auto simp: field_reference_key_def dest!: type_key_injs)

interpretation nominal_binding_owner_ok: order_key nominal_binding_owner_key
proof
  fix x y
  show "nominal_binding_owner_key x = nominal_binding_owner_key y \<Longrightarrow> x = y"
    by (cases x; cases y)
      (auto dest!: type_key_injs annotation_target_ok.key_inj field_reference_ok.key_inj)
qed

interpretation nominal_binding_fact_ok: order_key nominal_binding_fact_key
  by unfold_locales
    (auto simp: nominal_binding_fact_key_def dest!: type_key_injs nominal_binding_owner_ok.key_inj)

lemma transform_kind_index_inj: "transform_kind_index x = transform_kind_index y \<Longrightarrow> x = y"
  by (cases x; cases y) simp_all

interpretation generated_function_fact_ok: order_key generated_function_fact_key
  by unfold_locales
    (auto simp: generated_function_fact_key_def dest!: type_key_injs transform_kind_index_inj)

interpretation callable_target_fact_ok: order_key callable_target_fact_key
proof
  fix x y
  show "callable_target_fact_key x = callable_target_fact_key y \<Longrightarrow> x = y"
    by (cases x; cases y) (auto dest!: type_key_injs generated_function_fact_ok.key_inj)
qed

lemma diagnostic_code_index_inj: "diagnostic_code_index x = diagnostic_code_index y \<Longrightarrow> x = y"
  by (cases x; cases y) simp_all

lemma diagnostic_severity_index_inj:
  "diagnostic_severity_index x = diagnostic_severity_index y \<Longrightarrow> x = y"
  by (cases x; cases y) simp_all

interpretation diagnostic_scope_ok: order_key diagnostic_scope_key
proof
  fix x y
  show "diagnostic_scope_key x = diagnostic_scope_key y \<Longrightarrow> x = y"
    by (cases x; cases y) (auto dest!: type_key_injs)
qed

interpretation strict_diagnostic_ok: order_key strict_diagnostic_key
  by unfold_locales
    (auto simp: strict_diagnostic_key_def
       dest!: type_key_injs diagnostic_code_index_inj diagnostic_severity_index_inj
         diagnostic_scope_ok.key_inj source_identity_ok.list_key_inj)

section \<open>Policy selection\<close>

lemma find_unique:
  "distinct (map f xs) \<Longrightarrow> x \<in> set xs \<Longrightarrow> List.find (\<lambda>y. f y = f x) xs = Some x"
  by (induction xs) auto

end
