(* ===== verification/Contract_Normalize.thy ===== *)
theory Contract_Normalize
  imports Contract_Facts
begin

text \<open>
  Canonical types: \<open>normalize_at_depth\<close> of \<open>StaticType\<close>, \<open>CallableSignature\<close> and
  \<open>DefaultFact\<close> in \<^verbatim>\<open>crates/soac_contracts/src/facts.rs\<close>. The recursion is
  bounded by the nesting limit of 64 the code checks, not by the structure of the type
  (\<open>Optional(t)\<close> is normalized as the union of \<open>t\<close> and \<open>None\<close>), so the termination
  measure is the remaining depth.

  Theorems: the result is in normal form and normal forms are fixed points, so normalization is
  idempotent; it succeeds exactly on types without empty unions whose nesting fits the limit; it
  preserves the uncertainty, the supported shape and the nominal classes of a type.
\<close>

section \<open>Operations\<close>

fun union_members :: "static_type \<Rightarrow> static_type list" where
  "union_members (TUnion nested) = nested"
| "union_members element = [element]"

definition union_of :: "static_type list \<Rightarrow> static_type" where
  "union_of members = (case members of [member] \<Rightarrow> member | _ \<Rightarrow> TUnion members)"

function normalize_at_depth :: "static_type \<Rightarrow> nat \<Rightarrow> static_type result"
and normalize_signature :: "callable_signature \<Rightarrow> nat \<Rightarrow> callable_signature result"
and normalize_default :: "default_fact \<Rightarrow> nat \<Rightarrow> default_fact result"
where
  "normalize_at_depth t depth =
     (if depth > 64 then Inl (InvalidType ''type nesting exceeds 64'')
      else case t of
        TOptional element \<Rightarrow> normalize_at_depth (TUnion [element, TNone]) (depth + 1)
      | TUnion elements \<Rightarrow>
          (if elements = [] then Inl (InvalidType ''empty union'')
           else and_then (map_result (\<lambda>element. normalize_at_depth element (depth + 1)) elements)
             (\<lambda>ns. Inr (union_of (sort_dedup static_type_key (concat (map union_members ns))))))
      | TLiteral literal \<Rightarrow> Inr (if literal = LNone then TNone else TLiteral literal)
      | TCallable signature \<Rightarrow>
          and_then (normalize_signature signature (depth + 1)) (\<lambda>s. Inr (TCallable s))
      | TTypeVariable v \<Rightarrow>
          and_then (map_option_result (\<lambda>bound. normalize_at_depth bound (depth + 1)) (tv_upper_bound v))
            (\<lambda>upper_bound.
          and_then (map_result (\<lambda>c. normalize_at_depth c (depth + 1)) (tv_constraints v))
            (\<lambda>constraints.
               Inr (TTypeVariable (TypeVariableFact (tv_identity v) upper_bound
                      (sort_dedup static_type_key constraints)))))
      | _ \<Rightarrow> Inr t)"
| "normalize_signature s depth =
     and_then (normalize_at_depth (sig_return_type s) (depth + 1)) (\<lambda>return_type.
     and_then (map_result (\<lambda>p.
         and_then (normalize_at_depth (param_type p) (depth + 1)) (\<lambda>value_type.
         and_then (normalize_default (param_default p) (depth + 1)) (\<lambda>def.
           Inr (ParameterTypeFact (param_name p) (param_kind p) value_type (param_origin p) def))))
       (sig_parameters s)) (\<lambda>parameters.
       Inr (CallableSignature parameters return_type (sig_return_origin s) (sig_uncertainty s))))"
| "normalize_default d depth =
     (case d of
        DefaultValue value_type literal \<Rightarrow>
          and_then (normalize_at_depth value_type (depth + 1)) (\<lambda>t. Inr (DefaultValue t literal))
      | DefaultFactory implementation return_type \<Rightarrow>
          and_then (normalize_at_depth return_type (depth + 1))
            (\<lambda>t. Inr (DefaultFactory implementation t))
      | _ \<Rightarrow> Inr d)"
  by pat_completeness auto
termination
  by (relation "measure (case_sum (\<lambda>(_, d). 4 * (66 - d))
        (case_sum (\<lambda>(_, d). 4 * (66 - (d + 1)) + 3) (\<lambda>(_, d). 4 * (66 - (d + 1)) + 1)))")
    auto

declare normalize_at_depth.simps [simp del] normalize_signature.simps [simp del]
  normalize_default.simps [simp del]

definition normalized :: "static_type \<Rightarrow> static_type result" where
  "normalized t = normalize_at_depth t 0"

section \<open>Normal forms\<close>

fun nf :: "static_type \<Rightarrow> nat \<Rightarrow> bool"
and nf_signature :: "callable_signature \<Rightarrow> nat \<Rightarrow> bool"
and nf_default :: "default_fact \<Rightarrow> nat \<Rightarrow> bool"
where
  "nf (TUnion ms) d =
     (d \<le> 64 \<and> 2 \<le> length ms \<and> sorted_wrt (<) (map static_type_key ms) \<and>
      (\<forall>m \<in> set ms. (\<forall>ms'. m \<noteq> TUnion ms') \<and> nf m (d + 1)))"
| "nf (TOptional t) d = False"
| "nf (TLiteral l) d = (d \<le> 64 \<and> l \<noteq> LNone)"
| "nf (TCallable s) d = (d \<le> 64 \<and> nf_signature s (d + 1))"
| "nf (TTypeVariable v) d =
     (d \<le> 64 \<and> (case tv_upper_bound v of None \<Rightarrow> True | Some t \<Rightarrow> nf t (d + 1)) \<and>
      (\<forall>c \<in> set (tv_constraints v). nf c (d + 1)) \<and>
      sorted_wrt (<) (map static_type_key (tv_constraints v)))"
| "nf t d = (d \<le> 64)"
| "nf_signature s d =
     (nf (sig_return_type s) (d + 1) \<and>
      (\<forall>p \<in> set (sig_parameters s). nf (param_type p) (d + 1) \<and> nf_default (param_default p) (d + 1)))"
| "nf_default (DefaultValue t l) d = nf t (d + 1)"
| "nf_default (DefaultFactory i t) d = nf t (d + 1)"
| "nf_default _ d = True"

lemma nf_depth:
  "nf t d \<Longrightarrow> d' \<le> d \<Longrightarrow> nf t d'"
  "nf_signature s d \<Longrightarrow> d' \<le> d \<Longrightarrow> nf_signature s d'"
  "nf_default df d \<Longrightarrow> d' \<le> d \<Longrightarrow> nf_default df d'"
proof (induction t d and s d and df d arbitrary: d' and d' and d' rule: nf_nf_signature_nf_default.induct)
  case (1 ms d)
  have "nf m (d' + 1)" if "m \<in> set ms" for m
    by (rule "1.IH" [OF that]) (use "1.prems" that in simp_all)
  then show ?case using "1.prems" by simp
next
  case (4 s d)
  have "nf_signature s (d' + 1)"
    by (rule "4.IH") (use "4.prems" in simp_all)
  then show ?case using "4.prems" by simp
next
  case (5 v d)
  have "nf c (d' + 1)" if "c \<in> set (tv_constraints v)" for c
    by (rule "5.IH"(2) [OF that]) (use "5.prems" that in simp_all)
  moreover have "nf t (d' + 1)" if "tv_upper_bound v = Some t" for t
    by (rule "5.IH"(1) [OF that]) (use "5.prems" that in simp_all)
  ultimately show ?case using "5.prems" by (simp split: option.splits)
next
  case (7 s d)
  have "nf (param_type p) (d' + 1)" "nf_default (param_default p) (d' + 1)"
    if "p \<in> set (sig_parameters s)" for p
    by (rule "7.IH"(2) [OF that] "7.IH"(3) [OF that]; use "7.prems" that in simp)+
  moreover have "nf (sig_return_type s) (d' + 1)"
    by (rule "7.IH"(1)) (use "7.prems" in simp_all)
  ultimately show ?case by simp
next
  case (8 t l d)
  show ?case unfolding nf_default.simps
    by (rule "8.IH") (use "8.prems" in simp_all)
next
  case (9 i t d)
  show ?case unfolding nf_default.simps
    by (rule "9.IH") (use "9.prems" in simp_all)
qed simp_all

lemma nf_le_64: "nf t d \<Longrightarrow> d \<le> 64"
  by (cases "(t, d)" rule: nf.cases) auto

lemma normalize_optional:
  "d \<le> 64 \<Longrightarrow> normalize_at_depth (TOptional t) d = normalize_at_depth (TUnion [t, TNone]) (d + 1)"
  by (subst normalize_at_depth.simps) simp

lemma normalize_union:
  "d \<le> 64 \<Longrightarrow> ts \<noteq> [] \<Longrightarrow> normalize_at_depth (TUnion ts) d =
     and_then (map_result (\<lambda>t. normalize_at_depth t (d + 1)) ts)
       (\<lambda>ns. Inr (union_of (sort_dedup static_type_key (concat (map union_members ns)))))"
  by (subst normalize_at_depth.simps) simp

lemma normalize_too_deep: "64 < d \<Longrightarrow> normalize_at_depth t d = Inl (InvalidType ''type nesting exceeds 64'')"
  by (subst normalize_at_depth.simps) simp

lemma normalize_callable:
  "d \<le> 64 \<Longrightarrow> normalize_at_depth (TCallable s) d =
     and_then (normalize_signature s (d + 1)) (\<lambda>s. Inr (TCallable s))"
  by (subst normalize_at_depth.simps) simp

lemma normalize_type_variable:
  "d \<le> 64 \<Longrightarrow> normalize_at_depth (TTypeVariable v) d =
     and_then (map_option_result (\<lambda>bound. normalize_at_depth bound (d + 1)) (tv_upper_bound v))
       (\<lambda>ub. and_then (map_result (\<lambda>c. normalize_at_depth c (d + 1)) (tv_constraints v))
       (\<lambda>cs. Inr (TTypeVariable (TypeVariableFact (tv_identity v) ub (sort_dedup static_type_key cs)))))"
  by (subst normalize_at_depth.simps) simp

lemma normalize_leaf:
  "d \<le> 64 \<Longrightarrow> normalize_at_depth (TLiteral l) d = Inr (if l = LNone then TNone else TLiteral l)"
  "d \<le> 64 \<Longrightarrow> normalize_at_depth TNone d = Inr TNone"
  "d \<le> 64 \<Longrightarrow> normalize_at_depth (TExactBuiltin b) d = Inr (TExactBuiltin b)"
  "d \<le> 64 \<Longrightarrow> normalize_at_depth (TNominalBuiltin b sub) d = Inr (TNominalBuiltin b sub)"
  "d \<le> 64 \<Longrightarrow> normalize_at_depth (TNumericWidening b acc) d = Inr (TNumericWidening b acc)"
  "d \<le> 64 \<Longrightarrow> normalize_at_depth (TNominalClass c) d = Inr (TNominalClass c)"
  "d \<le> 64 \<Longrightarrow> normalize_at_depth (TExactClass c) d = Inr (TExactClass c)"
  "d \<le> 64 \<Longrightarrow> normalize_at_depth (TStructuralProtocol p) d = Inr (TStructuralProtocol p)"
  "d \<le> 64 \<Longrightarrow> normalize_at_depth TAny d = Inr TAny"
  "d \<le> 64 \<Longrightarrow> normalize_at_depth TUnknown d = Inr TUnknown"
  "d \<le> 64 \<Longrightarrow> normalize_at_depth TTodo d = Inr TTodo"
  "d \<le> 64 \<Longrightarrow> normalize_at_depth TDivergent d = Inr TDivergent"
  "d \<le> 64 \<Longrightarrow> normalize_at_depth (TUnsupported k r) d = Inr (TUnsupported k r)"
  by (subst normalize_at_depth.simps, simp)+

lemmas normalize_simps =
  normalize_optional normalize_union normalize_too_deep normalize_callable
  normalize_type_variable normalize_leaf

lemmas normalize_induct =
  normalize_at_depth_normalize_signature_normalize_default.induct

lemma normalize_depth_bound: "normalize_at_depth t d = Inr t' \<Longrightarrow> d \<le> 64"
  using normalize_too_deep [of d t] by (cases "64 < d") auto

lemma normalize_union_nonempty: "normalize_at_depth (TUnion ts) d = Inr t' \<Longrightarrow> ts \<noteq> []"
  by (subst (asm) normalize_at_depth.simps) (auto split: if_splits)

lemma nf_union_members:
  "nf n d \<Longrightarrow> m \<in> set (union_members n) \<Longrightarrow> nf m d \<and> (\<forall>ms. m \<noteq> TUnion ms)"
  by (cases n rule: union_members.cases) (auto intro: nf_depth(1))

lemma nf_union_members_nonempty: "nf n d \<Longrightarrow> union_members n \<noteq> []"
  by (cases n rule: union_members.cases) auto

lemma nf_union_of:
  assumes "d \<le> 64" "ms \<noteq> []" "sorted_wrt (<) (map static_type_key ms)"
    and "\<And>m. m \<in> set ms \<Longrightarrow> nf m (d + 1) \<and> (\<forall>ms'. m \<noteq> TUnion ms')"
  shows "nf (union_of ms) d"
proof (cases "\<exists>m. ms = [m]")
  case True
  then show ?thesis using assms(4) nf_depth(1) [of _ "d + 1" d] by (auto simp: union_of_def)
next
  case False
  then have "union_of ms = TUnion ms" "2 \<le> length ms"
    using assms(2) by (auto simp: union_of_def Suc_le_eq neq_Nil_conv split: list.splits)
  then show ?thesis using assms by simp
qed

lemma normalize_nf:
  "normalize_at_depth t d = Inr t' \<Longrightarrow> nf t' d"
  "normalize_signature s d = Inr s' \<Longrightarrow> nf_signature s' d"
  "normalize_default df d = Inr df' \<Longrightarrow> nf_default df' d"
proof (induction t d and s d and df d arbitrary: t' and s' and df' rule: normalize_induct)
  case (1 t d)
  have d: "d \<le> 64" using "1.prems" by (rule normalize_depth_bound)
  then have nd: "\<not> 64 < d" by simp
  show ?case
  proof (cases t)
    case (TOptional e)
    with "1.prems" d have "normalize_at_depth (TUnion [e, TNone]) (d + 1) = Inr t'"
      by (simp add: normalize_optional)
    then have "nf t' (d + 1)" using "1.IH"(2) nd TOptional by blast
    then show ?thesis by (rule nf_depth) simp
  next
    case (TUnion ts)
    with "1.prems" have ne: "ts \<noteq> []" using normalize_union_nonempty by blast
    from "1.prems" obtain ns
      where ns: "map_result (\<lambda>t. normalize_at_depth t (d + 1)) ts = Inr ns"
        and t': "t' = union_of (sort_dedup static_type_key (concat (map union_members ns)))"
      using d ne TUnion by (auto simp: normalize_union)
    have nf_ns: "nf n (d + 1)" if "n \<in> set ns" for n
      using map_result_set [OF ns that] "1.IH"(1) nd TUnion ne by blast
    have "ns \<noteq> []" using ns ne by (auto simp: map_result_eq_Inr)
    then have "concat (map union_members ns) \<noteq> []"
      using nf_ns nf_union_members_nonempty by (cases ns) force+
    moreover have "nf m (d + 1) \<and> (\<forall>ms'. m \<noteq> TUnion ms')"
      if m: "m \<in> set (concat (map union_members ns))" for m
    proof -
      from m obtain n where "n \<in> set ns" "m \<in> set (union_members n)" by auto
      then show ?thesis using nf_ns nf_union_members by blast
    qed
    ultimately show ?thesis
      unfolding t' using d
      by (intro nf_union_of) (simp_all add: static_type_ok.strictly_sorted_sort_dedup)
  next
    case (TCallable s)
    then show ?thesis using "1.prems" d "1.IH"(3) nd by (auto simp: normalize_callable)
  next
    case (TTypeVariable v)
    with "1.prems" d obtain ub cs
      where ub: "map_option_result (\<lambda>b. normalize_at_depth b (d + 1)) (tv_upper_bound v) = Inr ub"
        and cs: "map_result (\<lambda>c. normalize_at_depth c (d + 1)) (tv_constraints v) = Inr cs"
        and t': "t' = TTypeVariable (TypeVariableFact (tv_identity v) ub (sort_dedup static_type_key cs))"
      by (auto simp: normalize_type_variable)
    have "nf c (d + 1)" if "c \<in> set cs" for c
      using map_result_set [OF cs that] "1.IH"(5) nd TTypeVariable ub by blast
    moreover have "nf b (d + 1)" if "ub = Some b" for b
      using ub that "1.IH"(4) nd TTypeVariable by (auto split: option.splits)
    ultimately show ?thesis
      using d by (auto simp: t' static_type_ok.strictly_sorted_sort_dedup split: option.splits)
  next
    case (TLiteral l)
    then show ?thesis using "1.prems" d by (auto simp: normalize_leaf)
  qed (use "1.prems" d in \<open>auto simp: normalize_leaf\<close>)
next
  case (2 s d)
  then obtain r ps where r: "normalize_at_depth (sig_return_type s) (d + 1) = Inr r"
    and ps: "map_result (\<lambda>p.
         and_then (normalize_at_depth (param_type p) (d + 1)) (\<lambda>value_type.
         and_then (normalize_default (param_default p) (d + 1)) (\<lambda>def.
           Inr (ParameterTypeFact (param_name p) (param_kind p) value_type (param_origin p) def))))
       (sig_parameters s) = Inr ps"
    and s': "s' = CallableSignature ps r (sig_return_origin s) (sig_uncertainty s)"
    by (subst (asm) normalize_signature.simps) auto
  have "nf (param_type p) (d + 1) \<and> nf_default (param_default p) (d + 1)" if "p \<in> set ps" for p
    using map_result_set [OF ps that] "2.IH"(2,3) [OF r] by auto
  then show ?case using "2.IH"(1) [OF r] by (simp add: s')
next
  case (3 df d)
  show ?case
  proof (cases df)
    case (DefaultValue t l)
    with "3.prems" "3.IH"(1) show ?thesis by (subst (asm) normalize_default.simps) auto
  next
    case (DefaultFactory i t)
    with "3.prems" "3.IH"(2) show ?thesis by (subst (asm) normalize_default.simps) auto
  qed (use "3.prems" in \<open>subst (asm) normalize_default.simps, auto\<close>)+
qed

lemma union_members_non_union: "(\<forall>ms. m \<noteq> TUnion ms) \<Longrightarrow> union_members m = [m]"
  by (cases m rule: union_members.cases) auto

lemma concat_union_members_id:
  "(\<And>m. m \<in> set ms \<Longrightarrow> \<forall>ms'. m \<noteq> TUnion ms') \<Longrightarrow> concat (map union_members ms) = ms"
  by (induction ms) (simp_all add: union_members_non_union)

lemma normalize_nf_id:
  "nf t d \<Longrightarrow> normalize_at_depth t d = Inr t"
  "nf_signature s d \<Longrightarrow> normalize_signature s d = Inr s"
  "nf_default df d \<Longrightarrow> normalize_default df d = Inr df"
proof (induction t d and s d and df d rule: nf_nf_signature_nf_default.induct)
  case (1 ms d)
  have "map_result (\<lambda>t. normalize_at_depth t (d + 1)) ms = Inr ms"
    using 1 by (intro map_result_Inr_id) simp
  moreover have "concat (map union_members ms) = ms"
    using "1.prems" by (intro concat_union_members_id) simp
  moreover have "ms \<noteq> []" using "1.prems" by auto
  moreover have "union_of ms = TUnion ms"
    using "1.prems" by (auto simp: union_of_def split: list.splits)
  ultimately show ?case
    using "1.prems" by (auto simp: normalize_union static_type_ok.sort_dedup_id)
next
  case (5 v d)
  have "map_result (\<lambda>t. normalize_at_depth t (d + 1)) (tv_constraints v) = Inr (tv_constraints v)"
    using 5 by (intro map_result_Inr_id) simp
  moreover have "map_option_result (\<lambda>b. normalize_at_depth b (d + 1)) (tv_upper_bound v) = Inr (tv_upper_bound v)"
    using 5 by (cases "tv_upper_bound v") auto
  ultimately show ?case
    using "5.prems" by (cases v) (simp add: normalize_type_variable static_type_ok.sort_dedup_id)
next
  case (7 s d)
  have "map_result (\<lambda>p.
         and_then (normalize_at_depth (param_type p) (d + 1)) (\<lambda>value_type.
         and_then (normalize_default (param_default p) (d + 1)) (\<lambda>def.
           Inr (ParameterTypeFact (param_name p) (param_kind p) value_type (param_origin p) def))))
       (sig_parameters s) = Inr (sig_parameters s)"
    using 7 by (intro map_result_Inr_id) (simp add: parameter_type_fact.expand)
  then show ?case using 7 by (subst normalize_signature.simps) (simp add: callable_signature.expand)
qed (auto simp: normalize_leaf normalize_callable normalize_default.simps)

lemma normalize_idem:
  "normalize_at_depth t d = Inr t' \<Longrightarrow> normalize_at_depth t' d = Inr t'"
  "normalize_signature s d = Inr s' \<Longrightarrow> normalize_signature s' d = Inr s'"
  "normalize_default df d = Inr df' \<Longrightarrow> normalize_default df' d = Inr df'"
  by (rule normalize_nf_id, erule normalize_nf)+

section \<open>When normalization succeeds\<close>

fun no_empty_union :: "static_type \<Rightarrow> bool"
and no_empty_union_default :: "default_fact \<Rightarrow> bool"
where
  "no_empty_union (TUnion ts) = (ts \<noteq> [] \<and> (\<forall>t \<in> set ts. no_empty_union t))"
| "no_empty_union (TOptional t) = no_empty_union t"
| "no_empty_union (TCallable s) =
     (no_empty_union (sig_return_type s) \<and>
      (\<forall>p \<in> set (sig_parameters s).
         no_empty_union (param_type p) \<and> no_empty_union_default (param_default p)))"
| "no_empty_union (TTypeVariable v) =
     ((case tv_upper_bound v of None \<Rightarrow> True | Some t \<Rightarrow> no_empty_union t) \<and>
      (\<forall>t \<in> set (tv_constraints v). no_empty_union t))"
| "no_empty_union t = True"
| "no_empty_union_default (DefaultValue t l) = no_empty_union t"
| "no_empty_union_default (DefaultFactory i t) = no_empty_union t"
| "no_empty_union_default d = True"

definition max_list :: "nat list \<Rightarrow> nat" where
  "max_list ns = fold max ns 0"

fun nesting :: "static_type \<Rightarrow> nat"
and nesting_default :: "default_fact \<Rightarrow> nat"
where
  "nesting (TUnion ts) = (if ts = [] then 0 else 1 + max_list (map nesting ts))"
| "nesting (TOptional t) = 2 + nesting t"
| "nesting (TCallable s) =
     2 + max (nesting (sig_return_type s))
       (max_list (map (\<lambda>p. max (nesting (param_type p)) (nesting_default (param_default p)))
          (sig_parameters s)))"
| "nesting (TTypeVariable v) =
     max (case tv_upper_bound v of None \<Rightarrow> 0 | Some t \<Rightarrow> 1 + nesting t)
       (max_list (map (\<lambda>t. 1 + nesting t) (tv_constraints v)))"
| "nesting t = 0"
| "nesting_default (DefaultValue t l) = 1 + nesting t"
| "nesting_default (DefaultFactory i t) = 1 + nesting t"
| "nesting_default d = 0"

lemma max_list_le_iff: "d + max_list ns \<le> k \<longleftrightarrow> d \<le> k \<and> (\<forall>n \<in> set ns. d + n \<le> k)"
proof -
  have "d + fold max ns m \<le> k \<longleftrightarrow> d + m \<le> k \<and> (\<forall>n \<in> set ns. d + n \<le> k)" for m
    by (induction ns arbitrary: m) (auto simp: nat_add_max_right)
  then show ?thesis by (simp add: max_list_def)
qed

definition fits :: "static_type \<Rightarrow> nat \<Rightarrow> bool" where
  "fits t d = (no_empty_union t \<and> d + nesting t \<le> 64)"

definition fits_default :: "default_fact \<Rightarrow> nat \<Rightarrow> bool" where
  "fits_default df d = (no_empty_union_default df \<and> d + nesting_default df \<le> 64)"

lemma fits_union:
  "fits (TUnion ts) d \<longleftrightarrow> d \<le> 64 \<and> ts \<noteq> [] \<and> (\<forall>t \<in> set ts. fits t (d + 1))"
  using max_list_le_iff [of "d + 1" "map nesting ts" 64]
  by (cases ts) (auto simp: fits_def)

lemma fits_callable:
  "fits (TCallable s) d \<longleftrightarrow> fits (sig_return_type s) (d + 2) \<and>
     (\<forall>p \<in> set (sig_parameters s). fits (param_type p) (d + 2) \<and> fits_default (param_default p) (d + 2))"
  using max_list_le_iff [of "d + 2" "map (\<lambda>p. max (nesting (param_type p))
      (nesting_default (param_default p))) (sig_parameters s)" 64]
  by (auto simp: fits_def fits_default_def nat_add_max_right)

lemma fits_type_variable:
  "fits (TTypeVariable v) d \<longleftrightarrow> d \<le> 64 \<and>
     (\<forall>t. tv_upper_bound v = Some t \<longrightarrow> fits t (d + 1)) \<and>
     (\<forall>t \<in> set (tv_constraints v). fits t (d + 1))"
  using max_list_le_iff [of d "map (\<lambda>t. 1 + nesting t) (tv_constraints v)" 64]
  by (auto simp: fits_def nat_add_max_right split: option.splits)

lemma fits_optional: "fits (TOptional t) d \<longleftrightarrow> fits t (d + 2)"
  by (auto simp: fits_def)

lemma fits_leaf: "fits TNone d \<longleftrightarrow> d \<le> 64"
  by (simp add: fits_def)

lemma fits_depth: "fits t d \<Longrightarrow> d \<le> 64"
  by (simp add: fits_def)

lemmas fits_simps = fits_union fits_callable fits_type_variable fits_optional fits_leaf

lemma normalize_succeeds_iff:
  "(\<exists>t'. normalize_at_depth t d = Inr t') \<longleftrightarrow> fits t d"
  "(\<exists>s'. normalize_signature s d = Inr s') \<longleftrightarrow>
     fits (sig_return_type s) (d + 1) \<and>
     (\<forall>p \<in> set (sig_parameters s). fits (param_type p) (d + 1) \<and> fits_default (param_default p) (d + 1))"
  "d \<le> 64 \<Longrightarrow> (\<exists>df'. normalize_default df d = Inr df') \<longleftrightarrow> fits_default df d"
proof (induction t d and s d and df d rule: normalize_induct)
  case (1 t d)
  show ?case
  proof (cases "d \<le> 64")
    case True
    then have nd: "\<not> 64 < d" by simp
    show ?thesis
    proof (cases t)
      case (TUnion ts)
      show ?thesis
      proof (cases "ts = []")
        case True
        then show ?thesis using TUnion normalize_union_nonempty by (auto simp: fits_union)
      next
        case False
        then show ?thesis
          using "1.IH"(1) [OF nd TUnion False] TUnion True
          by (simp add: normalize_union map_result_Ex_iff fits_union)
      qed
    next
      case (TOptional e)
      then show ?thesis
        using "1.IH"(2) [OF nd TOptional] True fits_depth [of e "d + 2"]
        by (auto simp: normalize_optional fits_simps)
    next
      case (TCallable s)
      then show ?thesis
        using "1.IH"(3) [OF nd TCallable] True by (simp add: normalize_callable fits_callable)
    next
      case (TTypeVariable v)
      have "(\<exists>ub. map_option_result (\<lambda>b. normalize_at_depth b (d + 1)) (tv_upper_bound v) = Inr ub)
          \<longleftrightarrow> (\<forall>t. tv_upper_bound v = Some t \<longrightarrow> fits t (d + 1))"
        using "1.IH"(4) [OF nd TTypeVariable] by (cases "tv_upper_bound v") auto
      moreover have "(\<exists>cs. map_result (\<lambda>c. normalize_at_depth c (d + 1)) (tv_constraints v) = Inr cs)
          \<longleftrightarrow> (\<forall>t \<in> set (tv_constraints v). fits t (d + 1))"
        if "\<exists>ub. map_option_result (\<lambda>b. normalize_at_depth b (d + 1)) (tv_upper_bound v) = Inr ub"
        using that "1.IH"(5) [OF nd TTypeVariable] by (auto simp: map_result_Ex_iff)
      moreover have "(\<exists>t'. normalize_at_depth t d = Inr t') \<longleftrightarrow>
          (\<exists>ub. map_option_result (\<lambda>b. normalize_at_depth b (d + 1)) (tv_upper_bound v) = Inr ub) \<and>
          (\<exists>cs. map_result (\<lambda>c. normalize_at_depth c (d + 1)) (tv_constraints v) = Inr cs)"
        using True TTypeVariable by (simp only: normalize_type_variable and_then_eq_Inr) blast
      ultimately show ?thesis
        using True TTypeVariable by (simp only: fits_type_variable) blast
    qed (use True in \<open>auto simp: normalize_leaf fits_def\<close>)
  next
    case False
    then show ?thesis by (auto simp: normalize_too_deep dest: fits_depth)
  qed
next
  case (2 s d)
  show ?case
  proof (cases "fits (sig_return_type s) (d + 1)")
    case True
    then obtain r where r: "normalize_at_depth (sig_return_type s) (d + 1) = Inr r"
      using "2.IH"(1) by blast
    have d: "d + 1 \<le> 64" using True by (rule fits_depth)
    let ?np = "\<lambda>p. and_then (normalize_at_depth (param_type p) (d + 1)) (\<lambda>value_type.
         and_then (normalize_default (param_default p) (d + 1)) (\<lambda>def.
           Inr (ParameterTypeFact (param_name p) (param_kind p) value_type (param_origin p) def)))"
    have np: "(\<exists>y. ?np p = Inr y) \<longleftrightarrow>
        fits (param_type p) (d + 1) \<and> fits_default (param_default p) (d + 1)"
      if "p \<in> set (sig_parameters s)" for p
      using "2.IH"(2) [OF r that] "2.IH"(3) [OF r that _ d] by (simp only: and_then_eq_Inr) blast
    have "(\<exists>s'. normalize_signature s d = Inr s') \<longleftrightarrow>
        (\<exists>ps. map_result ?np (sig_parameters s) = Inr ps)"
      using r by (subst normalize_signature.simps) simp
    also have "\<dots> \<longleftrightarrow> (\<forall>p \<in> set (sig_parameters s). \<exists>y. ?np p = Inr y)"
      by (rule map_result_Ex_iff)
    finally show ?thesis using np True by blast
  next
    case False
    then show ?thesis using "2.IH"(1) by (subst normalize_signature.simps) auto
  qed
next
  case (3 df d)
  show ?case
  proof (cases df)
    case (DefaultValue t l)
    then show ?thesis
      using "3.IH"(1) [OF DefaultValue]
      by (subst normalize_default.simps) (simp add: fits_default_def fits_def)
  next
    case (DefaultFactory i t)
    then show ?thesis
      using "3.IH"(2) [OF DefaultFactory]
      by (subst normalize_default.simps) (simp add: fits_default_def fits_def)
  qed (use "3.prems" in \<open>subst normalize_default.simps, simp add: fits_default_def\<close>)+
qed

section \<open>What normalization preserves\<close>

text \<open>
  A question about a type that a union answers by asking its members keeps its answer. The
  contract of such a question, and the theorem, are stated once.
\<close>

locale union_disjunctive =
  fixes f :: "static_type \<Rightarrow> bool"
  assumes f_union: "f (TUnion ts) = list_ex f ts"
    and f_optional: "f (TOptional t) = f t"
    and f_none: "\<not> f TNone"
    and f_literal_none: "\<not> f (TLiteral LNone)"
    and f_type_variable: "f (TTypeVariable v) = f (TTypeVariable w)"
    and f_callable: "f r = f r' \<Longrightarrow>
      list_all2 (\<lambda>p p'. f (param_type p) = f (param_type p')) ps ps' \<Longrightarrow>
      f (TCallable (CallableSignature ps r ro u)) = f (TCallable (CallableSignature ps' r' ro u))"
begin

lemma f_union_of: "f (union_of ms) = list_ex f ms"
  by (cases ms rule: list.exhaust; cases "tl ms") (auto simp: union_of_def f_union)

lemma f_union_members: "list_ex f (union_members n) = f n"
  by (cases n rule: union_members.cases) (simp_all add: f_union)

lemma normalize_preserves:
  "normalize_at_depth t d = Inr t' \<Longrightarrow> f t' = f t"
  "normalize_signature s d = Inr s' \<Longrightarrow> f (TCallable s') = f (TCallable s)"
  "normalize_default df d = Inr df' \<Longrightarrow> True"
proof (induction t d and s d and df d arbitrary: t' and s' and df' rule: normalize_induct)
  case (1 t d)
  have d: "d \<le> 64" using "1.prems" by (rule normalize_depth_bound)
  then have nd: "\<not> 64 < d" by simp
  show ?case
  proof (cases t)
    case (TUnion ts)
    then have ne: "ts \<noteq> []" using "1.prems" normalize_union_nonempty by blast
    from "1.prems" obtain ns
      where ns: "map_result (\<lambda>t. normalize_at_depth t (d + 1)) ts = Inr ns"
        and t': "t' = union_of (sort_dedup static_type_key (concat (map union_members ns)))"
      using d ne TUnion by (auto simp: normalize_union)
    have "(\<exists>n \<in> set ns. f n) \<longleftrightarrow> (\<exists>t \<in> set ts. f t)"
      using map_result_set [OF ns] map_result_set' [OF ns] "1.IH"(1) [OF nd TUnion ne] by metis
    moreover
    have "f t' \<longleftrightarrow> (\<exists>n \<in> set ns. list_ex f (union_members n))"
      by (auto simp: t' f_union_of list_ex_iff)
    then have "f t' \<longleftrightarrow> (\<exists>n \<in> set ns. f n)" by (simp only: f_union_members)
    ultimately show ?thesis by (simp add: TUnion f_union list_ex_iff)
  next
    case (TOptional e)
    then have "f t' = f (TUnion [e, TNone])"
      using "1.IH"(2) [OF nd TOptional] "1.prems" d by (simp add: normalize_optional)
    then show ?thesis by (simp add: TOptional f_union f_optional f_none)
  next
    case (TCallable s)
    then show ?thesis using "1.IH"(3) [OF nd TCallable] "1.prems" d by (auto simp: normalize_callable)
  next
    case (TTypeVariable v)
    then show ?thesis using "1.prems" d f_type_variable by (auto simp: normalize_type_variable)
  next
    case (TLiteral l)
    then show ?thesis using "1.prems" d f_none f_literal_none
      by (auto simp: normalize_leaf split: if_splits)
  qed (use "1.prems" d in \<open>auto simp: normalize_leaf\<close>)
next
  case (2 s d)
  let ?np = "\<lambda>p. and_then (normalize_at_depth (param_type p) (d + 1)) (\<lambda>value_type.
         and_then (normalize_default (param_default p) (d + 1)) (\<lambda>def.
           Inr (ParameterTypeFact (param_name p) (param_kind p) value_type (param_origin p) def)))"
  from "2.prems" obtain r ps where r: "normalize_at_depth (sig_return_type s) (d + 1) = Inr r"
    and ps: "map_result ?np (sig_parameters s) = Inr ps"
    and s': "s' = CallableSignature ps r (sig_return_origin s) (sig_uncertainty s)"
    by (subst (asm) normalize_signature.simps) auto
  have "list_all2 (\<lambda>p p'. f (param_type p) = f (param_type p')) (sig_parameters s) ps"
  proof (rule list.rel_mono_strong)
    show "list_all2 (\<lambda>p p'. ?np p = Inr p') (sig_parameters s) ps"
      using ps by (simp only: map_result_eq_Inr)
  qed (use "2.IH"(2) [OF r] in auto)
  then have "f (TCallable (CallableSignature (sig_parameters s) (sig_return_type s)
        (sig_return_origin s) (sig_uncertainty s))) = f (TCallable s')"
    unfolding s' by (rule f_callable [OF "2.IH"(1) [OF r, symmetric]])
  then show ?case by simp
qed simp

end

interpretation uncertainty_q: union_disjunctive contains_uncertainty
proof
  fix r r' ps ps' ro u
  assume "contains_uncertainty r = contains_uncertainty r'"
    and "list_all2 (\<lambda>p p'. contains_uncertainty (param_type p) = contains_uncertainty (param_type p')) ps ps'"
  moreover from this(2)
  have "list_ex (\<lambda>p. contains_uncertainty (param_type p)) ps =
      list_ex (\<lambda>p. contains_uncertainty (param_type p)) ps'"
    by (induction rule: list_all2_induct) auto
  ultimately show "contains_uncertainty (TCallable (CallableSignature ps r ro u)) =
      contains_uncertainty (TCallable (CallableSignature ps' r' ro u))" by simp
qed simp_all

interpretation nominal_q: union_disjunctive "\<lambda>t. contains_nominal_class t c" for c
  by unfold_locales simp_all

lemma supported_union_of:
  "has_supported_value_shape (union_of ms) \<longleftrightarrow> ms \<noteq> [] \<and> (\<forall>m \<in> set ms. has_supported_value_shape m)"
  by (cases ms rule: list.exhaust; cases "tl ms") (auto simp: union_of_def list_all_iff)

lemma supported_union_members:
  "has_supported_value_shape n \<Longrightarrow>
     union_members n \<noteq> [] \<and> (\<forall>m \<in> set (union_members n). has_supported_value_shape m)"
  by (cases n rule: union_members.cases) (auto simp: list_all_iff)

lemma normalize_supported:
  "normalize_at_depth t d = Inr t' \<Longrightarrow> has_supported_value_shape t \<Longrightarrow> has_supported_value_shape t'"
  "normalize_signature s d = Inr s' \<Longrightarrow> True"
  "normalize_default df d = Inr df' \<Longrightarrow> True"
proof (induction t d and s d and df d arbitrary: t' and s' and df' rule: normalize_induct)
  case (1 t d)
  have d: "d \<le> 64" using "1.prems"(1) by (rule normalize_depth_bound)
  then have nd: "\<not> 64 < d" by simp
  show ?case
  proof (cases t)
    case (TUnion ts)
    then have ne: "ts \<noteq> []" using "1.prems" by auto
    from "1.prems" obtain ns
      where ns: "map_result (\<lambda>t. normalize_at_depth t (d + 1)) ts = Inr ns"
        and t': "t' = union_of (sort_dedup static_type_key (concat (map union_members ns)))"
      using d ne TUnion by (auto simp: normalize_union)
    have sup: "has_supported_value_shape n" if "n \<in> set ns" for n
      using map_result_set [OF ns that] "1.IH"(1) [OF nd TUnion ne] "1.prems"(2) TUnion
      by (auto simp: list_all_iff)
    have "ns \<noteq> []" using ns ne by (auto simp: map_result_eq_Inr)
    then have "concat (map union_members ns) \<noteq> []"
      using sup supported_union_members by (cases ns) force+
    then show ?thesis
      using sup supported_union_members by (auto simp: t' supported_union_of)
  next
    case (TOptional e)
    then show ?thesis
      using "1.IH"(2) [OF nd TOptional] "1.prems" d by (simp add: normalize_optional)
  qed (use "1.prems" d in \<open>auto simp: normalize_leaf\<close>)
qed simp_all

section \<open>Properties\<close>

text \<open>
  C25. A normalized type is in normal form (unions flattened, of at least two
  members, strictly sorted and free of nested unions; no \<open>Optional\<close> and no literal \<open>None\<close>;
  constraints sorted without duplicates), and normalizing it again changes nothing.
\<close>

theorem normalized_canonical:
  assumes "normalized t = Inr t'"
  shows "nf t' 0 \<and> normalized t' = Inr t'"
  using assms by (simp add: normalized_def normalize_nf normalize_idem)

theorem normalized_canonical_witness:
  "normalized (TOptional (TUnion [TNone, TExactBuiltin BInt])) = Inr (TUnion [TNone, TExactBuiltin BInt]) \<and>
   normalized (TUnion [TNone, TExactBuiltin BInt]) = Inr (TUnion [TNone, TExactBuiltin BInt])"
proof -
  have h: "normalized (TOptional (TUnion [TNone, TExactBuiltin BInt])) =
      Inr (TUnion [TNone, TExactBuiltin BInt])"
    by code_simp
  show ?thesis using h normalized_canonical [OF h] by blast
qed

text \<open>
  C26. Normalization fails exactly when the type contains an empty union or nests deeper
  than 64 levels, where \<open>Optional\<close> counts as two levels and a callable adds two.
\<close>

theorem normalized_succeeds_iff:
  "(\<exists>t'. normalized t = Inr t') \<longleftrightarrow> no_empty_union t \<and> nesting t \<le> 64"
  by (simp add: normalized_def normalize_succeeds_iff(1) fits_def)

text \<open>
  C27. Normalization neither hides nor invents uncertainty, keeps the set of nominal classes
  a type mentions, and keeps a supported value shape supported.
\<close>

theorem normalized_preserves:
  assumes "normalized t = Inr t'"
  shows "contains_uncertainty t' = contains_uncertainty t \<and>
    (\<forall>c. contains_nominal_class t' c = contains_nominal_class t c) \<and>
    (has_supported_value_shape t \<longrightarrow> has_supported_value_shape t')"
  using assms uncertainty_q.normalize_preserves(1) nominal_q.normalize_preserves(1)
    normalize_supported(1)
  unfolding normalized_def by blast

theorem normalized_preserves_witness:
  "contains_uncertainty (TUnion [TNone, TUnknown]) = contains_uncertainty (TOptional TUnknown) \<and>
   contains_uncertainty (TOptional TUnknown)"
proof -
  have h: "normalized (TOptional TUnknown) = Inr (TUnion [TNone, TUnknown])" by code_simp
  show ?thesis using normalized_preserves [OF h] by simp
qed

end
