(* ===== verification/Contract_Sample.thy ===== *)
theory Contract_Sample
  imports Contract_Facts
begin

text \<open>
  One small concrete catalogue, the input at which theorems with hypotheses are applied: a module
  \<open>m\<close> whose source declares a class \<open>A\<close>, a class \<open>B\<close> that derives from it, and nothing
  else. Class \<open>B\<close> is listed first, so that the catalogue is valid but not yet in canonical
  order. The digest function of the sample is constant.
\<close>

definition sample_sha256 :: "u8 list \<Rightarrow> u8 list" where
  "sample_sha256 _ = replicate 32 0"

definition sample_source :: "u8 list" where
  "sample_source = bytes_of_string (''class A:x:B'' @ CHR 0x0A # ''class B(A):A.f()'')"

definition sample_module :: module_content_id where
  "sample_module = \<lparr>mci_name = ''m'', source_hash = legacy_source_hash sample_source\<rparr>"

definition sample_digest :: fingerprint where
  "sample_digest = Fingerprint (replicate 32 0)"

definition sample_identity :: "string \<Rightarrow> u32 \<Rightarrow> u32 \<Rightarrow> source_identity" where
  "sample_identity name s e =
     \<lparr>id_module = sample_module, lexical_qualname = name,
      id_range = \<lparr>range_start = s, range_end = e\<rparr>, id_kind = DKClass\<rparr>"

definition sample_A :: source_identity where
  "sample_A = sample_identity ''A'' 0 11"

definition sample_B :: source_identity where
  "sample_B = sample_identity ''B'' 12 28"

definition sample_class :: "source_identity \<Rightarrow> base_reference list \<Rightarrow> class_type_fact" where
  "sample_class identity bs =
     \<lparr>class_identity = identity, class_bases = bs, class_metaclass = MetaBuiltinType,
      class_decorators = [], class_participation = Candidate, class_dictionary = CDDictionaryBearing,
      class_instance_fields = [], class_methods = [], class_class_members = [],
      class_inheritance = \<lparr>linearized_bases = bs, inheritance_complete = True\<rparr>,
      class_open = COOpenSubclassFamily, class_transform = None, class_uncertainty = {}\<rparr>"

definition sample_class_A :: class_type_fact where
  "sample_class_A = sample_class sample_A []"

definition sample_class_B :: class_type_fact where
  "sample_class_B = sample_class sample_B
     [BaseClass \<lparr>class_definition = sample_A, class_source_digest = sample_digest\<rparr>]"

definition sample_policy :: resolved_strict_policy where
  "sample_policy = \<lparr>strict_assign = False, checked_attr = True, class_overrides = []\<rparr>"

definition sample_facts :: module_type_facts where
  "sample_facts =
     \<lparr>facts_schema_version = ARTIFACT_SCHEMA_VERSION, facts_module = sample_module,
      facts_source_digest = sample_digest, facts_source_size = 28,
      facts_source_dialect = SoacStrict, facts_language_policy = sample_policy,
      facts_consumed_dependencies = [], facts_global_bindings = [],
      facts_classes = [sample_class_B, sample_class_A], facts_functions = [],
      facts_nominal_bindings = [], facts_attribute_sites = [], facts_call_sites = [],
      facts_diagnostics = []\<rparr>"

text \<open>The same catalogue in canonical order.\<close>

definition sample_sorted :: module_type_facts where
  "sample_sorted = sample_facts\<lparr>facts_classes := [sample_class_A, sample_class_B]\<rparr>"

lemmas sample_defs =
  sample_A_def sample_B_def sample_identity_def sample_class_A_def sample_class_B_def
  sample_class_def sample_facts_def sample_sorted_def sample_policy_def

lemma sample_A_less_B: "source_identity_key sample_A < source_identity_key sample_B"
  by (simp add: sample_A_def sample_B_def sample_identity_def source_identity_key_def less_okey_def
      okey_less_irrefl string_key_def)

lemma sample_B_not_le_A [simp]: "\<not> source_identity_key sample_B \<le> source_identity_key sample_A"
  using sample_A_less_B by simp

lemma sample_A_B: "sample_A \<noteq> sample_B"
  by (simp add: sample_A_def sample_B_def sample_identity_def)

lemma sample_class_fields [simp]:
  "class_identity (sample_class i bs) = i" "class_bases (sample_class i bs) = bs"
  "class_metaclass (sample_class i bs) = MetaBuiltinType" "class_decorators (sample_class i bs) = []"
  "class_participation (sample_class i bs) = Candidate"
  "class_instance_fields (sample_class i bs) = []" "class_methods (sample_class i bs) = []"
  "class_class_members (sample_class i bs) = []"
  "class_inheritance (sample_class i bs) = \<lparr>linearized_bases = bs, inheritance_complete = True\<rparr>"
  "class_transform (sample_class i bs) = None" "class_uncertainty (sample_class i bs) = {}"
  by (simp_all add: sample_class_def)

lemma sample_class_simps [simp]:
  "class_identity sample_class_A = sample_A" "class_identity sample_class_B = sample_B"
  "class_bases sample_class_A = []"
  "class_bases sample_class_B =
     [BaseClass \<lparr>class_definition = sample_A, class_source_digest = sample_digest\<rparr>]"
  by (simp_all add: sample_class_A_def sample_class_B_def)

lemma sample_facts_simps [simp]:
  "facts_classes sample_facts = [sample_class_B, sample_class_A]"
  "facts_classes sample_sorted = [sample_class_A, sample_class_B]"
  "facts_module sample_facts = sample_module" "facts_source_digest sample_facts = sample_digest"
  "facts_source_size sample_facts = 28" "facts_source_dialect sample_facts = SoacStrict"
  "facts_language_policy sample_facts = sample_policy"
  "facts_schema_version sample_facts = ARTIFACT_SCHEMA_VERSION"
  "facts_consumed_dependencies sample_facts = []" "facts_global_bindings sample_facts = []"
  "facts_functions sample_facts = []" "facts_nominal_bindings sample_facts = []"
  "facts_attribute_sites sample_facts = []" "facts_call_sites sample_facts = []"
  "facts_diagnostics sample_facts = []"
  by (simp_all add: sample_facts_def sample_sorted_def)

lemma sample_sorted_simps [simp]:
  "facts_module sample_sorted = sample_module" "facts_source_digest sample_sorted = sample_digest"
  "facts_source_size sample_sorted = 28" "facts_source_dialect sample_sorted = SoacStrict"
  "facts_language_policy sample_sorted = sample_policy"
  "facts_schema_version sample_sorted = ARTIFACT_SCHEMA_VERSION"
  "facts_consumed_dependencies sample_sorted = []" "facts_global_bindings sample_sorted = []"
  "facts_functions sample_sorted = []" "facts_nominal_bindings sample_sorted = []"
  "facts_attribute_sites sample_sorted = []" "facts_call_sites sample_sorted = []"
  "facts_diagnostics sample_sorted = []"
  by (simp_all add: sample_sorted_def)

lemma sample_policy_simps [simp]:
  "strict_assign sample_policy = False" "checked_attr sample_policy = True"
  "class_overrides sample_policy = []"
  by (simp_all add: sample_policy_def)

lemma sample_identity_simps [simp]:
  "id_module sample_A = sample_module" "id_module sample_B = sample_module"
  "id_kind sample_A = DKClass" "id_kind sample_B = DKClass"
  "lexical_qualname sample_A = ''A''" "lexical_qualname sample_B = ''B''"
  "id_range sample_A = \<lparr>range_start = 0, range_end = 11\<rparr>"
  "id_range sample_B = \<lparr>range_start = 12, range_end = 28\<rparr>"
  "mci_name sample_module = ''m''"
  "legacy_source_hash sample_source = source_hash sample_module"
  by (simp_all add: sample_A_def sample_B_def sample_identity_def sample_module_def)

section \<open>A richer catalogue\<close>

text \<open>
  Class \<open>A\<close> with a field \<open>x\<close> annotated with class \<open>B\<close>, bound as a module global, a
  static method \<open>f\<close>, and a call of it in the body of \<open>B\<close>.
\<close>

definition rich_x :: source_identity where
  "rich_x = \<lparr>id_module = sample_module, lexical_qualname = ''A.x'',
     id_range = \<lparr>range_start = 8, range_end = 11\<rparr>, id_kind = DKAssignment\<rparr>"

definition rich_ref :: "source_identity \<Rightarrow> class_reference" where
  "rich_ref i = \<lparr>class_definition = i, class_source_digest = sample_digest\<rparr>"

definition rich_field :: field_type_fact where
  "rich_field = \<lparr>field_name = ''x'', field_declaring_class = rich_ref sample_A,
     field_value_type = TNominalClass (rich_ref sample_B), field_annotation_origin = AOExplicit,
     field_annotation_definition = Some rich_x, field_field_kind = FKInstanceField,
     field_read = FRPythonAttribute, field_write = FWDeclaredField,
     field_initialization = IPMayBeAbsent, field_default = DefaultMissing,
     field_descriptor = descriptor_fact_default, field_uncertainty = {}\<rparr>"

definition rich_signature :: callable_signature where
  "rich_signature = CallableSignature [] TNone AOExplicit {}"

definition rich_method :: method_type_fact where
  "rich_method = \<lparr>method_name = ''f'', method_declaring_class = rich_ref sample_A,
     method_bound = MBStatic, method_signature = rich_signature, method_declared_final = False,
     method_override_policy = OPCompatibleSignatureRequired, method_implementation = None,
     method_generated = None, method_uncertainty = {UncDynamicDescriptor}\<rparr>"

definition rich_class_A :: class_type_fact where
  "rich_class_A = (sample_class sample_A [])\<lparr>class_instance_fields := [rich_field],
     class_methods := [rich_method]\<rparr>"

definition rich_global :: global_binding_fact where
  "rich_global = \<lparr>gb_name = ''B'', gb_mutability = GMUnknown,
     gb_value_type = TNominalBuiltin BType False, gb_definition = Some sample_B, gb_uncertainty = {}\<rparr>"

definition rich_binding :: nominal_binding_fact where
  "rich_binding = \<lparr>nb_owner = NBField \<lparr>fr_declaring_class = rich_ref sample_A,
       fr_annotation_definition = rich_x, fr_name = ''x''\<rparr>,
     nb_expression_range = \<lparr>range_start = 10, range_end = 11\<rparr>, nb_name = ''B'',
     nb_class = rich_ref sample_B, nb_binding = sample_B,
     nb_binding_scope = module_body sample_module 28\<rparr>"

definition rich_call :: call_site_fact where
  "rich_call = \<lparr>call_identity = \<lparr>cs_module = sample_module, cs_source_digest = sample_digest,
       cs_enclosing_function = sample_B, cs_expression_range = \<lparr>range_start = 23, range_end = 28\<rparr>,
       cs_expression_kind = AttributeCallExpr\<rparr>,
     call_receiver = None, call_attribute_name = Some ''f'',
     call_candidate_targets = [CTMethod (rich_ref sample_A) ''f'' None],
     call_binding = CBUnboundFunction, call_signature = rich_signature, call_result_type = TNone,
     call_uncertain = CUExactStaticTarget\<rparr>"

definition rich_facts :: module_type_facts where
  "rich_facts = sample_facts\<lparr>facts_classes := [rich_class_A, sample_class_B],
     facts_global_bindings := [rich_global], facts_nominal_bindings := [rich_binding],
     facts_call_sites := [rich_call]\<rparr>"

lemma rich_facts_simps [simp]:
  "facts_classes rich_facts = [rich_class_A, sample_class_B]"
  "facts_module rich_facts = sample_module" "facts_source_digest rich_facts = sample_digest"
  "facts_source_size rich_facts = 28" "facts_source_dialect rich_facts = SoacStrict"
  "facts_language_policy rich_facts = sample_policy"
  "facts_schema_version rich_facts = ARTIFACT_SCHEMA_VERSION"
  "facts_consumed_dependencies rich_facts = []" "facts_global_bindings rich_facts = [rich_global]"
  "facts_functions rich_facts = []" "facts_nominal_bindings rich_facts = [rich_binding]"
  "facts_attribute_sites rich_facts = []" "facts_call_sites rich_facts = [rich_call]"
  "facts_diagnostics rich_facts = []"
  by (simp_all add: rich_facts_def)

lemma rich_class_simps [simp]:
  "class_identity rich_class_A = sample_A" "class_bases rich_class_A = []"
  "class_metaclass rich_class_A = MetaBuiltinType" "class_decorators rich_class_A = []"
  "class_participation rich_class_A = Candidate" "class_instance_fields rich_class_A = [rich_field]"
  "class_methods rich_class_A = [rich_method]" "class_class_members rich_class_A = []"
  "class_inheritance rich_class_A = \<lparr>linearized_bases = [], inheritance_complete = True\<rparr>"
  "class_transform rich_class_A = None" "class_uncertainty rich_class_A = {}"
  by (simp_all add: rich_class_A_def)

end
