(* ===== verification/Contract_Inheritance.thy ===== *)
theory Contract_Inheritance
  imports Contract_Sample
begin

text \<open>
  The check for cyclic logical inheritance: \<open>Context::inheritance_graph\<close> of
  \<^verbatim>\<open>crates/soac_contracts/src/validation.rs\<close>, a depth-first search with an explicit stack.

  The catalogue of classes is the \<open>BTreeMap\<close> of the validator, an association list in key
  order. The inner \<open>while\<close> loop is \<open>walk_bases\<close>; a stack entry carries the flag
  \<open>exiting\<close>, a state is 1 while a class is being visited and 2 when it is done. The locale
  \<open>explicit_search\<close> states what the loop promises of any finite graph, and is interpreted on
  it.

  Theorem: the search terminates and succeeds exactly if the direct-base relation between the
  classes of the catalogue is acyclic.
\<close>

section \<open>The search\<close>

type_synonym class_map = "(source_identity \<times> class_type_fact) list"

definition class_map_of :: "class_type_fact list \<Rightarrow> class_map" where
  "class_map_of classes =
     sort_key (\<lambda>(identity, _). source_identity_key identity)
       (map (\<lambda>class. (class_identity class, class)) classes)"

text \<open>The bases of a class that are classes of the catalogue, in the order they are visited.\<close>

definition local_bases :: "class_map \<Rightarrow> source_identity \<Rightarrow> source_identity list" where
  "local_bases classes identity =
     (case map_of classes identity of
        None \<Rightarrow> []
      | Some class \<Rightarrow>
          filter (\<lambda>base. map_of classes base \<noteq> None)
            (map class_definition (List.map_filter as_class (class_bases class))))"

type_synonym visit_state = "source_identity \<Rightarrow> nat option"
type_synonym visit_stack = "(source_identity \<times> bool) list"

lemma local_bases_keys: "set (local_bases classes identity) \<subseteq> fst ` set classes"
  by (auto simp: local_bases_def split: option.splits dest!: map_of_SomeD intro: rev_image_eqI)

definition unvisited :: "class_map \<Rightarrow> visit_state \<Rightarrow> visit_stack \<Rightarrow> source_identity set" where
  "unvisited classes state pending =
     {identity \<in> fst ` set classes \<union> fst ` set pending. state identity \<noteq> Some 1 \<and> state identity \<noteq> Some 2}"

lemma card_unvisited_mono:
  "unvisited classes state' pending' \<subseteq> unvisited classes state pending \<Longrightarrow>
   card (unvisited classes state' pending') \<le> card (unvisited classes state pending)"
  by (rule card_mono) (simp_all add: unvisited_def)

lemma card_unvisited_visit:
  assumes "state identity \<noteq> Some 1" "state identity \<noteq> Some 2"
  shows "card (unvisited classes (state(identity \<mapsto> 1))
      (map (\<lambda>base. (base, False)) (local_bases classes identity) @ (identity, True) # pending))
    < card (unvisited classes state ((identity, False) # pending))"
proof (rule psubset_card_mono)
  have "set (local_bases classes identity) \<subseteq> fst ` set classes" by (rule local_bases_keys)
  moreover have "identity \<in> unvisited classes state ((identity, False) # pending)"
    using assms by (simp add: unvisited_def)
  ultimately show "unvisited classes (state(identity \<mapsto> 1))
      (map (\<lambda>base. (base, False)) (local_bases classes identity) @ (identity, True) # pending)
    \<subset> unvisited classes state ((identity, False) # pending)"
    by (auto simp: unvisited_def)
qed (simp add: unvisited_def)

function walk_bases :: "class_map \<Rightarrow> visit_state \<Rightarrow> visit_stack \<Rightarrow> visit_state result" where
  "walk_bases classes state [] = Inr state"
| "walk_bases classes state ((identity, exiting) # pending) =
     (if exiting then walk_bases classes (state(identity \<mapsto> 2)) pending
      else if state identity = Some 2 then walk_bases classes state pending
      else if state identity = Some 1 then
        Inl (InvalidStructure ''cyclic logical class inheritance'')
      else walk_bases classes (state(identity \<mapsto> 1))
        (map (\<lambda>base. (base, False)) (local_bases classes identity) @ (identity, True) # pending))"
  by pat_completeness auto
termination
proof (relation "measures [\<lambda>(classes, state, pending). card (unvisited classes state pending),
    \<lambda>(_, _, pending). length pending]", goal_cases)
  case (2 classes state identity exiting pending)
  have "card (unvisited classes (state(identity \<mapsto> 2)) pending)
      \<le> card (unvisited classes state ((identity, exiting) # pending))"
    by (rule card_unvisited_mono) (auto simp: unvisited_def)
  then show ?case by auto
next
  case (3 classes state identity exiting pending)
  have "card (unvisited classes state pending)
      \<le> card (unvisited classes state ((identity, exiting) # pending))"
    by (rule card_unvisited_mono) (auto simp: unvisited_def)
  then show ?case by auto
next
  case (4 classes state identity exiting pending)
  then show ?case using card_unvisited_visit [of state identity classes pending] by simp
qed simp

definition inheritance_graph :: "class_map \<Rightarrow> unit result" where
  "inheritance_graph classes =
     and_then (fold_result
       (\<lambda>state identity. if state identity = Some 2 then Inr state
                         else walk_bases classes state [(identity, False)])
       (\<lambda>_. None) (map fst classes)) (\<lambda>_. Inr ())"

section \<open>The contract of an explicit-stack search\<close>

locale explicit_search =
  fixes succs :: "'a \<Rightarrow> 'a list"
    and walk :: "('a \<Rightarrow> nat option) \<Rightarrow> ('a \<times> bool) list \<Rightarrow> 'e + ('a \<Rightarrow> nat option)"
  assumes walk_induct: "\<And>P (state :: 'a \<Rightarrow> nat option) stack.
      \<lbrakk>\<And>state. P state [];
       \<And>state n pending. P (state(n \<mapsto> 2)) pending \<Longrightarrow> P state ((n, True) # pending);
       \<And>state n pending. state n = Some 2 \<Longrightarrow> P state pending \<Longrightarrow> P state ((n, False) # pending);
       \<And>state n pending. state n = Some 1 \<Longrightarrow> P state ((n, False) # pending);
       \<And>state n pending. state n \<noteq> Some 1 \<Longrightarrow> state n \<noteq> Some 2 \<Longrightarrow>
         P (state(n \<mapsto> 1)) (map (\<lambda>m. (m, False)) (succs n) @ (n, True) # pending) \<Longrightarrow>
         P state ((n, False) # pending)\<rbrakk> \<Longrightarrow> P state stack"
    and walk_Nil: "walk state [] = Inr state"
    and walk_exit: "walk state ((n, True) # pending) = walk (state(n \<mapsto> 2)) pending"
    and walk_done: "state n = Some 2 \<Longrightarrow> walk state ((n, False) # pending) = walk state pending"
    and walk_cycle: "state n = Some 1 \<Longrightarrow> \<exists>e. walk state ((n, False) # pending) = Inl e"
    and walk_enter: "state n \<noteq> Some 1 \<Longrightarrow> state n \<noteq> Some 2 \<Longrightarrow>
      walk state ((n, False) # pending) =
        walk (state(n \<mapsto> 1)) (map (\<lambda>m. (m, False)) (succs n) @ (n, True) # pending)"
begin

definition edges :: "('a \<times> 'a) set" where
  "edges = {(n, m). m \<in> set (succs n)}"

definition finished :: "('a \<Rightarrow> nat option) \<Rightarrow> 'a set" where
  "finished state = {n. state n = Some 2}"

text \<open>The class whose bases are being visited at the top of the stack.\<close>

fun visiting :: "('a \<times> bool) list \<Rightarrow> 'a option" where
  "visiting [] = None"
| "visiting ((n, True) # stack) = Some n"
| "visiting ((n, False) # stack) = visiting stack"

fun linked :: "('a \<times> bool) list \<Rightarrow> bool" where
  "linked [] = True"
| "linked ((n, b) # stack) =
     (linked stack \<and> (case visiting stack of None \<Rightarrow> True | Some m \<Rightarrow> (m, n) \<in> edges))"

text \<open>Every base of a class on the stack is finished or above it.\<close>

fun covered :: "('a \<Rightarrow> nat option) \<Rightarrow> ('a \<times> bool) list \<Rightarrow> 'a set \<Rightarrow> bool" where
  "covered state [] seen = True"
| "covered state ((n, b) # stack) seen =
     ((b \<longrightarrow> set (succs n) \<subseteq> finished state \<union> seen) \<and> covered state stack (insert n seen))"

definition search_inv :: "('a \<Rightarrow> nat option) \<Rightarrow> ('a \<times> bool) list \<Rightarrow> bool" where
  "search_inv state stack \<longleftrightarrow>
     (\<forall>n. state n = Some 1 \<longleftrightarrow> (n, True) \<in> set stack) \<and>
     distinct (map fst (filter snd stack)) \<and> linked stack \<and> covered state stack {} \<and>
     edges `` finished state \<subseteq> finished state \<and>
     acyclic (edges \<inter> finished state \<times> finished state)"

lemma covered_mono:
  "covered state stack A \<Longrightarrow> finished state \<union> A \<subseteq> finished state' \<union> A' \<Longrightarrow> covered state' stack A'"
proof (induction stack arbitrary: A A')
  case (Cons e stack)
  then show ?case by (cases e) (auto intro!: Cons.IH [of "insert (fst e) A"])
qed simp

lemma covered_pending:
  "covered state (map (\<lambda>m. (m, False)) ms @ stack) A = covered state stack (set ms \<union> A)"
  by (induction ms arbitrary: A) auto

lemma linked_pending:
  "linked (map (\<lambda>m. (m, False)) ms @ stack) \<longleftrightarrow>
     linked stack \<and> (\<forall>m \<in> set ms. case visiting stack of None \<Rightarrow> True | Some n \<Rightarrow> (n, m) \<in> edges)"
proof -
  have "visiting (map (\<lambda>m. (m, False)) ms @ stack) = visiting stack" for ms
    by (induction ms) auto
  then show ?thesis by (induction ms) auto
qed

lemma visiting_exists: "(m, True) \<in> set stack \<Longrightarrow> \<exists>n. visiting stack = Some n"
  by (induction stack rule: visiting.induct) auto

lemma linked_path:
  assumes "linked stack" "(m, True) \<in> set stack" "visiting stack = Some n"
  shows "(m, n) \<in> edges\<^sup>*"
  using assms
proof (induction stack arbitrary: n)
  case (Cons e stack)
  obtain k b where e: "e = (k, b)" by fastforce
  show ?case
  proof (cases "b \<and> m \<noteq> k")
    case True
    with Cons.prems e have m: "(m, True) \<in> set stack" and k: "k = n" by auto
    obtain j where j: "visiting stack = Some j" using visiting_exists [OF m] by blast
    with Cons e m have "(m, j) \<in> edges\<^sup>*" by simp
    moreover have "(j, n) \<in> edges" using Cons.prems e j k by simp
    ultimately show ?thesis by (rule rtrancl_into_rtrancl)
  next
    case False
    with Cons e show ?thesis by (cases b) auto
  qed
qed simp

lemma search_inv_cycle:
  assumes "search_inv state ((n, False) # pending)" "state n = Some 1"
  shows "\<not> acyclic edges"
proof -
  have n: "(n, True) \<in> set pending" and linked: "linked ((n, False) # pending)"
    using assms by (auto simp: search_inv_def)
  obtain m where m: "visiting pending = Some m" using visiting_exists [OF n] by blast
  have "(n, m) \<in> edges\<^sup>*" using linked n m by (auto intro: linked_path)
  moreover have "(m, n) \<in> edges" using linked m by simp
  ultimately have "(n, n) \<in> edges\<^sup>+" by (rule rtrancl_into_trancl1)
  then show ?thesis by (auto simp: acyclic_def)
qed

lemma acyclic_finish:
  assumes "acyclic (edges \<inter> F \<times> F)" "edges `` F \<subseteq> F" "n \<notin> F" "set (succs n) \<subseteq> F"
  shows "acyclic (edges \<inter> insert n F \<times> insert n F)"
proof -
  let ?R = "edges \<inter> F \<times> F" and ?R' = "edges \<inter> insert n F \<times> insert n F"
  have step: "(x, y) \<in> ?R' \<Longrightarrow> y \<in> F" for x y
    using assms by (auto simp: edges_def)
  have "(x, y) \<in> ?R\<^sup>+" if "(x, y) \<in> ?R'\<^sup>+" "x \<in> F" for x y
    using that
  proof (induction rule: trancl_induct)
    case (base y)
    then show ?case using step by blast
  next
    case (step y z)
    then have "(x, y) \<in> ?R\<^sup>+" by blast
    moreover have "y \<in> F" using \<open>(x, y) \<in> ?R\<^sup>+\<close> by (auto elim: trancl.cases)
    moreover have "(y, z) \<in> ?R" using step.hyps(2) \<open>y \<in> F\<close> assms(2) by blast
    ultimately show ?case by (meson trancl.trancl_into_trancl)
  qed
  moreover have "x \<in> F" if "(x, x) \<in> ?R'\<^sup>+" for x
    using that step by (meson tranclD2)
  ultimately show ?thesis using assms(1) by (auto simp: acyclic_def)
qed

lemma search_inv_exit:
  assumes "search_inv state ((n, True) # pending)"
  shows "search_inv (state(n \<mapsto> 2)) pending"
proof -
  have fin: "finished (state(n \<mapsto> 2)) = insert n (finished state)"
    by (auto simp: finished_def)
  have grey: "\<And>m. state m = Some 1 \<longleftrightarrow> (m, True) \<in> set ((n, True) # pending)"
    and dist: "distinct (map fst (filter snd ((n, True) # pending)))"
    using assms unfolding search_inv_def by blast+
  have n: "n \<notin> finished state" using grey [of n] by (simp add: finished_def)
  have "(n, True) \<notin> set pending" using dist by (force simp: image_iff)
  then have grey': "\<forall>m. (state(n \<mapsto> 2)) m = Some 1 \<longleftrightarrow> (m, True) \<in> set pending"
    using grey by auto
  have succs: "set (succs n) \<subseteq> finished state"
    and closed: "edges `` finished state \<subseteq> finished state"
    and acyc: "acyclic (edges \<inter> finished state \<times> finished state)"
    and cov: "covered state pending {n}"
    using assms by (auto simp: search_inv_def)
  have "edges `` insert n (finished state) \<subseteq> insert n (finished state)"
    using closed succs by (auto simp: edges_def)
  moreover have "acyclic (edges \<inter> insert n (finished state) \<times> insert n (finished state))"
    using acyc closed n succs by (rule acyclic_finish)
  moreover have "covered (state(n \<mapsto> 2)) pending {}"
    using cov by (rule covered_mono) (simp add: fin)
  ultimately show ?thesis
    using assms grey' dist unfolding search_inv_def fin by simp
qed

lemma search_inv_done:
  assumes "search_inv state ((n, False) # pending)" "state n = Some 2"
  shows "search_inv state pending"
proof -
  have "covered state pending {n}" using assms by (simp add: search_inv_def)
  then have "covered state pending {}"
    by (rule covered_mono) (use assms in \<open>simp add: finished_def\<close>)
  then show ?thesis using assms by (auto simp: search_inv_def)
qed

lemma search_inv_enter:
  assumes "search_inv state ((n, False) # pending)" "state n \<noteq> Some 1" "state n \<noteq> Some 2"
  shows "search_inv (state(n \<mapsto> 1)) (map (\<lambda>m. (m, False)) (succs n) @ (n, True) # pending)"
proof -
  have fin: "finished (state(n \<mapsto> 1)) = finished state"
    using assms(3) by (auto simp: finished_def)
  have "covered state pending {n}" using assms by (simp add: search_inv_def)
  then have "covered (state(n \<mapsto> 1)) pending (insert n (set (succs n)))"
    by (rule covered_mono) (use fin in auto)
  moreover have "filter snd (map (\<lambda>m. (m, False)) ms) = []" for ms :: "'a list"
    by (induction ms) auto
  ultimately show ?thesis
    using assms unfolding search_inv_def fin covered_pending linked_pending
    by (auto simp: fin edges_def)
qed

lemma finished_upd:
  "finished (state(n \<mapsto> 2)) = insert n (finished state)"
  "state n \<noteq> Some 2 \<Longrightarrow> finished (state(n \<mapsto> 1)) = finished state"
  by (auto simp: finished_def)

lemma walk_finished:
  assumes "search_inv state stack" "walk state stack = Inr state'"
  shows "search_inv state' [] \<and> finished state \<subseteq> finished state' \<and> fst ` set stack \<subseteq> finished state'"
  using assms
proof (induction state stack rule: walk_induct)
  case (2 state n pending)
  from "2.IH" [OF search_inv_exit [OF "2.prems"(1)]] "2.prems"(2) show ?case
    by (simp only: walk_exit finished_upd) simp
next
  case (3 state n pending)
  have "n \<in> finished state" using 3 by (simp add: finished_def)
  moreover from "3.IH" [OF search_inv_done [OF "3.prems"(1) "3.hyps"]] "3.prems"(2) "3.hyps"
  have "search_inv state' [] \<and> finished state \<subseteq> finished state' \<and> fst ` set pending \<subseteq> finished state'"
    by (simp only: walk_done)
  ultimately show ?case by auto
next
  case (4 state n pending)
  then show ?case using walk_cycle [of state n pending] by auto
next
  case (5 state n pending)
  from "5.IH" [OF search_inv_enter [OF "5.prems"(1) "5.hyps"]] "5.prems"(2) "5.hyps"
  have "search_inv state' [] \<and> finished state \<subseteq> finished state' \<and>
      fst ` set (map (\<lambda>m. (m, False)) (succs n) @ (n, True) # pending) \<subseteq> finished state'"
    by (simp only: walk_enter finished_upd not_False_eq_True)
  then show ?case by auto
qed (simp add: walk_Nil)

lemma walk_error:
  assumes "search_inv state stack" "walk state stack = Inl e"
  shows "\<not> acyclic edges"
  using assms
proof (induction state stack rule: walk_induct)
  case (2 state n pending)
  have "walk (state(n \<mapsto> 2)) pending = Inl e" using "2.prems"(2) by (simp only: walk_exit)
  with search_inv_exit [OF "2.prems"(1)] show ?case by (rule "2.IH")
next
  case (3 state n pending)
  have "walk state pending = Inl e" using "3.prems"(2) "3.hyps" by (simp only: walk_done)
  with search_inv_done [OF "3.prems"(1) "3.hyps"] show ?case by (rule "3.IH")
next
  case (4 state n pending)
  from "4.prems"(1) "4.hyps" show ?case by (rule search_inv_cycle)
next
  case (5 state n pending)
  have "walk (state(n \<mapsto> 1)) (map (\<lambda>m. (m, False)) (succs n) @ (n, True) # pending) = Inl e"
    using "5.prems"(2) "5.hyps" by (simp only: walk_enter not_False_eq_True)
  with search_inv_enter [OF "5.prems"(1) "5.hyps"] show ?case by (rule "5.IH")
qed (simp add: walk_Nil)

lemma search_inv_start:
  "search_inv state [] \<Longrightarrow> state n \<noteq> Some 2 \<Longrightarrow> search_inv state [(n, False)]"
  by (simp add: search_inv_def)

lemma roots_finished:
  assumes "search_inv state []"
    and "fold_result (\<lambda>state n. if state n = Some 2 then Inr state else walk state [(n, False)]) state ns =
      Inr state'"
  shows "search_inv state' [] \<and> finished state \<union> set ns \<subseteq> finished state'"
  using assms
proof (induction ns arbitrary: state)
  case (Cons n ns)
  show ?case
  proof (cases "state n = Some 2")
    case True
    then have "n \<in> finished state" by (simp add: finished_def)
    with True Cons show ?thesis by fastforce
  next
    case False
    with Cons.prems obtain state1 where
        1: "walk state [(n, False)] = Inr state1"
      and 2: "fold_result (\<lambda>state n. if state n = Some 2 then Inr state else walk state [(n, False)])
        state1 ns = Inr state'"
      by auto
    from walk_finished [OF search_inv_start [OF Cons.prems(1) False] 1]
    have "search_inv state1 []" "insert n (finished state) \<subseteq> finished state1" by auto
    with Cons.IH [OF _ 2] show ?thesis by auto
  qed
qed simp

lemma roots_error:
  assumes "search_inv state []"
    and "fold_result (\<lambda>state n. if state n = Some 2 then Inr state else walk state [(n, False)]) state ns =
      Inl e"
  shows "\<not> acyclic edges"
  using assms
proof (induction ns arbitrary: state)
  case (Cons n ns)
  show ?case
  proof (cases "state n = Some 2")
    case True
    with Cons show ?thesis by simp
  next
    case False
    note start = search_inv_start [OF Cons.prems(1) False]
    show ?thesis
    proof (cases "walk state [(n, False)]")
      case (Inl e')
      with start show ?thesis by (rule walk_error)
    next
      case (Inr state1)
      then have "search_inv state1 []" using walk_finished [OF start] by blast
      with Cons Inr False show ?thesis by simp
    qed
  qed
qed simp

lemma search_ok_iff:
  assumes "fst ` edges \<subseteq> set ns"
  shows "and_then (fold_result
      (\<lambda>state n. if state n = Some 2 then Inr state else walk state [(n, False)]) (\<lambda>_. None) ns)
      (\<lambda>_. Inr ()) = Inr () \<longleftrightarrow> acyclic edges"
    (is "and_then ?r _ = _ \<longleftrightarrow> _")
proof -
  have init: "search_inv (\<lambda>_. None) []" by (simp add: search_inv_def finished_def acyclic_def)
  show ?thesis
  proof (cases ?r)
    case (Inl e)
    then show ?thesis using roots_error [OF init Inl] by simp
  next
    case (Inr state)
    then have inv: "search_inv state []" and "set ns \<subseteq> finished state"
      using roots_finished [OF init Inr] by auto
    with assms have "edges \<inter> finished state \<times> finished state = edges"
      by (fastforce simp: search_inv_def)
    with inv Inr show ?thesis by (simp add: search_inv_def)
  qed
qed

end

section \<open>The search of the validator\<close>

interpretation bases: explicit_search "local_bases classes" "walk_bases classes" for classes
proof unfold_locales
  fix P :: "visit_state \<Rightarrow> visit_stack \<Rightarrow> bool" and state stack
  assume steps: "\<And>state. P state []"
    "\<And>state n pending. P (state(n \<mapsto> 2)) pending \<Longrightarrow> P state ((n, True) # pending)"
    "\<And>state n pending. state n = Some 2 \<Longrightarrow> P state pending \<Longrightarrow> P state ((n, False) # pending)"
    "\<And>state n pending. state n = Some 1 \<Longrightarrow> P state ((n, False) # pending)"
    "\<And>state n pending. state n \<noteq> Some 1 \<Longrightarrow> state n \<noteq> Some 2 \<Longrightarrow>
       P (state(n \<mapsto> 1)) (map (\<lambda>m. (m, False)) (local_bases classes n) @ (n, True) # pending) \<Longrightarrow>
       P state ((n, False) # pending)"
  show "P state stack"
    using steps
  proof (induction classes state stack rule: walk_bases.induct)
    case (2 classes state n exiting pending)
    note IH = 2(1-3) and steps = 2(4-8)
    consider "exiting" | "\<not> exiting" "state n = Some 2" | "\<not> exiting" "state n = Some 1"
      | "\<not> exiting" "state n \<noteq> Some 1" "state n \<noteq> Some 2" by blast
    then show ?case
    proof cases
      case 1
      have "P (state(n \<mapsto> 2)) pending" using steps by (rule IH(1) [OF 1])
      from steps(2) [of state n pending, OF this] 1 show ?thesis by simp
    next
      case 2
      have "P state pending" using steps by (rule IH(2) [OF 2])
      from steps(3) [of state n pending, OF 2(2) this] 2 show ?thesis by simp
    next
      case 3
      from steps(4) [of state n pending, OF 3(2)] 3 show ?thesis by simp
    next
      case 4
      have "P (state(n \<mapsto> 1)) (map (\<lambda>m. (m, False)) (local_bases classes n) @ (n, True) # pending)"
        using steps by (rule IH(3) [OF 4(1,3,2)])
      from steps(5) [of state n pending, OF 4(2,3) this] 4(1) show ?thesis by simp
    qed
  qed
qed simp_all

text \<open>The direct-base relation between the classes of a catalogue.\<close>

definition derives_from :: "class_type_fact list \<Rightarrow> (source_identity \<times> source_identity) set" where
  "derives_from classes =
     {(class_identity c, class_definition r) | c r.
        c \<in> set classes \<and> BaseClass r \<in> set (class_bases c) \<and>
        class_definition r \<in> class_identity ` set classes}"

lemma class_map_of_props:
  "set (class_map_of classes) = (\<lambda>c. (class_identity c, c)) ` set classes"
  "distinct (map class_identity classes) \<Longrightarrow> distinct (map fst (class_map_of classes))"
proof -
  show "set (class_map_of classes) = (\<lambda>c. (class_identity c, c)) ` set classes"
    by (simp add: class_map_of_def)
  assume "distinct (map class_identity classes)"
  moreover have "mset (map fst (class_map_of classes)) = mset (map class_identity classes)"
    by (simp add: class_map_of_def image_mset.compositionality comp_def)
  ultimately show "distinct (map fst (class_map_of classes))"
    by (metis mset_eq_imp_distinct_iff)
qed

lemma lookup_class:
  assumes "distinct (map class_identity classes)"
  shows "map_of (class_map_of classes) i = Some c \<longleftrightarrow> c \<in> set classes \<and> class_identity c = i"
  using class_map_of_props [of classes] assms by (auto simp: map_of_eq_Some_iff)

lemma lookup_class_None:
  "map_of (class_map_of classes) i = None \<longleftrightarrow> i \<notin> class_identity ` set classes"
  by (auto simp: map_of_eq_None_iff class_map_of_props image_image)

lemma as_class_base: "as_class b = Some r \<longleftrightarrow> b = BaseClass r"
  by (cases b) auto

lemma local_bases_iff:
  assumes "distinct (map class_identity classes)"
  shows "m \<in> set (local_bases (class_map_of classes) n) \<longleftrightarrow> (n, m) \<in> derives_from classes"
proof -
  have "set (List.map_filter as_class bs) = {r. BaseClass r \<in> set bs}" for bs
    by (auto simp: List.map_filter_def as_class_base image_iff)
      (metis as_class_base option.sel)
  then have eq: "m \<in> set (local_bases (class_map_of classes) n) \<longleftrightarrow>
      (\<exists>c. map_of (class_map_of classes) n = Some c \<and>
         (\<exists>r. BaseClass r \<in> set (class_bases c) \<and> class_definition r = m) \<and>
         map_of (class_map_of classes) m \<noteq> None)"
    by (cases "map_of (class_map_of classes) n") (auto simp: local_bases_def)
  show ?thesis
    unfolding eq derives_from_def lookup_class [OF assms] lookup_class_None by blast
qed

lemma base_edges:
  assumes "distinct (map class_identity classes)"
  shows "bases.edges (class_map_of classes) = derives_from classes"
  by (simp add: bases.edges_def local_bases_iff [OF assms])

lemma inheritance_graph_acyclic:
  assumes "distinct (map class_identity classes)"
  shows "inheritance_graph (class_map_of classes) = Inr () \<longleftrightarrow> acyclic (derives_from classes)"
proof -
  have "fst ` bases.edges (class_map_of classes) \<subseteq> set (map fst (class_map_of classes))"
    by (auto simp: base_edges [OF assms] derives_from_def class_map_of_props image_iff)
  from bases.search_ok_iff [OF this] show ?thesis
    unfolding inheritance_graph_def base_edges [OF assms] .
qed

text \<open>
  C21. The cycle check is exact: on a catalogue with distinct class identities the search terminates,
  and it accepts exactly the acyclic direct-base relations.
\<close>

theorem inheritance_graph_iff_acyclic:
  assumes "distinct (map class_identity classes)"
  shows "inheritance_graph (class_map_of classes) = Inr () \<longleftrightarrow> acyclic (derives_from classes)"
  by (rule inheritance_graph_acyclic [OF assms])

theorem inheritance_graph_iff_acyclic_witness:
  "distinct (map class_identity (facts_classes sample_facts)) \<and>
   inheritance_graph (class_map_of (facts_classes sample_facts)) = Inr ()"
proof -
  have distinct: "distinct (map class_identity (facts_classes sample_facts))"
    using sample_A_B by simp
  have "derives_from (facts_classes sample_facts) \<subseteq> {(sample_B, sample_A)}"
    using sample_A_B by (auto simp: derives_from_def)
  moreover have "trans {(sample_B, sample_A)}"
    using sample_A_B by (auto simp: trans_def)
  then have "acyclic {(sample_B, sample_A)}"
    using sample_A_B by (simp add: acyclic_def trancl_id)
  ultimately have "acyclic (derives_from (facts_classes sample_facts))"
    by (rule acyclic_subset [rotated])
  with distinct show ?thesis
    using inheritance_graph_iff_acyclic [OF distinct] by blast
qed

end
