(* ===== verification/Contract_Context.thy ===== *)
theory Contract_Context
  imports Contract_Normalize Contract_Inheritance
begin

text \<open>
  Validation of names, ranges, references, types and signatures: the helpers and the methods of
  \<open>Context\<close> in \<^verbatim>\<open>crates/soac_contracts/src/validation.rs\<close> that every catalogue uses, and
  \<open>validate_dependencies\<close> of \<^verbatim>\<open>artifact.rs\<close>.

  Each check is a function to \<open>unit result\<close> with the code's order of checks, so that the
  first failing check determines the error. The \<open>BTreeMap\<close>s of the context are association
  lists and maps, its \<open>BTreeSet\<close>s are sets.

  Theorems: a signature is accepted exactly if it is in Python binding order and its parts are
  accepted; a validated reference resolves to one definition of the catalogue or lies inside a
  pinned dependency; normalization keeps the validity of types.
\<close>

section \<open>Names, ranges and literals\<close>

definition structure_error :: "string \<Rightarrow> contract_error" where
  "structure_error message = InvalidStructure message"

definition validate_name :: "string \<Rightarrow> unit result" where
  "validate_name name =
     fail_if (name = [] \<or> length name > 4096 \<or> has_control name \<or>
              list_ex (\<lambda>c. c \<in> {CHR ''/'', CHR 0x5C, CHR ''.''}) name)
       (structure_error ''invalid member or parameter name'')"

definition validate_module_name :: "string \<Rightarrow> unit result" where
  "validate_module_name name =
     fail_if (length name > 4096 \<or>
              list_ex (\<lambda>component. is_err (validate_name component)) (split_on (CHR ''.'') name))
       (InvalidSourceIdentity ''invalid canonical module name'')"

definition validate_qualname :: "string \<Rightarrow> unit result" where
  "validate_qualname name =
     fail_if (name = [] \<or> length name > 16384 \<or> has_control name)
       (InvalidSourceIdentity ''invalid lexical qualified name'')"

definition validate_range :: "source_range \<Rightarrow> u32 \<Rightarrow> unit result" where
  "validate_range r size32 =
     fail_if (range_start r > range_end r \<or> range_end r > size32)
       (InvalidSourceIdentity ''byte range is outside its source'')"

definition validate_definition_range :: "source_identity \<Rightarrow> unit result" where
  "validate_definition_range identity =
     fail_if (id_kind identity \<noteq> DKModule \<and>
              range_start (id_range identity) = range_end (id_range identity))
       (InvalidSourceIdentity ''source definition has an empty range'')"

definition strip_minus :: "string \<Rightarrow> string" where
  "strip_minus v = (case v of c # cs \<Rightarrow> if c = CHR ''-'' then cs else v | [] \<Rightarrow> v)"

fun validate_literal :: "literal_value \<Rightarrow> unit result" where
  "validate_literal (LInt v) =
     (let digits = strip_minus v in
      fail_if (digits = [] \<or> \<not> list_all is_ascii_digit digits \<or>
               (length digits > 1 \<and> starts_with ''0'' digits) \<or> v = ''-0'')
        (InvalidType ''integer literal is not canonical decimal''))"
| "validate_literal _ = Inr ()"

definition validate_dependencies :: "dependency_fingerprint list \<Rightarrow> string \<Rightarrow> unit result" where
  "validate_dependencies dependencies owner =
     for_unique
       (\<lambda>d. and_then (validate_module_name (mci_name (dep_module d))) (\<lambda>_.
          fail_if (mci_name (dep_module d) = owner)
            (InvalidStructure ''a shard must not list itself as an external dependency'')))
       (\<lambda>d. mci_name (dep_module d))
       (\<lambda>d. DependencyMismatch (mci_name (dep_module d)))
       (\<lambda>_. Inr ()) {} dependencies"

section \<open>The context\<close>

record validation_context =
  ctx_facts :: module_type_facts
  ctx_source :: "u8 list option"
  ctx_definitions :: "source_identity set"
  ctx_classes :: class_map
  ctx_functions :: "source_identity set"
  ctx_dependencies :: "string \<Rightarrow> dependency_fingerprint option"

definition local_range :: "validation_context \<Rightarrow> source_range \<Rightarrow> unit result" where
  "local_range self r =
     and_then (validate_range r (facts_source_size (ctx_facts self))) (\<lambda>_.
     for_option (\<lambda>source.
       fail_if (\<not> is_char_boundary source (unat (range_start r)) \<or>
                \<not> is_char_boundary source (unat (range_end r)))
         (InvalidSourceIdentity ''source range splits a UTF-8 code point'')) (ctx_source self))"

definition local_definition :: "validation_context \<Rightarrow> source_identity \<Rightarrow> unit result" where
  "local_definition self identity =
     and_then (fail_if (id_module identity \<noteq> facts_module (ctx_facts self))
       (InvalidSourceIdentity ''source definition belongs to a different module'')) (\<lambda>_.
     and_then (validate_qualname (lexical_qualname identity)) (\<lambda>_.
     and_then (local_range self (id_range identity)) (\<lambda>_.
       validate_definition_range identity)))"

definition check_reference :: "validation_context \<Rightarrow> source_identity \<Rightarrow> unit result" where
  "check_reference self identity =
     and_then (validate_qualname (lexical_qualname identity)) (\<lambda>_.
     and_then (validate_definition_range identity) (\<lambda>_.
     if id_module identity = facts_module (ctx_facts self) then
       and_then (local_range self (id_range identity)) (\<lambda>_.
         fail_if (identity \<notin> ctx_definitions self)
           (InvalidSourceIdentity (''unresolved local definition '' @ lexical_qualname identity)))
     else
       and_then (ok_or (ctx_dependencies self (mci_name (id_module identity)))
         (DependencyMismatch (mci_name (id_module identity)))) (\<lambda>dependency.
       and_then (fail_if (id_module identity \<noteq> dep_module dependency)
         (DependencyMismatch (mci_name (id_module identity)))) (\<lambda>_.
         validate_range (id_range identity) (dep_source_size dependency)))))"

definition expected_source_digest ::
  "validation_context \<Rightarrow> module_content_id \<Rightarrow> fingerprint result"
where
  "expected_source_digest self m =
     (if m = facts_module (ctx_facts self) then Inr (facts_source_digest (ctx_facts self))
      else
        and_then (ok_or
          (case ctx_dependencies self (mci_name m) of
             Some dependency \<Rightarrow> if dep_module dependency = m then Some dependency else None
           | None \<Rightarrow> None)
          (DependencyMismatch (mci_name m))) (\<lambda>dependency. Inr (dep_source_digest dependency)))"

definition check_source_digest ::
  "validation_context \<Rightarrow> module_content_id \<Rightarrow> fingerprint \<Rightarrow> unit result"
where
  "check_source_digest self m d =
     and_then (expected_source_digest self m) (\<lambda>expected.
       fail_if (expected \<noteq> d) (SourceMismatch (mci_name m)))"

definition check_class_reference :: "validation_context \<Rightarrow> class_reference \<Rightarrow> unit result" where
  "check_class_reference self class =
     and_then (fail_if (id_kind (class_definition class) \<noteq> DKClass)
       (structure_error ''class reference must identify a class definition'')) (\<lambda>_.
     and_then (check_reference self (class_definition class)) (\<lambda>_.
       check_source_digest self (id_module (class_definition class)) (class_source_digest class)))"

definition check_function_reference :: "validation_context \<Rightarrow> source_identity \<Rightarrow> unit result" where
  "check_function_reference self identity =
     and_then (fail_if (\<not> is_function_like (id_kind identity))
       (structure_error ''callable implementation must identify a source function'')) (\<lambda>_.
     and_then (check_reference self identity) (\<lambda>_.
       fail_if (id_module identity = facts_module (ctx_facts self) \<and> identity \<notin> ctx_functions self)
         (structure_error ''function reference has no function facts'')))"

definition check_site ::
  "validation_context \<Rightarrow> module_content_id \<Rightarrow> fingerprint \<Rightarrow> source_identity \<Rightarrow> source_range \<Rightarrow>
   unit result"
where
  "check_site self m d enclosing r =
     and_then (fail_if (m \<noteq> facts_module (ctx_facts self) \<or>
                        id_module enclosing \<noteq> facts_module (ctx_facts self))
       (structure_error ''site and enclosing definition must belong to their shard'')) (\<lambda>_.
     and_then (check_source_digest self m d) (\<lambda>_.
     and_then (check_reference self enclosing) (\<lambda>_.
     and_then (fail_if (id_kind enclosing \<notin> {DKModule, DKClass, DKFunction, DKLambda})
       (structure_error ''site must have a source execution owner'')) (\<lambda>_.
     and_then (local_range self r) (\<lambda>_.
       fail_if (range_start r = range_end r \<or> \<not> range_contains (id_range enclosing) r)
         (structure_error ''expression range is not inside its enclosing definition''))))))"

section \<open>Types and signatures\<close>

record parameter_state =
  ps_names :: "string set"
  ps_previous_kind :: parameter_kind
  ps_has_varargs :: bool
  ps_has_varkw :: bool
  ps_positional_default :: bool

definition parameter_state_init :: parameter_state where
  "parameter_state_init =
     \<lparr>ps_names = {}, ps_previous_kind = PKPositionalOnly, ps_has_varargs = False,
      ps_has_varkw = False, ps_positional_default = False\<rparr>"

definition has_default :: "parameter_type_fact \<Rightarrow> bool" where
  "has_default p = (param_default p \<noteq> DefaultMissing)"

definition bind_kind :: "parameter_state \<Rightarrow> parameter_type_fact \<Rightarrow> parameter_state result" where
  "bind_kind s p =
     (case param_kind p of
        PKVarArgs \<Rightarrow>
          and_then (fail_if (ps_has_varargs s \<or> has_default p)
            (structure_error ''invalid variadic positional parameter''))
            (\<lambda>_. Inr (s\<lparr>ps_has_varargs := True\<rparr>))
      | PKVarKeywords \<Rightarrow>
          and_then (fail_if (ps_has_varkw s \<or> has_default p)
            (structure_error ''invalid variadic keyword parameter''))
            (\<lambda>_. Inr (s\<lparr>ps_has_varkw := True\<rparr>))
      | PKKeywordOnly \<Rightarrow> Inr s
      | _ \<Rightarrow>
          and_then (fail_if (ps_positional_default s \<and> \<not> has_default p)
            (structure_error ''required positional parameter follows a default''))
            (\<lambda>_. Inr (s\<lparr>ps_positional_default := ps_positional_default s \<or> has_default p\<rparr>)))"

definition bind_parameter :: "parameter_state \<Rightarrow> parameter_type_fact \<Rightarrow> parameter_state result" where
  "bind_parameter s p =
     and_then (validate_name (param_name p)) (\<lambda>_.
     and_then (fail_if (param_name p \<in> ps_names s) (structure_error ''duplicate signature parameter'')) (\<lambda>_.
     and_then (fail_if (param_kind p < ps_previous_kind s)
       (structure_error ''signature parameters are not in Python binding order'')) (\<lambda>_.
       bind_kind (s\<lparr>ps_names := insert (param_name p) (ps_names s),
                    ps_previous_kind := param_kind p\<rparr>) p)))"

definition check_numeric_widening :: "builtin_type \<Rightarrow> builtin_type set \<Rightarrow> unit result" where
  "check_numeric_widening target accepted =
     and_then (case target of
         BFloat \<Rightarrow> Inr {BInt, BFloat}
       | BComplex \<Rightarrow> Inr {BInt, BFloat, BComplex}
       | _ \<Rightarrow> Inl (InvalidType ''unsupported numeric widening target'')) (\<lambda>expected.
       fail_if (accepted \<noteq> expected)
         (InvalidType ''numeric widening must preserve typing's acceptance set''))"

definition check_binder :: "validation_context \<Rightarrow> source_identity \<Rightarrow> unit result" where
  "check_binder self identity =
     and_then (if id_module identity = facts_module (ctx_facts self)
               then local_definition self identity else check_reference self identity) (\<lambda>_.
       fail_if (id_kind identity \<notin> {DKParameter, DKTypeAlias, DKAssignment})
         (structure_error ''type variable requires a binder definition''))"

lemma fold_result_cong [fundef_cong]:
  "xs = ys \<Longrightarrow> s = t \<Longrightarrow> (\<And>s x. x \<in> set ys \<Longrightarrow> f s x = g s x) \<Longrightarrow>
   fold_result f s xs = fold_result g t ys"
  by (induction ys arbitrary: xs s t) (auto cong: and_then_cong)

fun check_static_type :: "validation_context \<Rightarrow> static_type \<Rightarrow> nat \<Rightarrow> unit result"
and check_signature :: "validation_context \<Rightarrow> callable_signature \<Rightarrow> nat \<Rightarrow> unit result"
and check_default :: "validation_context \<Rightarrow> default_fact \<Rightarrow> nat \<Rightarrow> unit result"
where
  "check_static_type self t depth =
     (if depth > 64 then Inl (InvalidType ''type nesting exceeds 64'')
      else case t of
        TNominalClass class \<Rightarrow> check_class_reference self class
      | TExactClass class \<Rightarrow> check_class_reference self class
      | TUnion elements \<Rightarrow>
          and_then (fail_if (elements = []) (InvalidType ''empty union'')) (\<lambda>_.
            for_each (\<lambda>element. check_static_type self element (depth + 1)) elements)
      | TOptional element \<Rightarrow> check_static_type self element (depth + 1)
      | TCallable signature \<Rightarrow> check_signature self signature (depth + 1)
      | TLiteral literal \<Rightarrow> validate_literal literal
      | TTypeVariable v \<Rightarrow>
          and_then (check_binder self (tv_identity v)) (\<lambda>_.
          and_then (for_option (\<lambda>bound. check_static_type self bound (depth + 1)) (tv_upper_bound v)) (\<lambda>_.
            for_each (\<lambda>c. check_static_type self c (depth + 1)) (tv_constraints v)))
      | TStructuralProtocol protocol \<Rightarrow>
          for_option (check_class_reference self) (protocol_definition protocol)
      | TNumericWidening target accepted \<Rightarrow> check_numeric_widening target accepted
      | _ \<Rightarrow> Inr ())"
| "check_signature self s depth =
     (if depth > 64 then Inl (InvalidType ''signature nesting exceeds 64'')
      else
        and_then (fold_result (\<lambda>state p.
            and_then (bind_parameter state p) (\<lambda>state'.
            and_then (check_static_type self (param_type p) (depth + 1)) (\<lambda>_.
            and_then (check_default self (param_default p) (depth + 1)) (\<lambda>_. Inr state'))))
          parameter_state_init (sig_parameters s)) (\<lambda>_.
          check_static_type self (sig_return_type s) (depth + 1)))"
| "check_default self d depth =
     (case d of
        DefaultValue value_type literal \<Rightarrow>
          and_then (check_static_type self value_type (depth + 1)) (\<lambda>_.
            for_option validate_literal literal)
      | DefaultFactory implementation return_type \<Rightarrow>
          and_then (for_option (check_function_reference self) implementation) (\<lambda>_.
            check_static_type self return_type (depth + 1))
      | _ \<Rightarrow> Inr ())"

declare check_static_type.simps [simp del] check_signature.simps [simp del]
  check_default.simps [simp del]

section \<open>Python binding order\<close>

definition positional :: "parameter_type_fact \<Rightarrow> bool" where
  "positional p = (param_kind p = PKPositionalOnly \<or> param_kind p = PKPositionalOrKeyword)"

definition of_kind :: "parameter_kind \<Rightarrow> parameter_type_fact list \<Rightarrow> parameter_type_fact list" where
  "of_kind k ps = filter (\<lambda>p. param_kind p = k) ps"

text \<open>The parameter lists of Python function definitions.\<close>

definition python_binding_order :: "parameter_type_fact list \<Rightarrow> bool" where
  "python_binding_order ps \<longleftrightarrow>
     distinct (map param_name ps) \<and> sorted (map param_kind ps) \<and>
     length (of_kind PKVarArgs ps) \<le> 1 \<and> length (of_kind PKVarKeywords ps) \<le> 1 \<and>
     list_all (\<lambda>p. \<not> has_default p) (of_kind PKVarArgs ps @ of_kind PKVarKeywords ps) \<and>
     sorted_wrt (\<lambda>p q. has_default p \<longrightarrow> has_default q) (filter positional ps)"

definition binding_order_from :: "parameter_state \<Rightarrow> parameter_type_fact list \<Rightarrow> bool" where
  "binding_order_from s ps \<longleftrightarrow>
     python_binding_order ps \<and> param_name ` set ps \<inter> ps_names s = {} \<and>
     (\<forall>p \<in> set ps. ps_previous_kind s \<le> param_kind p) \<and>
     (ps_has_varargs s \<longrightarrow> of_kind PKVarArgs ps = []) \<and>
     (ps_has_varkw s \<longrightarrow> of_kind PKVarKeywords ps = []) \<and>
     (ps_positional_default s \<longrightarrow> list_all has_default (filter positional ps))"

lemma binding_order_Nil [simp]: "binding_order_from s []"
  by (simp add: binding_order_from_def python_binding_order_def of_kind_def)

lemma binding_order_Cons:
  "binding_order_from s (p # ps) \<longleftrightarrow>
     param_name p \<notin> ps_names s \<and> \<not> param_kind p < ps_previous_kind s \<and>
     (\<exists>s'. bind_kind (s\<lparr>ps_names := insert (param_name p) (ps_names s),
                        ps_previous_kind := param_kind p\<rparr>) p = Inr s' \<and> binding_order_from s' ps)"
proof (cases "param_kind p")
  case PKVarArgs
  then show ?thesis
    by (auto simp: binding_order_from_def python_binding_order_def of_kind_def positional_def
        bind_kind_def list_all_iff filter_empty_conv)
next
  case PKVarKeywords
  then show ?thesis
    by (auto simp: binding_order_from_def python_binding_order_def of_kind_def positional_def
        bind_kind_def list_all_iff filter_empty_conv)
next
  case PKKeywordOnly
  then show ?thesis
    by (auto simp: binding_order_from_def python_binding_order_def of_kind_def positional_def
        bind_kind_def)
next
  case PKPositionalOnly
  then show ?thesis
    by (auto simp: binding_order_from_def python_binding_order_def of_kind_def positional_def
        bind_kind_def list_all_iff)
next
  case PKPositionalOrKeyword
  then show ?thesis
    by (auto simp: binding_order_from_def python_binding_order_def of_kind_def positional_def
        bind_kind_def list_all_iff)
qed

lemma bind_parameter_eq:
  "bind_parameter s p = Inr s' \<longleftrightarrow>
     validate_name (param_name p) = Inr () \<and> param_name p \<notin> ps_names s \<and>
     \<not> param_kind p < ps_previous_kind s \<and>
     bind_kind (s\<lparr>ps_names := insert (param_name p) (ps_names s),
                  ps_previous_kind := param_kind p\<rparr>) p = Inr s'"
  by (simp add: bind_parameter_def)

lemma fold_parameters:
  "(\<exists>s'. fold_result (\<lambda>state p. and_then (bind_parameter state p) (\<lambda>state'. and_then (f p)
        (\<lambda>_. and_then (g p) (\<lambda>_. Inr state')))) s ps = Inr s') \<longleftrightarrow>
   binding_order_from s ps \<and>
   (\<forall>p \<in> set ps. validate_name (param_name p) = Inr () \<and> f p = Inr () \<and> g p = Inr ())"
  (is "(\<exists>s'. fold_result ?step s ps = Inr s') \<longleftrightarrow> _")
proof (induction ps arbitrary: s)
  case (Cons p ps)
  have "(\<exists>s'. fold_result ?step s (p # ps) = Inr s') \<longleftrightarrow>
      (\<exists>s1. bind_parameter s p = Inr s1 \<and> f p = Inr () \<and> g p = Inr () \<and>
        (\<exists>s'. fold_result ?step s1 ps = Inr s'))"
    by auto
  also have "\<dots> \<longleftrightarrow> binding_order_from s (p # ps) \<and>
      (\<forall>q \<in> set (p # ps). validate_name (param_name q) = Inr () \<and> f q = Inr () \<and> g q = Inr ())"
    unfolding Cons.IH bind_parameter_eq binding_order_Cons by auto
  finally show ?case .
qed simp

lemma binding_order_init: "binding_order_from parameter_state_init ps \<longleftrightarrow> python_binding_order ps"
  by (auto simp: binding_order_from_def parameter_state_init_def less_eq_parameter_kind_def)

lemma check_signature_eq:
  "check_signature self s depth = Inr () \<longleftrightarrow>
     depth \<le> 64 \<and> python_binding_order (sig_parameters s) \<and>
     (\<forall>p \<in> set (sig_parameters s). validate_name (param_name p) = Inr () \<and>
        check_static_type self (param_type p) (depth + 1) = Inr () \<and>
        check_default self (param_default p) (depth + 1) = Inr ()) \<and>
     check_static_type self (sig_return_type s) (depth + 1) = Inr ()"
proof (cases "depth \<le> 64")
  case True
  let ?step = "\<lambda>state p. and_then (bind_parameter state p) (\<lambda>state'.
      and_then (check_static_type self (param_type p) (depth + 1)) (\<lambda>_.
      and_then (check_default self (param_default p) (depth + 1)) (\<lambda>_. Inr state')))"
  have "check_signature self s depth = Inr () \<longleftrightarrow>
      (\<exists>s'. fold_result ?step parameter_state_init (sig_parameters s) = Inr s') \<and>
      check_static_type self (sig_return_type s) (depth + 1) = Inr ()"
    using True by (subst check_signature.simps) simp
  with True show ?thesis
    unfolding fold_parameters binding_order_init by auto
qed (subst check_signature.simps, simp)

text \<open>
  C23. A signature is accepted exactly if its parameters are in Python binding order (distinct names,
  kinds in order, at most one \<open>*args\<close> and one \<open>**kwargs\<close> without defaults, no required
  positional parameter after one with a default) and every name, type and default is accepted.
\<close>

theorem check_signature_iff:
  "check_signature self s depth = Inr () \<longleftrightarrow>
     depth \<le> 64 \<and> python_binding_order (sig_parameters s) \<and>
     list_all (\<lambda>p. validate_name (param_name p) = Inr () \<and>
        check_static_type self (param_type p) (depth + 1) = Inr () \<and>
        check_default self (param_default p) (depth + 1) = Inr ()) (sig_parameters s) \<and>
     check_static_type self (sig_return_type s) (depth + 1) = Inr ()"
  unfolding check_signature_eq list_all_iff ..

section \<open>Normalization keeps types valid\<close>

lemma check_type_depth: "check_static_type self t d = Inr () \<Longrightarrow> d \<le> 64"
  by (subst (asm) check_static_type.simps) (simp split: if_splits)

lemma check_type_unfold:
  "check_static_type self (TUnion ts) d = Inr () \<longleftrightarrow>
     d \<le> 64 \<and> ts \<noteq> [] \<and> (\<forall>t \<in> set ts. check_static_type self t (d + 1) = Inr ())"
  "check_static_type self (TOptional t) d = Inr () \<longleftrightarrow>
     d \<le> 64 \<and> check_static_type self t (d + 1) = Inr ()"
  "check_static_type self (TCallable s) d = Inr () \<longleftrightarrow>
     d \<le> 64 \<and> check_signature self s (d + 1) = Inr ()"
  "check_static_type self (TTypeVariable v) d = Inr () \<longleftrightarrow>
     d \<le> 64 \<and> check_binder self (tv_identity v) = Inr () \<and>
     (\<forall>t. tv_upper_bound v = Some t \<longrightarrow> check_static_type self t (d + 1) = Inr ()) \<and>
     (\<forall>t \<in> set (tv_constraints v). check_static_type self t (d + 1) = Inr ())"
  "check_static_type self (TLiteral l) d = Inr () \<longleftrightarrow> d \<le> 64 \<and> validate_literal l = Inr ()"
  "check_static_type self TNone d = Inr () \<longleftrightarrow> d \<le> 64"
  "check_static_type self (TExactBuiltin b) d = Inr () \<longleftrightarrow> d \<le> 64"
  "check_static_type self (TNominalBuiltin b x) d = Inr () \<longleftrightarrow> d \<le> 64"
  "check_static_type self (TNumericWidening b bs) d = Inr () \<longleftrightarrow>
     d \<le> 64 \<and> check_numeric_widening b bs = Inr ()"
  "check_static_type self (TNominalClass c) d = Inr () \<longleftrightarrow> d \<le> 64 \<and> check_class_reference self c = Inr ()"
  "check_static_type self (TExactClass c) d = Inr () \<longleftrightarrow> d \<le> 64 \<and> check_class_reference self c = Inr ()"
  "check_static_type self (TStructuralProtocol p) d = Inr () \<longleftrightarrow>
     d \<le> 64 \<and> (\<forall>c. protocol_definition p = Some c \<longrightarrow> check_class_reference self c = Inr ())"
  "check_static_type self TAny d = Inr () \<longleftrightarrow> d \<le> 64"
  "check_static_type self TUnknown d = Inr () \<longleftrightarrow> d \<le> 64"
  "check_static_type self TTodo d = Inr () \<longleftrightarrow> d \<le> 64"
  "check_static_type self TDivergent d = Inr () \<longleftrightarrow> d \<le> 64"
  "check_static_type self (TUnsupported k r) d = Inr () \<longleftrightarrow> d \<le> 64"
  by (subst check_static_type.simps; auto)+

lemma check_default_unfold:
  "check_default self (DefaultValue t l) d = Inr () \<longleftrightarrow>
     check_static_type self t (d + 1) = Inr () \<and> (\<forall>x. l = Some x \<longrightarrow> validate_literal x = Inr ())"
  "check_default self (DefaultFactory i t) d = Inr () \<longleftrightarrow>
     (\<forall>x. i = Some x \<longrightarrow> check_function_reference self x = Inr ()) \<and> check_static_type self t (d + 1) = Inr ()"
  "check_default self DefaultMissing d = Inr ()"
  "check_default self DefaultUnknown d = Inr ()"
  by (subst check_default.simps; auto)+

lemma check_shallower:
  "check_static_type self t d = Inr () \<Longrightarrow> d' \<le> d \<Longrightarrow> check_static_type self t d' = Inr ()"
  "check_signature self s d = Inr () \<Longrightarrow> d' \<le> d \<Longrightarrow> check_signature self s d' = Inr ()"
  "check_default self df d = Inr () \<Longrightarrow> d' \<le> d \<Longrightarrow> check_default self df d' = Inr ()"
proof (induction t and s and df arbitrary: d d' and d d' and d d' rule: type_structure_induct)
  case (1 t)
  note d = check_type_depth [OF "1.prems"(1)]
  have le: "d' + 1 \<le> d + 1" using "1.prems"(2) by simp
  show ?case
  proof (cases t)
    case (TUnion ts)
    then show ?thesis using "1.prems" "1.IH"(1) [OF TUnion _ _ le] by (simp add: check_type_unfold)
  next
    case (TOptional u)
    then show ?thesis using "1.prems" "1.IH"(2) [OF TOptional _ le] by (simp add: check_type_unfold)
  next
    case (TCallable s)
    then show ?thesis using "1.prems" "1.IH"(3) [OF TCallable _ le] by (simp add: check_type_unfold)
  next
    case (TTypeVariable v)
    then show ?thesis
      using "1.prems" "1.IH"(4) [OF TTypeVariable _ _ le] "1.IH"(5) [OF TTypeVariable _ _ le]
      by (simp add: check_type_unfold)
  qed (use "1.prems" d in \<open>simp_all add: check_type_unfold\<close>)
next
  case (2 s)
  have le: "d' + 1 \<le> d + 1" using "2.prems"(2) by simp
  have "check_static_type self (param_type p) (d' + 1) = Inr ()"
    if "p \<in> set (sig_parameters s)" "check_static_type self (param_type p) (d + 1) = Inr ()" for p
    using "2.IH"(2) [OF that(1)] that(2) le by blast
  moreover have "check_default self (param_default p) (d' + 1) = Inr ()"
    if "p \<in> set (sig_parameters s)" "check_default self (param_default p) (d + 1) = Inr ()" for p
    using "2.IH"(2) [OF that(1)] that(2) le by blast
  ultimately show ?case
    using "2.prems" "2.IH"(1) [OF _ le] unfolding check_signature_eq by fastforce
next
  case (3 df)
  have le: "d' + 1 \<le> d + 1" using "3.prems"(2) by simp
  show ?case
    using "3.prems"(1) "3.IH" [OF _ _ le] by (cases df) (auto simp: check_default_unfold)
qed

lemma python_binding_order_cong:
  assumes "map (\<lambda>p. (param_name p, param_kind p, has_default p)) ps =
    map (\<lambda>p. (param_name p, param_kind p, has_default p)) qs"
  shows "python_binding_order ps \<longleftrightarrow> python_binding_order qs"
proof -
  let ?proj = "\<lambda>p. (param_name p, param_kind p, has_default p)"
  have eq: "python_binding_order ps \<longleftrightarrow>
      (let ts = map ?proj ps in
       distinct (map fst ts) \<and> sorted (map (\<lambda>t. fst (snd t)) ts) \<and>
       length (filter (\<lambda>t. fst (snd t) = PKVarArgs) ts) \<le> 1 \<and>
       length (filter (\<lambda>t. fst (snd t) = PKVarKeywords) ts) \<le> 1 \<and>
       list_all (\<lambda>t. \<not> snd (snd t)) (filter (\<lambda>t. fst (snd t) = PKVarArgs) ts @
         filter (\<lambda>t. fst (snd t) = PKVarKeywords) ts) \<and>
       sorted_wrt (\<lambda>t u. snd (snd t) \<longrightarrow> snd (snd u))
         (filter (\<lambda>t. fst (snd t) = PKPositionalOnly \<or> fst (snd t) = PKPositionalOrKeyword) ts))" for ps
    by (simp add: python_binding_order_def of_kind_def positional_def [abs_def] filter_map comp_def
        sorted_wrt_map list.pred_map Let_def)
  show ?thesis unfolding eq [of ps] eq [of qs] assms ..
qed

lemma check_union_of:
  assumes "d \<le> 64" "ms \<noteq> []" "\<And>m. m \<in> set ms \<Longrightarrow> check_static_type self m (d + 1) = Inr ()"
  shows "check_static_type self (union_of ms) d = Inr ()"
proof (cases "\<exists>m. ms = [m]")
  case True
  then obtain m where "ms = [m]" by blast
  then show ?thesis using assms(3) [of m] check_shallower(1) [of self m "d + 1" d] by (simp add: union_of_def)
next
  case False
  then have "union_of ms = TUnion ms"
    using assms(2) by (auto simp: union_of_def split: list.splits)
  then show ?thesis using assms by (simp add: check_type_unfold)
qed

lemma check_union_members:
  assumes "check_static_type self n d = Inr ()" "m \<in> set (union_members n)"
  shows "check_static_type self m d = Inr ()"
  using assms check_shallower(1) [of self m "d + 1" d]
  by (cases n rule: union_members.cases) (auto simp: check_type_unfold)

lemma normalize_parameter_projection:
  assumes "map_result (\<lambda>p.
      and_then (normalize_at_depth (param_type p) d) (\<lambda>value_type.
      and_then (normalize_default (param_default p) d) (\<lambda>def.
        Inr (ParameterTypeFact (param_name p) (param_kind p) value_type (param_origin p) def)))) ps = Inr qs"
  shows "map (\<lambda>p. (param_name p, param_kind p, has_default p)) qs =
    map (\<lambda>p. (param_name p, param_kind p, has_default p)) ps"
proof -
  have "def = DefaultMissing \<longleftrightarrow> df = DefaultMissing" if "normalize_default df d = Inr def" for df def
    using that by (cases df) (auto simp: normalize_default.simps)
  with assms show ?thesis
    by (induction ps arbitrary: qs) (auto simp: has_default_def)
qed

lemma normalize_valid:
  "normalize_at_depth t d = Inr t' \<Longrightarrow> check_static_type self t j = Inr () \<Longrightarrow>
     check_static_type self t' d = Inr ()"
  "normalize_signature s d = Inr s' \<Longrightarrow> check_signature self s j = Inr () \<Longrightarrow>
     check_signature self s' d = Inr ()"
  "normalize_default df d = Inr df' \<Longrightarrow> check_default self df j = Inr () \<Longrightarrow>
     check_default self df' d = Inr ()"
proof (induction t d and s d and df d arbitrary: t' j and s' j and df' j rule: normalize_induct)
  case (1 t d)
  have d: "d \<le> 64" using "1.prems"(1) by (rule normalize_depth_bound)
  then have nd: "\<not> 64 < d" by simp
  show ?case
  proof (cases t)
    case (TOptional e)
    have e: "check_static_type self e (j + 1) = Inr ()"
      using "1.prems"(2) TOptional by (simp add: check_type_unfold)
    then have "check_static_type self (TUnion [e, TNone]) j = Inr ()"
      using check_type_depth [OF e] by (simp add: check_type_unfold)
    moreover have "normalize_at_depth (TUnion [e, TNone]) (d + 1) = Inr t'"
      using "1.prems"(1) d TOptional by (simp add: normalize_optional)
    ultimately have "check_static_type self t' (d + 1) = Inr ()"
      using "1.IH"(2) [OF nd TOptional] by blast
    then show ?thesis by (rule check_shallower) simp
  next
    case (TUnion ts)
    with "1.prems" have ne: "ts \<noteq> []" using normalize_union_nonempty by blast
    from "1.prems" obtain ns
      where ns: "map_result (\<lambda>t. normalize_at_depth t (d + 1)) ts = Inr ns"
        and t': "t' = union_of (sort_dedup static_type_key (concat (map union_members ns)))"
      using d ne TUnion by (auto simp: normalize_union)
    have nsv: "check_static_type self n (d + 1) = Inr () \<and> nf n (d + 1)" if "n \<in> set ns" for n
      using map_result_set [OF ns that] "1.IH"(1) [OF nd TUnion ne] "1.prems"(2) TUnion normalize_nf(1)
      by (auto simp: check_type_unfold)
    have "ns \<noteq> []" using ns ne by (auto simp: map_result_eq_Inr)
    then have "concat (map union_members ns) \<noteq> []"
      using nsv nf_union_members_nonempty by (cases ns) force+
    moreover have "check_static_type self m (d + 1) = Inr ()"
      if "m \<in> set (concat (map union_members ns))" for m
      using that nsv check_union_members by fastforce
    ultimately show ?thesis
      unfolding t' using d by (intro check_union_of) simp_all
  next
    case (TCallable s)
    then show ?thesis
      using "1.IH"(3) [OF nd TCallable] "1.prems" d by (auto simp: normalize_callable check_type_unfold)
  next
    case (TTypeVariable v)
    with "1.prems" d obtain ub cs
      where ub: "map_option_result (\<lambda>b. normalize_at_depth b (d + 1)) (tv_upper_bound v) = Inr ub"
        and cs: "map_result (\<lambda>c. normalize_at_depth c (d + 1)) (tv_constraints v) = Inr cs"
        and t': "t' = TTypeVariable (TypeVariableFact (tv_identity v) ub (sort_dedup static_type_key cs))"
      by (auto simp: normalize_type_variable)
    have "check_static_type self c (d + 1) = Inr ()" if "c \<in> set cs" for c
      using map_result_set [OF cs that] "1.IH"(5) [OF nd TTypeVariable ub] "1.prems"(2) TTypeVariable
      by (auto simp: check_type_unfold)
    moreover have "check_static_type self b (d + 1) = Inr ()" if "ub = Some b" for b
      using ub that "1.IH"(4) [OF nd TTypeVariable] "1.prems"(2) TTypeVariable
      by (auto simp: check_type_unfold split: option.splits)
    ultimately show ?thesis
      using d "1.prems"(2) TTypeVariable by (simp add: t' check_type_unfold)
  qed (use "1.prems" d in \<open>auto simp: normalize_leaf check_type_unfold split: if_splits\<close>)
next
  case (2 s d)
  from "2.prems"(1) obtain r ps where r: "normalize_at_depth (sig_return_type s) (d + 1) = Inr r"
    and ps: "map_result (\<lambda>p.
         and_then (normalize_at_depth (param_type p) (d + 1)) (\<lambda>value_type.
         and_then (normalize_default (param_default p) (d + 1)) (\<lambda>def.
           Inr (ParameterTypeFact (param_name p) (param_kind p) value_type (param_origin p) def))))
       (sig_parameters s) = Inr ps"
    and s': "s' = CallableSignature ps r (sig_return_origin s) (sig_uncertainty s)"
    by (subst (asm) normalize_signature.simps) auto
  have "validate_name (param_name q) = Inr () \<and> check_static_type self (param_type q) (d + 1) = Inr () \<and>
      check_default self (param_default q) (d + 1) = Inr ()" if "q \<in> set ps" for q
    using map_result_set [OF ps that] "2.IH"(2,3) [OF r] "2.prems"(2) by (auto simp: check_signature_eq)
  moreover have "python_binding_order ps"
    using python_binding_order_cong [OF normalize_parameter_projection [OF ps]] "2.prems"(2)
    by (simp add: check_signature_eq)
  ultimately show ?case
    using "2.IH"(1) [OF r, of "j + 1"] "2.prems"(2) normalize_depth_bound [OF r]
    by (simp add: s' check_signature_eq)
next
  case (3 df d)
  show ?case
  proof (cases df)
    case (DefaultValue t l)
    with "3.prems" "3.IH"(1) show ?thesis by (auto simp: normalize_default.simps check_default_unfold)
  next
    case (DefaultFactory i t)
    with "3.prems" "3.IH"(2) show ?thesis by (auto simp: normalize_default.simps check_default_unfold)
  qed (use "3.prems" in \<open>auto simp: normalize_default.simps check_default_unfold\<close>)
qed

end
