(* ===== verification/Contract_Diagnostics.thy ===== *)
theory Contract_Diagnostics
  imports Contract_Facts
begin

text \<open>
  Checker-suppressed regions: \<^verbatim>\<open>crates/soac_contracts/src/diagnostics.rs\<close>. Facts that
  lie in, or depend on, a region whose diagnostic was suppressed lose their precise proposals.

  The set of ignored definitions is collected from the suppressed diagnostics
  (\<open>suppressed_definitions\<close>), closed under dependency by the loop \<open>close_ignored\<close>, and
  then applied to every part of the catalogue. In-place updates are functions that return the new
  value, paired with the flag the code returns where it returns one.

  Theorems: the loop terminates with the least dependency-closed set; demotion removes every
  reference to an ignored definition; it never adds a proposal; it is idempotent.
\<close>

section \<open>Ignored definitions\<close>

record ignored_definitions =
  ign_module :: module_content_id
  ign_whole_module :: bool
  ign_definitions :: "source_identity set"

definition overlaps :: "source_range \<Rightarrow> source_range \<Rightarrow> bool" where
  "overlaps left right =
     (if range_start left = range_end left then
        range_start right \<le> range_start left \<and> range_start left < range_end right
      else if range_start right = range_end right then
        range_start left \<le> range_start right \<and> range_start right < range_end left
      else range_start left < range_end right \<and> range_start right < range_end left)"

definition ignored_identity :: "ignored_definitions \<Rightarrow> source_identity \<Rightarrow> bool" where
  "ignored_identity self identity =
     ((ign_whole_module self \<and> id_module identity = ign_module self) \<or>
      identity \<in> ign_definitions self \<or>
      (\<exists>ignored \<in> ign_definitions self.
         id_module ignored = id_module identity \<and>
         overlaps (id_range ignored) (id_range identity) \<and>
         id_kind identity \<noteq> DKModule))"

fun value_references :: "ignored_definitions \<Rightarrow> static_type \<Rightarrow> bool"
and signature_references :: "ignored_definitions \<Rightarrow> callable_signature \<Rightarrow> bool"
and default_references :: "ignored_definitions \<Rightarrow> default_fact \<Rightarrow> bool"
where
  "value_references self (TNominalClass class) = ignored_identity self (class_definition class)"
| "value_references self (TExactClass class) = ignored_identity self (class_definition class)"
| "value_references self (TUnion elements) = list_ex (\<lambda>t. value_references self t) elements"
| "value_references self (TOptional t) = value_references self t"
| "value_references self (TCallable signature) = signature_references self signature"
| "value_references self (TTypeVariable v) =
     (ignored_identity self (tv_identity v) \<or>
      (case tv_upper_bound v of None \<Rightarrow> False | Some t \<Rightarrow> value_references self t) \<or>
      list_ex (\<lambda>t. value_references self t) (tv_constraints v))"
| "value_references self (TStructuralProtocol protocol) =
     (case protocol_definition protocol of
        None \<Rightarrow> False | Some class \<Rightarrow> ignored_identity self (class_definition class))"
| "value_references self _ = False"
| "signature_references self signature =
     (value_references self (sig_return_type signature) \<or>
      list_ex (\<lambda>p. value_references self (param_type p) \<or> default_references self (param_default p))
        (sig_parameters signature))"
| "default_references self (DefaultValue t _) = value_references self t"
| "default_references self (DefaultFactory i t) =
     ((case i of None \<Rightarrow> False | Some identity \<Rightarrow> ignored_identity self identity) \<or>
      value_references self t)"
| "default_references self DefaultMissing = False"
| "default_references self DefaultUnknown = False"

declare signature_references.simps [simp del]

definition ignored_option :: "ignored_definitions \<Rightarrow> source_identity option \<Rightarrow> bool" where
  "ignored_option self x = (case x of None \<Rightarrow> False | Some identity \<Rightarrow> ignored_identity self identity)"

fun ignored_target :: "ignored_definitions \<Rightarrow> callable_target_fact \<Rightarrow> bool" where
  "ignored_target self (CTSourceFunction identity) = ignored_identity self identity"
| "ignored_target self (CTMethod class _ implementation) =
     (ignored_identity self (class_definition class) \<or> ignored_option self implementation)"
| "ignored_target self (CTGenerated generated) =
     ignored_identity self (class_definition (gen_class generated))"
| "ignored_target self CTDynamic = False"

section \<open>Collecting the ignored definitions\<close>

definition region_owners :: "module_type_facts \<Rightarrow> source_range \<Rightarrow> source_identity set" where
  "region_owners facts region =
     set (map fst (filter
       (\<lambda>(identity, decorators).
          overlaps (id_range identity) region \<or>
          list_ex (\<lambda>d. overlaps (dec_expression_range d) region) decorators)
       (map (\<lambda>class. (class_identity class, class_decorators class)) (facts_classes facts) @
        map (\<lambda>function. (fn_identity function, fn_decorators function)) (facts_functions facts))))"

definition suppress_region ::
  "module_type_facts \<Rightarrow> source_range \<Rightarrow> source_identity list \<Rightarrow> ignored_definitions \<Rightarrow> ignored_definitions"
where
  "suppress_region facts region related ignored =
     ignored\<lparr>ign_whole_module := ign_whole_module ignored \<or> region_owners facts region = {},
             ign_definitions := ign_definitions ignored \<union> region_owners facts region \<union> set related\<rparr>"

definition suppress_diagnostic ::
  "module_type_facts \<Rightarrow> strict_diagnostic \<Rightarrow> ignored_definitions \<Rightarrow> ignored_definitions"
where
  "suppress_diagnostic facts diagnostic ignored =
     (case diag_scope diagnostic of
        ScopeModule \<Rightarrow> ignored\<lparr>ign_whole_module := True\<rparr>
      | ScopeDefinition identity \<Rightarrow>
          suppress_region facts (id_range identity) (diag_related_definitions diagnostic) ignored
      | ScopeSite region \<Rightarrow>
          suppress_region facts region (diag_related_definitions diagnostic) ignored)"

definition suppressed_definitions :: "module_type_facts \<Rightarrow> ignored_definitions" where
  "suppressed_definitions facts =
     fold (suppress_diagnostic facts)
       (filter (\<lambda>diagnostic. diag_suppressed diagnostic) (facts_diagnostics facts))
       \<lparr>ign_module = facts_module facts, ign_whole_module = False, ign_definitions = {}\<rparr>"

definition affected_class :: "ignored_definitions \<Rightarrow> class_type_fact \<Rightarrow> bool" where
  "affected_class ignored class =
     (ignored_identity ignored (class_identity class) \<or>
      list_ex (\<lambda>base. case as_class base of None \<Rightarrow> False
                       | Some c \<Rightarrow> ignored_identity ignored (class_definition c))
        (class_bases class @ linearized_bases (class_inheritance class)) \<or>
      (case class_metaclass class of MetaClass c \<Rightarrow> ignored_identity ignored (class_definition c)
                                    | _ \<Rightarrow> False) \<or>
      list_ex (\<lambda>d. ignored_option ignored (dec_definition d)) (class_decorators class) \<or>
      list_ex (\<lambda>m. ignored_option ignored (method_implementation m)) (class_methods class))"

definition affected_function :: "ignored_definitions \<Rightarrow> function_type_fact \<Rightarrow> bool" where
  "affected_function ignored function =
     (ignored_identity ignored (fn_identity function) \<or>
      list_ex (\<lambda>d. ignored_option ignored (dec_definition d)) (fn_decorators function))"

definition affected_definitions :: "module_type_facts \<Rightarrow> ignored_definitions \<Rightarrow> source_identity set" where
  "affected_definitions facts ignored =
     set (map class_identity (filter (affected_class ignored) (facts_classes facts))) \<union>
     set (map fn_identity (filter (affected_function ignored) (facts_functions facts)))"

definition catalogue_identities :: "module_type_facts \<Rightarrow> source_identity set" where
  "catalogue_identities facts =
     set (map class_identity (facts_classes facts)) \<union> set (map fn_identity (facts_functions facts))"

lemma affected_subset_catalogue: "affected_definitions facts ignored \<subseteq> catalogue_identities facts"
  by (auto simp: affected_definitions_def catalogue_identities_def)

lemma finite_catalogue [simp]: "finite (catalogue_identities facts)"
  by (simp add: catalogue_identities_def)

function close_ignored :: "module_type_facts \<Rightarrow> ignored_definitions \<Rightarrow> ignored_definitions" where
  "close_ignored facts ignored =
     (let before = card (ign_definitions ignored);
          extended = ignored\<lparr>ign_definitions :=
            ign_definitions ignored \<union> affected_definitions facts ignored\<rparr>
      in if before = card (ign_definitions extended) then extended
         else close_ignored facts extended)"
  by pat_completeness auto
termination
proof (relation "measure (\<lambda>(facts, ignored). card (catalogue_identities facts - ign_definitions ignored))",
    goal_cases)
  case (2 facts ignored before extended)
  let ?D = "ign_definitions ignored" and ?A = "affected_definitions facts ignored"
  have "\<not> ?A \<subseteq> ?D" using 2 by (auto simp: Un_absorb2)
  then have "catalogue_identities facts - (?D \<union> ?A) \<subset> catalogue_identities facts - ?D"
    using affected_subset_catalogue [of facts ignored] by blast
  then have "card (catalogue_identities facts - (?D \<union> ?A)) < card (catalogue_identities facts - ?D)"
    by (intro psubset_card_mono) simp_all
  then show ?case using 2 by simp
qed simp

declare close_ignored.simps [simp del]

definition ignored_of :: "module_type_facts \<Rightarrow> ignored_definitions" where
  "ignored_of facts = close_ignored facts (suppressed_definitions facts)"

section \<open>Demoting one fact\<close>

definition demote_value :: "ignored_definitions \<Rightarrow> static_type \<Rightarrow> bool \<Rightarrow> static_type \<times> bool" where
  "demote_value self v full =
     (if full \<or> value_references self v then (TUnknown, True) else (v, False))"

definition demote_default :: "ignored_definitions \<Rightarrow> default_fact \<Rightarrow> bool \<Rightarrow> default_fact \<times> bool" where
  "demote_default self d full =
     (if (full \<and> d \<noteq> DefaultMissing) \<or> default_references self d then (DefaultUnknown, True)
      else (d, False))"

definition demote_parameter ::
  "ignored_definitions \<Rightarrow> bool \<Rightarrow> parameter_type_fact \<Rightarrow> parameter_type_fact \<times> bool"
where
  "demote_parameter self full p =
     (let (t, a) = demote_value self (param_type p) full;
          (d, b) = demote_default self (param_default p) full
      in (ParameterTypeFact (param_name p) (param_kind p) t (param_origin p) d, a \<or> b))"

definition demote_signature ::
  "ignored_definitions \<Rightarrow> callable_signature \<Rightarrow> bool \<Rightarrow> callable_signature \<times> bool"
where
  "demote_signature self signature full =
     (let (r, a) = demote_value self (sig_return_type signature) full;
          ps = map (demote_parameter self full) (sig_parameters signature);
          affected = (a \<or> list_ex snd ps)
      in (CallableSignature (map fst ps) r (sig_return_origin signature)
            (if affected then insert UncIgnoredDiagnostic (sig_uncertainty signature)
             else sig_uncertainty signature), affected))"

definition demote_descriptor ::
  "ignored_definitions \<Rightarrow> descriptor_fact \<Rightarrow> bool \<Rightarrow> descriptor_fact \<times> bool"
where
  "demote_descriptor self descriptor full =
     (if full \<or>
         (case descr_type descriptor of None \<Rightarrow> False | Some t \<Rightarrow> value_references self t) \<or>
         ignored_option self (descr_getter descriptor) \<or>
         ignored_option self (descr_setter descriptor) \<or>
         ignored_option self (descr_deleter descriptor)
      then (descriptor_fact_default\<lparr>descr_kind := DescUnknown\<rparr>, True)
      else (descriptor, False))"

definition mark_ignored :: "bool \<Rightarrow> uncertainty_reason set \<Rightarrow> uncertainty_reason set" where
  "mark_ignored affected reasons = (if affected then insert UncIgnoredDiagnostic reasons else reasons)"

definition demote_global :: "ignored_definitions \<Rightarrow> global_binding_fact \<Rightarrow> global_binding_fact" where
  "demote_global ignored binding =
     (let full = ign_whole_module ignored \<or> ignored_option ignored (gb_definition binding);
          (t, affected) = demote_value ignored (gb_value_type binding) full
      in binding\<lparr>gb_value_type := t,
                 gb_uncertainty := mark_ignored affected (gb_uncertainty binding)\<rparr>)"

definition demote_field :: "ignored_definitions \<Rightarrow> bool \<Rightarrow> field_type_fact \<Rightarrow> field_type_fact" where
  "demote_field ignored full field =
     (let field_full = full \<or>
            ignored_identity ignored (class_definition (field_declaring_class field)) \<or>
            ignored_option ignored (field_annotation_definition field);
          (t, a) = demote_value ignored (field_value_type field) field_full;
          (d, b) = demote_default ignored (field_default field) field_full;
          (descr, c) = demote_descriptor ignored (field_descriptor field) field_full;
          field1 = field\<lparr>field_value_type := t, field_default := d, field_descriptor := descr\<rparr>;
          field2 = (if field_full then
                      field1\<lparr>field_field_kind := FKDynamic, field_read := FRPythonAttribute,
                             field_write := FWDynamic, field_initialization := IPUnknown\<rparr>
                    else field1)
      in field2\<lparr>field_uncertainty := mark_ignored (a \<or> b \<or> c) (field_uncertainty field2)\<rparr>)"

definition demote_method :: "ignored_definitions \<Rightarrow> bool \<Rightarrow> method_type_fact \<Rightarrow> method_type_fact" where
  "demote_method ignored full meth =
     (let (s, affected) = demote_signature ignored (method_signature meth) full;
          m1 = meth\<lparr>method_signature := s,
                   method_uncertainty := mark_ignored affected (method_uncertainty meth)\<rparr>
      in if full then m1\<lparr>method_override_policy := OPDynamic\<rparr> else m1)"

definition demote_member :: "ignored_definitions \<Rightarrow> bool \<Rightarrow> class_member_fact \<Rightarrow> class_member_fact" where
  "demote_member ignored full member =
     (let (t, a) = demote_value ignored (member_value_type member) full;
          (d, b) = demote_descriptor ignored (member_descriptor member) full;
          m1 = member\<lparr>member_value_type := t, member_descriptor := d,
                     member_uncertainty := mark_ignored (a \<or> b) (member_uncertainty member)\<rparr>
      in if full then m1\<lparr>member_kind := MKDynamic\<rparr> else m1)"

fun demote_participation :: "participation_proposal \<Rightarrow> participation_proposal" where
  "demote_participation Candidate = DynamicParticipation {DRIgnoredDiagnostic}"
| "demote_participation (DynamicParticipation reasons) =
     DynamicParticipation (insert DRIgnoredDiagnostic reasons)"

definition demote_class :: "ignored_definitions \<Rightarrow> class_type_fact \<Rightarrow> class_type_fact" where
  "demote_class ignored class =
     (let full = ignored_identity ignored (class_identity class);
          class1 = (if full then
              class\<lparr>class_participation := demote_participation (class_participation class),
                    class_dictionary := CDUnknown,
                    class_inheritance := (class_inheritance class)\<lparr>inheritance_complete := False\<rparr>,
                    class_open := COUnknown,
                    class_uncertainty := insert UncIgnoredDiagnostic (class_uncertainty class)\<rparr>
            else class)
      in class1\<lparr>class_instance_fields := map (demote_field ignored full) (class_instance_fields class1),
                class_methods := map (demote_method ignored full) (class_methods class1),
                class_class_members := map (demote_member ignored full) (class_class_members class1)\<rparr>)"

definition demote_function :: "ignored_definitions \<Rightarrow> function_type_fact \<Rightarrow> function_type_fact" where
  "demote_function ignored function =
     (let (s, affected) = demote_signature ignored (fn_signature function)
            (ignored_identity ignored (fn_identity function))
      in function\<lparr>fn_signature := s,
                  fn_uncertainty := mark_ignored affected (fn_uncertainty function)\<rparr>)"

definition owner_ignored :: "ignored_definitions \<Rightarrow> nominal_binding_owner \<Rightarrow> bool" where
  "owner_ignored ignored owner =
     (case owner of
        NBFunction function _ \<Rightarrow> ignored_identity ignored function
      | NBField field \<Rightarrow>
          ignored_identity ignored (class_definition (fr_declaring_class field)) \<or>
          ignored_identity ignored (fr_annotation_definition field))"

definition retain_nominal :: "ignored_definitions \<Rightarrow> nominal_binding_fact \<Rightarrow> bool" where
  "retain_nominal ignored binding =
     (\<not> owner_ignored ignored (nb_owner binding) \<and>
      \<not> ignored_identity ignored (class_definition (nb_class binding)) \<and>
      \<not> ignored_identity ignored (nb_binding binding) \<and>
      \<not> ignored_identity ignored (nb_binding_scope binding))"

definition demote_attribute_site ::
  "ignored_definitions \<Rightarrow> attribute_site_fact \<Rightarrow> attribute_site_fact"
where
  "demote_attribute_site ignored site =
     (if ignored_identity ignored (as_enclosing_function (attr_identity site)) \<or>
         value_references ignored (attr_receiver_type site) \<or>
         (case attr_value_type site of None \<Rightarrow> False | Some v \<Rightarrow> value_references ignored v) \<or>
         (case attr_declaring_class site of None \<Rightarrow> False
            | Some class \<Rightarrow> ignored_identity ignored (class_definition class))
      then site\<lparr>attr_receiver_type := TUnknown,
                attr_value_type := (case attr_value_type site of None \<Rightarrow> None | Some _ \<Rightarrow> Some TUnknown),
                attr_declaring_class := None,
                attr_uncertainty := insert UncIgnoredDiagnostic (attr_uncertainty site)\<rparr>
      else site)"

definition demote_call_site :: "ignored_definitions \<Rightarrow> call_site_fact \<Rightarrow> call_site_fact" where
  "demote_call_site ignored site =
     (if ignored_identity ignored (cs_enclosing_function (call_identity site)) \<or>
         (case call_receiver site of None \<Rightarrow> False
            | Some receiver \<Rightarrow> value_references ignored (receiver_value_type receiver)) \<or>
         list_ex (ignored_target ignored) (call_candidate_targets site) \<or>
         signature_references ignored (call_signature site) \<or>
         value_references ignored (call_result_type site)
      then site\<lparr>call_receiver := map_option (\<lambda>receiver.
                  receiver\<lparr>receiver_value_type := TUnknown,
                           receiver_uncertainty := insert UncIgnoredDiagnostic (receiver_uncertainty receiver)\<rparr>)
                  (call_receiver site),
                call_candidate_targets := [CTDynamic],
                call_binding := CBDynamic,
                call_signature := fst (demote_signature ignored (call_signature site) True),
                call_result_type := TUnknown,
                call_uncertain := CUDynamic\<rparr>
      else site)"

section \<open>Demoting a catalogue\<close>

definition has_suppressed :: "module_type_facts \<Rightarrow> bool" where
  "has_suppressed facts = list_ex (\<lambda>diagnostic. diag_suppressed diagnostic) (facts_diagnostics facts)"

definition demote_with :: "ignored_definitions \<Rightarrow> module_type_facts \<Rightarrow> module_type_facts" where
  "demote_with ignored facts =
     facts\<lparr>facts_global_bindings := map (demote_global ignored) (facts_global_bindings facts),
           facts_classes := map (demote_class ignored) (facts_classes facts),
           facts_functions := map (demote_function ignored) (facts_functions facts),
           facts_nominal_bindings := filter (retain_nominal ignored) (facts_nominal_bindings facts),
           facts_attribute_sites := map (demote_attribute_site ignored) (facts_attribute_sites facts),
           facts_call_sites := map (demote_call_site ignored) (facts_call_sites facts)\<rparr>"

definition demote_suppressed_regions :: "module_type_facts \<Rightarrow> module_type_facts" where
  "demote_suppressed_regions facts =
     (if \<not> has_suppressed facts then facts else demote_with (ignored_of facts) facts)"

section \<open>The closure loop\<close>

text \<open>
  The contract of the loop: a monotone one-step dependency function over a finite universe, and a
  loop that adds one step until the number of definitions no longer grows.
\<close>

locale dependency_closure =
  fixes universe :: "'a set"
    and step :: "'a set \<Rightarrow> 'a set"
    and close :: "'a set \<Rightarrow> 'a set"
  assumes finite_universe: "finite universe"
    and step_universe: "step X \<subseteq> universe"
    and step_mono: "X \<subseteq> Y \<Longrightarrow> step X \<subseteq> step Y"
    and close_unfold:
      "close X = (if card X = card (X \<union> step X) then X \<union> step X else close (X \<union> step X))"
begin

lemma finite_step: "finite (step X)"
  using finite_universe step_universe by (rule finite_subset [rotated])

lemma stable_iff:
  assumes "finite X"
  shows "card X = card (X \<union> step X) \<longleftrightarrow> step X \<subseteq> X"
proof
  assume "card X = card (X \<union> step X)"
  then have "X = X \<union> step X"
    using assms finite_step by (intro card_subset_eq) auto
  then show "step X \<subseteq> X" by blast
qed (simp add: Un_absorb2)

lemma close_induct [consumes 1, case_names stable grow]:
  assumes "finite X"
    and stable: "\<And>X. finite X \<Longrightarrow> step X \<subseteq> X \<Longrightarrow> P X"
    and grow: "\<And>X. finite X \<Longrightarrow> \<not> step X \<subseteq> X \<Longrightarrow> P (X \<union> step X) \<Longrightarrow> P X"
  shows "P X"
  using assms(1)
proof (induction "card (universe - X)" arbitrary: X rule: less_induct)
  case less
  show ?case
  proof (cases "step X \<subseteq> X")
    case True
    with less.prems show ?thesis by (rule stable)
  next
    case False
    then have "universe - (X \<union> step X) \<subset> universe - X"
      using step_universe [of X] by blast
    then have smaller: "card (universe - (X \<union> step X)) < card (universe - X)"
      using finite_universe by (intro psubset_card_mono) simp_all
    have "finite (X \<union> step X)"
      using less.prems finite_step by simp
    with smaller have "P (X \<union> step X)" by (rule less.hyps)
    with less.prems False show ?thesis by (rule grow)
  qed
qed

lemma close_stable: "finite X \<Longrightarrow> step X \<subseteq> X \<Longrightarrow> close X = X"
  by (subst close_unfold) (simp add: Un_absorb2)

lemma close_grow: "finite X \<Longrightarrow> \<not> step X \<subseteq> X \<Longrightarrow> close X = close (X \<union> step X)"
  by (subst close_unfold) (simp add: stable_iff)

lemma close_extends: "finite X \<Longrightarrow> X \<subseteq> close X"
  by (induction rule: close_induct) (auto simp: close_stable close_grow)

lemma close_closed: "finite X \<Longrightarrow> step (close X) \<subseteq> close X"
  by (induction rule: close_induct) (simp_all add: close_stable close_grow)

lemma close_finite: "finite X \<Longrightarrow> finite (close X)"
  by (induction rule: close_induct) (simp_all add: close_stable close_grow)

lemma close_least:
  assumes "finite X" "X \<subseteq> Z" "step Z \<subseteq> Z"
  shows "close X \<subseteq> Z"
  using assms
proof (induction rule: close_induct)
  case (grow X)
  then show ?case using step_mono [of X Z] by (simp add: close_grow)
qed (simp add: close_stable)

lemma close_idem: "finite X \<Longrightarrow> close (close X) = close X"
  by (simp add: close_stable close_closed close_finite)

end

lemma ignored_identity_mono:
  assumes "X \<subseteq> Y" "ignored_identity (ig\<lparr>ign_definitions := X\<rparr>) identity"
  shows "ignored_identity (ig\<lparr>ign_definitions := Y\<rparr>) identity"
  using assms by (auto simp: ignored_identity_def)

lemma ignored_option_mono:
  assumes "X \<subseteq> Y" "ignored_option (ig\<lparr>ign_definitions := X\<rparr>) x"
  shows "ignored_option (ig\<lparr>ign_definitions := Y\<rparr>) x"
  using assms ignored_identity_mono by (auto simp: ignored_option_def split: option.splits)

lemma affected_class_mono:
  assumes "X \<subseteq> Y" "affected_class (ig\<lparr>ign_definitions := X\<rparr>) class"
  shows "affected_class (ig\<lparr>ign_definitions := Y\<rparr>) class"
  using assms(2) ignored_identity_mono [OF assms(1)] ignored_option_mono [OF assms(1)]
  unfolding affected_class_def list_ex_iff
  by (elim disjE bexE) (fastforce split: option.splits metaclass_fact.splits)+

lemma affected_function_mono:
  assumes "X \<subseteq> Y" "affected_function (ig\<lparr>ign_definitions := X\<rparr>) function"
  shows "affected_function (ig\<lparr>ign_definitions := Y\<rparr>) function"
  using assms(2) ignored_identity_mono [OF assms(1)] ignored_option_mono [OF assms(1)]
  unfolding affected_function_def list_ex_iff by blast

lemma affected_definitions_mono:
  assumes "X \<subseteq> Y"
  shows "affected_definitions facts (ig\<lparr>ign_definitions := X\<rparr>)
    \<subseteq> affected_definitions facts (ig\<lparr>ign_definitions := Y\<rparr>)"
  using affected_class_mono [OF assms] affected_function_mono [OF assms]
  by (auto simp: affected_definitions_def)

lemma close_ignored_fields [simp]:
  "ign_module (close_ignored facts ig) = ign_module ig"
  "ign_whole_module (close_ignored facts ig) = ign_whole_module ig"
  by (induction facts ig rule: close_ignored.induct; subst close_ignored.simps; simp add: Let_def)+

interpretation closure: dependency_closure
    "catalogue_identities facts"
    "\<lambda>X. affected_definitions facts (ig\<lparr>ign_definitions := X\<rparr>)"
    "\<lambda>X. ign_definitions (close_ignored facts (ig\<lparr>ign_definitions := X\<rparr>))"
  for facts ig
proof unfold_locales
  fix X :: "source_identity set"
  show "ign_definitions (close_ignored facts (ig\<lparr>ign_definitions := X\<rparr>)) =
    (if card X = card (X \<union> affected_definitions facts (ig\<lparr>ign_definitions := X\<rparr>))
     then X \<union> affected_definitions facts (ig\<lparr>ign_definitions := X\<rparr>)
     else ign_definitions (close_ignored facts
       (ig\<lparr>ign_definitions := X \<union> affected_definitions facts (ig\<lparr>ign_definitions := X\<rparr>)\<rparr>)))"
    by (subst close_ignored.simps) (simp add: Let_def)
qed (simp_all add: affected_subset_catalogue affected_definitions_mono)

lemma finite_region_owners [simp]: "finite (region_owners facts region)"
  by (simp add: region_owners_def)

lemma finite_suppressed [simp]: "finite (ign_definitions (suppressed_definitions facts))"
proof -
  have "finite (ign_definitions (fold (suppress_diagnostic facts) ds ig))"
    if "finite (ign_definitions ig)" for ds ig
    using that
    by (induction ds arbitrary: ig)
      (simp_all add: suppress_diagnostic_def suppress_region_def split: diagnostic_scope.split)
  then show ?thesis by (simp add: suppressed_definitions_def)
qed

lemma close_ignored_shape:
  "close_ignored facts ig = ig\<lparr>ign_definitions := ign_definitions (close_ignored facts ig)\<rparr>"
  by (rule ignored_definitions.equality) simp_all

text \<open>
  C22. The closure loop ends with the least set of definitions that contains the directly suppressed
  ones and every class or function of the catalogue that depends on a member of it (by lexical
  nesting, a base, a metaclass, a decorator or a method implementation).
\<close>

theorem ignored_of_least_closed:
  "ign_definitions (ignored_of facts) =
     \<Inter> {X. ign_definitions (suppressed_definitions facts) \<subseteq> X \<and>
           affected_definitions facts ((suppressed_definitions facts)\<lparr>ign_definitions := X\<rparr>) \<subseteq> X}"
proof -
  let ?s = "suppressed_definitions facts"
  have c: "ign_definitions (ignored_of facts) =
      ign_definitions (close_ignored facts (?s\<lparr>ign_definitions := ign_definitions ?s\<rparr>))"
    by (simp add: ignored_of_def)
  show ?thesis
  proof (intro equalityI Inter_greatest Inter_lower CollectI conjI)
    fix X
    assume "X \<in> {X. ign_definitions ?s \<subseteq> X \<and>
      affected_definitions facts (?s\<lparr>ign_definitions := X\<rparr>) \<subseteq> X}"
    then show "ign_definitions (ignored_of facts) \<subseteq> X"
      unfolding c by (intro closure.close_least) simp_all
  qed (simp_all only: c closure.close_extends closure.close_closed finite_suppressed)
qed

section \<open>Demotion leaves the dependency structure alone\<close>

lemmas demote_defs =
  demote_value_def demote_default_def demote_parameter_def demote_signature_def
  demote_descriptor_def mark_ignored_def

lemma demote_class_structure [simp]:
  "class_identity (demote_class ig class) = class_identity class"
  "class_bases (demote_class ig class) = class_bases class"
  "class_metaclass (demote_class ig class) = class_metaclass class"
  "class_decorators (demote_class ig class) = class_decorators class"
  "linearized_bases (class_inheritance (demote_class ig class)) =
     linearized_bases (class_inheritance class)"
  by (simp_all add: demote_class_def Let_def)

lemma demote_method_implementation [simp]:
  "method_implementation (demote_method ig full meth) = method_implementation meth"
  by (simp add: demote_method_def Let_def split: prod.split)

lemma demote_class_methods:
  "class_methods (demote_class ig class) =
     map (demote_method ig (ignored_identity ig (class_identity class))) (class_methods class)"
  by (simp add: demote_class_def Let_def)

lemma demote_function_structure [simp]:
  "fn_identity (demote_function ig function) = fn_identity function"
  "fn_decorators (demote_function ig function) = fn_decorators function"
  by (simp_all add: demote_function_def Let_def split: prod.split)

lemma demote_with_fields [simp]:
  "facts_module (demote_with ig facts) = facts_module facts"
  "facts_diagnostics (demote_with ig facts) = facts_diagnostics facts"
  "facts_classes (demote_with ig facts) = map (demote_class ig) (facts_classes facts)"
  "facts_functions (demote_with ig facts) = map (demote_function ig) (facts_functions facts)"
  "facts_global_bindings (demote_with ig facts) = map (demote_global ig) (facts_global_bindings facts)"
  "facts_nominal_bindings (demote_with ig facts) =
     filter (retain_nominal ig) (facts_nominal_bindings facts)"
  "facts_attribute_sites (demote_with ig facts) =
     map (demote_attribute_site ig) (facts_attribute_sites facts)"
  "facts_call_sites (demote_with ig facts) = map (demote_call_site ig) (facts_call_sites facts)"
  by (simp_all add: demote_with_def)

lemma affected_class_demote [simp]:
  "affected_class ig' (demote_class ig class) = affected_class ig' class"
  by (simp add: affected_class_def demote_class_methods list_ex_iff)

lemma affected_function_demote [simp]:
  "affected_function ig' (demote_function ig function) = affected_function ig' function"
  by (simp add: affected_function_def)

lemma affected_definitions_demote [simp]:
  "affected_definitions (demote_with ig facts) ig' = affected_definitions facts ig'"
  by (simp add: affected_definitions_def filter_map comp_def)

lemma region_owners_demote [simp]:
  "region_owners (demote_with ig facts) region = region_owners facts region"
  by (simp add: region_owners_def comp_def)

lemma suppress_diagnostic_demote [simp]:
  "suppress_diagnostic (demote_with ig facts) = suppress_diagnostic facts"
  by (intro ext) (simp add: suppress_diagnostic_def suppress_region_def split: diagnostic_scope.split)

lemma close_ignored_demote [simp]:
  "close_ignored (demote_with ig facts) ig' = close_ignored facts ig'"
proof (induction facts ig' rule: close_ignored.induct)
  case (1 facts ig')
  then show ?case
    by (subst (1 2) close_ignored.simps) (simp add: Let_def)
qed

lemma ignored_of_demote: "ignored_of (demote_with ig facts) = ignored_of facts"
  by (simp add: ignored_of_def suppressed_definitions_def)

lemma has_suppressed_demote: "has_suppressed (demote_with ig facts) = has_suppressed facts"
  by (simp add: has_suppressed_def)

section \<open>Demotion is idempotent and removes references\<close>

lemma demote_value_clean [simp]: "\<not> value_references ig (fst (demote_value ig v full))"
  by (simp add: demote_value_def)

lemma demote_default_clean [simp]: "\<not> default_references ig (fst (demote_default ig d full))"
  by (simp add: demote_default_def)

lemma demote_parameter_fields [simp]:
  "param_type (fst (demote_parameter ig full p)) = fst (demote_value ig (param_type p) full)"
  "param_default (fst (demote_parameter ig full p)) = fst (demote_default ig (param_default p) full)"
  "param_name (fst (demote_parameter ig full p)) = param_name p"
  "param_kind (fst (demote_parameter ig full p)) = param_kind p"
  "param_origin (fst (demote_parameter ig full p)) = param_origin p"
  by (simp_all add: demote_parameter_def split: prod.split)

lemma demote_signature_fields [simp]:
  "sig_return_type (fst (demote_signature ig s full)) = fst (demote_value ig (sig_return_type s) full)"
  "sig_parameters (fst (demote_signature ig s full)) =
     map (\<lambda>p. fst (demote_parameter ig full p)) (sig_parameters s)"
  by (simp_all add: demote_signature_def Let_def comp_def split: prod.split)

lemma demote_signature_clean [simp]: "\<not> signature_references ig (fst (demote_signature ig s full))"
  by (simp add: signature_references.simps list_ex_iff)

lemma demote_descriptor_clean:
  "demote_descriptor ig (fst (demote_descriptor ig d full)) False =
     (fst (demote_descriptor ig d full), False)"
  by (auto simp: demote_descriptor_def descriptor_fact_default_def ignored_option_def)

lemma demote_value_none: "\<not> value_references ig v \<Longrightarrow> demote_value ig v False = (v, False)"
  by (simp add: demote_value_def)

lemma demote_default_none: "\<not> default_references ig d \<Longrightarrow> demote_default ig d False = (d, False)"
  by (simp add: demote_default_def)

lemma demote_parameter_none:
  "\<not> value_references ig (param_type p) \<Longrightarrow> \<not> default_references ig (param_default p) \<Longrightarrow>
   demote_parameter ig False p = (p, False)"
  by (cases p) (simp add: demote_parameter_def demote_value_none demote_default_none)

lemma demote_signature_none:
  assumes "\<not> signature_references ig s"
  shows "demote_signature ig s False = (s, False)"
proof -
  have "map (demote_parameter ig False) (sig_parameters s) = map (\<lambda>p. (p, False)) (sig_parameters s)"
    using assms
    by (intro map_cong refl demote_parameter_none)
      (auto simp: signature_references.simps list_ex_iff)
  with assms show ?thesis
    by (cases s)
      (simp add: demote_signature_def demote_value_none signature_references.simps list_ex_iff
        comp_def del: map_eq_conv)
qed

lemma demote_parameter_full:
  "fst (demote_parameter ig True (fst (demote_parameter ig True p))) = fst (demote_parameter ig True p)"
  by (cases p) (simp add: demote_parameter_def demote_value_def demote_default_def)

lemma demote_signature_full:
  "fst (demote_signature ig (fst (demote_signature ig s True)) True) = fst (demote_signature ig s True)"
  by (cases s)
    (simp add: demote_signature_def demote_value_def demote_parameter_full comp_def)

lemma demote_signature_idem:
  "fst (demote_signature ig (fst (demote_signature ig s full)) full) = fst (demote_signature ig s full)"
  by (cases full) (simp_all add: demote_signature_full demote_signature_none)

lemma demote_signature_affected: "snd (demote_signature ig s True)"
  by (simp add: demote_signature_def demote_value_def)

lemma demote_method_idem: "demote_method ig full (demote_method ig full m) = demote_method ig full m"
  by (cases full)
    (simp_all add: demote_method_def Let_def case_prod_beta mark_ignored_def demote_signature_idem
      demote_signature_none demote_signature_affected)

lemma demote_function_idem: "demote_function ig (demote_function ig f) = demote_function ig f"
  by (cases "ignored_identity ig (fn_identity f)")
    (simp_all add: demote_function_def Let_def case_prod_beta mark_ignored_def demote_signature_idem
      demote_signature_none demote_signature_affected)

lemma demote_global_idem: "demote_global ig (demote_global ig b) = demote_global ig b"
  by (simp add: demote_global_def Let_def case_prod_beta demote_value_def mark_ignored_def)

lemma demote_member_idem: "demote_member ig full (demote_member ig full m) = demote_member ig full m"
  by (cases full)
    (simp_all add: demote_member_def Let_def case_prod_beta demote_value_none demote_descriptor_clean
      mark_ignored_def demote_value_def demote_descriptor_def [of _ _ True])

lemma demote_field_idem: "demote_field ig full (demote_field ig full f) = demote_field ig full f"
proof -
  let ?full = "full \<or> ignored_identity ig (class_definition (field_declaring_class f)) \<or>
    ignored_option ig (field_annotation_definition f)"
  show ?thesis
  proof (cases ?full)
    case True
    then have "?full = True" by blast
    then show ?thesis
      by (simp add: demote_field_def Let_def case_prod_beta mark_ignored_def demote_value_def
          demote_default_def demote_descriptor_def)
  next
    case False
    then show ?thesis
      by (simp add: demote_field_def Let_def case_prod_beta demote_value_none demote_default_none
          demote_descriptor_clean mark_ignored_def)
  qed
qed

lemma demote_participation_idem:
  "demote_participation (demote_participation p) = demote_participation p"
  by (cases p) simp_all

lemma demote_class_idem: "demote_class ig (demote_class ig c) = demote_class ig c"
  by (cases "ignored_identity ig (class_identity c)")
    (simp_all add: demote_class_def Let_def comp_def demote_field_idem demote_method_idem
      demote_member_idem demote_participation_idem)

lemma demote_attribute_site_idem:
  "demote_attribute_site ig (demote_attribute_site ig s) = demote_attribute_site ig s"
  by (simp add: demote_attribute_site_def split: option.split)

lemma demote_call_site_idem: "demote_call_site ig (demote_call_site ig s) = demote_call_site ig s"
  by (simp add: demote_call_site_def demote_signature_full option.map_comp comp_def)

lemmas demote_idems =
  demote_global_idem demote_class_idem demote_function_idem demote_attribute_site_idem
  demote_call_site_idem

lemma demote_with_idem: "demote_with ig (demote_with ig facts) = demote_with ig facts"
  by (simp add: demote_with_def comp_def demote_idems)

text \<open>
  C24. Demotion is idempotent: lowering an already lowered catalogue changes nothing. The verifier
  relies on this when it requires the lowering to have been applied already.
\<close>

theorem demote_suppressed_regions_idem:
  "demote_suppressed_regions (demote_suppressed_regions facts) = demote_suppressed_regions facts"
  by (simp add: demote_suppressed_regions_def has_suppressed_demote ignored_of_demote demote_with_idem)

section \<open>What a lowered catalogue no longer says\<close>

definition class_references_free :: "ignored_definitions \<Rightarrow> class_type_fact \<Rightarrow> bool" where
  "class_references_free ig class \<longleftrightarrow>
     (class_participation class = Candidate \<longrightarrow> \<not> affected_class ig class) \<and>
     list_all (\<lambda>f. \<not> value_references ig (field_value_type f) \<and>
                   \<not> default_references ig (field_default f)) (class_instance_fields class) \<and>
     list_all (\<lambda>m. \<not> signature_references ig (method_signature m)) (class_methods class) \<and>
     list_all (\<lambda>m. \<not> value_references ig (member_value_type m)) (class_class_members class)"

definition attribute_site_references_free :: "ignored_definitions \<Rightarrow> attribute_site_fact \<Rightarrow> bool" where
  "attribute_site_references_free ig site \<longleftrightarrow>
     (ignored_identity ig (as_enclosing_function (attr_identity site)) \<longrightarrow>
        attr_receiver_type site = TUnknown \<and> attr_declaring_class site = None) \<and>
     \<not> value_references ig (attr_receiver_type site) \<and>
     list_all (\<lambda>t. \<not> value_references ig t) (case attr_value_type site of None \<Rightarrow> [] | Some t \<Rightarrow> [t]) \<and>
     list_all (\<lambda>c. \<not> ignored_identity ig (class_definition c))
       (case attr_declaring_class site of None \<Rightarrow> [] | Some c \<Rightarrow> [c])"

definition call_site_references_free :: "ignored_definitions \<Rightarrow> call_site_fact \<Rightarrow> bool" where
  "call_site_references_free ig site \<longleftrightarrow>
     (ignored_identity ig (cs_enclosing_function (call_identity site)) \<longrightarrow>
        call_candidate_targets site = [CTDynamic] \<and> call_uncertain site = CUDynamic) \<and>
     list_all (\<lambda>target. \<not> ignored_target ig target) (call_candidate_targets site) \<and>
     \<not> signature_references ig (call_signature site) \<and>
     \<not> value_references ig (call_result_type site)"

definition references_free :: "ignored_definitions \<Rightarrow> module_type_facts \<Rightarrow> bool" where
  "references_free ig facts \<longleftrightarrow>
     list_all (\<lambda>b. \<not> value_references ig (gb_value_type b)) (facts_global_bindings facts) \<and>
     list_all (class_references_free ig) (facts_classes facts) \<and>
     list_all (\<lambda>f. \<not> signature_references ig (fn_signature f)) (facts_functions facts) \<and>
     list_all (retain_nominal ig) (facts_nominal_bindings facts) \<and>
     list_all (attribute_site_references_free ig) (facts_attribute_sites facts) \<and>
     list_all (call_site_references_free ig) (facts_call_sites facts)"

lemma ignored_of_closed: "affected_definitions facts (ignored_of facts) \<subseteq> ign_definitions (ignored_of facts)"
proof -
  let ?s = "suppressed_definitions facts"
  have "affected_definitions facts
      (?s\<lparr>ign_definitions := ign_definitions (close_ignored facts (?s\<lparr>ign_definitions := ign_definitions ?s\<rparr>))\<rparr>)
    \<subseteq> ign_definitions (close_ignored facts (?s\<lparr>ign_definitions := ign_definitions ?s\<rparr>))"
    by (rule closure.close_closed) simp
  then show ?thesis
    by (simp add: ignored_of_def close_ignored_shape [of facts ?s, symmetric])
qed

lemma affected_class_ignored:
  assumes "class \<in> set (facts_classes facts)" "affected_class (ignored_of facts) class"
  shows "ignored_identity (ignored_of facts) (class_identity class)"
proof -
  have "class_identity class \<in> affected_definitions facts (ignored_of facts)"
    using assms by (auto simp: affected_definitions_def)
  then show ?thesis
    using ignored_of_closed by (auto simp: ignored_identity_def)
qed

lemma demote_participation_not_Candidate [simp]: "demote_participation p \<noteq> Candidate"
  by (cases p) simp_all

lemma demote_field_types [simp]:
  "\<not> value_references ig (field_value_type (demote_field ig full f))"
  "\<not> default_references ig (field_default (demote_field ig full f))"
  by (simp_all add: demote_field_def Let_def case_prod_beta)

lemma demote_method_signature [simp]:
  "\<not> signature_references ig (method_signature (demote_method ig full m))"
  by (simp add: demote_method_def Let_def case_prod_beta)

lemma demote_member_type [simp]:
  "\<not> value_references ig (member_value_type (demote_member ig full m))"
  by (simp add: demote_member_def Let_def case_prod_beta)

lemma demote_class_candidate_iff:
  "class_participation (demote_class ig c) = Candidate \<longleftrightarrow>
     class_participation c = Candidate \<and> \<not> ignored_identity ig (class_identity c)"
  by (simp add: demote_class_def Let_def)

lemma demote_class_free:
  assumes "c \<in> set (facts_classes facts)"
  shows "class_references_free (ignored_of facts) (demote_class (ignored_of facts) c)"
proof -
  let ?ig = "ignored_of facts"
  have "\<not> affected_class ?ig c" if "class_participation (demote_class ?ig c) = Candidate"
    using that affected_class_ignored [OF assms] by (auto simp: demote_class_candidate_iff)
  then show ?thesis
    by (auto simp: class_references_free_def list_all_iff demote_class_methods)
      (auto simp: demote_class_def Let_def)
qed

lemma demote_attribute_site_free: "attribute_site_references_free ig (demote_attribute_site ig s)"
  by (auto simp: attribute_site_references_free_def demote_attribute_site_def split: option.splits)

lemma demote_call_site_free: "call_site_references_free ig (demote_call_site ig s)"
  by (auto simp: call_site_references_free_def demote_call_site_def list_ex_iff list_all_iff)

lemma demote_global_type: "\<not> value_references ig (gb_value_type (demote_global ig b))"
  by (simp add: demote_global_def Let_def case_prod_beta)

lemma demote_function_signature: "\<not> signature_references ig (fn_signature (demote_function ig f))"
  by (simp add: demote_function_def Let_def case_prod_beta)

lemma ignored_of_unsuppressed:
  assumes "\<not> has_suppressed facts"
  shows "\<not> ignored_identity (ignored_of facts) identity"
proof -
  let ?s = "suppressed_definitions facts"
  have s: "?s = \<lparr>ign_module = facts_module facts, ign_whole_module = False, ign_definitions = {}\<rparr>"
    using assms
    by (simp add: suppressed_definitions_def has_suppressed_def list_ex_iff filter_empty_conv)
  have none: "\<not> ignored_identity ?s i" for i
    by (simp add: s ignored_identity_def)
  then have "affected_definitions facts (?s\<lparr>ign_definitions := {}\<rparr>) = {}"
    by (simp add: s affected_definitions_def affected_class_def affected_function_def list_ex_iff
        ignored_option_def split: option.splits metaclass_fact.splits)
  then have "close_ignored facts ?s = ?s"
    by (subst close_ignored.simps) (simp add: s)
  with none show ?thesis by (simp add: ignored_of_def)
qed

lemma no_references:
  assumes "\<And>i. \<not> ignored_identity ig i"
  shows "\<not> value_references ig t" "\<not> signature_references ig g" "\<not> default_references ig d"
  using assms
  by (induction ig t and ig g and ig d
      rule: value_references_signature_references_default_references.induct)
    (auto simp: list_ex_iff signature_references.simps split: option.splits)

lemma unsuppressed_references_free:
  assumes "\<not> has_suppressed facts"
  shows "references_free (ignored_of facts) facts"
proof -
  note none = ignored_of_unsuppressed [OF assms]
  have "\<not> ignored_target (ignored_of facts) target" for target
    by (cases target) (simp_all add: none ignored_option_def split: option.split)
  then show ?thesis
    by (simp add: references_free_def class_references_free_def attribute_site_references_free_def
        call_site_references_free_def list_all_iff none no_references retain_nominal_def
        owner_ignored_def affected_class_def list_ex_iff ignored_option_def
        split: option.split metaclass_fact.split nominal_binding_owner.split)
qed

lemma demoted_references_free:
  "references_free (ignored_of facts) (demote_suppressed_regions facts)"
  by (cases "has_suppressed facts")
    (simp_all add: demote_suppressed_regions_def unsuppressed_references_free references_free_def
      [of _ "demote_with _ _"] list_all_iff demote_class_free demote_global_type
      demote_function_signature demote_attribute_site_free demote_call_site_free)


section \<open>Suppression confers no authority\<close>

definition candidate_classes :: "module_type_facts \<Rightarrow> source_identity list" where
  "candidate_classes facts =
     map class_identity (filter (\<lambda>c. class_participation c = Candidate) (facts_classes facts))"

definition checked_writes ::
  "checked_field_policy \<Rightarrow> module_type_facts \<Rightarrow> (source_identity \<times> string \<times> static_type) list"
where
  "checked_writes policy facts =
     concat (map (\<lambda>c. concat (map (\<lambda>f.
       case required_write_type f policy of None \<Rightarrow> []
       | Some t \<Rightarrow> [(class_identity c, field_name f, t)]) (class_instance_fields c)))
       (facts_classes facts))"

lemma demote_field_required_write:
  "required_write_type (demote_field ig full f) policy \<in> {None, required_write_type f policy}"
  by (simp add: required_write_type_def required_type_def demote_field_def Let_def case_prod_beta
      demote_value_def demote_descriptor_def descriptor_fact_default_def)

lemma demote_field_name [simp]: "field_name (demote_field ig full f) = field_name f"
  by (simp add: demote_field_def Let_def case_prod_beta)

lemma demote_class_fields:
  "class_instance_fields (demote_class ig c) =
     map (demote_field ig (ignored_identity ig (class_identity c))) (class_instance_fields c)"
  by (simp add: demote_class_def Let_def)

lemma checked_writes_demote: "set (checked_writes policy (demote_with ig facts)) \<subseteq> set (checked_writes policy facts)"
proof
  fix x
  assume "x \<in> set (checked_writes policy (demote_with ig facts))"
  then obtain c f t where c: "c \<in> set (facts_classes facts)" "f \<in> set (class_instance_fields c)"
    and t: "required_write_type (demote_field ig (ignored_identity ig (class_identity c)) f) policy = Some t"
      "x = (class_identity c, field_name f, t)"
    by (auto simp: checked_writes_def demote_class_fields split: option.splits)
  then have "required_write_type f policy = Some t"
    using demote_field_required_write [of ig _ f policy] by (metis insertE option.simps(3) singletonD)
  with c t show "x \<in> set (checked_writes policy facts)"
    by (force simp: checked_writes_def)
qed

text \<open>
  C5. No suppression can confer authority, and unrelated classes keep theirs: after lowering, the
  candidate classes are exactly the old candidates that are not ignored, and every checked field
  write, nominal binding, non-dynamic call site and attribute site with a known receiver type was
  already proposed before.
\<close>

theorem demote_confers_no_authority:
  "let lowered = demote_suppressed_regions facts in
     candidate_classes lowered =
       filter (\<lambda>i. \<not> ignored_identity (ignored_of facts) i) (candidate_classes facts)
   \<and> set (checked_writes policy lowered) \<subseteq> set (checked_writes policy facts)
   \<and> set (facts_nominal_bindings lowered) \<subseteq> set (facts_nominal_bindings facts)
   \<and> set (filter (\<lambda>s. call_uncertain s \<noteq> CUDynamic) (facts_call_sites lowered))
       \<subseteq> set (facts_call_sites facts)
   \<and> set (filter (\<lambda>s. attr_receiver_type s \<noteq> TUnknown) (facts_attribute_sites lowered))
       \<subseteq> set (facts_attribute_sites facts)"
proof (cases "has_suppressed facts")
  case True
  have "candidate_classes (demote_with ig facts) =
      filter (\<lambda>i. \<not> ignored_identity ig i) (candidate_classes facts)" for ig
    by (simp add: candidate_classes_def filter_map comp_def demote_class_candidate_iff conj_commute)
  with True checked_writes_demote show ?thesis
    unfolding Let_def demote_suppressed_regions_def
    by (auto simp: demote_call_site_def demote_attribute_site_def)
next
  case False
  then show ?thesis
    by (auto simp: Let_def demote_suppressed_regions_def ignored_of_unsuppressed)
qed

end
