(* ===== verification/Contract_Canonical.thy ===== *)
theory Contract_Canonical
  imports Contract_Normalize Contract_Diagnostics Contract_Sample
begin

text \<open>
  The canonical form of a catalogue: \<open>canonicalize_module\<close> of
  \<^verbatim>\<open>crates/soac_contracts/src/validation.rs\<close>, \<open>canonicalized\<close> of
  \<^verbatim>\<open>facts.rs\<close> and \<open>canonicalize_dependencies\<close> of \<^verbatim>\<open>artifact.rs\<close>.

  Unordered catalogues are sorted, types are normalized and suppressed regions are lowered. The
  locale \<open>catalogue_entry\<close> is the contract of one kind of entry; it is interpreted for every
  catalogue that is normalized entry by entry.

  Theorems: canonical catalogues are fixed points, the order in which the producer listed the
  unordered catalogues does not matter, and semantic orders (bases, linearization, fields,
  decorators) survive.
\<close>

section \<open>Canonicalization\<close>

definition normalize_descriptor :: "descriptor_fact \<Rightarrow> descriptor_fact result" where
  "normalize_descriptor descriptor =
     and_then (map_option_result normalized (descr_type descriptor))
       (\<lambda>t. Inr (descriptor\<lparr>descr_type := t\<rparr>))"

definition canonicalize_dependencies :: "dependency_fingerprint list \<Rightarrow> dependency_fingerprint list" where
  "canonicalize_dependencies dependencies =
     sort_key (\<lambda>d. string_key (mci_name (dep_module d))) dependencies"

definition canonicalize_global :: "global_binding_fact \<Rightarrow> global_binding_fact result" where
  "canonicalize_global binding =
     and_then (normalized (gb_value_type binding)) (\<lambda>t. Inr (binding\<lparr>gb_value_type := t\<rparr>))"

definition canonicalize_field :: "field_type_fact \<Rightarrow> field_type_fact result" where
  "canonicalize_field field =
     and_then (normalized (field_value_type field)) (\<lambda>t.
     and_then (normalize_default (field_default field) 0) (\<lambda>d.
     and_then (normalize_descriptor (field_descriptor field)) (\<lambda>descriptor.
       Inr (field\<lparr>field_value_type := t, field_default := d, field_descriptor := descriptor\<rparr>))))"

definition canonicalize_method :: "method_type_fact \<Rightarrow> method_type_fact result" where
  "canonicalize_method meth =
     and_then (normalize_signature (method_signature meth) 0)
       (\<lambda>s. Inr (meth\<lparr>method_signature := s\<rparr>))"

definition canonicalize_member :: "class_member_fact \<Rightarrow> class_member_fact result" where
  "canonicalize_member member =
     and_then (normalized (member_value_type member)) (\<lambda>t.
     and_then (normalize_descriptor (member_descriptor member)) (\<lambda>descriptor.
       Inr (member\<lparr>member_value_type := t, member_descriptor := descriptor\<rparr>)))"

text \<open>Sort one unordered catalogue, then normalize its entries in the new order.\<close>

definition canonical_catalogue :: "('a \<Rightarrow> okey) \<Rightarrow> ('a \<Rightarrow> 'a result) \<Rightarrow> 'a list \<Rightarrow> 'a list result" where
  "canonical_catalogue key canon xs = map_result canon (sort_key key xs)"

definition canonicalize_class :: "class_type_fact \<Rightarrow> class_type_fact result" where
  "canonicalize_class class =
     and_then (map_result canonicalize_field (class_instance_fields class)) (\<lambda>fields.
     and_then (canonical_catalogue (\<lambda>m. string_key (method_name m)) canonicalize_method
       (class_methods class)) (\<lambda>methods.
     and_then (canonical_catalogue (\<lambda>m. string_key (member_name m)) canonicalize_member
       (class_class_members class)) (\<lambda>members.
       Inr (class\<lparr>class_instance_fields := fields, class_methods := methods,
                  class_class_members := members\<rparr>))))"

definition canonicalize_function :: "function_type_fact \<Rightarrow> function_type_fact result" where
  "canonicalize_function function =
     and_then (normalize_signature (fn_signature function) 0)
       (\<lambda>s. Inr (function\<lparr>fn_signature := s\<rparr>))"

definition canonicalize_attribute_site :: "attribute_site_fact \<Rightarrow> attribute_site_fact result" where
  "canonicalize_attribute_site site =
     and_then (normalized (attr_receiver_type site)) (\<lambda>r.
     and_then (map_option_result normalized (attr_value_type site)) (\<lambda>v.
       Inr (site\<lparr>attr_receiver_type := r, attr_value_type := v\<rparr>)))"

definition canonicalize_receiver :: "receiver_type_fact \<Rightarrow> receiver_type_fact result" where
  "canonicalize_receiver receiver =
     and_then (normalized (receiver_value_type receiver))
       (\<lambda>t. Inr (receiver\<lparr>receiver_value_type := t\<rparr>))"

definition canonicalize_call_site :: "call_site_fact \<Rightarrow> call_site_fact result" where
  "canonicalize_call_site site =
     and_then (map_option_result canonicalize_receiver (call_receiver site)) (\<lambda>receiver.
     and_then (normalize_signature (call_signature site) 0) (\<lambda>s.
     and_then (normalized (call_result_type site)) (\<lambda>t.
       Inr (site\<lparr>call_receiver := receiver,
                 call_candidate_targets := sort_dedup callable_target_fact_key (call_candidate_targets site),
                 call_signature := s, call_result_type := t\<rparr>))))"

definition canonicalize_diagnostic :: "strict_diagnostic \<Rightarrow> strict_diagnostic" where
  "canonicalize_diagnostic diagnostic =
     diagnostic\<lparr>diag_related_definitions :=
       sort_dedup source_identity_key (diag_related_definitions diagnostic)\<rparr>"

text \<open>The catalogue before suppressed regions are lowered.\<close>

definition sorted_module :: "module_type_facts \<Rightarrow> module_type_facts result" where
  "sorted_module facts =
     and_then (canonical_catalogue (\<lambda>b. string_key (gb_name b)) canonicalize_global
       (facts_global_bindings facts)) (\<lambda>globals.
     and_then (canonical_catalogue (\<lambda>c. source_identity_key (class_identity c)) canonicalize_class
       (facts_classes facts)) (\<lambda>classes.
     and_then (canonical_catalogue (\<lambda>f. source_identity_key (fn_identity f)) canonicalize_function
       (facts_functions facts)) (\<lambda>functions.
     and_then (canonical_catalogue (\<lambda>s. attribute_site_identity_key (attr_identity s))
       canonicalize_attribute_site (facts_attribute_sites facts)) (\<lambda>attributes.
     and_then (canonical_catalogue (\<lambda>s. call_site_identity_key (call_identity s))
       canonicalize_call_site (facts_call_sites facts)) (\<lambda>calls.
       Inr (facts\<lparr>
         facts_language_policy := (facts_language_policy facts)\<lparr>class_overrides :=
           sort_key class_policy_override_key (class_overrides (facts_language_policy facts))\<rparr>,
         facts_consumed_dependencies := canonicalize_dependencies (facts_consumed_dependencies facts),
         facts_global_bindings := globals,
         facts_classes := classes,
         facts_functions := functions,
         facts_nominal_bindings := sort_key nominal_binding_fact_key (facts_nominal_bindings facts),
         facts_attribute_sites := attributes,
         facts_call_sites := calls,
         facts_diagnostics := sort_key strict_diagnostic_key
           (map canonicalize_diagnostic (facts_diagnostics facts))\<rparr>))))))"

definition canonicalize_module :: "module_type_facts \<Rightarrow> module_type_facts result" where
  "canonicalize_module facts =
     and_then (sorted_module facts) (\<lambda>sorted. Inr (demote_suppressed_regions sorted))"

definition canonicalized :: "module_type_facts \<Rightarrow> module_type_facts result" where
  "canonicalized self = canonicalize_module self"

section \<open>Entries of a catalogue\<close>

text \<open>
  What the catalogues rely on for one kind of entry: normalizing is idempotent and keeps the sort
  key, and lowering keeps the key and stays within the normal forms.
\<close>

locale catalogue_entry =
  fixes canon :: "'a \<Rightarrow> 'a result"
    and key :: "'a \<Rightarrow> okey"
    and lower :: "'l \<Rightarrow> 'a \<Rightarrow> 'a"
  assumes canon_idem: "canon x = Inr y \<Longrightarrow> canon y = Inr y"
    and canon_key: "canon x = Inr y \<Longrightarrow> key y = key x"
    and lower_key: "key (lower l x) = key x"
    and lower_canon: "canon x = Inr x \<Longrightarrow> canon (lower l x) = Inr (lower l x)"
begin

lemma catalogue_keys:
  assumes "canonical_catalogue key canon xs = Inr ys"
  shows "map key ys = map key (sort_key key xs)"
  using assms canon_key
  by (auto simp: canonical_catalogue_def map_result_eq_Inr list_all2_conv_all_nth
      intro!: nth_equalityI)

lemma catalogue_sorted: "canonical_catalogue key canon xs = Inr ys \<Longrightarrow> sorted (map key ys)"
  by (simp add: catalogue_keys)

lemma catalogue_normal:
  assumes "canonical_catalogue key canon xs = Inr ys" "y \<in> set ys"
  shows "canon y = Inr y"
  using map_result_set [OF assms(1) [unfolded canonical_catalogue_def] assms(2)] canon_idem by blast

lemma canonical_id:
  assumes "sorted (map key ys)" "\<And>y. y \<in> set ys \<Longrightarrow> canon y = Inr y"
  shows "canonical_catalogue key canon ys = Inr ys"
  using assms by (simp add: canonical_catalogue_def sort_key_id map_result_Inr_id)

lemma catalogue_idem:
  "canonical_catalogue key canon xs = Inr ys \<Longrightarrow> canonical_catalogue key canon ys = Inr ys"
  using catalogue_sorted catalogue_normal canonical_id by blast

lemma catalogue_lower:
  assumes "canonical_catalogue key canon ys = Inr ys"
  shows "canonical_catalogue key canon (map (lower l) ys) = Inr (map (lower l) ys)"
proof (rule canonical_id)
  show "sorted (map key (map (lower l) ys))"
    using catalogue_sorted [OF assms] by (simp add: comp_def lower_key)
  show "canon z = Inr z" if "z \<in> set (map (lower l) ys)" for z
    using that catalogue_normal [OF assms] lower_canon by auto
qed

end

section \<open>Normal entries stay normal when they are lowered\<close>

lemma normalized_fix: "normalized t = Inr t \<longleftrightarrow> nf t 0"
  unfolding normalized_def using normalize_nf(1) normalize_nf_id(1) by blast

lemma signature_fix: "normalize_signature s 0 = Inr s \<longleftrightarrow> nf_signature s 0"
  using normalize_nf(2) normalize_nf_id(2) by blast

lemma default_fix: "normalize_default d 0 = Inr d \<longleftrightarrow> nf_default d 0"
  using normalize_nf(3) normalize_nf_id(3) by blast

lemma normalized_idem: "normalized t = Inr t' \<Longrightarrow> normalized t' = Inr t'"
  unfolding normalized_def by (rule normalize_idem(1))

lemma descriptor_idem: "normalize_descriptor d = Inr d' \<Longrightarrow> normalize_descriptor d' = Inr d'"
  by (cases "descr_type d") (auto simp: normalize_descriptor_def dest: normalized_idem)

lemma descriptor_fix: "normalize_descriptor d = Inr d \<longleftrightarrow>
    (case descr_type d of None \<Rightarrow> True | Some t \<Rightarrow> nf t 0)"
  by (cases d) (auto simp: normalize_descriptor_def normalized_fix split: option.split)

lemma nf_demote_value: "nf v d \<Longrightarrow> nf (fst (demote_value ig v full)) d"
  using nf_le_64 by (simp add: demote_value_def)

lemma nf_demote_default: "nf_default v d \<Longrightarrow> nf_default (fst (demote_default ig v full)) d"
  by (simp add: demote_default_def)

lemma nf_demote_signature: "nf_signature s d \<Longrightarrow> nf_signature (fst (demote_signature ig s full)) d"
  by (simp add: nf_demote_value nf_demote_default)

lemma demote_descriptor_fix:
  "normalize_descriptor d = Inr d \<Longrightarrow>
   normalize_descriptor (fst (demote_descriptor ig d full)) = Inr (fst (demote_descriptor ig d full))"
  by (simp add: demote_descriptor_def descriptor_fix descriptor_fact_default_def)

lemma normalized_nf: "normalized t = Inr t' \<Longrightarrow> nf t' 0"
  unfolding normalized_def by (rule normalize_nf(1))

lemmas entry_nfs = normalized_nf normalize_nf(2,3) descriptor_idem
lemmas entry_fixes = normalized_fix signature_fix default_fix

section \<open>Normal entries\<close>

lemma canonicalize_global_fix: "canonicalize_global b = Inr b \<longleftrightarrow> nf (gb_value_type b) 0"
  by (cases b) (simp add: canonicalize_global_def normalized_fix)

lemma canonicalize_field_fix:
  "canonicalize_field f = Inr f \<longleftrightarrow>
     nf (field_value_type f) 0 \<and> nf_default (field_default f) 0 \<and>
     normalize_descriptor (field_descriptor f) = Inr (field_descriptor f)"
  by (cases f) (simp add: canonicalize_field_def entry_fixes)

lemma canonicalize_method_fix: "canonicalize_method m = Inr m \<longleftrightarrow> nf_signature (method_signature m) 0"
  by (cases m) (simp add: canonicalize_method_def signature_fix del: nf_signature.simps)

lemma canonicalize_member_fix:
  "canonicalize_member m = Inr m \<longleftrightarrow>
     nf (member_value_type m) 0 \<and>
     normalize_descriptor (member_descriptor m) = Inr (member_descriptor m)"
  by (cases m) (simp add: canonicalize_member_def normalized_fix)

lemma canonicalize_function_fix: "canonicalize_function f = Inr f \<longleftrightarrow> nf_signature (fn_signature f) 0"
  by (cases f) (simp add: canonicalize_function_def signature_fix del: nf_signature.simps)

lemma canonicalize_attribute_site_fix:
  "canonicalize_attribute_site s = Inr s \<longleftrightarrow>
     nf (attr_receiver_type s) 0 \<and> (case attr_value_type s of None \<Rightarrow> True | Some t \<Rightarrow> nf t 0)"
  by (cases s) (auto simp: canonicalize_attribute_site_def normalized_fix split: option.split)

lemma canonicalize_receiver_fix:
  "canonicalize_receiver r = Inr r \<longleftrightarrow> nf (receiver_value_type r) 0"
  by (cases r) (simp add: canonicalize_receiver_def normalized_fix)

lemma canonicalize_receiver_idem: "canonicalize_receiver r = Inr r' \<Longrightarrow> canonicalize_receiver r' = Inr r'"
  by (auto simp: canonicalize_receiver_def dest: normalized_idem)

lemma canonicalize_call_site_fix:
  "canonicalize_call_site s = Inr s \<longleftrightarrow>
     (case call_receiver s of None \<Rightarrow> True | Some r \<Rightarrow> nf (receiver_value_type r) 0) \<and>
     nf_signature (call_signature s) 0 \<and> nf (call_result_type s) 0 \<and>
     sort_dedup callable_target_fact_key (call_candidate_targets s) = call_candidate_targets s"
  by (cases s)
    (auto simp: canonicalize_call_site_def entry_fixes canonicalize_receiver_fix
      simp del: nf_signature.simps split: option.split)

section \<open>The catalogues of a module\<close>

interpretation global_entry: catalogue_entry
  canonicalize_global "\<lambda>b. string_key (gb_name b)" demote_global
proof unfold_locales
  fix x y :: global_binding_fact and ig
  show "canonicalize_global y = Inr y" "string_key (gb_name y) = string_key (gb_name x)"
    if "canonicalize_global x = Inr y"
    using that by (auto simp: canonicalize_global_def dest: normalized_idem)
  show "string_key (gb_name (demote_global ig x)) = string_key (gb_name x)"
    by (simp add: demote_global_def Let_def case_prod_beta)
  show "canonicalize_global (demote_global ig x) = Inr (demote_global ig x)"
    if "canonicalize_global x = Inr x"
    using that
    by (simp add: canonicalize_global_fix demote_global_def Let_def case_prod_beta nf_demote_value)
qed

interpretation method_entry: catalogue_entry
  canonicalize_method "\<lambda>m. string_key (method_name m)" "\<lambda>(ig, full). demote_method ig full"
proof unfold_locales
  fix x y :: method_type_fact and l :: "ignored_definitions \<times> bool"
  show "canonicalize_method y = Inr y" "string_key (method_name y) = string_key (method_name x)"
    if "canonicalize_method x = Inr y"
    using that by (auto simp: canonicalize_method_def dest: normalize_idem(2))
  show "string_key (method_name ((case l of (ig, full) \<Rightarrow> demote_method ig full) x)) =
      string_key (method_name x)"
    by (simp add: demote_method_def Let_def case_prod_beta)
  show "canonicalize_method ((case l of (ig, full) \<Rightarrow> demote_method ig full) x) =
      Inr ((case l of (ig, full) \<Rightarrow> demote_method ig full) x)"
    if "canonicalize_method x = Inr x"
    using that
    by (simp add: canonicalize_method_fix demote_method_def Let_def case_prod_beta
        nf_demote_signature del: nf_signature.simps)
qed

interpretation member_entry: catalogue_entry
  canonicalize_member "\<lambda>m. string_key (member_name m)" "\<lambda>(ig, full). demote_member ig full"
proof unfold_locales
  fix x y :: class_member_fact and l :: "ignored_definitions \<times> bool"
  show "canonicalize_member y = Inr y" if "canonicalize_member x = Inr y"
    using that unfolding canonicalize_member_fix
    by (auto simp: canonicalize_member_def intro: entry_nfs)
  show "string_key (member_name y) = string_key (member_name x)" if "canonicalize_member x = Inr y"
    using that by (auto simp: canonicalize_member_def)
  show "string_key (member_name ((case l of (ig, full) \<Rightarrow> demote_member ig full) x)) =
      string_key (member_name x)"
    by (simp add: demote_member_def Let_def case_prod_beta)
  show "canonicalize_member ((case l of (ig, full) \<Rightarrow> demote_member ig full) x) =
      Inr ((case l of (ig, full) \<Rightarrow> demote_member ig full) x)"
    if "canonicalize_member x = Inr x"
    using that
    by (simp add: canonicalize_member_fix demote_member_def Let_def case_prod_beta nf_demote_value
        demote_descriptor_fix)
qed

lemma canonicalize_field_idem: "canonicalize_field f = Inr f' \<Longrightarrow> canonicalize_field f' = Inr f'"
  unfolding canonicalize_field_fix by (auto simp: canonicalize_field_def intro: entry_nfs)

lemma demote_field_canon:
  "canonicalize_field f = Inr f \<Longrightarrow>
   canonicalize_field (demote_field ig full f) = Inr (demote_field ig full f)"
  by (simp add: canonicalize_field_fix demote_field_def Let_def case_prod_beta nf_demote_value
      nf_demote_default demote_descriptor_fix)

lemma canonicalize_class_fix:
  "canonicalize_class c = Inr c \<longleftrightarrow>
     (\<forall>f \<in> set (class_instance_fields c). canonicalize_field f = Inr f) \<and>
     canonical_catalogue (\<lambda>m. string_key (method_name m)) canonicalize_method (class_methods c) =
       Inr (class_methods c) \<and>
     canonical_catalogue (\<lambda>m. string_key (member_name m)) canonicalize_member (class_class_members c) =
       Inr (class_class_members c)"
  by (cases c) (auto simp: canonicalize_class_def map_result_id_iff)

lemma canonicalize_class_idem:
  assumes "canonicalize_class c = Inr c'"
  shows "canonicalize_class c' = Inr c'"
proof -
  obtain fs ms ks where
      fs: "map_result canonicalize_field (class_instance_fields c) = Inr fs"
    and ms: "canonical_catalogue (\<lambda>m. string_key (method_name m)) canonicalize_method (class_methods c) = Inr ms"
    and ks: "canonical_catalogue (\<lambda>m. string_key (member_name m)) canonicalize_member (class_class_members c) = Inr ks"
    and c': "c' = c\<lparr>class_instance_fields := fs, class_methods := ms, class_class_members := ks\<rparr>"
    using assms by (auto simp: canonicalize_class_def)
  have "\<forall>f \<in> set fs. canonicalize_field f = Inr f"
    using map_result_set [OF fs] canonicalize_field_idem by blast
  then show ?thesis
    using method_entry.catalogue_idem [OF ms] member_entry.catalogue_idem [OF ks]
    by (simp add: canonicalize_class_fix c')
qed

lemma demote_class_canon:
  assumes "canonicalize_class c = Inr c"
  shows "canonicalize_class (demote_class ig c) = Inr (demote_class ig c)"
proof -
  have "canonical_catalogue (\<lambda>m. string_key (method_name m)) canonicalize_method
      (map (demote_method ig full) (class_methods c)) = Inr (map (demote_method ig full) (class_methods c))"
    and "canonical_catalogue (\<lambda>m. string_key (member_name m)) canonicalize_member
      (map (demote_member ig full) (class_class_members c)) = Inr (map (demote_member ig full) (class_class_members c))"
    for full
    using assms method_entry.catalogue_lower [of "class_methods c" "(ig, full)"]
      member_entry.catalogue_lower [of "class_class_members c" "(ig, full)"]
    by (simp_all add: canonicalize_class_fix)
  moreover have "class_class_members (demote_class ig c) =
      map (demote_member ig (ignored_identity ig (class_identity c))) (class_class_members c)"
    by (simp add: demote_class_def Let_def)
  ultimately show ?thesis
    using assms demote_field_canon
    by (simp add: canonicalize_class_fix demote_class_fields demote_class_methods)
qed

interpretation class_entry: catalogue_entry
  canonicalize_class "\<lambda>c. source_identity_key (class_identity c)" demote_class
proof unfold_locales
  show "source_identity_key (class_identity y) = source_identity_key (class_identity x)"
    if "canonicalize_class x = Inr y" for x y
    using that by (auto simp: canonicalize_class_def)
qed (simp_all add: canonicalize_class_idem demote_class_canon)

interpretation function_entry: catalogue_entry
  canonicalize_function "\<lambda>f. source_identity_key (fn_identity f)" demote_function
proof unfold_locales
  fix x y :: function_type_fact and ig
  show "canonicalize_function y = Inr y" "source_identity_key (fn_identity y) = source_identity_key (fn_identity x)"
    if "canonicalize_function x = Inr y"
    using that by (auto simp: canonicalize_function_def dest: normalize_idem(2))
  show "canonicalize_function (demote_function ig x) = Inr (demote_function ig x)"
    if "canonicalize_function x = Inr x"
    using that
    by (simp add: canonicalize_function_fix demote_function_def Let_def case_prod_beta
        nf_demote_signature del: nf_signature.simps)
qed simp

interpretation attribute_entry: catalogue_entry
  canonicalize_attribute_site "\<lambda>s. attribute_site_identity_key (attr_identity s)" demote_attribute_site
proof unfold_locales
  fix x y :: attribute_site_fact and ig
  show "canonicalize_attribute_site y = Inr y" if "canonicalize_attribute_site x = Inr y"
    using that unfolding canonicalize_attribute_site_fix
    by (auto simp: canonicalize_attribute_site_def split: option.splits)
      (blast intro: entry_nfs)+
  show "attribute_site_identity_key (attr_identity y) = attribute_site_identity_key (attr_identity x)"
    if "canonicalize_attribute_site x = Inr y"
    using that by (auto simp: canonicalize_attribute_site_def)
  show "attribute_site_identity_key (attr_identity (demote_attribute_site ig x)) =
      attribute_site_identity_key (attr_identity x)"
    by (simp add: demote_attribute_site_def)
  show "canonicalize_attribute_site (demote_attribute_site ig x) = Inr (demote_attribute_site ig x)"
    if "canonicalize_attribute_site x = Inr x"
    using that
    by (simp add: canonicalize_attribute_site_fix demote_attribute_site_def split: option.split)
qed

interpretation call_entry: catalogue_entry
  canonicalize_call_site "\<lambda>s. call_site_identity_key (call_identity s)" demote_call_site
proof unfold_locales
  fix x y :: call_site_fact and ig
  show "canonicalize_call_site y = Inr y" if "canonicalize_call_site x = Inr y"
    using that unfolding canonicalize_call_site_fix
    by (auto simp: canonicalize_call_site_def canonicalize_receiver_def
        simp del: nf_signature.simps split: option.splits)
      (blast intro: entry_nfs)+
  show "call_site_identity_key (call_identity y) = call_site_identity_key (call_identity x)"
    if "canonicalize_call_site x = Inr y"
    using that by (auto simp: canonicalize_call_site_def)
  show "call_site_identity_key (call_identity (demote_call_site ig x)) =
      call_site_identity_key (call_identity x)"
    by (simp add: demote_call_site_def)
  show "canonicalize_call_site (demote_call_site ig x) = Inr (demote_call_site ig x)"
    if "canonicalize_call_site x = Inr x"
    using that
    by (auto simp: canonicalize_call_site_fix demote_call_site_def nf_demote_signature sort_dedup_def
        simp del: nf_signature.simps split: option.splits)
qed

section \<open>Canonical modules are fixed points\<close>

lemma canonicalize_diagnostic_idem [simp]:
  "canonicalize_diagnostic (canonicalize_diagnostic d) = canonicalize_diagnostic d"
  by (simp add: canonicalize_diagnostic_def)

definition sorted_fixed :: "module_type_facts \<Rightarrow> bool" where
  "sorted_fixed f \<longleftrightarrow>
     sort_key class_policy_override_key (class_overrides (facts_language_policy f)) =
       class_overrides (facts_language_policy f) \<and>
     canonicalize_dependencies (facts_consumed_dependencies f) = facts_consumed_dependencies f \<and>
     canonical_catalogue (\<lambda>b. string_key (gb_name b)) canonicalize_global
       (facts_global_bindings f) = Inr (facts_global_bindings f) \<and>
     canonical_catalogue (\<lambda>c. source_identity_key (class_identity c)) canonicalize_class
       (facts_classes f) = Inr (facts_classes f) \<and>
     canonical_catalogue (\<lambda>f. source_identity_key (fn_identity f)) canonicalize_function
       (facts_functions f) = Inr (facts_functions f) \<and>
     sort_key nominal_binding_fact_key (facts_nominal_bindings f) = facts_nominal_bindings f \<and>
     canonical_catalogue (\<lambda>s. attribute_site_identity_key (attr_identity s))
       canonicalize_attribute_site (facts_attribute_sites f) = Inr (facts_attribute_sites f) \<and>
     canonical_catalogue (\<lambda>s. call_site_identity_key (call_identity s))
       canonicalize_call_site (facts_call_sites f) = Inr (facts_call_sites f) \<and>
     sort_key strict_diagnostic_key (map canonicalize_diagnostic (facts_diagnostics f)) =
       facts_diagnostics f"

lemma sorted_module_fixed: "sorted_fixed f \<Longrightarrow> sorted_module f = Inr f"
  unfolding sorted_fixed_def sorted_module_def
  by (elim conjE) simp

lemma canonicalize_diagnostics_fixed:
  "sort_key strict_diagnostic_key (map canonicalize_diagnostic
     (sort_key strict_diagnostic_key (map canonicalize_diagnostic ds))) =
   sort_key strict_diagnostic_key (map canonicalize_diagnostic ds)"
proof -
  have "map canonicalize_diagnostic (sort_key strict_diagnostic_key (map canonicalize_diagnostic ds)) =
      sort_key strict_diagnostic_key (map canonicalize_diagnostic ds)"
    by (rule map_idI) auto
  then show ?thesis by simp
qed

lemma sorted_module_sorted: "sorted_module f = Inr f' \<Longrightarrow> sorted_fixed f'"
  unfolding sorted_module_def
  by (clarsimp simp: sorted_fixed_def canonicalize_diagnostics_fixed canonicalize_dependencies_def
      global_entry.catalogue_idem class_entry.catalogue_idem function_entry.catalogue_idem
      attribute_entry.catalogue_idem call_entry.catalogue_idem)

lemma sort_key_filter: "sort_key key xs = xs \<Longrightarrow> sort_key key (filter P xs) = filter P xs"
  by (metis filter_sort)

lemma demote_with_policy [simp]:
  "facts_language_policy (demote_with ig f) = facts_language_policy f"
  "facts_consumed_dependencies (demote_with ig f) = facts_consumed_dependencies f"
  by (simp_all add: demote_with_def)

lemma sorted_fixed_demote: "sorted_fixed f \<Longrightarrow> sorted_fixed (demote_with ig f)"
  unfolding sorted_fixed_def
  by (clarsimp simp: global_entry.catalogue_lower class_entry.catalogue_lower
      function_entry.catalogue_lower attribute_entry.catalogue_lower call_entry.catalogue_lower
      sort_key_filter)

lemma sorted_fixed_canonical: "canonicalized f = Inr f' \<Longrightarrow> sorted_fixed f'"
  by (auto simp: canonicalized_def canonicalize_module_def demote_suppressed_regions_def
      sorted_fixed_demote dest: sorted_module_sorted)

lemma demoted_canonical: "canonicalized f = Inr f' \<Longrightarrow> demote_suppressed_regions f' = f'"
  by (auto simp: canonicalized_def canonicalize_module_def demote_suppressed_regions_def
      has_suppressed_demote ignored_of_demote demote_with_idem)

lemma canonicalized_fixed: "sorted_fixed f \<Longrightarrow> demote_suppressed_regions f = f \<Longrightarrow> canonicalized f = Inr f"
  by (simp add: canonicalized_def canonicalize_module_def sorted_module_fixed)

lemma canonicalized_fixed_iff:
  "canonicalized f = Inr f \<longleftrightarrow> sorted_fixed f \<and> demote_suppressed_regions f = f"
  using sorted_fixed_canonical demoted_canonical canonicalized_fixed by blast

lemma canonicalized_idem: "canonicalized f = Inr f' \<Longrightarrow> canonicalized f' = Inr f'"
  by (simp add: canonicalized_fixed sorted_fixed_canonical demoted_canonical)

section \<open>The order of the input does not matter\<close>

text \<open>Two catalogues with the same entries, the unordered ones listed in any order.\<close>

definition reordered :: "module_type_facts \<Rightarrow> module_type_facts \<Rightarrow> bool" where
  "reordered f g \<longleftrightarrow>
     facts_schema_version f = facts_schema_version g \<and> facts_module f = facts_module g \<and>
     facts_source_digest f = facts_source_digest g \<and> facts_source_size f = facts_source_size g \<and>
     facts_source_dialect f = facts_source_dialect g \<and>
     strict_assign (facts_language_policy f) = strict_assign (facts_language_policy g) \<and>
     checked_attr (facts_language_policy f) = checked_attr (facts_language_policy g) \<and>
     mset (class_overrides (facts_language_policy f)) = mset (class_overrides (facts_language_policy g)) \<and>
     mset (facts_consumed_dependencies f) = mset (facts_consumed_dependencies g) \<and>
     mset (facts_global_bindings f) = mset (facts_global_bindings g) \<and>
     mset (facts_classes f) = mset (facts_classes g) \<and>
     mset (facts_functions f) = mset (facts_functions g) \<and>
     mset (facts_nominal_bindings f) = mset (facts_nominal_bindings g) \<and>
     mset (facts_attribute_sites f) = mset (facts_attribute_sites g) \<and>
     mset (facts_call_sites f) = mset (facts_call_sites g) \<and>
     mset (facts_diagnostics f) = mset (facts_diagnostics g)"

definition distinct_entries :: "module_type_facts \<Rightarrow> bool" where
  "distinct_entries f \<longleftrightarrow>
     distinct (map (\<lambda>d. mci_name (dep_module d)) (facts_consumed_dependencies f)) \<and>
     distinct (map gb_name (facts_global_bindings f)) \<and>
     distinct (map class_identity (facts_classes f)) \<and>
     distinct (map fn_identity (facts_functions f)) \<and>
     distinct (map attr_identity (facts_attribute_sites f)) \<and>
     distinct (map call_identity (facts_call_sites f))"

lemma sorted_module_reordered:
  assumes "reordered f g" "distinct_entries f"
  shows "sorted_module f = sorted_module g"
proof -
  have "sort_key (\<lambda>b. string_key (gb_name b)) (facts_global_bindings f) =
      sort_key (\<lambda>b. string_key (gb_name b)) (facts_global_bindings g)"
    using assms by (intro string_ok.catalogue_perm) (simp_all add: reordered_def distinct_entries_def)
  moreover have "canonicalize_dependencies (facts_consumed_dependencies f) =
      canonicalize_dependencies (facts_consumed_dependencies g)"
    unfolding canonicalize_dependencies_def
    using assms by (intro string_ok.catalogue_perm) (simp_all add: reordered_def distinct_entries_def)
  moreover have "sort_key (\<lambda>c. source_identity_key (class_identity c)) (facts_classes f) =
      sort_key (\<lambda>c. source_identity_key (class_identity c)) (facts_classes g)"
    using assms by (intro source_identity_ok.catalogue_perm) (simp_all add: reordered_def distinct_entries_def)
  moreover have "sort_key (\<lambda>c. source_identity_key (fn_identity c)) (facts_functions f) =
      sort_key (\<lambda>c. source_identity_key (fn_identity c)) (facts_functions g)"
    using assms by (intro source_identity_ok.catalogue_perm) (simp_all add: reordered_def distinct_entries_def)
  moreover have "sort_key (\<lambda>s. attribute_site_identity_key (attr_identity s)) (facts_attribute_sites f) =
      sort_key (\<lambda>s. attribute_site_identity_key (attr_identity s)) (facts_attribute_sites g)"
    using assms by (intro attribute_site_identity_ok.catalogue_perm) (simp_all add: reordered_def distinct_entries_def)
  moreover have "sort_key (\<lambda>s. call_site_identity_key (call_identity s)) (facts_call_sites f) =
      sort_key (\<lambda>s. call_site_identity_key (call_identity s)) (facts_call_sites g)"
    using assms by (intro call_site_identity_ok.catalogue_perm) (simp_all add: reordered_def distinct_entries_def)
  moreover have "sort_key class_policy_override_key (class_overrides (facts_language_policy f)) =
      sort_key class_policy_override_key (class_overrides (facts_language_policy g))"
    using assms by (intro class_policy_override_ok.sort_key_perm) (simp add: reordered_def)
  moreover have "sort_key nominal_binding_fact_key (facts_nominal_bindings f) =
      sort_key nominal_binding_fact_key (facts_nominal_bindings g)"
    using assms by (intro nominal_binding_fact_ok.sort_key_perm) (simp add: reordered_def)
  moreover have "sort_key strict_diagnostic_key (map canonicalize_diagnostic (facts_diagnostics f)) =
      sort_key strict_diagnostic_key (map canonicalize_diagnostic (facts_diagnostics g))"
    using assms by (intro strict_diagnostic_ok.sort_key_perm) (simp add: reordered_def)
  ultimately show ?thesis
    using assms(1)
    by (cases f; cases g; cases "facts_language_policy f"; cases "facts_language_policy g")
      (simp add: sorted_module_def canonical_catalogue_def reordered_def)
qed


lemma sample_canonical: "canonicalized sample_facts = Inr sample_sorted"
proof -
  have "canonicalize_class sample_class_A = Inr sample_class_A"
    "canonicalize_class sample_class_B = Inr sample_class_B"
    by (simp_all add: canonicalize_class_def canonical_catalogue_def sample_class_A_def
        sample_class_B_def sample_class_def)
  then show ?thesis
    by (simp add: canonicalized_def canonicalize_module_def sorted_module_def canonical_catalogue_def
        sample_facts_def sample_sorted_def canonicalize_dependencies_def
        demote_suppressed_regions_def has_suppressed_def sample_policy_def)
qed


section \<open>Semantic orders survive\<close>

definition same_class_order :: "class_type_fact \<Rightarrow> class_type_fact \<Rightarrow> bool" where
  "same_class_order c c' \<longleftrightarrow>
     class_identity c' = class_identity c \<and> class_bases c' = class_bases c \<and>
     class_metaclass c' = class_metaclass c \<and> class_decorators c' = class_decorators c \<and>
     linearized_bases (class_inheritance c') = linearized_bases (class_inheritance c) \<and>
     class_transform c' = class_transform c \<and>
     map field_name (class_instance_fields c') = map field_name (class_instance_fields c)"

definition same_function_order :: "function_type_fact \<Rightarrow> function_type_fact \<Rightarrow> bool" where
  "same_function_order g g' \<longleftrightarrow>
     fn_identity g' = fn_identity g \<and> fn_kind g' = fn_kind g \<and> fn_decorators g' = fn_decorators g \<and>
     map (\<lambda>p. (param_name p, param_kind p)) (sig_parameters (fn_signature g')) =
       map (\<lambda>p. (param_name p, param_kind p)) (sig_parameters (fn_signature g))"

lemma canonicalize_field_names:
  "map_result canonicalize_field fs = Inr fs' \<Longrightarrow> map field_name fs' = map field_name fs"
  by (induction fs arbitrary: fs') (auto simp: canonicalize_field_def)

lemma canonicalize_class_order: "canonicalize_class c = Inr c' \<Longrightarrow> same_class_order c c'"
  by (auto simp: canonicalize_class_def same_class_order_def dest: canonicalize_field_names)

lemma demote_class_order: "same_class_order c c' \<Longrightarrow> same_class_order c (demote_class ig c')"
  by (simp add: same_class_order_def demote_class_fields comp_def)
    (simp add: demote_class_def Let_def)

lemma normalize_signature_parameters:
  assumes "normalize_signature s d = Inr s'"
  shows "map (\<lambda>p. (param_name p, param_kind p)) (sig_parameters s') =
    map (\<lambda>p. (param_name p, param_kind p)) (sig_parameters s)"
proof -
  have "map (\<lambda>p. (param_name p, param_kind p)) ps' = map (\<lambda>p. (param_name p, param_kind p)) ps"
    if "map_result (\<lambda>p.
         and_then (normalize_at_depth (param_type p) (d + 1)) (\<lambda>value_type.
         and_then (normalize_default (param_default p) (d + 1)) (\<lambda>def.
           Inr (ParameterTypeFact (param_name p) (param_kind p) value_type (param_origin p) def)))) ps = Inr ps'"
    for ps ps'
    using that by (induction ps arbitrary: ps') auto
  with assms show ?thesis by (auto simp: normalize_signature.simps)
qed

lemma canonicalize_function_order: "canonicalize_function g = Inr g' \<Longrightarrow> same_function_order g g'"
  by (auto simp: canonicalize_function_def same_function_order_def dest: normalize_signature_parameters)

lemma demote_function_order: "same_function_order g g' \<Longrightarrow> same_function_order g (demote_function ig g')"
  by (simp add: same_function_order_def)
    (simp add: demote_function_def Let_def case_prod_beta comp_def)

lemma demote_suppressed_catalogues:
  "facts_classes (demote_suppressed_regions f) =
     map (if has_suppressed f then demote_class (ignored_of f) else id) (facts_classes f)"
  "facts_functions (demote_suppressed_regions f) =
     map (if has_suppressed f then demote_function (ignored_of f) else id) (facts_functions f)"
  by (simp_all add: demote_suppressed_regions_def)

text \<open>
  C28. Orders that carry meaning survive canonicalization: classes and functions are only moved as
  wholes, and each keeps its bases, linearization, decorators, field order and parameter order.
\<close>

theorem canonicalized_keeps_semantic_orders:
  assumes "canonicalized f = Inr f'"
  shows "list_all2 same_class_order
      (sort_key (\<lambda>c. source_identity_key (class_identity c)) (facts_classes f)) (facts_classes f') \<and>
    list_all2 same_function_order
      (sort_key (\<lambda>g. source_identity_key (fn_identity g)) (facts_functions f)) (facts_functions f')"
proof -
  obtain f1 where f1: "sorted_module f = Inr f1" and f': "f' = demote_suppressed_regions f1"
    using assms by (auto simp: canonicalized_def canonicalize_module_def)
  from f1 have "list_all2 same_class_order
      (sort_key (\<lambda>c. source_identity_key (class_identity c)) (facts_classes f)) (facts_classes f1)"
    "list_all2 same_function_order
      (sort_key (\<lambda>g. source_identity_key (fn_identity g)) (facts_functions f)) (facts_functions f1)"
    by (auto simp: sorted_module_def canonical_catalogue_def map_result_eq_Inr
        elim!: list_all2_mono intro: canonicalize_class_order canonicalize_function_order)
  then show ?thesis
    by (auto simp: f' demote_suppressed_catalogues list_all2_map2
        elim!: list_all2_mono intro: demote_class_order demote_function_order)
qed

theorem canonicalized_keeps_semantic_orders_witness:
  "list_all2 same_class_order [sample_class_A, sample_class_B] (facts_classes sample_sorted)"
  using canonicalized_keeps_semantic_orders [OF sample_canonical] by simp

end
