(* ===== verification/Contract_Validation.thy ===== *)
theory Contract_Validation
  imports Contract_Context Contract_Canonical
begin

text \<open>
  Validation of a whole catalogue: \<open>validate_module_facts\<close> and the methods of \<open>Context\<close>
  for descriptors, decorators, classes, nominal bindings, call targets, sites and diagnostics in
  \<^verbatim>\<open>crates/soac_contracts/src/validation.rs\<close>.

  Every check keeps the code's order, so the first failing check gives the error. SHA-256 is the
  parameter \<open>sha256\<close>.
\<close>

section \<open>Descriptors, decorators and generated functions\<close>

definition accessors :: "descriptor_fact \<Rightarrow> source_identity list" where
  "accessors d = List.map_filter (\<lambda>x. x) [descr_getter d, descr_setter d, descr_deleter d]"

definition check_descriptor :: "validation_context \<Rightarrow> descriptor_fact \<Rightarrow> unit result" where
  "check_descriptor self d =
     and_then (for_option (\<lambda>t. check_static_type self t 0) (descr_type d)) (\<lambda>_.
     and_then (for_each (check_function_reference self) (accessors d)) (\<lambda>_.
     and_then (fail_if (descr_kind d = DescNone \<and>
         (descr_getter d \<noteq> None \<or> descr_setter d \<noteq> None \<or> descr_deleter d \<noteq> None))
       (structure_error ''non-descriptor cannot name descriptor accessors'')) (\<lambda>_.
       fail_if (descr_kind d \<in> {DescNonData, DescStdlibCachedProperty} \<and>
           (descr_setter d \<noteq> None \<or> descr_deleter d \<noteq> None))
         (structure_error ''non-data descriptor cannot claim setter/deleter slots''))))"

definition check_decorator :: "validation_context \<Rightarrow> decorator_fact \<Rightarrow> unit result" where
  "check_decorator self d =
     and_then (local_range self (dec_expression_range d)) (\<lambda>_.
     and_then (case (dec_definition d, dec_source_digest d) of
         (Some identity, Some fp) \<Rightarrow>
           and_then (check_reference self identity) (\<lambda>_.
             check_source_digest self (id_module identity) fp)
       | (None, None) \<Rightarrow> Inr ()
       | _ \<Rightarrow> Inl (structure_error ''decorator definition and source digest must be paired'')) (\<lambda>_.
       for_each (\<lambda>(name, v). and_then (validate_name name) (\<lambda>_. validate_literal v))
         (dec_arguments d)))"

definition check_generated_function ::
  "validation_context \<Rightarrow> generated_function_fact \<Rightarrow> unit result"
where
  "check_generated_function self generated =
     and_then (check_class_reference self (gen_class generated)) (\<lambda>_.
     and_then (validate_name (gen_name generated)) (\<lambda>_.
       case map_of (ctx_classes self) (class_definition (gen_class generated)) of
         None \<Rightarrow> Inr ()
       | Some class \<Rightarrow>
           fail_if (case class_transform class of
                      None \<Rightarrow> True
                    | Some t \<Rightarrow> transform_fact_kind t \<noteq> gen_transform generated \<or>
                                gen_name generated \<notin> set (transform_generated_methods t))
             (structure_error ''generated function is absent from its class transform'')))"

section \<open>Fields\<close>

definition check_field_annotation_definition ::
  "validation_context \<Rightarrow> field_type_fact \<Rightarrow> unit result"
where
  "check_field_annotation_definition self field =
     for_option (\<lambda>defn.
       let owner = class_definition (field_declaring_class field) in
       and_then (check_reference self defn) (\<lambda>_.
       and_then (fail_if (id_kind defn \<noteq> DKAssignment \<or> id_module defn \<noteq> id_module owner \<or>
           id_range defn = id_range owner \<or> \<not> range_contains (id_range owner) (id_range defn))
         (structure_error ''field annotation must identify an assignment in its declaring class'')) (\<lambda>_.
         fail_if (id_module defn = facts_module (ctx_facts self) \<and>
             list_ex (\<lambda>class. class_identity class \<noteq> owner \<and>
               range_contains (id_range owner) (id_range (class_identity class)) \<and>
               range_contains (id_range (class_identity class)) (id_range defn))
               (facts_classes (ctx_facts self)))
           (structure_error ''field annotation skips its actual declaring class''))))
       (field_annotation_definition field)"

definition check_field_reference ::
  "validation_context \<Rightarrow> field_reference \<Rightarrow> field_type_fact result"
where
  "check_field_reference self reference =
     and_then (check_class_reference self (fr_declaring_class reference)) (\<lambda>_.
     and_then (check_reference self (fr_annotation_definition reference)) (\<lambda>_.
     and_then (validate_name (fr_name reference)) (\<lambda>_.
     and_then (ok_or (map_of (ctx_classes self) (class_definition (fr_declaring_class reference)))
       (structure_error ''nominal field owner is not a local declaring class'')) (\<lambda>class.
     and_then (ok_or (List.find (\<lambda>field. field_name field = fr_name reference \<and>
           field_declaring_class field = fr_declaring_class reference \<and>
           field_annotation_definition field = Some (fr_annotation_definition reference))
         (class_instance_fields class))
       (structure_error ''nominal field owner does not match its exact declaration catalog'')) (\<lambda>field.
     and_then (check_field_annotation_definition self field) (\<lambda>_. Inr field))))))"

definition check_declaring_class ::
  "validation_context \<Rightarrow> class_type_fact \<Rightarrow> class_reference \<Rightarrow> unit result"
where
  "check_declaring_class self owner declaring =
     and_then (check_class_reference self declaring) (\<lambda>_.
       fail_if (class_definition declaring \<noteq> class_identity owner \<and>
           \<not> list_ex (\<lambda>base. as_class base = Some declaring)
               (class_bases owner @ linearized_bases (class_inheritance owner)))
         (structure_error ''member's declaring class is outside its logical inheritance''))"

definition check_field :: "validation_context \<Rightarrow> class_type_fact \<Rightarrow> field_type_fact \<Rightarrow> unit result" where
  "check_field self class field =
     and_then (check_declaring_class self class (field_declaring_class field)) (\<lambda>_.
     and_then (check_field_annotation_definition self field) (\<lambda>_.
     and_then (check_static_type self (field_value_type field) 0) (\<lambda>_.
     and_then (check_default self (field_default field) 0) (\<lambda>_.
     and_then (check_descriptor self (field_descriptor field)) (\<lambda>_.
       fail_if (field_field_kind field = FKInitOnly \<and> field_write field \<noteq> FWInitOnly)
         (structure_error ''InitVar must retain its init-only field policy''))))))"

section \<open>Classes\<close>

primrec list_position :: "('a \<Rightarrow> bool) \<Rightarrow> 'a list \<Rightarrow> nat option" where
  "list_position P [] = None"
| "list_position P (x # xs) = (if P x then Some 0 else map_option Suc (list_position P xs))"

definition check_bases :: "validation_context \<Rightarrow> class_type_fact \<Rightarrow> unit result" where
  "check_bases self class =
     (let bases = class_bases class; mro = linearized_bases (class_inheritance class);
          complete = inheritance_complete (class_inheritance class) in
      and_then (fail_if (\<not> distinct bases \<or> \<not> distinct mro)
        (structure_error ''duplicate direct base or MRO entry'')) (\<lambda>_.
      and_then (fail_if (complete \<and> \<not> set bases \<subseteq> set mro)
        (structure_error ''complete logical MRO omits a direct base'')) (\<lambda>_.
      and_then (fail_if (complete \<and>
          (case list_position (\<lambda>base. base = BaseBuiltin BObject) mro of
             None \<Rightarrow> False | Some index \<Rightarrow> index + 1 \<noteq> length mro))
        (structure_error ''builtin object must terminate a complete logical MRO'')) (\<lambda>_.
        for_each (\<lambda>base.
          and_then (check_class_reference self base) (\<lambda>_.
            fail_if (class_definition base = class_identity class)
              (structure_error ''class must not appear in its own base list or MRO'')))
          (List.map_filter as_class (bases @ mro))))))"

definition unmodeled_decorator :: "decorator_fact \<Rightarrow> bool" where
  "unmodeled_decorator d =
     (dec_kind d \<in> {DecOther, DecUnknown, DecDataclassTransform} \<or> dec_uncertainty d \<noteq> {} \<or>
      (dec_kind d = DecStdlibDataclass \<and> dec_definition d = None))"

definition check_participation :: "validation_context \<Rightarrow> class_type_fact \<Rightarrow> unit result" where
  "check_participation self class =
     (case class_participation class of
        Candidate \<Rightarrow>
          and_then (fail_if (\<not> checked_attributes (facts_language_policy (ctx_facts self))
              (id_range (class_identity class)))
            (InvalidPolicy ''a class opted out of checked_attr cannot propose participation'')) (\<lambda>_.
          and_then (fail_if (facts_source_dialect (ctx_facts self) \<noteq> SoacStrict \<or>
              class_metaclass class \<noteq> MetaBuiltinType \<or>
              \<not> inheritance_complete (class_inheritance class))
            (structure_error ''candidate participation requires selected checked_attr, builtin type, and resolved inheritance'')) (\<lambda>_.
          and_then (fail_if (list_ex unmodeled_decorator (class_decorators class))
            (structure_error ''unmodeled decorators must retain dynamic classification'')) (\<lambda>_.
          and_then (fail_if (class_uncertainty class \<inter>
              {UncIgnoredDiagnostic, UncDynamicDecorator, UncDynamicMetaclass, UncUnsafeNarrowing} \<noteq> {})
            (structure_error ''uncertain class provenance cannot propose participation'')) (\<lambda>_.
            fail_if (case class_transform class of
                None \<Rightarrow> False | Some t \<Rightarrow> transform_fact_kind t \<noteq> TKStdlibDataclass)
              (structure_error ''unadapted framework transforms must remain dynamic'')))))
      | DynamicParticipation reasons \<Rightarrow>
          fail_if (reasons = {}) (structure_error ''dynamic classification must retain its reason''))"

definition check_method :: "validation_context \<Rightarrow> class_type_fact \<Rightarrow> method_type_fact \<Rightarrow> unit result" where
  "check_method self class meth =
     and_then (check_declaring_class self class (method_declaring_class meth)) (\<lambda>_.
     and_then (check_signature self (method_signature meth) 0) (\<lambda>_.
     and_then (fail_if (method_override_policy meth = OPDeclaredFinal \<and> \<not> method_declared_final meth)
       (structure_error ''final override policy requires a declared-final method'')) (\<lambda>_.
       case (method_implementation meth, method_generated meth) of
         (Some implementation, None) \<Rightarrow> check_function_reference self implementation
       | (None, Some generated) \<Rightarrow>
           and_then (check_generated_function self generated) (\<lambda>_.
             fail_if (gen_class generated \<noteq> method_declaring_class meth \<or>
                 gen_name generated \<noteq> method_name meth)
               (structure_error ''generated method does not match its declaring class and name''))
       | (None, None) \<Rightarrow>
           fail_if (method_uncertainty meth = {})
             (structure_error ''method requires one implementation origin or explicit uncertainty'')
       | (Some _, Some _) \<Rightarrow>
           Inl (structure_error ''method requires one implementation origin or explicit uncertainty''))))"

definition check_member :: "validation_context \<Rightarrow> class_member_fact \<Rightarrow> unit result" where
  "check_member self member =
     and_then (for_option (check_reference self) (member_definition member)) (\<lambda>_.
     and_then (check_static_type self (member_value_type member) 0) (\<lambda>_.
       check_descriptor self (member_descriptor member)))"

definition check_transform :: "validation_context \<Rightarrow> class_transform_fact \<Rightarrow> unit result" where
  "check_transform self t =
     and_then (for_option (check_reference self) (transform_provenance t)) (\<lambda>_.
     and_then (fail_if (transform_fact_kind t = TKStdlibDataclass \<and> transform_dataclass_options t = None)
       (structure_error ''stdlib dataclass transform requires resolved options'')) (\<lambda>_.
     and_then (for_option (\<lambda>options.
         fail_if ((opt_weakref_slot options \<and> \<not> opt_slots options) \<or> (opt_order options \<and> \<not> opt_eq options))
           (structure_error ''invalid stdlib dataclass options'')) (transform_dataclass_options t)) (\<lambda>_.
       for_each validate_name (transform_generated_methods t))))"

definition check_class :: "validation_context \<Rightarrow> class_type_fact \<Rightarrow> unit result" where
  "check_class self class =
     and_then (local_definition self (class_identity class)) (\<lambda>_.
     and_then (fail_if (id_kind (class_identity class) \<noteq> DKClass)
       (structure_error ''class facts must identify a source class'')) (\<lambda>_.
     and_then (check_bases self class) (\<lambda>_.
     and_then (case class_metaclass class of
         MetaClass metaclass \<Rightarrow> check_class_reference self metaclass | _ \<Rightarrow> Inr ()) (\<lambda>_.
     and_then (for_each (check_decorator self) (class_decorators class)) (\<lambda>_.
     and_then (check_participation self class) (\<lambda>_.
     and_then (for_unique (\<lambda>f. validate_name (field_name f)) field_name
       (\<lambda>_. structure_error ''duplicate logical class field'') (check_field self class) {}
       (class_instance_fields class)) (\<lambda>_.
     and_then (for_unique (\<lambda>m. validate_name (method_name m)) method_name
       (\<lambda>_. structure_error ''duplicate logical method'') (check_method self class) {}
       (class_methods class)) (\<lambda>_.
     and_then (for_unique (\<lambda>m. validate_name (member_name m)) member_name
       (\<lambda>_. structure_error ''duplicate class member'') (check_member self) {}
       (class_class_members class)) (\<lambda>_.
       for_option (check_transform self) (class_transform class))))))))))"

section \<open>Nominal bindings\<close>

text \<open>The definition that carries the annotation, its type and its origin.\<close>

definition nominal_annotation ::
  "validation_context \<Rightarrow> nominal_binding_owner \<Rightarrow>
   (source_identity \<times> static_type \<times> annotation_origin) result"
where
  "nominal_annotation self owner =
     (case owner of
        NBFunction function annotation \<Rightarrow>
          and_then (check_function_reference self function) (\<lambda>_.
          and_then (ok_or (List.find (\<lambda>fact. fn_identity fact = function)
              (facts_functions (ctx_facts self)))
            (InvalidStructure ''nominal function owner is not local'')) (\<lambda>fact.
            case annotation of
              ATParameter index \<Rightarrow>
                (if unat index < length (sig_parameters (fn_signature fact)) then
                   let parameter = sig_parameters (fn_signature fact) ! unat index in
                   Inr (function, param_type parameter, param_origin parameter)
                 else Inl (structure_error ''nominal annotation parameter index is invalid''))
            | ATReturn \<Rightarrow>
                Inr (function, sig_return_type (fn_signature fact), sig_return_origin (fn_signature fact))))
      | NBField field \<Rightarrow>
          and_then (check_field_reference self field) (\<lambda>fact.
            Inr (fr_annotation_definition field, field_value_type fact, field_annotation_origin fact)))"

definition source_slice :: "u8 list \<Rightarrow> source_range \<Rightarrow> u8 list" where
  "source_slice source r =
     take (unat (range_end r) - unat (range_start r)) (drop (unat (range_start r)) source)"

definition invalid_binding_scope ::
  "validation_context \<Rightarrow> nominal_binding_fact \<Rightarrow> source_identity \<Rightarrow> bool"
where
  "invalid_binding_scope self b annotated =
     (id_module (nb_binding b) \<noteq> facts_module (ctx_facts self) \<or>
      id_module (nb_binding_scope b) \<noteq> facts_module (ctx_facts self) \<or>
      id_kind (nb_binding b) \<notin> {DKClass, DKAssignment} \<or>
      id_kind (nb_binding_scope b) \<notin> {DKModule, DKClass, DKFunction} \<or>
      nb_binding_scope b = nb_binding b \<or>
      \<not> range_contains (id_range (nb_binding_scope b)) (id_range (nb_binding b)) \<or>
      \<not> range_contains (id_range (nb_binding_scope b)) (id_range annotated) \<or>
      nb_binding_scope b = annotated)"

definition skips_lexical_owner :: "module_type_facts \<Rightarrow> nominal_binding_fact \<Rightarrow> bool" where
  "skips_lexical_owner facts b =
     list_ex (\<lambda>scope. scope \<noteq> nb_binding_scope b \<and> scope \<noteq> nb_binding b \<and>
         id_range scope \<noteq> id_range (nb_binding_scope b) \<and>
         range_contains (id_range (nb_binding_scope b)) (id_range scope) \<and>
         range_contains (id_range scope) (id_range (nb_binding b)))
       (map class_identity (facts_classes facts) @ map fn_identity (facts_functions facts))"

definition captures_class_namespace ::
  "module_type_facts \<Rightarrow> nominal_binding_fact \<Rightarrow> source_identity \<Rightarrow> bool"
where
  "captures_class_namespace facts b annotated =
     ((case nb_owner b of NBField _ \<Rightarrow> True | NBFunction _ _ \<Rightarrow> False) \<and>
      id_kind (nb_binding_scope b) = DKClass \<and>
      list_ex (\<lambda>function.
          range_contains (id_range (nb_binding_scope b)) (id_range (fn_identity function)) \<and>
          range_contains (id_range (fn_identity function)) (id_range annotated))
        (facts_functions facts))"

definition check_nominal_binding :: "validation_context \<Rightarrow> nominal_binding_fact \<Rightarrow> unit result" where
  "check_nominal_binding self b =
     and_then (nominal_annotation self (nb_owner b)) (\<lambda>(annotated, value_type, origin).
     and_then (fail_if (id_module annotated \<noteq> facts_module (ctx_facts self))
       (structure_error ''nominal annotation belongs to another module'')) (\<lambda>_.
     and_then (local_range self (nb_expression_range b)) (\<lambda>_.
     and_then (fail_if (range_start (nb_expression_range b) = range_end (nb_expression_range b) \<or>
         \<not> range_contains (id_range annotated) (nb_expression_range b))
       (structure_error ''nominal annotation leaf is outside its source definition'')) (\<lambda>_.
     and_then (validate_name (nb_name b)) (\<lambda>_.
     and_then (for_option (\<lambda>source.
         fail_if (source_slice source (nb_expression_range b) \<noteq> bytes_of_string (nb_name b))
           (structure_error ''nominal annotation name does not match its source bytes''))
       (ctx_source self)) (\<lambda>_.
     and_then (check_class_reference self (nb_class b)) (\<lambda>_.
     and_then (check_reference self (nb_binding b)) (\<lambda>_.
     and_then (check_reference self (nb_binding_scope b)) (\<lambda>_.
     and_then (fail_if (invalid_binding_scope self b annotated)
       (structure_error ''nominal annotation has an invalid lexical binding scope'')) (\<lambda>_.
     and_then (fail_if (skips_lexical_owner (ctx_facts self) b)
       (structure_error ''nominal binding scope skips its actual lexical owner'')) (\<lambda>_.
     and_then (fail_if (id_kind (nb_binding_scope b) = DKModule \<and>
         \<not> list_ex (\<lambda>global. gb_name global = nb_name b \<and> gb_definition global = Some (nb_binding b))
             (facts_global_bindings (ctx_facts self)))
       (structure_error ''nominal global binding does not match the module catalog'')) (\<lambda>_.
     and_then (fail_if (captures_class_namespace (ctx_facts self) b annotated)
       (structure_error ''a method-local field annotation cannot capture a class namespace alias'')) (\<lambda>_.
       fail_if (origin \<noteq> AOExplicit \<or> \<not> has_supported_value_shape value_type \<or>
           \<not> contains_nominal_class value_type (nb_class b))
         (structure_error ''nominal annotation leaf does not match an explicit supported contract''))))))))))))))"

section \<open>Sites and diagnostics\<close>

fun compatible_binding :: "call_binding_fact \<Rightarrow> method_binding \<Rightarrow> bool" where
  "compatible_binding CBUnboundFunction m = (m = MBInstance \<or> m = MBStatic)"
| "compatible_binding CBBoundInstanceMethod m = (m = MBInstance)"
| "compatible_binding CBBoundClassMethod m = (m = MBClass)"
| "compatible_binding CBStaticMethod m = (m = MBStatic)"
| "compatible_binding CBCallableInstanceField m = False"
| "compatible_binding CBDescriptor m = (m = MBPropertyGetter \<or> m = MBDescriptor)"
| "compatible_binding CBDynamic m = True"

fun check_call_target ::
  "validation_context \<Rightarrow> call_binding_fact \<Rightarrow> callable_target_fact \<Rightarrow> unit result"
where
  "check_call_target self binding (CTSourceFunction identity) = check_function_reference self identity"
| "check_call_target self binding (CTMethod class name implementation) =
     and_then (check_class_reference self class) (\<lambda>_.
     and_then (validate_name name) (\<lambda>_.
     and_then (for_option (check_function_reference self) implementation) (\<lambda>_.
     for_option (\<lambda>fact.
       and_then (ok_or (List.find (\<lambda>m. method_name m = name) (class_methods fact))
         (structure_error ''call target names an absent logical method'')) (\<lambda>meth.
       and_then (fail_if (implementation \<noteq> None \<and> implementation \<noteq> method_implementation meth)
         (structure_error ''call target implementation disagrees with its method facts'')) (\<lambda>_.
         fail_if (\<not> compatible_binding binding (method_bound meth))
           (structure_error ''call binding disagrees with its logical method binding''))))
       (map_of (ctx_classes self) (class_definition class)))))"
| "check_call_target self binding (CTGenerated generated) = check_generated_function self generated"
| "check_call_target self binding CTDynamic = Inr ()"

definition check_function :: "validation_context \<Rightarrow> function_type_fact \<Rightarrow> unit result" where
  "check_function self function =
     and_then (local_definition self (fn_identity function)) (\<lambda>_.
     and_then (fail_if (\<not> is_function_like (id_kind (fn_identity function)))
       (structure_error ''function facts must identify a source function or lambda'')) (\<lambda>_.
     and_then (check_signature self (fn_signature function) 0) (\<lambda>_.
       for_each (check_decorator self) (fn_decorators function))))"

definition check_global :: "validation_context \<Rightarrow> global_binding_fact \<Rightarrow> unit result" where
  "check_global self binding =
     and_then (for_option (check_reference self) (gb_definition binding)) (\<lambda>_.
     and_then (check_static_type self (gb_value_type binding) 0) (\<lambda>_.
       fail_if (\<not> strict_assign (facts_language_policy (ctx_facts self)) \<and>
           gb_mutability binding \<noteq> GMUnknown)
         (structure_error ''strict global restrictions require strict_assign'')))"

definition check_attribute_site :: "validation_context \<Rightarrow> attribute_site_fact \<Rightarrow> unit result" where
  "check_attribute_site self site =
     (let identity = attr_identity site in
      and_then (check_site self (as_module identity) (as_source_digest identity)
        (as_enclosing_function identity) (as_expression_range identity)) (\<lambda>_.
      and_then (validate_name (attr_name site)) (\<lambda>_.
      and_then (check_static_type self (attr_receiver_type site) 0) (\<lambda>_.
      and_then (for_option (\<lambda>t. check_static_type self t 0) (attr_value_type site)) (\<lambda>_.
        for_option (check_class_reference self) (attr_declaring_class site))))))"

definition inexact_target :: "call_site_fact \<Rightarrow> bool" where
  "inexact_target site =
     (length (call_candidate_targets site) \<noteq> 1 \<or>
      (case call_candidate_targets site of [] \<Rightarrow> False | target # _ \<Rightarrow> target = CTDynamic) \<or>
      call_binding site \<in> {CBDynamic, CBDescriptor} \<or>
      (case call_receiver site of None \<Rightarrow> False
         | Some receiver \<Rightarrow> contains_uncertainty (receiver_value_type receiver) \<or>
                            receiver_uncertainty receiver \<noteq> {}))"

definition check_call_site :: "validation_context \<Rightarrow> call_site_fact \<Rightarrow> unit result" where
  "check_call_site self site =
     (let identity = call_identity site in
      and_then (check_site self (cs_module identity) (cs_source_digest identity)
        (cs_enclosing_function identity) (cs_expression_range identity)) (\<lambda>_.
      and_then (for_option (\<lambda>r. check_static_type self (receiver_value_type r) 0) (call_receiver site)) (\<lambda>_.
      and_then (for_option validate_name (call_attribute_name site)) (\<lambda>_.
      and_then (for_each (check_call_target self (call_binding site)) (call_candidate_targets site)) (\<lambda>_.
      and_then (fail_if (call_uncertain site = CUExactStaticTarget \<and> inexact_target site)
        (structure_error ''an exact logical call target requires one non-dynamic target'')) (\<lambda>_.
      and_then (fail_if
          (call_binding site \<in> {CBBoundInstanceMethod, CBBoundClassMethod, CBCallableInstanceField} \<and>
           (call_receiver site = None \<or> call_attribute_name site = None))
        (structure_error ''a bound attribute call requires a receiver and member name'')) (\<lambda>_.
      and_then (fail_if (call_uncertain site = CUCallableInstanceField \<and>
          call_binding site \<noteq> CBCallableInstanceField)
        (structure_error ''callable instance fields must not acquire method receiver binding'')) (\<lambda>_.
      and_then (check_signature self (call_signature site) 0) (\<lambda>_.
        check_static_type self (call_result_type site) 0)))))))))"

text \<open>The derived \<open>Debug\<close> of a field-less enum prints the variant's name.\<close>

primrec diagnostic_code_debug :: "diagnostic_code \<Rightarrow> string" where
  "diagnostic_code_debug StrictFinalGlobalRebind = ''StrictFinalGlobalRebind''"
| "diagnostic_code_debug StrictFinalGlobalDelete = ''StrictFinalGlobalDelete''"
| "diagnostic_code_debug StrictClassMutation = ''StrictClassMutation''"
| "diagnostic_code_debug StrictFinalClassSubclass = ''StrictFinalClassSubclass''"
| "diagnostic_code_debug StrictFinalMethodOverride = ''StrictFinalMethodOverride''"
| "diagnostic_code_debug StrictInstanceMethodShadow = ''StrictInstanceMethodShadow''"
| "diagnostic_code_debug StrictClassvarInstanceWrite = ''StrictClassvarInstanceWrite''"
| "diagnostic_code_debug StrictUndeclaredField = ''StrictUndeclaredField''"
| "diagnostic_code_debug StrictIncompatibleFieldWrite = ''StrictIncompatibleFieldWrite''"
| "diagnostic_code_debug StrictIncompatibleOverride = ''StrictIncompatibleOverride''"
| "diagnostic_code_debug StrictDictReplacement = ''StrictDictReplacement''"
| "diagnostic_code_debug StrictUnsupportedMetaclass = ''StrictUnsupportedMetaclass''"
| "diagnostic_code_debug StrictUnsupportedDecorator = ''StrictUnsupportedDecorator''"
| "diagnostic_code_debug StrictUnsupportedDescriptor = ''StrictUnsupportedDescriptor''"
| "diagnostic_code_debug StrictLayoutInheritanceConflict = ''StrictLayoutInheritanceConflict''"
| "diagnostic_code_debug StrictUncheckedDynamicType = ''StrictUncheckedDynamicType''"
| "diagnostic_code_debug StrictConstructionContractMismatch = ''StrictConstructionContractMismatch''"
| "diagnostic_code_debug CheckerError = ''CheckerError''"

definition blocking_message :: "strict_diagnostic \<Rightarrow> string" where
  "blocking_message d =
     diagnostic_code_debug (diag_code d) @ '' at '' @
     nat_decimal (unat (range_start (diag_source_range d))) @ ''..'' @
     nat_decimal (unat (range_end (diag_source_range d))) @ '' (suppressed='' @
     (if diag_suppressed d then ''true'' else ''false'') @ '')''"

definition check_diagnostic :: "validation_context \<Rightarrow> strict_diagnostic \<Rightarrow> unit result" where
  "check_diagnostic self d =
     and_then (local_range self (diag_source_range d)) (\<lambda>_.
     and_then (case diag_scope d of
         ScopeModule \<Rightarrow> Inr ()
       | ScopeDefinition identity \<Rightarrow>
           and_then (local_definition self identity) (\<lambda>_.
           and_then (check_reference self identity) (\<lambda>_.
             fail_if (\<not> range_contains (id_range identity) (diag_source_range d))
               (InvalidSourceIdentity ''diagnostic is outside its definition scope'')))
       | ScopeSite r \<Rightarrow>
           and_then (local_range self r) (\<lambda>_.
             fail_if (\<not> range_contains r (diag_source_range d))
               (InvalidSourceIdentity ''diagnostic is outside its site scope''))) (\<lambda>_.
     and_then (for_each (check_reference self) (diag_related_definitions d)) (\<lambda>_.
       fail_if (diag_severity d = DSError \<and> \<not> diag_suppressed d)
         (BlockingDiagnostic (blocking_message d)))))"

section \<open>The whole catalogue\<close>

text \<open>The source bytes, authenticated and checked to be UTF-8.\<close>

definition check_source ::
  "(u8 list \<Rightarrow> u8 list) \<Rightarrow> module_type_facts \<Rightarrow> u8 list option \<Rightarrow> unit result"
where
  "check_source sha256 facts source =
     for_option (\<lambda>bytes.
       and_then (fail_if (unat (facts_source_size facts) \<noteq> length bytes \<or>
           digest sha256 bytes \<noteq> facts_source_digest facts \<or>
           legacy_source_hash bytes \<noteq> source_hash (facts_module facts))
         (SourceMismatch (mci_name (facts_module facts)))) (\<lambda>_.
         fail_if (\<not> utf8_valid bytes)
           (InvalidSourceIdentity ''SOAC source must be valid UTF-8''))) source"

definition introduced_definitions :: "module_type_facts \<Rightarrow> source_identity list" where
  "introduced_definitions facts =
     filter (\<lambda>identity. id_module identity = facts_module facts \<and>
         id_kind identity \<notin> {DKClass, DKFunction, DKLambda})
       (List.map_filter gb_definition (facts_global_bindings facts) @
        concat (map (\<lambda>class. List.map_filter member_definition (class_class_members class))
          (facts_classes facts)) @
        concat (map (\<lambda>class. List.map_filter field_annotation_definition (class_instance_fields class))
          (facts_classes facts)) @
        map nb_binding (facts_nominal_bindings facts))"

definition context_of :: "module_type_facts \<Rightarrow> u8 list option \<Rightarrow> validation_context" where
  "context_of facts source =
     \<lparr>ctx_facts = facts, ctx_source = source,
      ctx_definitions = insert (module_body_identity facts)
        (set (map class_identity (facts_classes facts)) \<union>
         set (map fn_identity (facts_functions facts)) \<union> set (introduced_definitions facts)),
      ctx_classes = class_map_of (facts_classes facts),
      ctx_functions = set (map fn_identity (facts_functions facts)),
      ctx_dependencies = map_of (rev (map (\<lambda>d. (mci_name (dep_module d), d))
        (facts_consumed_dependencies facts)))\<rparr>"

definition check_lowered :: "module_type_facts \<Rightarrow> unit result" where
  "check_lowered facts =
     fail_if (has_suppressed facts \<and> demote_suppressed_regions facts \<noteq> facts)
       (BlockingDiagnostic ''suppressed regions retain precise class, value, or call proposals'')"

definition validate_module_facts ::
  "(u8 list \<Rightarrow> u8 list) \<Rightarrow> module_type_facts \<Rightarrow> u8 list option \<Rightarrow> unit result"
where
  "validate_module_facts sha256 facts source =
     and_then (fail_if (facts_schema_version facts \<noteq> ARTIFACT_SCHEMA_VERSION)
       (VersionMismatch ''module shard schema'' ARTIFACT_SCHEMA_VERSION (facts_schema_version facts))) (\<lambda>_.
     and_then (validate_module_name (mci_name (facts_module facts))) (\<lambda>_.
     and_then (validate_dependencies (facts_consumed_dependencies facts)
       (mci_name (facts_module facts))) (\<lambda>_.
     and_then (fail_if ((facts_source_dialect facts = SoacStrict) \<noteq>
         is_selected (facts_language_policy facts))
       (InvalidPolicy ''source admission must match the resolved comment rules'')) (\<lambda>_.
     and_then (check_source sha256 facts source) (\<lambda>_.
     and_then (for_unique (\<lambda>_. Inr ()) class_identity
       (\<lambda>_. structure_error ''duplicate class source identity'') (\<lambda>_. Inr ()) {}
       (facts_classes facts)) (\<lambda>_.
     and_then (for_unique (\<lambda>_. Inr ()) cpo_class_range
       (\<lambda>_. InvalidPolicy ''class rules must uniquely identify an actual source class'')
       (\<lambda>rule. fail_if (\<not> list_ex (\<lambda>class. id_range (class_identity class) = cpo_class_range rule)
           (facts_classes facts))
         (InvalidPolicy ''class rules must uniquely identify an actual source class'')) {}
       (class_overrides (facts_language_policy facts))) (\<lambda>_.
     and_then (for_unique (\<lambda>_. Inr ()) fn_identity
       (\<lambda>_. structure_error ''duplicate function source identity'') (\<lambda>_. Inr ()) {}
       (facts_functions facts)) (\<lambda>_.
     let context = context_of facts source in
     and_then (for_unique (\<lambda>b. validate_name (gb_name b)) gb_name
       (\<lambda>_. structure_error ''duplicate global binding'') (check_global context) {}
       (facts_global_bindings facts)) (\<lambda>_.
     and_then (for_each (check_class context) (facts_classes facts)) (\<lambda>_.
     and_then (inheritance_graph (ctx_classes context)) (\<lambda>_.
     and_then (for_each (check_function context) (facts_functions facts)) (\<lambda>_.
     and_then (for_unique (\<lambda>_. Inr ()) (\<lambda>b. (nb_owner b, nb_expression_range b))
       (\<lambda>_. structure_error ''duplicate nominal annotation leaf'') (check_nominal_binding context) {}
       (facts_nominal_bindings facts)) (\<lambda>_.
     and_then (for_unique (\<lambda>_. Inr ()) attr_identity
       (\<lambda>_. structure_error ''duplicate attribute site identity'') (check_attribute_site context) {}
       (facts_attribute_sites facts)) (\<lambda>_.
     and_then (for_unique (\<lambda>_. Inr ()) call_identity
       (\<lambda>_. structure_error ''duplicate call site identity'') (check_call_site context) {}
       (facts_call_sites facts)) (\<lambda>_.
     and_then (for_each (check_diagnostic context) (facts_diagnostics facts)) (\<lambda>_.
       check_lowered facts))))))))))))))))"

section \<open>What a validated catalogue guarantees\<close>

lemma validated_iff:
  "validate_module_facts sha256 facts source = Inr () \<longleftrightarrow>
     facts_schema_version facts = ARTIFACT_SCHEMA_VERSION \<and>
     validate_module_name (mci_name (facts_module facts)) = Inr () \<and>
     validate_dependencies (facts_consumed_dependencies facts) (mci_name (facts_module facts)) = Inr () \<and>
     (facts_source_dialect facts = SoacStrict) = is_selected (facts_language_policy facts) \<and>
     check_source sha256 facts source = Inr () \<and>
     distinct (map class_identity (facts_classes facts)) \<and>
     distinct (map cpo_class_range (class_overrides (facts_language_policy facts))) \<and>
     (\<forall>rule \<in> set (class_overrides (facts_language_policy facts)).
        \<exists>class \<in> set (facts_classes facts). id_range (class_identity class) = cpo_class_range rule) \<and>
     distinct (map fn_identity (facts_functions facts)) \<and>
     distinct (map gb_name (facts_global_bindings facts)) \<and>
     (\<forall>b \<in> set (facts_global_bindings facts). validate_name (gb_name b) = Inr () \<and>
        check_global (context_of facts source) b = Inr ()) \<and>
     (\<forall>c \<in> set (facts_classes facts). check_class (context_of facts source) c = Inr ()) \<and>
     inheritance_graph (class_map_of (facts_classes facts)) = Inr () \<and>
     (\<forall>f \<in> set (facts_functions facts). check_function (context_of facts source) f = Inr ()) \<and>
     distinct (map (\<lambda>b. (nb_owner b, nb_expression_range b)) (facts_nominal_bindings facts)) \<and>
     (\<forall>b \<in> set (facts_nominal_bindings facts). check_nominal_binding (context_of facts source) b = Inr ()) \<and>
     distinct (map attr_identity (facts_attribute_sites facts)) \<and>
     (\<forall>s \<in> set (facts_attribute_sites facts). check_attribute_site (context_of facts source) s = Inr ()) \<and>
     distinct (map call_identity (facts_call_sites facts)) \<and>
     (\<forall>s \<in> set (facts_call_sites facts). check_call_site (context_of facts source) s = Inr ()) \<and>
     (\<forall>d \<in> set (facts_diagnostics facts). check_diagnostic (context_of facts source) d = Inr ()) \<and>
     check_lowered facts = Inr ()"
  unfolding validate_module_facts_def Let_def
  by (simp add: list_ex_iff context_of_def [of facts source, THEN arg_cong [where f = ctx_classes]]) blast

end
