(* ===== verification/Contract_Guarantees.thy ===== *)
theory Contract_Guarantees
  imports Contract_Validation
begin

text \<open>
  What validation guarantees of an accepted catalogue (\<open>validate_module_facts\<close> of
  \<^verbatim>\<open>crates/soac_contracts/src/validation.rs\<close>), stated on the catalogue itself and without
  the validator's context: every class reference anywhere in it resolves, candidate classes are
  checkable, exact call targets exist, nominal bindings name the innermost lexical scope, source
  ranges are character boundaries of the authenticated source.
\<close>

section \<open>Resolution of references\<close>

lemma context_simps [simp]:
  "ctx_facts (context_of facts source) = facts"
  "ctx_source (context_of facts source) = source"
  "ctx_classes (context_of facts source) = class_map_of (facts_classes facts)"
  "ctx_functions (context_of facts source) = fn_identity ` set (facts_functions facts)"
  by (simp_all add: context_of_def)

definition resolved_class :: "module_type_facts \<Rightarrow> class_reference \<Rightarrow> bool" where
  "resolved_class facts r \<longleftrightarrow>
     (if id_module (class_definition r) = facts_module facts then
        class_source_digest r = facts_source_digest facts \<and>
        list_ex (\<lambda>c. class_identity c = class_definition r) (facts_classes facts)
      else
        list_ex (\<lambda>d. dep_module d = id_module (class_definition r) \<and>
            dep_source_digest d = class_source_digest r \<and>
            range_end (id_range (class_definition r)) \<le> dep_source_size d)
          (facts_consumed_dependencies facts))"

lemma local_class_identity:
  assumes "validate_module_facts sha256 facts source = Inr ()"
    and "i \<in> ctx_definitions (context_of facts source)" "id_kind i = DKClass"
  shows "\<exists>c \<in> set (facts_classes facts). class_identity c = i"
proof -
  have "id_kind (fn_identity f) \<noteq> DKClass" if "f \<in> set (facts_functions facts)" for f
    using assms(1) that by (auto simp: validated_iff check_function_def is_function_like_def)
  then show ?thesis
    using assms(2,3)
    by (auto simp: context_of_def introduced_definitions_def module_body_identity_def module_body_def)
qed

lemma dependency_lookup:
  assumes "ctx_dependencies (context_of facts source) name = Some d"
  shows "d \<in> set (facts_consumed_dependencies facts) \<and> mci_name (dep_module d) = name"
  using map_of_SomeD [OF assms [unfolded context_of_def, simplified]] by auto

lemma check_reference_external:
  assumes "check_reference self i = Inr ()" "id_module i \<noteq> facts_module (ctx_facts self)"
  shows "\<exists>d. ctx_dependencies self (mci_name (id_module i)) = Some d \<and> dep_module d = id_module i \<and>
    range_end (id_range i) \<le> dep_source_size d"
  using assms by (auto simp: check_reference_def validate_range_def not_less)

lemma check_reference_local:
  assumes "check_reference self i = Inr ()" "id_module i = facts_module (ctx_facts self)"
  shows "i \<in> ctx_definitions self \<and> local_range self (id_range i) = Inr ()"
  using assms by (simp add: check_reference_def)

lemma check_source_digest_eq:
  "check_source_digest self m fp = Inr () \<longleftrightarrow>
     (if m = facts_module (ctx_facts self) then fp = facts_source_digest (ctx_facts self)
      else \<exists>d. ctx_dependencies self (mci_name m) = Some d \<and> dep_module d = m \<and> dep_source_digest d = fp)"
  by (cases "ctx_dependencies self (mci_name m)")
    (auto simp: check_source_digest_def expected_source_digest_def)

lemma check_class_reference_resolves:
  assumes valid: "validate_module_facts sha256 facts source = Inr ()"
    and ok: "check_class_reference (context_of facts source) r = Inr ()"
  shows "resolved_class facts r"
proof -
  let ?self = "context_of facts source" and ?m = "id_module (class_definition r)"
  have ref: "check_reference ?self (class_definition r) = Inr ()"
    and kind: "id_kind (class_definition r) = DKClass"
    and fp: "check_source_digest ?self ?m (class_source_digest r) = Inr ()"
    using ok by (simp_all add: check_class_reference_def)
  show ?thesis
  proof (cases "?m = facts_module facts")
    case True
    then have "class_definition r \<in> ctx_definitions ?self"
      using check_reference_local [OF ref] by simp
    then show ?thesis
      using local_class_identity [OF valid _ kind] fp True
      by (simp add: check_source_digest_eq resolved_class_def list_ex_iff)
  next
    case False
    then obtain d where d: "ctx_dependencies ?self (mci_name ?m) = Some d" "dep_module d = ?m"
      "range_end (id_range (class_definition r)) \<le> dep_source_size d"
      using check_reference_external [OF ref] by auto
    moreover have "dep_source_digest d = class_source_digest r"
      using fp False d by (simp add: check_source_digest_eq)
    ultimately show ?thesis
      using False dependency_lookup [OF d(1)] by (auto simp: resolved_class_def list_ex_iff)
  qed
qed

section \<open>All class references of a catalogue\<close>

fun type_classes :: "static_type \<Rightarrow> class_reference list"
and signature_classes :: "callable_signature \<Rightarrow> class_reference list"
and default_classes :: "default_fact \<Rightarrow> class_reference list"
where
  "type_classes (TNominalClass c) = [c]"
| "type_classes (TExactClass c) = [c]"
| "type_classes (TUnion ts) = concat (map type_classes ts)"
| "type_classes (TOptional t) = type_classes t"
| "type_classes (TCallable s) = signature_classes s"
| "type_classes (TTypeVariable v) =
     (case tv_upper_bound v of None \<Rightarrow> [] | Some t \<Rightarrow> type_classes t) @
     concat (map type_classes (tv_constraints v))"
| "type_classes (TStructuralProtocol p) = (case protocol_definition p of None \<Rightarrow> [] | Some c \<Rightarrow> [c])"
| "type_classes _ = []"
| "signature_classes s =
     concat (map (\<lambda>p. type_classes (param_type p) @ default_classes (param_default p))
       (sig_parameters s)) @ type_classes (sig_return_type s)"
| "default_classes (DefaultValue t _) = type_classes t"
| "default_classes (DefaultFactory _ t) = type_classes t"
| "default_classes _ = []"

declare signature_classes.simps [simp del]

lemma checked_type_classes:
  "check_static_type self t d = Inr () \<Longrightarrow> r \<in> set (type_classes t) \<Longrightarrow> check_class_reference self r = Inr ()"
  "check_signature self s d = Inr () \<Longrightarrow> r \<in> set (signature_classes s) \<Longrightarrow> check_class_reference self r = Inr ()"
  "check_default self df d = Inr () \<Longrightarrow> r \<in> set (default_classes df) \<Longrightarrow> check_class_reference self r = Inr ()"
proof (induction t and s and df arbitrary: d and d and d rule: type_structure_induct)
  case (1 t)
  show ?case
  proof (cases t)
    case (TUnion ts)
    then show ?thesis using "1.prems" "1.IH"(1) by (auto simp: check_type_unfold)
  next
    case (TOptional u)
    then show ?thesis using "1.prems" "1.IH"(2) by (auto simp: check_type_unfold)
  next
    case (TCallable s)
    then show ?thesis using "1.prems" "1.IH"(3) by (auto simp: check_type_unfold)
  next
    case (TTypeVariable v)
    then show ?thesis
      using "1.prems" "1.IH"(4) [OF TTypeVariable] "1.IH"(5) [OF TTypeVariable]
      by (cases "tv_upper_bound v") (auto simp: check_type_unfold)
  qed (use "1.prems" in \<open>auto simp: check_type_unfold split: option.splits\<close>)
next
  case (2 s)
  consider "r \<in> set (type_classes (sig_return_type s))"
    | p where "p \<in> set (sig_parameters s)" "r \<in> set (type_classes (param_type p))"
    | p where "p \<in> set (sig_parameters s)" "r \<in> set (default_classes (param_default p))"
    using "2.prems"(2) by (auto simp: signature_classes.simps)
  then show ?case
  proof cases
    case 1
    have "check_static_type self (sig_return_type s) (d + 1) = Inr ()"
      using "2.prems"(1) unfolding check_signature_eq by blast
    then show ?thesis using 1 by (rule "2.IH"(1))
  next
    case (2 p)
    have "check_static_type self (param_type p) (d + 1) = Inr ()"
      using "2.prems"(1) 2(1) unfolding check_signature_eq by blast
    then show ?thesis using "2.IH"(2) [OF 2(1)] 2(2) by blast
  next
    case (3 p)
    have "check_default self (param_default p) (d + 1) = Inr ()"
      using "2.prems"(1) 3(1) unfolding check_signature_eq by blast
    then show ?thesis using "2.IH"(2) [OF 3(1)] 3(2) by blast
  qed
next
  case (3 df)
  then show ?case by (cases df) (auto simp: check_default_unfold)
qed

definition option_classes :: "static_type option \<Rightarrow> class_reference list" where
  "option_classes x = (case x of None \<Rightarrow> [] | Some t \<Rightarrow> type_classes t)"

fun target_classes :: "callable_target_fact \<Rightarrow> class_reference list" where
  "target_classes (CTMethod c _ _) = [c]"
| "target_classes (CTGenerated g) = [gen_class g]"
| "target_classes _ = []"

definition class_fact_classes :: "class_type_fact \<Rightarrow> class_reference list" where
  "class_fact_classes c =
     List.map_filter as_class (class_bases c @ linearized_bases (class_inheritance c)) @
     (case class_metaclass c of MetaClass m \<Rightarrow> [m] | _ \<Rightarrow> []) @
     concat (map (\<lambda>f. field_declaring_class f # type_classes (field_value_type f) @
         default_classes (field_default f) @ option_classes (descr_type (field_descriptor f)))
       (class_instance_fields c)) @
     concat (map (\<lambda>m. method_declaring_class m # signature_classes (method_signature m))
       (class_methods c)) @
     concat (map (\<lambda>m. type_classes (member_value_type m) @ option_classes (descr_type (member_descriptor m)))
       (class_class_members c))"

definition call_site_classes :: "call_site_fact \<Rightarrow> class_reference list" where
  "call_site_classes s =
     (case call_receiver s of None \<Rightarrow> [] | Some r \<Rightarrow> type_classes (receiver_value_type r)) @
     concat (map target_classes (call_candidate_targets s)) @
     signature_classes (call_signature s) @ type_classes (call_result_type s)"

definition attribute_site_classes :: "attribute_site_fact \<Rightarrow> class_reference list" where
  "attribute_site_classes s =
     type_classes (attr_receiver_type s) @ option_classes (attr_value_type s) @
     (case attr_declaring_class s of None \<Rightarrow> [] | Some c \<Rightarrow> [c])"

definition catalogue_classes :: "module_type_facts \<Rightarrow> class_reference list" where
  "catalogue_classes facts =
     concat (map (\<lambda>b. type_classes (gb_value_type b)) (facts_global_bindings facts)) @
     concat (map class_fact_classes (facts_classes facts)) @
     concat (map (\<lambda>f. signature_classes (fn_signature f)) (facts_functions facts)) @
     map nb_class (facts_nominal_bindings facts) @
     concat (map attribute_site_classes (facts_attribute_sites facts)) @
     concat (map call_site_classes (facts_call_sites facts))"

lemma checked_option_classes:
  "check_descriptor self d = Inr () \<Longrightarrow> r \<in> set (option_classes (descr_type d)) \<Longrightarrow>
   check_class_reference self r = Inr ()"
  by (cases "descr_type d") (auto simp: check_descriptor_def option_classes_def dest: checked_type_classes(1))

lemma set_map_filter_as_class: "set (List.map_filter as_class bs) = {r. BaseClass r \<in> set bs}"
  by (auto simp: List.map_filter_def as_class_base image_iff) (metis as_class_base option.sel)

lemma checked_bases_classes:
  assumes "check_bases self c = Inr ()"
    and "r \<in> set (List.map_filter as_class (class_bases c @ linearized_bases (class_inheritance c)))"
  shows "check_class_reference self r = Inr ()"
proof -
  have "\<forall>b \<in> set (List.map_filter as_class (class_bases c @ linearized_bases (class_inheritance c))).
      check_class_reference self b = Inr ()"
    using assms(1) unfolding check_bases_def Let_def by simp
  then show ?thesis using assms(2) by blast
qed

lemma check_field_parts:
  assumes "check_field self c f = Inr ()"
  shows "check_class_reference self (field_declaring_class f) = Inr ()"
    "check_static_type self (field_value_type f) 0 = Inr ()"
    "check_default self (field_default f) 0 = Inr ()"
    "check_descriptor self (field_descriptor f) = Inr ()"
  using assms by (simp_all add: check_field_def check_declaring_class_def)

lemma check_method_parts:
  assumes "check_method self c m = Inr ()"
  shows "check_class_reference self (method_declaring_class m) = Inr ()"
    "check_signature self (method_signature m) 0 = Inr ()"
  using assms by (simp_all add: check_method_def check_declaring_class_def)

lemma check_class_parts:
  assumes "check_class self c = Inr ()"
  shows "local_definition self (class_identity c) = Inr ()" "id_kind (class_identity c) = DKClass"
    "check_bases self c = Inr ()" "check_participation self c = Inr ()"
    "\<forall>f \<in> set (class_instance_fields c). check_field self c f = Inr ()"
    "\<forall>m \<in> set (class_methods c). check_method self c m = Inr ()"
    "\<forall>m \<in> set (class_class_members c). check_member self m = Inr ()"
    "\<And>m. class_metaclass c = MetaClass m \<Longrightarrow> check_class_reference self m = Inr ()"
    "distinct (map field_name (class_instance_fields c))"
    "distinct (map method_name (class_methods c))"
    "distinct (map member_name (class_class_members c))"
  using assms by (simp_all add: check_class_def)

lemma checked_class_fact_classes:
  assumes "check_class self c = Inr ()" "r \<in> set (class_fact_classes c)"
  shows "check_class_reference self r = Inr ()"
proof -
  note parts = check_class_parts [OF assms(1)]
  consider "r \<in> set (List.map_filter as_class (class_bases c @ linearized_bases (class_inheritance c)))"
    | "class_metaclass c = MetaClass r"
    | f where "f \<in> set (class_instance_fields c)"
        "r \<in> set (field_declaring_class f # type_classes (field_value_type f) @
          default_classes (field_default f) @ option_classes (descr_type (field_descriptor f)))"
    | m where "m \<in> set (class_methods c)"
        "r \<in> set (method_declaring_class m # signature_classes (method_signature m))"
    | m where "m \<in> set (class_class_members c)"
        "r \<in> set (type_classes (member_value_type m) @ option_classes (descr_type (member_descriptor m)))"
    using assms(2) unfolding class_fact_classes_def
    by (cases "class_metaclass c") (simp_all del: set_simps, auto)
  then show ?thesis
  proof cases
    case 1
    with parts(3) show ?thesis by (rule checked_bases_classes)
  next
    case 2
    then show ?thesis by (rule parts(8))
  next
    case (3 f)
    then have "check_field self c f = Inr ()" using parts(5) by blast
    from check_field_parts [OF this] 3(2) show ?thesis
      by (auto dest: checked_type_classes checked_option_classes)
  next
    case (4 m)
    then have "check_method self c m = Inr ()" using parts(6) by blast
    from check_method_parts [OF this] 4(2) show ?thesis by (auto dest: checked_type_classes)
  next
    case (5 m)
    then have "check_member self m = Inr ()" using parts(7) by blast
    with 5(2) show ?thesis
      by (auto simp: check_member_def dest: checked_type_classes checked_option_classes)
  qed
qed

section \<open>A catalogue that validates\<close>

lemma sample_validate_names [simp]:
  "validate_name ''m'' = Inr ()" "validate_name ''A'' = Inr ()" "validate_name ''B'' = Inr ()"
  "validate_name ''x'' = Inr ()" "validate_name ''f'' = Inr ()"
  "validate_module_name ''m'' = Inr ()"
  "validate_qualname ''A'' = Inr ()" "validate_qualname ''B'' = Inr ()" "validate_qualname ''A.x'' = Inr ()"
  "validate_qualname ''<module>'' = Inr ()"
  by (simp_all add: validate_name_def validate_module_name_def validate_qualname_def is_err_def)

lemma sample_graph: "inheritance_graph (class_map_of [sample_class_B, sample_class_A]) = Inr ()"
  using sample_A_B
  by (simp add: inheritance_graph_def class_map_of_def local_bases_def List.map_filter_def)

lemma sample_text: "length sample_source = 28" "utf8_valid sample_source"
  "source_slice sample_source \<lparr>range_start = 10, range_end = 11\<rparr> = bytes_of_string ''B''"
  by code_simp+

lemma sample_boundaries: "i \<le> 28 \<Longrightarrow> is_char_boundary sample_source i"
proof -
  assume "i \<le> 28"
  moreover have "list_all (is_char_boundary sample_source) [0..<29]" by code_simp
  ultimately show ?thesis unfolding list_all_iff by simp
qed

lemma sample_graph_sorted: "inheritance_graph (class_map_of [sample_class_A, sample_class_B]) = Inr ()"
  using sample_A_B less_imp_le [OF sample_A_less_B]
  by (simp add: inheritance_graph_def class_map_of_def local_bases_def List.map_filter_def)

lemma sample_class_valid:
  assumes "c \<in> {sample_class_A, sample_class_B}" "facts \<in> {sample_facts, sample_sorted}"
  shows "check_class (context_of facts (Some sample_source)) c = Inr ()"
    "check_class (context_of facts None) c = Inr ()"
proof -
  have "{sample_A, sample_B} \<subseteq> ctx_definitions (context_of facts source)" for source
    using assms(2) by (auto simp: context_of_def)
  then show "check_class (context_of facts (Some sample_source)) c = Inr ()"
    "check_class (context_of facts None) c = Inr ()"
    using assms sample_A_B
    by (auto simp: check_class_def local_definition_def check_bases_def check_participation_def
        check_class_reference_def check_reference_def check_source_digest_def expected_source_digest_def
        List.map_filter_def local_range_def validate_range_def validate_definition_range_def
        checked_attributes_def sample_boundaries sample_class_A_def sample_class_B_def)
qed

lemma sample_valid:
  "validate_module_facts sample_sha256 sample_facts (Some sample_source) = Inr ()"
  "validate_module_facts sample_sha256 sample_sorted (Some sample_source) = Inr ()"
  "validate_module_facts sample_sha256 sample_sorted None = Inr ()"
  unfolding validated_iff using sample_A_B sample_class_valid
  by (simp_all add: validate_dependencies_def is_selected_def check_source_def sample_text
      sample_graph sample_graph_sorted check_lowered_def has_suppressed_def digest_def sample_sha256_def
      sample_digest_def)

lemma rich_graph: "inheritance_graph (class_map_of [rich_class_A, sample_class_B]) = Inr ()"
  using sample_A_B
  by (simp add: inheritance_graph_def class_map_of_def local_bases_def List.map_filter_def
      less_imp_le [OF sample_A_less_B])

lemma rich_definitions:
  "{sample_A, sample_B, rich_x, module_body sample_module 28} \<subseteq> ctx_definitions (context_of rich_facts (Some sample_source))"
  by (auto simp: context_of_def introduced_definitions_def module_body_identity_def rich_field_def
      List.map_filter_def rich_x_def)

lemma rich_references:
  "check_reference (context_of rich_facts (Some sample_source)) sample_A = Inr ()"
  "check_reference (context_of rich_facts (Some sample_source)) sample_B = Inr ()"
  "check_reference (context_of rich_facts (Some sample_source)) rich_x = Inr ()"
  "check_reference (context_of rich_facts (Some sample_source)) (module_body sample_module 28) = Inr ()"
  using rich_definitions
  by (simp_all add: check_reference_def local_range_def validate_range_def validate_definition_range_def
      rich_x_def module_body_def source_range_new_def sample_boundaries)

lemma rich_class_references:
  "check_class_reference (context_of rich_facts (Some sample_source)) (rich_ref sample_A) = Inr ()"
  "check_class_reference (context_of rich_facts (Some sample_source)) (rich_ref sample_B) = Inr ()"
  by (simp_all add: check_class_reference_def rich_ref_def rich_references check_source_digest_eq)

lemma rich_types:
  "check_static_type (context_of rich_facts (Some sample_source)) TNone d = Inr () \<longleftrightarrow> d \<le> 64"
  "check_signature (context_of rich_facts (Some sample_source)) rich_signature 0 = Inr ()"
  by (simp_all add: check_type_unfold check_signature_eq rich_signature_def python_binding_order_def
      of_kind_def)

lemma rich_field_valid: "check_field (context_of rich_facts (Some sample_source)) rich_class_A rich_field = Inr ()"
  using sample_A_B
  by (simp add: check_field_def rich_field_def check_declaring_class_def rich_class_references
      check_field_annotation_definition_def rich_references check_type_unfold check_default_unfold
      check_descriptor_def descriptor_fact_default_def accessors_def)
    (simp add: rich_ref_def rich_x_def range_contains_def)

lemma rich_method_valid: "check_method (context_of rich_facts (Some sample_source)) rich_class_A rich_method = Inr ()"
  by (simp add: check_method_def rich_method_def check_declaring_class_def rich_class_references rich_types)
    (simp add: rich_ref_def)

lemma rich_local_range:
  "a \<le> b \<Longrightarrow> b \<le> 28 \<Longrightarrow> local_range (context_of rich_facts (Some sample_source)) \<lparr>range_start = a, range_end = b\<rparr> = Inr ()"
  by (simp add: local_range_def validate_range_def not_less sample_boundaries word_le_nat_alt)

lemma rich_class_valid:
  "check_class (context_of rich_facts (Some sample_source)) rich_class_A = Inr ()"
  "check_class (context_of rich_facts (Some sample_source)) sample_class_B = Inr ()"
proof -
  have "validate_name (field_name rich_field) = Inr ()" "validate_name (method_name rich_method) = Inr ()"
    by (simp_all add: rich_field_def rich_method_def)
  moreover have "check_class_reference (context_of rich_facts (Some sample_source))
      \<lparr>class_definition = sample_A, class_source_digest = sample_digest\<rparr> = Inr ()"
    using rich_class_references(1) by (simp add: rich_ref_def)
  ultimately show "check_class (context_of rich_facts (Some sample_source)) rich_class_A = Inr ()"
    "check_class (context_of rich_facts (Some sample_source)) sample_class_B = Inr ()"
    using sample_A_B rich_definitions
    by (simp_all add: check_class_def local_definition_def check_bases_def check_participation_def
        checked_attributes_def List.map_filter_def sample_class_B_def rich_field_valid rich_method_valid
        rich_local_range validate_definition_range_def)
qed

lemma rich_lookup: "map_of (class_map_of [rich_class_A, sample_class_B]) sample_A = Some rich_class_A"
  using sample_A_B by (simp add: class_map_of_def)

lemma rich_annotation:
  "nominal_annotation (context_of rich_facts (Some sample_source)) (nb_owner rich_binding) =
     Inr (rich_x, TNominalClass (rich_ref sample_B), AOExplicit)"
proof -
  have "check_field_annotation_definition (context_of rich_facts (Some sample_source)) rich_field = Inr ()"
    using rich_field_valid by (simp add: check_field_def)
  moreover have "List.find (\<lambda>field. field_name field = ''x'' \<and> field_declaring_class field = rich_ref sample_A \<and>
      field_annotation_definition field = Some rich_x) [rich_field] = Some rich_field"
    by (simp add: rich_field_def)
  ultimately show ?thesis
    by (simp add: nominal_annotation_def rich_binding_def check_field_reference_def rich_class_references
        rich_references rich_lookup rich_ref_def [of sample_A, THEN arg_cong [where f = class_definition]])
      (simp add: rich_field_def)
qed

lemma rich_binding_valid: "check_nominal_binding (context_of rich_facts (Some sample_source)) rich_binding = Inr ()"
proof -
  have "module_body sample_module 28 \<noteq> sample_B" "module_body sample_module 28 \<noteq> rich_x"
    by (simp_all add: module_body_def sample_B_def sample_identity_def rich_x_def)
  moreover have "id_range (module_body sample_module 28) = \<lparr>range_start = 0, range_end = 28\<rparr>"
    "id_kind (module_body sample_module 28) = DKModule"
    "id_module (module_body sample_module 28) = sample_module"
    by (simp_all add: module_body_def source_range_new_def)
  ultimately show ?thesis
    unfolding check_nominal_binding_def rich_annotation using sample_A_B
    by (simp add: rich_binding_def rich_class_references rich_references rich_local_range
        range_contains_def invalid_binding_scope_def skips_lexical_owner_def captures_class_namespace_def
        rich_global_def sample_text(3) rich_x_def [THEN arg_cong [where f = id_range]]
        rich_x_def [THEN arg_cong [where f = id_module]])
qed

lemma rich_call_valid: "check_call_site (context_of rich_facts (Some sample_source)) rich_call = Inr ()"
  using rich_definitions
  by (simp add: check_call_site_def rich_call_def rich_types check_site_def rich_local_range
      rich_class_references inexact_target_def rich_references check_source_digest_eq)
   (simp add: rich_ref_def rich_lookup rich_method_def range_contains_def)

lemma rich_valid: "validate_module_facts sample_sha256 rich_facts (Some sample_source) = Inr ()"
  unfolding validated_iff using sample_A_B rich_class_valid rich_binding_valid rich_call_valid
  by (simp add: validate_dependencies_def is_selected_def check_source_def rich_graph check_lowered_def
      has_suppressed_def check_global_def rich_global_def rich_references check_type_unfold sample_text
      digest_def sample_sha256_def sample_digest_def)

section \<open>References and inheritance\<close>

lemma checked_site_classes:
  "check_attribute_site self a = Inr () \<Longrightarrow> r \<in> set (attribute_site_classes a) \<Longrightarrow>
     check_class_reference self r = Inr ()"
  "check_call_site self c = Inr () \<Longrightarrow> r \<in> set (call_site_classes c) \<Longrightarrow>
     check_class_reference self r = Inr ()"
proof -
  show "check_attribute_site self a = Inr () \<Longrightarrow> r \<in> set (attribute_site_classes a) \<Longrightarrow>
     check_class_reference self r = Inr ()"
    by (cases "attr_value_type a"; cases "attr_declaring_class a")
      (auto simp: check_attribute_site_def attribute_site_classes_def option_classes_def Let_def
        dest: checked_type_classes)
  have target: "check_call_target self b t = Inr () \<Longrightarrow> r \<in> set (target_classes t) \<Longrightarrow>
      check_class_reference self r = Inr ()" for b t
    by (cases t) (auto simp: check_generated_function_def)
  show "check_call_site self c = Inr () \<Longrightarrow> r \<in> set (call_site_classes c) \<Longrightarrow>
     check_class_reference self r = Inr ()"
    by (cases "call_receiver c")
      (auto simp: check_call_site_def call_site_classes_def Let_def dest: checked_type_classes target)
qed

lemma checked_catalogue_classes:
  assumes valid: "validate_module_facts sha256 facts source = Inr ()"
    and r: "r \<in> set (catalogue_classes facts)"
  shows "check_class_reference (context_of facts source) r = Inr ()"
proof -
  consider b where "b \<in> set (facts_global_bindings facts)" "r \<in> set (type_classes (gb_value_type b))"
    | c where "c \<in> set (facts_classes facts)" "r \<in> set (class_fact_classes c)"
    | f where "f \<in> set (facts_functions facts)" "r \<in> set (signature_classes (fn_signature f))"
    | b where "b \<in> set (facts_nominal_bindings facts)" "r = nb_class b"
    | a where "a \<in> set (facts_attribute_sites facts)" "r \<in> set (attribute_site_classes a)"
    | c where "c \<in> set (facts_call_sites facts)" "r \<in> set (call_site_classes c)"
    using r unfolding catalogue_classes_def by auto
  then show ?thesis
  proof cases
    case (1 b)
    then have "check_global (context_of facts source) b = Inr ()" using valid by (simp add: validated_iff)
    then show ?thesis using 1(2) by (auto simp: check_global_def dest: checked_type_classes)
  next
    case (2 c)
    then have "check_class (context_of facts source) c = Inr ()" using valid by (simp add: validated_iff)
    then show ?thesis using 2(2) by (rule checked_class_fact_classes)
  next
    case (3 f)
    then have "check_function (context_of facts source) f = Inr ()" using valid by (simp add: validated_iff)
    then show ?thesis using 3(2) by (auto simp: check_function_def dest: checked_type_classes)
  next
    case (4 b)
    then have "check_nominal_binding (context_of facts source) b = Inr ()" using valid by (simp add: validated_iff)
    then show ?thesis using 4(2) by (auto simp: check_nominal_binding_def)
  next
    case (5 a)
    then have "check_attribute_site (context_of facts source) a = Inr ()" using valid by (simp add: validated_iff)
    then show ?thesis using 5(2) by (rule checked_site_classes)
  next
    case (6 c)
    then have "check_call_site (context_of facts source) c = Inr ()" using valid by (simp add: validated_iff)
    then show ?thesis using 6(2) by (rule checked_site_classes)
  qed
qed

text \<open>
  C3. In an accepted catalogue every class reference, wherever it occurs (in any type at any depth, as a
  base, an MRO entry, a metaclass, a declaring class, a nominal leaf or a call target), resolves: to a
  class of the module with the module's own digest, or to a consumed dependency with that
  dependency's digest and inside its source. The local inheritance relation is acyclic.
\<close>

theorem validated_references_resolve:
  assumes "validate_module_facts sha256 facts source = Inr ()"
  shows "list_all (resolved_class facts) (catalogue_classes facts) \<and>
    acyclic (derives_from (facts_classes facts)) \<and> distinct (map class_identity (facts_classes facts))"
proof -
  have "distinct (map class_identity (facts_classes facts))"
    "inheritance_graph (class_map_of (facts_classes facts)) = Inr ()"
    using assms by (simp_all add: validated_iff)
  then show ?thesis
    using inheritance_graph_acyclic checked_catalogue_classes [OF assms]
      check_class_reference_resolves [OF assms]
    by (auto simp: list_all_iff)
qed

theorem validated_references_resolve_witness:
  "validate_module_facts sample_sha256 rich_facts (Some sample_source) = Inr () \<and>
   rich_ref sample_B \<in> set (catalogue_classes rich_facts) \<and> resolved_class rich_facts (rich_ref sample_B) \<and>
   acyclic (derives_from (facts_classes rich_facts))"
  using validated_references_resolve [OF rich_valid] rich_valid
  by (simp add: list_all_iff catalogue_classes_def rich_binding_def)

section \<open>Participation and suppression\<close>

lemma lowered_fixed:
  assumes "validate_module_facts sha256 facts source = Inr ()"
  shows "demote_suppressed_regions facts = facts"
  using assms by (auto simp: validated_iff check_lowered_def demote_suppressed_regions_def)

lemma validated_references_free:
  assumes "validate_module_facts sha256 facts source = Inr ()"
  shows "references_free (ignored_of facts) facts"
  using demoted_references_free [of facts] unfolding lowered_fixed [OF assms] .

lemma list_position_last:
  "x \<in> set xs \<Longrightarrow> distinct xs \<Longrightarrow> list_position (\<lambda>y. y = x) xs = Some n \<Longrightarrow> n + 1 = length xs \<Longrightarrow> last xs = x"
proof (induction xs arbitrary: n)
  case (Cons y ys)
  then show ?case by (cases "y = x") auto
qed simp

lemma list_position_member: "x \<in> set xs \<Longrightarrow> list_position (\<lambda>y. y = x) xs \<noteq> None"
  by (induction xs) auto

lemma complete_bases:
  assumes "check_bases self c = Inr ()" "inheritance_complete (class_inheritance c)"
  shows "set (class_bases c) \<subseteq> set (linearized_bases (class_inheritance c))"
    "distinct (linearized_bases (class_inheritance c))"
    "BaseBuiltin BObject \<in> set (linearized_bases (class_inheritance c)) \<Longrightarrow>
      last (linearized_bases (class_inheritance c)) = BaseBuiltin BObject"
proof -
  let ?mro = "linearized_bases (class_inheritance c)"
  show "set (class_bases c) \<subseteq> set ?mro" and distinct: "distinct ?mro"
    using assms by (simp_all add: check_bases_def Let_def)
  assume object: "BaseBuiltin BObject \<in> set ?mro"
  then obtain n where "list_position (\<lambda>b. b = BaseBuiltin BObject) ?mro = Some n"
    using list_position_member by fast
  then show "last ?mro = BaseBuiltin BObject"
    using assms by (intro list_position_last [OF object distinct]) (auto simp: check_bases_def Let_def)
qed

text \<open>
  C6. A class that an accepted catalogue proposes for participation can be checked: the strict policy
  selects its body, its metaclass is \<open>type\<close>, its linearization is complete, contains every direct
  base once and puts \<open>object\<close> last, every decorator is modelled, and no base, metaclass, decorator
  or method implementation of it lies in a region whose diagnostic was suppressed.
\<close>

theorem validated_candidates_checkable:
  assumes "validate_module_facts sha256 facts source = Inr ()"
    and "class \<in> set (facts_classes facts)" "class_participation class = Candidate"
  shows "facts_source_dialect facts = SoacStrict \<and>
    checked_attributes (facts_language_policy facts) (id_range (class_identity class)) \<and>
    class_metaclass class = MetaBuiltinType \<and>
    (let mro = linearized_bases (class_inheritance class) in
       inheritance_complete (class_inheritance class) \<and> distinct mro \<and>
       set (class_bases class) \<subseteq> set mro \<and>
       (BaseBuiltin BObject \<in> set mro \<longrightarrow> last mro = BaseBuiltin BObject)) \<and>
    \<not> list_ex unmodeled_decorator (class_decorators class) \<and>
    \<not> affected_class (ignored_of facts) class"
proof -
  have c: "check_class (context_of facts source) class = Inr ()"
    using assms(1,2) by (simp add: validated_iff)
  note parts = check_class_parts [OF c]
  have "class_references_free (ignored_of facts) class"
    using validated_references_free [OF assms(1)] assms(2) by (simp add: references_free_def list_all_iff)
  then show ?thesis
    using parts(4) complete_bases [OF parts(3)] assms(3)
    by (simp add: check_participation_def class_references_free_def)
qed

theorem validated_candidates_checkable_witness:
  "validate_module_facts sample_sha256 rich_facts (Some sample_source) = Inr () \<and> sample_class_B \<in> set (facts_classes rich_facts) \<and>
   class_participation sample_class_B = Candidate \<and> \<not> affected_class (ignored_of rich_facts) sample_class_B"
  using validated_candidates_checkable [OF rich_valid, of sample_class_B]
    rich_valid
  by (simp add: sample_class_B_def)

section \<open>Exact calls\<close>

text \<open>What a call target refers to in the catalogue of its own module.\<close>

definition target_exists :: "module_type_facts \<Rightarrow> call_binding_fact \<Rightarrow> callable_target_fact \<Rightarrow> bool" where
  "target_exists facts binding target =
     (case target of
        CTSourceFunction f \<Rightarrow>
          id_module f = facts_module facts \<longrightarrow> list_ex (\<lambda>fn. fn_identity fn = f) (facts_functions facts)
      | CTMethod class name implementation \<Rightarrow>
          id_module (class_definition class) = facts_module facts \<longrightarrow>
          list_ex (\<lambda>c. class_identity c = class_definition class \<and>
            list_ex (\<lambda>m. method_name m = name \<and> compatible_binding binding (method_bound m) \<and>
                implementation \<in> {None, method_implementation m}) (class_methods c))
            (facts_classes facts)
      | CTGenerated g \<Rightarrow>
          id_module (class_definition (gen_class g)) = facts_module facts \<longrightarrow>
          list_ex (\<lambda>c. class_identity c = class_definition (gen_class g) \<and>
            (case class_transform c of None \<Rightarrow> False
             | Some t \<Rightarrow> transform_fact_kind t = gen_transform g \<and>
                         gen_name g \<in> set (transform_generated_methods t))) (facts_classes facts)
      | CTDynamic \<Rightarrow> False)"

lemma local_class_lookup:
  assumes valid: "validate_module_facts sha256 facts source = Inr ()"
    and "check_class_reference (context_of facts source) r = Inr ()"
    and "id_module (class_definition r) = facts_module facts"
  shows "\<exists>c \<in> set (facts_classes facts). class_identity c = class_definition r \<and>
    map_of (class_map_of (facts_classes facts)) (class_definition r) = Some c"
proof -
  have "distinct (map class_identity (facts_classes facts))" using valid by (simp add: validated_iff)
  moreover obtain c where "c \<in> set (facts_classes facts)" "class_identity c = class_definition r"
    using check_class_reference_resolves [OF assms(1,2)] assms(3)
    by (auto simp: resolved_class_def list_ex_iff)
  ultimately show ?thesis using lookup_class by metis
qed

lemma checked_target_exists:
  assumes valid: "validate_module_facts sha256 facts source = Inr ()"
    and ok: "check_call_target (context_of facts source) binding target = Inr ()" "target \<noteq> CTDynamic"
  shows "target_exists facts binding target"
proof (cases target)
  case (CTSourceFunction f)
  then show ?thesis
    using ok by (auto simp: target_exists_def check_function_reference_def list_ex_iff)
next
  case (CTMethod cls name implementation)
  then have "check_class_reference (context_of facts source) cls = Inr ()" using ok by simp
  from local_class_lookup [OF valid this] show ?thesis
    using ok CTMethod by (auto simp: target_exists_def list_ex_iff find_Some_iff) (metis nth_mem)+
next
  case (CTGenerated g)
  then have "check_class_reference (context_of facts source) (gen_class g) = Inr ()"
    using ok by (simp add: check_generated_function_def)
  from local_class_lookup [OF valid this] show ?thesis
    using ok CTGenerated
    by (auto simp: target_exists_def list_ex_iff check_generated_function_def split: option.splits)
qed (use ok in simp)

text \<open>
  C7. A call site that an accepted catalogue calls exact has exactly one target, which is not dynamic and
  is really there: a local source function has function facts, a local method is in its class with a
  compatible binding and the same implementation, a generated function is produced by its class's
  transform. The receiver's type is certain.
\<close>

theorem validated_exact_calls:
  assumes "validate_module_facts sha256 facts source = Inr ()"
    and "site \<in> set (facts_call_sites facts)" "call_uncertain site = CUExactStaticTarget"
  shows "\<exists>target. call_candidate_targets site = [target] \<and> target_exists facts (call_binding site) target \<and>
    list_all (resolved_class facts) (target_classes target) \<and>
    call_binding site \<notin> {CBDynamic, CBDescriptor} \<and>
    list_all (\<lambda>r. \<not> contains_uncertainty (receiver_value_type r) \<and> receiver_uncertainty r = {})
      (case call_receiver site of None \<Rightarrow> [] | Some r \<Rightarrow> [r])"
proof -
  have ok: "check_call_site (context_of facts source) site = Inr ()"
    using assms(1,2) by (simp add: validated_iff)
  then have exact: "\<not> inexact_target site"
    using assms(3) by (simp add: check_call_site_def Let_def)
  then obtain target where t: "call_candidate_targets site = [target]" "target \<noteq> CTDynamic"
    by (auto simp: inexact_target_def length_Suc_conv)
  have "check_call_target (context_of facts source) (call_binding site) target = Inr ()"
    using ok t(1) by (simp add: check_call_site_def Let_def)
  then have "target_exists facts (call_binding site) target"
    using checked_target_exists assms(1) t(2) by blast
  moreover have "resolved_class facts r" if "r \<in> set (target_classes target)" for r
    using that check_class_reference_resolves [OF assms(1) checked_site_classes(2) [OF ok]] t(1)
    by (simp add: call_site_classes_def)
  ultimately show ?thesis
    using exact t by (auto simp: inexact_target_def list_all_iff split: option.splits)
qed

theorem validated_exact_calls_witness:
  "validate_module_facts sample_sha256 rich_facts (Some sample_source) = Inr () \<and> rich_call \<in> set (facts_call_sites rich_facts) \<and>
   call_uncertain rich_call = CUExactStaticTarget \<and>
   target_exists rich_facts CBUnboundFunction (CTMethod (rich_ref sample_A) ''f'' None)"
  using validated_exact_calls [OF rich_valid, of rich_call] rich_valid
  by (simp add: rich_call_def)

section \<open>Source text\<close>

lemma utf8_first_char:
  assumes "utf8_valid (a # rest)"
  shows "\<exists>cs r. rest = cs @ r \<and> list_all is_continuation cs \<and> utf8_valid r \<and>
    (\<forall>r'. utf8_valid r' \<longrightarrow> utf8_valid (a # cs @ r'))"
proof -
  consider (one) "unat a < 128" | (two) "194 \<le> unat a" "unat a \<le> 223"
    | (three) "224 \<le> unat a" "unat a \<le> 239" | (four) "240 \<le> unat a" "unat a \<le> 244"
    using assms by (auto split: if_splits)
  then show ?thesis
  proof cases
    case one
    with assms show ?thesis by (intro exI [of _ "[]"] exI [of _ rest]) simp
  next
    case two
    with assms obtain b r where "rest = [b] @ r" by (auto split: list.splits)
    with two assms show ?thesis by (intro exI [of _ "[b]"] exI [of _ r]) simp
  next
    case three
    with assms obtain b c r where "rest = [b, c] @ r" by (auto split: list.splits)
    with three assms show ?thesis by (intro exI [of _ "[b, c]"] exI [of _ r]) simp
  next
    case four
    with assms obtain b c d r where "rest = [b, c, d] @ r" by (auto split: list.splits)
    with four assms show ?thesis by (intro exI [of _ "[b, c, d]"] exI [of _ r]) simp
  qed
qed

lemma utf8_split:
  "utf8_valid s \<Longrightarrow> is_char_boundary s i \<Longrightarrow> utf8_valid (take i s) \<and> utf8_valid (drop i s)"
proof (induction s arbitrary: i rule: length_induct)
  case (1 s)
  show ?case
  proof (cases "i = 0 \<or> s = []")
    case False
    then obtain a rest j where s: "s = a # rest" and i: "i = Suc j" by (metis list.exhaust not0_implies_Suc)
    obtain cs r where r: "rest = cs @ r" "list_all is_continuation cs" "utf8_valid r"
      and build: "\<And>r'. utf8_valid r' \<Longrightarrow> utf8_valid (a # cs @ r')"
      using utf8_first_char "1.prems"(1) s by blast
    have "length cs \<le> j"
      using "1.prems"(2) r(2) unfolding s r(1) i is_char_boundary_def
      by (cases "j < length cs") (auto simp: nth_append list_all_length)
    then obtain k where j: "j = length cs + k" by (metis le_iff_add)
    have "is_char_boundary r k"
      using "1.prems"(2) unfolding s r(1) i j is_char_boundary_def by (auto simp: nth_append)
    then have "utf8_valid (take k r) \<and> utf8_valid (drop k r)"
      using "1.IH" r(3) s r(1) by simp
    then show ?thesis using build by (simp add: s r(1) i j del: utf8_valid.simps)
  qed (use 1 in auto)
qed

lemma utf8_slice:
  assumes "utf8_valid s" "is_char_boundary s a" "is_char_boundary s b" "a \<le> b" "b \<le> length s"
  shows "utf8_valid (take (b - a) (drop a s))"
proof -
  have "is_char_boundary (take b s) a"
    using assms(2,4,5) by (auto simp: is_char_boundary_def)
  then have "utf8_valid (drop a (take b s))"
    using utf8_split [OF assms(1,3)] utf8_split by blast
  then show ?thesis by (simp add: drop_take)
qed

text \<open>The source ranges at which a catalogue locates something in its own module.\<close>

definition located_ranges :: "module_type_facts \<Rightarrow> source_range list" where
  "located_ranges facts =
     map (\<lambda>c. id_range (class_identity c)) (facts_classes facts) @
     map (\<lambda>f. id_range (fn_identity f)) (facts_functions facts) @
     map nb_expression_range (facts_nominal_bindings facts) @
     map (\<lambda>s. as_expression_range (attr_identity s)) (facts_attribute_sites facts) @
     map (\<lambda>s. cs_expression_range (call_identity s)) (facts_call_sites facts) @
     map diag_source_range (facts_diagnostics facts)"

lemma located_ranges_checked:
  assumes "validate_module_facts sha256 facts source = Inr ()" "r \<in> set (located_ranges facts)"
  shows "local_range (context_of facts source) r = Inr ()"
  using assms
  by (auto simp: validated_iff located_ranges_def check_class_def local_definition_def check_function_def
      check_nominal_binding_def check_attribute_site_def check_call_site_def check_diagnostic_def
      check_site_def Let_def)

text \<open>
  C9. When the source bytes are given, they are the authenticated ones (size, digest and source hash of
  the catalogue), and every range at which the catalogue locates a definition, a nominal leaf, a site
  or a diagnostic is inside them and cuts out a well-formed UTF-8 text of exactly its length: a
  consumer can slice the source at any of them.
\<close>

theorem validated_ranges_slice:
  assumes "validate_module_facts sha256 facts (Some bytes) = Inr ()"
  shows "length bytes = unat (facts_source_size facts) \<and>
    digest sha256 bytes = facts_source_digest facts \<and>
    legacy_source_hash bytes = source_hash (facts_module facts) \<and>
    list_all (\<lambda>r. utf8_valid (source_slice bytes r) \<and>
        length (source_slice bytes r) + unat (range_start r) = unat (range_end r))
      (located_ranges facts)"
proof -
  have source: "length bytes = unat (facts_source_size facts)" "digest sha256 bytes = facts_source_digest facts"
    "legacy_source_hash bytes = source_hash (facts_module facts)" "utf8_valid bytes"
    using assms by (simp_all add: validated_iff check_source_def)
  have "utf8_valid (source_slice bytes r) \<and> length (source_slice bytes r) + unat (range_start r) = unat (range_end r)"
    if "r \<in> set (located_ranges facts)" for r
  proof -
    have "range_start r \<le> range_end r" "range_end r \<le> facts_source_size facts"
      and b: "is_char_boundary bytes (unat (range_start r))" "is_char_boundary bytes (unat (range_end r))"
      using located_ranges_checked [OF assms that]
      by (auto simp: local_range_def validate_range_def not_less)
    then have le: "unat (range_start r) \<le> unat (range_end r)" "unat (range_end r) \<le> length bytes"
      using source(1) by (simp_all add: word_le_nat_alt)
    with utf8_slice [OF source(4) b] show ?thesis by (simp add: source_slice_def)
  qed
  with source show ?thesis by (simp add: list_all_iff)
qed

theorem validated_ranges_slice_witness:
  "validate_module_facts sample_sha256 sample_facts (Some sample_source) = Inr () \<and>
   length (source_slice sample_source (id_range sample_B)) = 16 \<and>
   utf8_valid (source_slice sample_source (id_range sample_B))"
  using validated_ranges_slice [OF sample_valid(1)] sample_valid(1)
  by (simp add: located_ranges_def)



section \<open>Nominal leaves\<close>

definition lexical_scopes :: "module_type_facts \<Rightarrow> source_identity list" where
  "lexical_scopes facts =
     map class_identity (facts_classes facts) @ map fn_identity (facts_functions facts)"

text \<open>
  C8. A nominal annotation leaf of an accepted catalogue denotes what the source says: its bytes are the
  name it binds, its class resolves and occurs in an explicit, supported annotation of the owner, and
  its binding scope is the innermost one: every class or function of the catalogue that contains the
  binding, is another definition and lies inside that scope spans the scope's whole range.
\<close>

theorem validated_nominal_leaves:
  assumes "validate_module_facts sha256 facts (Some bytes) = Inr ()"
    and "b \<in> set (facts_nominal_bindings facts)"
  shows "source_slice bytes (nb_expression_range b) = bytes_of_string (nb_name b) \<and>
    resolved_class facts (nb_class b) \<and>
    (\<exists>annotated value_type.
       nominal_annotation (context_of facts (Some bytes)) (nb_owner b) = Inr (annotated, value_type, AOExplicit) \<and>
       range_contains (id_range annotated) (nb_expression_range b) \<and>
       range_contains (id_range (nb_binding_scope b)) (id_range annotated) \<and>
       has_supported_value_shape value_type \<and> contains_nominal_class value_type (nb_class b)) \<and>
    list_all (\<lambda>scope. scope = nb_binding b \<or> id_range scope = id_range (nb_binding_scope b))
      (filter (\<lambda>scope. range_contains (id_range (nb_binding_scope b)) (id_range scope) \<and>
          range_contains (id_range scope) (id_range (nb_binding b))) (lexical_scopes facts))"
proof -
  let ?self = "context_of facts (Some bytes)"
  have ok: "check_nominal_binding ?self b = Inr ()" using assms by (simp add: validated_iff)
  then obtain annotated value_type where a:
    "nominal_annotation ?self (nb_owner b) = Inr (annotated, value_type, AOExplicit)"
    "range_contains (id_range annotated) (nb_expression_range b)"
    "\<not> invalid_binding_scope ?self b annotated"
    "has_supported_value_shape value_type" "contains_nominal_class value_type (nb_class b)"
    by (auto simp: check_nominal_binding_def)
  have "source_slice bytes (nb_expression_range b) = bytes_of_string (nb_name b)"
    "\<not> skips_lexical_owner facts b" "check_class_reference ?self (nb_class b) = Inr ()"
    using ok by (auto simp: check_nominal_binding_def)
  moreover from this(2) have "list_all (\<lambda>scope. scope = nb_binding b \<or> id_range scope = id_range (nb_binding_scope b))
      (filter (\<lambda>scope. range_contains (id_range (nb_binding_scope b)) (id_range scope) \<and>
          range_contains (id_range scope) (id_range (nb_binding b))) (lexical_scopes facts))"
    unfolding skips_lexical_owner_def lexical_scopes_def list_ex_iff list_all_iff by auto
  ultimately show ?thesis
    using a check_class_reference_resolves [OF assms(1)] by (auto simp: invalid_binding_scope_def)
qed

theorem validated_nominal_leaves_witness:
  "validate_module_facts sample_sha256 rich_facts (Some sample_source) = Inr () \<and>
   rich_binding \<in> set (facts_nominal_bindings rich_facts) \<and>
   source_slice sample_source \<lparr>range_start = 10, range_end = 11\<rparr> = bytes_of_string ''B''"
  using validated_nominal_leaves [OF rich_valid, of rich_binding] rich_valid by (simp add: rich_binding_def)

end
