(* ===== verification/Contract_Artifact.thy ===== *)
theory Contract_Artifact
  imports Contract_Encoding Contract_Guarantees
begin

text \<open>
  Signed type-fact artifacts, \<^verbatim>\<open>crates/soac_contracts/src/artifact.rs\<close>: the manifest of a
  generation, encoding of module shards, signing, and the loader's verification of a manifest, of one
  module and of a complete generation.

  What the code takes from other crates is one value of type \<open>externals\<close>: SHA-256, a serializer
  for each encoded type, and Ed25519. The laws the theorems rely on are named predicates on it:
  \<open>serde_roundtrip\<close> for a serializer and \<open>ed25519_correct\<close> for the signature scheme.

  Theorems: what the build side publishes is what the loader accepts; what the loader accepts is
  authenticated, canonical, bound to the source, policy and dependencies it was given, and satisfies
  every guarantee of validation; the dependency table of a manifest is pairwise consistent.
\<close>

section \<open>Manifests\<close>

definition STRICT_CONTRACT_VERSION :: u32 where "STRICT_CONTRACT_VERSION = 3"
definition DIALECT_VERSION :: u32 where "DIALECT_VERSION = 2"
definition MAX_MANIFEST_BYTES :: nat where "MAX_MANIFEST_BYTES = 64 * 1024 * 1024"
definition MAX_SHARD_BYTES :: nat where "MAX_SHARD_BYTES = 16 * 1024 * 1024"

definition SIGNATURE_DOMAIN :: "u8 list" where
  "SIGNATURE_DOMAIN =
     bytes_of_string ''SOAC-TYPE-CONTRACT-MANIFEST'' @ [0] @ bytes_of_string ''v6'' @ [0]"

record artifact_versions =
  schema_version :: u32
  strict_contract_version :: u32
  dialect_version :: u32

definition artifact_versions_default :: artifact_versions where
  "artifact_versions_default =
     \<lparr>schema_version = ARTIFACT_SCHEMA_VERSION, strict_contract_version = STRICT_CONTRACT_VERSION,
      dialect_version = DIALECT_VERSION\<rparr>"

record python_version =
  py_major :: u8
  py_minor :: u8

record conservative_analysis =
  strict_equality_semantics :: bool
  strict_generic_narrowing :: bool

definition conservative_analysis_default :: conservative_analysis where
  "conservative_analysis_default =
     \<lparr>strict_equality_semantics = True, strict_generic_narrowing = True\<rparr>"

record artifact_environment =
  ty_revision :: string
  checker_source_fingerprint :: fingerprint
  exporter_revision :: string
  env_python_version :: python_version
  python_platform :: string
  cpython_abi_fingerprint :: fingerprint
  normalized_project_policy :: fingerprint
  resolved_typechecker_configuration :: fingerprint
  import_search_path :: fingerprint
  typeshed_fingerprint :: fingerprint
  installed_stub_fingerprint :: fingerprint
  installed_dependency_fingerprint :: fingerprint
  env_analysis :: conservative_analysis

record module_artifact_index =
  index_module :: module_content_id
  index_source_digest :: fingerprint
  index_source_size :: u32
  index_effective_policy :: fingerprint
  index_shard_digest :: fingerprint
  index_consumed_dependencies :: "dependency_fingerprint list"

record type_artifact_manifest =
  man_versions :: artifact_versions
  man_generation :: artifact_generation_id
  man_environment :: artifact_environment
  man_modules :: "module_artifact_index list"

record artifact_expectations =
  expected_generation :: artifact_generation_id
  expected_environment :: artifact_environment

record signed_manifest_envelope =
  env_manifest :: type_artifact_manifest
  env_signature :: string

record encoded_module_shard =
  shard_facts :: module_type_facts
  shard_bytes :: "u8 list"
  shard_digest :: fingerprint

record verified_manifest =
  ver_manifest :: type_artifact_manifest
  ver_manifest_digest :: fingerprint

record verified_module_type_facts =
  vm_facts :: module_type_facts
  vm_generation :: artifact_generation_id
  vm_shard_digest :: fingerprint
  vm_cache_identity :: fingerprint

definition index_name :: "module_artifact_index \<Rightarrow> string" where
  "index_name index = mci_name (index_module index)"

section \<open>What other crates provide\<close>

record externals =
  sha256 :: "u8 list \<Rightarrow> u8 list"
  facts_codec :: "module_type_facts codec"
  policy_codec :: "resolved_strict_policy codec"
  environment_codec :: "artifact_environment codec"
  manifest_codec :: "type_artifact_manifest codec"
  envelope_codec :: "signed_manifest_envelope codec"
  generation_codec :: "(artifact_versions \<times> artifact_environment \<times> module_artifact_index list) codec"
  cache_codec :: "(fingerprint \<times> artifact_generation_id \<times> fingerprint \<times> fingerprint) codec"
  ed25519_verifying_key :: "u8 list \<Rightarrow> u8 list"
  ed25519_valid_key :: "u8 list \<Rightarrow> bool"
  ed25519_sign :: "u8 list \<Rightarrow> u8 list \<Rightarrow> u8 list"
  ed25519_verify_strict :: "u8 list \<Rightarrow> u8 list \<Rightarrow> u8 list \<Rightarrow> bool"

text \<open>A seed's signature is 64 bytes and verifies under the seed's key.\<close>

definition ed25519_correct :: "externals \<Rightarrow> u8 list \<Rightarrow> bool" where
  "ed25519_correct ext seed \<longleftrightarrow>
     (\<forall>message. length (ed25519_sign ext seed message) = 64 \<and>
        ed25519_verify_strict ext (ed25519_verifying_key ext seed) message (ed25519_sign ext seed message))"

definition fingerprint_bytes :: "externals \<Rightarrow> u8 list \<Rightarrow> fingerprint" where
  "fingerprint_bytes ext bytes = digest (sha256 ext) bytes"

text \<open>\<open>canonical_bytes(self).map(Fingerprint::digest)\<close>.\<close>

definition policy_fingerprint :: "externals \<Rightarrow> resolved_strict_policy \<Rightarrow> fingerprint result" where
  "policy_fingerprint ext policy =
     and_then (canonical_bytes (policy_codec ext) policy) (\<lambda>bytes. Inr (fingerprint_bytes ext bytes))"

definition environment_fingerprint :: "externals \<Rightarrow> artifact_environment \<Rightarrow> fingerprint result" where
  "environment_fingerprint ext environment =
     and_then (canonical_bytes (environment_codec ext) environment) (\<lambda>bytes. Inr (fingerprint_bytes ext bytes))"

text \<open>\<open>ArtifactSigningKey::trust_anchor\<close> and \<open>ArtifactTrustAnchor::from_bytes\<close>.\<close>

definition trust_anchor :: "externals \<Rightarrow> u8 list \<Rightarrow> u8 list" where
  "trust_anchor ext seed = ed25519_verifying_key ext seed"

definition trust_anchor_from_bytes :: "externals \<Rightarrow> u8 list \<Rightarrow> u8 list result" where
  "trust_anchor_from_bytes ext bytes =
     and_then (fail_if (\<not> ed25519_valid_key ext bytes) UntrustedSignature) (\<lambda>_. Inr bytes)"

section \<open>The environment\<close>

definition validate_environment :: "artifact_environment \<Rightarrow> unit result" where
  "validate_environment environment =
     and_then (for_each (\<lambda>(name, value).
         fail_if (value = [] \<or> length value > 256 \<or> has_control value)
           (InvalidStructure (''invalid '' @ name)))
       [(''ty revision'', ty_revision environment),
        (''exporter revision'', exporter_revision environment),
        (''Python platform'', python_platform environment)]) (\<lambda>_.
     and_then (fail_if (py_major (env_python_version environment) \<noteq> 3 \<or>
         py_minor (env_python_version environment) < 7)
       (InvalidStructure ''invalid Python version'')) (\<lambda>_.
       fail_if (\<not> strict_equality_semantics (env_analysis environment) \<or>
           \<not> strict_generic_narrowing (env_analysis environment))
         (InvalidPolicy ''type-fact production requires conservative equality and generic narrowing'')))"

definition compare_environment :: "artifact_environment \<Rightarrow> artifact_environment \<Rightarrow> unit result" where
  "compare_environment actual expected =
     and_then (validate_environment expected) (\<lambda>_.
     for_each (\<lambda>(equal, field). fail_if (\<not> equal) (EnvironmentMismatch field))
       [(ty_revision actual = ty_revision expected, ''ty_revision''),
        (checker_source_fingerprint actual = checker_source_fingerprint expected, ''checker_source_fingerprint''),
        (exporter_revision actual = exporter_revision expected, ''exporter_revision''),
        (env_python_version actual = env_python_version expected, ''python_version''),
        (python_platform actual = python_platform expected, ''python_platform''),
        (cpython_abi_fingerprint actual = cpython_abi_fingerprint expected, ''cpython_abi_fingerprint''),
        (normalized_project_policy actual = normalized_project_policy expected, ''normalized_project_policy''),
        (resolved_typechecker_configuration actual = resolved_typechecker_configuration expected,
         ''resolved_typechecker_configuration''),
        (import_search_path actual = import_search_path expected, ''import_search_path''),
        (typeshed_fingerprint actual = typeshed_fingerprint expected, ''typeshed_fingerprint''),
        (installed_stub_fingerprint actual = installed_stub_fingerprint expected, ''installed_stub_fingerprint''),
        (installed_dependency_fingerprint actual = installed_dependency_fingerprint expected,
         ''installed_dependency_fingerprint''),
        (env_analysis actual = env_analysis expected, ''analysis'')])"

section \<open>Building and checking a manifest\<close>

definition canonicalize_index :: "module_artifact_index \<Rightarrow> module_artifact_index" where
  "canonicalize_index index =
     index\<lparr>index_consumed_dependencies := canonicalize_dependencies (index_consumed_dependencies index)\<rparr>"

definition canonicalize_manifest :: "type_artifact_manifest \<Rightarrow> type_artifact_manifest" where
  "canonicalize_manifest manifest =
     manifest\<lparr>man_modules := map canonicalize_index
       (sort_key (\<lambda>index. string_key (index_name index)) (man_modules manifest))\<rparr>"

definition signature_payload :: "externals \<Rightarrow> type_artifact_manifest \<Rightarrow> u8 list result" where
  "signature_payload ext manifest =
     and_then (canonical_bytes (manifest_codec ext) manifest) (\<lambda>bytes. Inr (SIGNATURE_DOMAIN @ bytes))"

definition content_generation :: "externals \<Rightarrow> type_artifact_manifest \<Rightarrow> artifact_generation_id result" where
  "content_generation ext manifest =
     and_then (canonical_bytes (generation_codec ext)
       (man_versions manifest, man_environment manifest, man_modules manifest)) (\<lambda>bytes.
     Inr (ArtifactGenerationId (fingerprint_bytes ext
       (bytes_of_string ''SOAC-TYPE-CONTRACT-GENERATION'' @ [0] @ bytes_of_string ''v1'' @ [0] @ bytes))))"

text \<open>\<open>left.zip(right).is_some_and(|(left, right)| left != right)\<close>.\<close>

definition options_differ :: "'a option \<Rightarrow> 'a option \<Rightarrow> bool" where
  "options_differ l r = (case (l, r) of (Some a, Some b) \<Rightarrow> a \<noteq> b | _ \<Rightarrow> False)"

text \<open>\<open>Option::or\<close>.\<close>

definition option_or :: "'a option \<Rightarrow> 'a option \<Rightarrow> 'a option" where
  "option_or l r = (case l of Some a \<Rightarrow> Some a | None \<Rightarrow> r)"

definition dependency_conflict :: "dependency_fingerprint \<Rightarrow> dependency_fingerprint \<Rightarrow> bool" where
  "dependency_conflict previous dependency =
     (dep_module previous \<noteq> dep_module dependency \<or>
      dep_source_digest previous \<noteq> dep_source_digest dependency \<or>
      dep_source_size previous \<noteq> dep_source_size dependency \<or>
      dep_import_resolution previous \<noteq> dep_import_resolution dependency \<or>
      dep_effective_configuration previous \<noteq> dep_effective_configuration dependency \<or>
      options_differ (dep_strict_policy previous) (dep_strict_policy dependency) \<or>
      options_differ (dep_type_contract previous) (dep_type_contract dependency))"

definition producer_conflict :: "module_artifact_index \<Rightarrow> dependency_fingerprint \<Rightarrow> bool" where
  "producer_conflict producer dependency =
     (index_module producer \<noteq> dep_module dependency \<or>
      index_source_digest producer \<noteq> dep_source_digest dependency \<or>
      index_source_size producer \<noteq> dep_source_size dependency \<or>
      options_differ (dep_type_contract dependency) (Some (index_shard_digest producer)) \<or>
      options_differ (dep_strict_policy dependency) (Some (index_effective_policy producer)))"

type_synonym consumed_map = "string \<rightharpoonup> dependency_fingerprint"

definition consume_dependency :: "consumed_map \<Rightarrow> dependency_fingerprint \<Rightarrow> consumed_map result" where
  "consume_dependency consumed dependency =
     (let name = mci_name (dep_module dependency) in
      case consumed name of
        Some previous \<Rightarrow>
          and_then (fail_if (dependency_conflict previous dependency) (DependencyMismatch name)) (\<lambda>_.
            Inr (consumed(name \<mapsto> previous\<lparr>
              dep_strict_policy := option_or (dep_strict_policy previous) (dep_strict_policy dependency),
              dep_type_contract := option_or (dep_type_contract previous) (dep_type_contract dependency)\<rparr>)))
      | None \<Rightarrow> Inr (consumed(name \<mapsto> dependency)))"

definition module_table :: "module_artifact_index list \<Rightarrow> string \<rightharpoonup> module_artifact_index" where
  "module_table modules = map_of (map (\<lambda>index. (index_name index, index)) modules)"

definition check_manifest_dependency ::
  "(string \<rightharpoonup> module_artifact_index) \<Rightarrow> consumed_map \<Rightarrow> dependency_fingerprint \<Rightarrow> consumed_map result"
where
  "check_manifest_dependency modules consumed dependency =
     and_then (consume_dependency consumed dependency) (\<lambda>consumed'.
     and_then (for_option (\<lambda>producer.
         fail_if (producer_conflict producer dependency)
           (DependencyMismatch (mci_name (dep_module dependency))))
       (modules (mci_name (dep_module dependency)))) (\<lambda>_.
       Inr consumed'))"

definition check_dependency_table :: "module_artifact_index list \<Rightarrow> consumed_map result" where
  "check_dependency_table modules =
     fold_result (\<lambda>consumed index.
       fold_result (check_manifest_dependency (module_table modules)) consumed
         (index_consumed_dependencies index)) Map.empty modules"

definition check_versions :: "artifact_versions \<Rightarrow> unit result" where
  "check_versions versions =
     for_each (\<lambda>(kind, found, expected). fail_if (found \<noteq> expected) (VersionMismatch kind expected found))
       [(''artifact schema'', schema_version versions, ARTIFACT_SCHEMA_VERSION),
        (''strict contract'', strict_contract_version versions, STRICT_CONTRACT_VERSION),
        (''strict dialect'', dialect_version versions, DIALECT_VERSION)]"

definition validate_manifest :: "externals \<Rightarrow> type_artifact_manifest \<Rightarrow> unit result" where
  "validate_manifest ext manifest =
     and_then (check_versions (man_versions manifest)) (\<lambda>_.
     and_then (validate_environment (man_environment manifest)) (\<lambda>_.
     and_then (for_unique (\<lambda>index. validate_module_name (index_name index)) index_name
       (\<lambda>index. InvalidStructure (''duplicate manifest module '' @ index_name index))
       (\<lambda>index. validate_dependencies (index_consumed_dependencies index) (index_name index)) {}
       (man_modules manifest)) (\<lambda>_.
     and_then (check_dependency_table (man_modules manifest)) (\<lambda>_.
     and_then (content_generation ext manifest) (\<lambda>generation.
       fail_if (generation \<noteq> man_generation manifest) GenerationMismatch)))))"

definition manifest_new ::
  "externals \<Rightarrow> artifact_environment \<Rightarrow> module_artifact_index list \<Rightarrow> type_artifact_manifest result"
where
  "manifest_new ext environment modules =
     (let manifest = canonicalize_manifest
            \<lparr>man_versions = artifact_versions_default,
             man_generation = ArtifactGenerationId (fingerprint_bytes ext []),
             man_environment = environment, man_modules = modules\<rparr> in
      and_then (content_generation ext manifest) (\<lambda>generation.
      let manifest = manifest\<lparr>man_generation := generation\<rparr> in
      and_then (validate_manifest ext manifest) (\<lambda>_. Inr manifest)))"

section \<open>Publishing\<close>

definition index_from_shard :: "externals \<Rightarrow> encoded_module_shard \<Rightarrow> module_artifact_index result" where
  "index_from_shard ext shard =
     and_then (policy_fingerprint ext (facts_language_policy (shard_facts shard))) (\<lambda>policy.
     Inr \<lparr>index_module = facts_module (shard_facts shard),
          index_source_digest = facts_source_digest (shard_facts shard),
          index_source_size = facts_source_size (shard_facts shard),
          index_effective_policy = policy,
          index_shard_digest = shard_digest shard,
          index_consumed_dependencies = facts_consumed_dependencies (shard_facts shard)\<rparr>)"

definition shard_file_name :: "encoded_module_shard \<Rightarrow> string" where
  "shard_file_name shard = fingerprint_to_hex (shard_digest shard) @ ''.soac-types''"

definition encode_module_shard :: "externals \<Rightarrow> module_type_facts \<Rightarrow> encoded_module_shard result" where
  "encode_module_shard ext facts =
     and_then (canonicalized facts) (\<lambda>facts.
     and_then (validate_module_facts (sha256 ext) facts None) (\<lambda>_.
     and_then (canonical_bytes (facts_codec ext) facts) (\<lambda>bytes.
     and_then (enforce_size bytes ''module shard'' MAX_SHARD_BYTES) (\<lambda>_.
     Inr \<lparr>shard_facts = facts, shard_bytes = bytes, shard_digest = fingerprint_bytes ext bytes\<rparr>))))"

definition sign_manifest :: "externals \<Rightarrow> type_artifact_manifest \<Rightarrow> u8 list \<Rightarrow> u8 list result" where
  "sign_manifest ext manifest seed =
     (let manifest = canonicalize_manifest manifest in
      and_then (validate_manifest ext manifest) (\<lambda>_.
      and_then (signature_payload ext manifest) (\<lambda>payload.
      and_then (canonical_bytes (envelope_codec ext)
        \<lparr>env_manifest = manifest, env_signature = encode_hex (ed25519_sign ext seed payload)\<rparr>) (\<lambda>bytes.
      and_then (enforce_size bytes ''manifest'' MAX_MANIFEST_BYTES) (\<lambda>_. Inr bytes)))))"

section \<open>Verification\<close>

text \<open>
  \<open>slice::binary_search_by\<close>: halve the window until one entry is left, keeping the start unless
  the middle entry is not greater than the key. The index of a failed search is not used by the code.
\<close>

fun search_base :: "('a \<Rightarrow> 'k::linorder) \<Rightarrow> 'k \<Rightarrow> 'a list \<Rightarrow> nat \<Rightarrow> nat \<Rightarrow> nat" where
  "search_base key k xs base width =
     (if width \<le> 1 then base
      else let half = width div 2; mid = base + half in
        search_base key k xs (if key (xs ! mid) > k then base else mid) (width - half))"

declare search_base.simps [simp del]

definition binary_search_by :: "('a \<Rightarrow> 'k::linorder) \<Rightarrow> 'k \<Rightarrow> 'a list \<Rightarrow> nat option" where
  "binary_search_by key k xs =
     (if xs = [] then None
      else let base = search_base key k xs 0 (length xs) in
        if key (xs ! base) = k then Some base else None)"

definition module_index :: "verified_manifest \<Rightarrow> string \<Rightarrow> module_artifact_index result" where
  "module_index self name =
     (case binary_search_by (\<lambda>entry. string_key (index_name entry)) (string_key name)
        (man_modules (ver_manifest self)) of
        Some index \<Rightarrow> Inr (man_modules (ver_manifest self) ! index)
      | None \<Rightarrow> Inl (MissingModule name))"

definition shard_mismatch :: "module_type_facts \<Rightarrow> fingerprint \<Rightarrow> module_artifact_index \<Rightarrow> bool" where
  "shard_mismatch facts policy index =
     (facts_module facts \<noteq> index_module index \<or>
      facts_source_digest facts \<noteq> index_source_digest index \<or>
      facts_source_size facts \<noteq> index_source_size index \<or>
      policy \<noteq> index_effective_policy index \<or>
      facts_consumed_dependencies facts \<noteq> index_consumed_dependencies index)"

text \<open>
  The policy fingerprint is computed inside the disjunction, after three comparisons that may already
  have failed.
\<close>

definition verify_shard ::
  "externals \<Rightarrow> module_artifact_index \<Rightarrow> u8 list \<Rightarrow> module_type_facts result"
where
  "verify_shard ext index bytes =
     and_then (enforce_size bytes ''module shard'' MAX_SHARD_BYTES) (\<lambda>_.
     and_then (fail_if (fingerprint_bytes ext bytes \<noteq> index_shard_digest index)
       (ShardMismatch (index_name index))) (\<lambda>_.
     and_then (decode_canonical (facts_codec ext) bytes) (\<lambda>facts.
     and_then (validate_module_facts (sha256 ext) facts None) (\<lambda>_.
     and_then (canonicalized facts) (\<lambda>canonical.
     and_then (fail_if (facts \<noteq> canonical) NonCanonicalEncoding) (\<lambda>_.
     and_then (fail_if (facts_module facts \<noteq> index_module index \<or>
         facts_source_digest facts \<noteq> index_source_digest index \<or>
         facts_source_size facts \<noteq> index_source_size index) (ShardMismatch (index_name index))) (\<lambda>_.
     and_then (policy_fingerprint ext (facts_language_policy facts)) (\<lambda>policy.
     and_then (fail_if (shard_mismatch facts policy index) (ShardMismatch (index_name index))) (\<lambda>_.
       Inr facts)))))))))"

definition cache_identity ::
  "externals \<Rightarrow> verified_manifest \<Rightarrow> module_artifact_index \<Rightarrow> fingerprint result"
where
  "cache_identity ext self index =
     and_then (environment_fingerprint ext (man_environment (ver_manifest self))) (\<lambda>environment.
     and_then (canonical_bytes (cache_codec ext)
       (ver_manifest_digest self, man_generation (ver_manifest self), index_shard_digest index, environment))
       (\<lambda>bytes. Inr (fingerprint_bytes ext bytes)))"

definition verify_module ::
  "externals \<Rightarrow> verified_manifest \<Rightarrow> string \<Rightarrow> u8 list \<Rightarrow> resolved_strict_policy \<Rightarrow>
   dependency_fingerprint list \<Rightarrow> u8 list \<Rightarrow> verified_module_type_facts result"
where
  "verify_module ext self name source expected_policy current_dependencies bytes =
     and_then (module_index self name) (\<lambda>index.
     and_then (fail_if (index_source_digest index \<noteq> fingerprint_bytes ext source \<or>
         source_hash (index_module index) \<noteq> legacy_source_hash source \<or>
         unat (index_source_size index) \<noteq> length source) (SourceMismatch name)) (\<lambda>_.
     and_then (policy_fingerprint ext expected_policy) (\<lambda>policy.
     and_then (fail_if (index_effective_policy index \<noteq> policy) (PolicyMismatch name)) (\<lambda>_.
     let current = canonicalize_dependencies current_dependencies in
     and_then (validate_dependencies current name) (\<lambda>_.
     and_then (fail_if (index_consumed_dependencies index \<noteq> current) (DependencyMismatch name)) (\<lambda>_.
     and_then (verify_shard ext index bytes) (\<lambda>facts.
     and_then (fail_if (facts_language_policy facts \<noteq> expected_policy) (PolicyMismatch name)) (\<lambda>_.
     and_then (validate_module_facts (sha256 ext) facts (Some source)) (\<lambda>_.
     and_then (cache_identity ext self index) (\<lambda>identity.
       Inr \<lparr>vm_facts = facts, vm_generation = man_generation (ver_manifest self),
            vm_shard_digest = index_shard_digest index, vm_cache_identity = identity\<rparr>))))))))))"

definition verify_manifest ::
  "externals \<Rightarrow> u8 list \<Rightarrow> u8 list \<Rightarrow> artifact_expectations \<Rightarrow> verified_manifest result"
where
  "verify_manifest ext bytes anchor expected =
     and_then (enforce_size bytes ''manifest'' MAX_MANIFEST_BYTES) (\<lambda>_.
     and_then (decode_canonical (envelope_codec ext) bytes) (\<lambda>envelope.
     and_then (decode_hex 64 (env_signature envelope)) (\<lambda>signature.
     and_then (signature_payload ext (env_manifest envelope)) (\<lambda>payload.
     and_then (fail_if (\<not> ed25519_verify_strict ext anchor payload signature) UntrustedSignature) (\<lambda>_.
     and_then (validate_manifest ext (env_manifest envelope)) (\<lambda>_.
     and_then (fail_if (canonicalize_manifest (env_manifest envelope) \<noteq> env_manifest envelope)
       NonCanonicalEncoding) (\<lambda>_.
     and_then (fail_if (man_generation (env_manifest envelope) \<noteq> expected_generation expected)
       GenerationMismatch) (\<lambda>_.
     and_then (compare_environment (man_environment (env_manifest envelope))
       (expected_environment expected)) (\<lambda>_.
       Inr \<lparr>ver_manifest = env_manifest envelope, ver_manifest_digest = fingerprint_bytes ext bytes\<rparr>)))))))))"

text \<open>The shard reader is a stateful closure: it gets the state the last call left.\<close>

primrec verify_shards ::
  "externals \<Rightarrow> ('s \<Rightarrow> fingerprint \<Rightarrow> u8 list result \<times> 's) \<Rightarrow> 's \<Rightarrow> module_artifact_index list \<Rightarrow>
   unit result \<times> 's"
where
  "verify_shards ext read_shard s [] = (Inr (), s)"
| "verify_shards ext read_shard s (index # rest) =
     (case read_shard s (index_shard_digest index) of
        (Inl e, s') \<Rightarrow> (Inl e, s')
      | (Inr bytes, s') \<Rightarrow>
          (case verify_shard ext index bytes of
             Inl e \<Rightarrow> (Inl e, s')
           | Inr _ \<Rightarrow> verify_shards ext read_shard s' rest))"

definition verify_complete_generation ::
  "externals \<Rightarrow> verified_manifest \<Rightarrow> ('s \<Rightarrow> fingerprint \<Rightarrow> u8 list result \<times> 's) \<Rightarrow> 's \<Rightarrow>
   verified_manifest result \<times> 's"
where
  "verify_complete_generation ext manifest read_shard s =
     (case verify_shards ext read_shard s (man_modules (ver_manifest manifest)) of
        (Inl e, s') \<Rightarrow> (Inl e, s')
      | (Inr _, s') \<Rightarrow> (Inr manifest, s'))"

section \<open>Binary search\<close>

lemma search_base_invariant:
  fixes key :: "'a \<Rightarrow> 'k::linorder"
  assumes "sorted (map key xs)" "0 < width" "base + width \<le> length xs"
    and "base = 0 \<or> key (xs ! base) \<le> k"
    and "\<And>i. base + width \<le> i \<Longrightarrow> i < length xs \<Longrightarrow> k < key (xs ! i)"
  shows "let b = search_base key k xs base width in
    b < length xs \<and> (b = 0 \<or> key (xs ! b) \<le> k) \<and> (\<forall>i. b < i \<and> i < length xs \<longrightarrow> k < key (xs ! i))"
  using assms
proof (induction key k xs base width rule: search_base.induct)
  case (1 key k xs base width)
  show ?case
  proof (cases "width \<le> 1")
    case True
    with "1.prems" show ?thesis
      by (subst search_base.simps) (auto simp: Let_def Suc_le_eq)
  next
    case False
    define half where "half = width div 2"
    have half: "0 < half" "half < width" using False by (auto simp: half_def)
    have greater: "k < key (xs ! i)" if "k < key (xs ! (base + half))" "base + half \<le> i" "i < length xs" for i
      using that "1.prems"(1) sorted_nth_mono [of "map key xs" "base + half" i] by fastforce
    define base' where "base' = (if k < key (xs ! (base + half)) then base else base + half)"
    have unfold: "search_base key k xs base width = search_base key k xs base' (width - half)"
      using False by (subst search_base.simps) (simp add: Let_def half_def base'_def)
    have "base' + (width - half) \<le> length xs"
      using "1.prems"(3) half by (auto simp: base'_def)
    moreover have "base' = 0 \<or> key (xs ! base') \<le> k"
      using "1.prems"(4) by (auto simp: base'_def)
    moreover have "k < key (xs ! i)" if "base' + (width - half) \<le> i" "i < length xs" for i
    proof (cases "k < key (xs ! (base + half))")
      case True
      moreover have "half \<le> width - half" by (simp add: half_def)
      ultimately show ?thesis using greater [of i] that by (simp add: base'_def)
    next
      case False
      with that half show ?thesis using "1.prems"(5) [of i] by (simp add: base'_def)
    qed
    ultimately show ?thesis
      unfolding unfold
      using "1.IH" [OF False half_def refl] "1.prems"(1) half by (simp add: base'_def [symmetric])
  qed
qed

lemma binary_search_by_iff:
  fixes key :: "'a \<Rightarrow> 'k::linorder"
  assumes "sorted (map key xs)" "distinct (map key xs)"
  shows "binary_search_by key k xs = Some i \<longleftrightarrow> i < length xs \<and> key (xs ! i) = k"
proof (cases "xs = []")
  case False
  define b where "b = search_base key k xs 0 (length xs)"
  have b: "b < length xs" "b = 0 \<or> key (xs ! b) \<le> k" "\<And>i. b < i \<Longrightarrow> i < length xs \<Longrightarrow> k < key (xs ! i)"
    using search_base_invariant [OF assms(1), of "length xs" 0 k] False by (auto simp: b_def Let_def)
  have "key (xs ! b) = k" "i = b" if i: "i < length xs" "key (xs ! i) = k" for i
  proof -
    have "i \<le> b" using b(3) [of i] i by (meson linorder_not_less order_less_irrefl)
    then have "k \<le> key (xs ! b)" using sorted_nth_mono [OF assms(1) \<open>i \<le> b\<close>] b(1) i by simp
    then show *: "key (xs ! b) = k" using b(2) i \<open>i \<le> b\<close> by auto
    show "i = b" using * i b(1) nth_eq_iff_index_eq [OF assms(2), of i b] by simp
  qed
  then have "(i < length xs \<and> key (xs ! i) = k) \<longleftrightarrow> i = b \<and> key (xs ! b) = k"
    using b(1) by blast
  then show ?thesis using False by (simp add: binary_search_by_def b_def [symmetric] Let_def) blast
qed (simp add: binary_search_by_def)

section \<open>The dependency table\<close>

definition dependency_name :: "dependency_fingerprint \<Rightarrow> string" where
  "dependency_name d = mci_name (dep_module d)"

definition manifest_dependencies :: "module_artifact_index list \<Rightarrow> dependency_fingerprint list" where
  "manifest_dependencies modules = concat (map index_consumed_dependencies modules)"

definition dependency_core ::
  "dependency_fingerprint \<Rightarrow> module_content_id \<times> fingerprint \<times> u32 \<times> fingerprint \<times> fingerprint"
where
  "dependency_core d = (dep_module d, dep_source_digest d, dep_source_size d, dep_import_resolution d,
     dep_effective_configuration d)"

text \<open>The table entry that stands for all dependencies of one name that were seen.\<close>

definition represents :: "dependency_fingerprint \<Rightarrow> dependency_fingerprint list \<Rightarrow> bool" where
  "represents p ds \<longleftrightarrow> ds \<noteq> [] \<and> (\<forall>e \<in> set ds. dependency_core e = dependency_core p) \<and>
     (\<forall>x. dep_strict_policy p = Some x \<longleftrightarrow> (\<exists>e \<in> set ds. dep_strict_policy e = Some x)) \<and>
     (\<forall>x. dep_type_contract p = Some x \<longleftrightarrow> (\<exists>e \<in> set ds. dep_type_contract e = Some x))"

lemma options_differ_iff: "options_differ l r \<longleftrightarrow> (\<exists>a b. l = Some a \<and> r = Some b \<and> a \<noteq> b)"
  by (auto simp: options_differ_def split: option.splits)

lemma dependency_conflict_iff:
  "dependency_conflict d e \<longleftrightarrow> dependency_core d \<noteq> dependency_core e \<or>
     options_differ (dep_strict_policy d) (dep_strict_policy e) \<or>
     options_differ (dep_type_contract d) (dep_type_contract e)"
  by (auto simp: dependency_conflict_def dependency_core_def)

lemma dependency_conflict_sym: "dependency_conflict d e = dependency_conflict e d"
  by (auto simp: dependency_conflict_iff options_differ_iff)

lemma dependency_conflict_refl [simp]: "\<not> dependency_conflict d d"
  by (simp add: dependency_conflict_iff options_differ_iff)

lemma represents_single [simp]: "represents d [d]"
  by (simp add: represents_def)

lemma collected_differ:
  assumes "\<And>x. l = Some x \<longleftrightarrow> (\<exists>e \<in> A. f e = Some x)"
  shows "options_differ l r \<longleftrightarrow> (\<exists>e \<in> A. options_differ (f e) r)"
  unfolding options_differ_iff assms by blast

lemma represents_conflict:
  assumes "represents p ds"
  shows "dependency_conflict p d \<longleftrightarrow> (\<exists>e \<in> set ds. dependency_conflict e d)"
proof -
  obtain e where "e \<in> set ds" using assms by (cases ds) (auto simp: represents_def)
  moreover have "options_differ (dep_strict_policy p) r \<longleftrightarrow> (\<exists>e \<in> set ds. options_differ (dep_strict_policy e) r)"
    "options_differ (dep_type_contract p) r \<longleftrightarrow> (\<exists>e \<in> set ds. options_differ (dep_type_contract e) r)" for r
    using assms by (intro collected_differ; simp add: represents_def)+
  moreover have "dependency_conflict e d \<longleftrightarrow> dependency_core p \<noteq> dependency_core d \<or>
     options_differ (dep_strict_policy e) (dep_strict_policy d) \<or>
     options_differ (dep_type_contract e) (dep_type_contract d)" if "e \<in> set ds" for e
    using assms that by (simp add: dependency_conflict_iff represents_def)
  ultimately show ?thesis unfolding dependency_conflict_iff [of p] by blast
qed

lemma option_or_collects:
  assumes "\<And>x. l = Some x \<longleftrightarrow> Q x" "\<not> options_differ l r"
  shows "option_or l r = Some x \<longleftrightarrow> Q x \<or> r = Some x"
  using assms(2) unfolding assms(1) [symmetric]
  by (cases l; cases r) (auto simp: option_or_def options_differ_def)

lemma represents_merge:
  assumes "represents p ds" "\<not> dependency_conflict p d"
  shows "represents (p\<lparr>
      dep_strict_policy := option_or (dep_strict_policy p) (dep_strict_policy d),
      dep_type_contract := option_or (dep_type_contract p) (dep_type_contract d)\<rparr>) (ds @ [d])"
proof -
  have "option_or (dep_strict_policy p) (dep_strict_policy d) = Some x \<longleftrightarrow>
      (\<exists>e \<in> set ds. dep_strict_policy e = Some x) \<or> dep_strict_policy d = Some x"
    "option_or (dep_type_contract p) (dep_type_contract d) = Some x \<longleftrightarrow>
      (\<exists>e \<in> set ds. dep_type_contract e = Some x) \<or> dep_type_contract d = Some x" for x
    using assms by (intro option_or_collects; simp add: represents_def dependency_conflict_iff)+
  then show ?thesis
    using assms by (auto simp: represents_def dependency_conflict_iff dependency_core_def)
qed

definition table_represents :: "consumed_map \<Rightarrow> dependency_fingerprint list \<Rightarrow> bool" where
  "table_represents consumed ds \<longleftrightarrow>
     (\<forall>n. case consumed n of
        None \<Rightarrow> filter (\<lambda>d. dependency_name d = n) ds = []
      | Some p \<Rightarrow> represents p (filter (\<lambda>d. dependency_name d = n) ds))"

lemma consume_dependency_step:
  assumes "table_represents consumed ds"
  shows "(\<exists>c. consume_dependency consumed d = Inr c) \<longleftrightarrow>
      (\<forall>e \<in> set ds. dependency_name e = dependency_name d \<longrightarrow> \<not> dependency_conflict e d)"
    and "consume_dependency consumed d = Inr c \<Longrightarrow> table_represents c (ds @ [d])"
proof -
  let ?n = "dependency_name d" and ?same = "filter (\<lambda>e. dependency_name e = dependency_name d) ds"
  have entry: "case consumed ?n of None \<Rightarrow> ?same = [] | Some p \<Rightarrow> represents p ?same"
    using assms by (simp add: table_represents_def)
  show "(\<exists>c. consume_dependency consumed d = Inr c) \<longleftrightarrow>
      (\<forall>e \<in> set ds. dependency_name e = ?n \<longrightarrow> \<not> dependency_conflict e d)"
    using entry represents_conflict [of _ ?same d]
    by (auto simp: consume_dependency_def Let_def dependency_name_def filter_empty_conv split: option.splits)
  show "table_represents c (ds @ [d])" if "consume_dependency consumed d = Inr c"
    unfolding table_represents_def
  proof
    fix n
    show "case c n of None \<Rightarrow> filter (\<lambda>d. dependency_name d = n) (ds @ [d]) = []
      | Some p \<Rightarrow> represents p (filter (\<lambda>d. dependency_name d = n) (ds @ [d]))"
    proof (cases "n = ?n")
      case True
      with that entry show ?thesis
        by (cases "consumed ?n")
          (auto simp: consume_dependency_def Let_def dependency_name_def [symmetric] represents_merge)
    next
      case False
      with that have "c n = consumed n"
        by (auto simp: consume_dependency_def Let_def dependency_name_def split: option.splits)
      moreover have "filter (\<lambda>d. dependency_name d = n) (ds @ [d]) = filter (\<lambda>d. dependency_name d = n) ds"
        using False by auto
      moreover have "case consumed n of None \<Rightarrow> filter (\<lambda>d. dependency_name d = n) ds = []
          | Some p \<Rightarrow> represents p (filter (\<lambda>d. dependency_name d = n) ds)"
        using assms by (simp add: table_represents_def)
      ultimately show ?thesis by (cases "consumed n") (simp_all del: filter_append)
    qed
  qed
qed

lemma fold_result_append:
  "fold_result f s (xs @ ys) = and_then (fold_result f s xs) (\<lambda>s'. fold_result f s' ys)"
  by (induction xs arbitrary: s) (simp_all add: and_then_assoc)

lemma check_dependency_table_flat:
  "check_dependency_table modules =
     fold_result (check_manifest_dependency (module_table modules)) Map.empty (manifest_dependencies modules)"
proof -
  have "fold_result (\<lambda>c i. fold_result f c (index_consumed_dependencies i)) s ms =
      fold_result f s (concat (map index_consumed_dependencies ms))"
    for f :: "consumed_map \<Rightarrow> dependency_fingerprint \<Rightarrow> consumed_map result" and s ms
    by (induction ms arbitrary: s) (simp_all add: fold_result_append)
  then show ?thesis by (simp add: check_dependency_table_def manifest_dependencies_def)
qed

lemma dependency_fold:
  assumes "table_represents consumed ds"
  shows "(\<exists>c. fold_result (check_manifest_dependency table) consumed es = Inr c) \<longleftrightarrow>
    (\<forall>i < length es. (\<forall>e \<in> set (ds @ take i es). dependency_name e = dependency_name (es ! i) \<longrightarrow>
        \<not> dependency_conflict e (es ! i)) \<and>
      (\<forall>p. table (dependency_name (es ! i)) = Some p \<longrightarrow> \<not> producer_conflict p (es ! i)))"
  using assms
proof (induction es arbitrary: consumed ds)
  case (Cons d es)
  let ?producer = "\<forall>p. table (dependency_name d) = Some p \<longrightarrow> \<not> producer_conflict p d"
  have step: "check_manifest_dependency table consumed d = Inr c \<longleftrightarrow>
      consume_dependency consumed d = Inr c \<and> ?producer" for c
    by (auto simp: check_manifest_dependency_def dependency_name_def)
  have all: "(\<forall>i < length (d # es). P i) \<longleftrightarrow> P 0 \<and> (\<forall>i < length es. P (Suc i))" for P
    by (auto simp: less_Suc_eq_0_disj)
  show ?case
  proof (cases "\<exists>c. consume_dependency consumed d = Inr c")
    case True
    then obtain c where c: "consume_dependency consumed d = Inr c" by blast
    have "table_represents c (ds @ [d])" by (rule consume_dependency_step(2) [OF Cons.prems c])
    from Cons.IH [OF this] show ?thesis
      using c consume_dependency_step(1) [OF Cons.prems, of d]
      unfolding all by (simp add: step)
  next
    case False
    then show ?thesis
      using consume_dependency_step(1) [OF Cons.prems, of d] unfolding all by (auto simp: step)
  qed
qed simp

lemma pairwise_nth:
  assumes sym: "\<And>x y. R x y \<Longrightarrow> R y x" and refl: "\<And>x. R x x"
  shows "(\<forall>i < length xs. \<forall>e \<in> set (take i xs). R e (xs ! i)) \<longleftrightarrow> (\<forall>d \<in> set xs. \<forall>e \<in> set xs. R e d)"
proof
  assume earlier: "\<forall>i < length xs. \<forall>e \<in> set (take i xs). R e (xs ! i)"
  have "R (xs ! j) (xs ! i)" if "i < length xs" "j < length xs" for i j
  proof (cases i j rule: linorder_cases)
    case less
    then have "xs ! i \<in> set (take j xs)" using that by (auto simp: in_set_conv_nth)
    then show ?thesis using earlier that sym by blast
  next
    case greater
    then have "xs ! j \<in> set (take i xs)" using that by (auto simp: in_set_conv_nth)
    then show ?thesis using earlier that by blast
  qed (simp add: refl)
  then show "\<forall>d \<in> set xs. \<forall>e \<in> set xs. R e d" by (simp add: all_set_conv_all_nth)
next
  assume "\<forall>d \<in> set xs. \<forall>e \<in> set xs. R e d"
  then show "\<forall>i < length xs. \<forall>e \<in> set (take i xs). R e (xs ! i)" by (auto dest: in_set_takeD)
qed

text \<open>
  C10. The merged table that manifest validation keeps decides exactly pairwise consistency: the check
  succeeds if and only if no two dependencies of the same name anywhere in the manifest disagree (on
  module, source, resolution or configuration, or on a policy or contract fingerprint both of them
  state) and none disagrees with the manifest's own entry for that module. The order in which the
  entries are merged does not matter.
\<close>

theorem dependency_table_pairwise:
  "(\<exists>table. check_dependency_table modules = Inr table) \<longleftrightarrow>
     list_all (\<lambda>d.
         list_all (\<lambda>e. \<not> dependency_conflict e d)
           (filter (\<lambda>e. dependency_name e = dependency_name d) (manifest_dependencies modules)) \<and>
         (case module_table modules (dependency_name d) of
            None \<Rightarrow> True | Some producer \<Rightarrow> \<not> producer_conflict producer d))
       (manifest_dependencies modules)"
proof -
  let ?ds = "manifest_dependencies modules" and ?table = "module_table modules"
  let ?R = "\<lambda>e d. dependency_name e = dependency_name d \<longrightarrow> \<not> dependency_conflict e d"
  let ?P = "\<lambda>d. \<forall>p. ?table (dependency_name d) = Some p \<longrightarrow> \<not> producer_conflict p d"
  have "table_represents Map.empty []" by (simp add: table_represents_def)
  from dependency_fold [OF this, of ?table ?ds]
  have "(\<exists>table. check_dependency_table modules = Inr table) \<longleftrightarrow>
      (\<forall>i < length ?ds. \<forall>e \<in> set (take i ?ds). ?R e (?ds ! i)) \<and> (\<forall>i < length ?ds. ?P (?ds ! i))"
    unfolding check_dependency_table_flat append_Nil by blast
  also have "\<dots> \<longleftrightarrow> (\<forall>d \<in> set ?ds. \<forall>e \<in> set ?ds. ?R e d) \<and> (\<forall>d \<in> set ?ds. ?P d)"
    by (subst pairwise_nth) (auto simp: dependency_conflict_sym all_set_conv_all_nth)
  also have "\<dots> \<longleftrightarrow> (\<forall>d \<in> set ?ds. (\<forall>e \<in> set (filter (\<lambda>e. dependency_name e = dependency_name d) ?ds).
      \<not> dependency_conflict e d) \<and> (case ?table (dependency_name d) of
        None \<Rightarrow> True | Some producer \<Rightarrow> \<not> producer_conflict producer d))"
    by (auto split: option.split)
  finally show ?thesis unfolding list_all_iff .
qed

section \<open>What a verified manifest is\<close>

lemma sorted_string_keys: "sorted (map (\<lambda>x. string_key (f x)) (sort_key (\<lambda>x. string_key (f x)) xs))"
  by (rule sorted_sort_key)

lemma canonicalize_index_name [simp]: "index_name (canonicalize_index index) = index_name index"
  by (simp add: canonicalize_index_def index_name_def)

lemma canonicalize_dependencies_idem [simp]:
  "canonicalize_dependencies (canonicalize_dependencies ds) = canonicalize_dependencies ds"
  by (simp add: canonicalize_dependencies_def)

lemma canonicalize_index_idem [simp]: "canonicalize_index (canonicalize_index index) = canonicalize_index index"
  by (simp add: canonicalize_index_def)

lemma canonicalize_manifest_sorted:
  "sorted (map (\<lambda>index. string_key (index_name index)) (man_modules (canonicalize_manifest manifest)))"
  using sorted_string_keys [of index_name "man_modules manifest"]
  by (simp add: canonicalize_manifest_def comp_def)

lemma canonicalize_manifest_idem [simp]:
  "canonicalize_manifest (canonicalize_manifest manifest) = canonicalize_manifest manifest"
proof -
  let ?modules = "man_modules (canonicalize_manifest manifest)"
  have "sort_key (\<lambda>index. string_key (index_name index)) ?modules = ?modules"
    by (rule sort_key_id) (rule canonicalize_manifest_sorted)
  moreover have "map canonicalize_index ?modules = ?modules"
    by (simp add: canonicalize_manifest_def)
  ultimately show ?thesis
    by (simp add: canonicalize_manifest_def [of "canonicalize_manifest manifest"])
qed

lemma compare_environment_Inr [simp]:
  "compare_environment actual expected = Inr () \<longleftrightarrow>
     validate_environment expected = Inr () \<and> actual = expected"
  by (auto simp: compare_environment_def)

lemma verify_manifest_steps:
  "verify_manifest ext bytes anchor expected = Inr verified \<longleftrightarrow>
     (\<exists>envelope. length bytes \<le> MAX_MANIFEST_BYTES \<and>
        decode_canonical (envelope_codec ext) bytes = Inr envelope \<and>
        (\<exists>signature payload. decode_hex 64 (env_signature envelope) = Inr signature \<and>
          signature_payload ext (env_manifest envelope) = Inr payload \<and>
          ed25519_verify_strict ext anchor payload signature) \<and>
        validate_manifest ext (env_manifest envelope) = Inr () \<and>
        canonicalize_manifest (env_manifest envelope) = env_manifest envelope \<and>
        man_generation (env_manifest envelope) = expected_generation expected \<and>
        validate_environment (expected_environment expected) = Inr () \<and>
        man_environment (env_manifest envelope) = expected_environment expected \<and>
        verified = \<lparr>ver_manifest = env_manifest envelope, ver_manifest_digest = fingerprint_bytes ext bytes\<rparr>)"
  unfolding verify_manifest_def by (simp add: eq_commute [of verified]) blast

text \<open>What the loader learns from an accepted manifest.\<close>

definition authenticated_manifest ::
  "externals \<Rightarrow> u8 list \<Rightarrow> u8 list \<Rightarrow> type_artifact_manifest \<Rightarrow> bool"
where
  "authenticated_manifest ext bytes anchor manifest \<longleftrightarrow>
     (\<exists>signature content. length signature = 64 \<and>
        canonical_bytes (manifest_codec ext) manifest = Inr content \<and>
        ed25519_verify_strict ext anchor (SIGNATURE_DOMAIN @ content) signature \<and>
        canonical_bytes (envelope_codec ext)
          \<lparr>env_manifest = manifest, env_signature = encode_hex signature\<rparr> = Inr bytes)"

lemma verified_authenticated:
  assumes "verify_manifest ext bytes anchor expected = Inr verified"
  shows "authenticated_manifest ext bytes anchor (ver_manifest verified)"
proof -
  obtain envelope signature payload where *: "decode_canonical (envelope_codec ext) bytes = Inr envelope"
    "decode_hex 64 (env_signature envelope) = Inr signature"
    "signature_payload ext (env_manifest envelope) = Inr payload"
    "ed25519_verify_strict ext anchor payload signature" "ver_manifest verified = env_manifest envelope"
    using assms unfolding verify_manifest_steps by auto
  then have "envelope = \<lparr>env_manifest = ver_manifest verified, env_signature = encode_hex signature\<rparr>"
    "length signature = 64"
    using decode_hex_text by (cases envelope; simp)+
  moreover obtain content where "canonical_bytes (manifest_codec ext) (ver_manifest verified) = Inr content"
    "payload = SIGNATURE_DOMAIN @ content"
    using *(3,5) by (auto simp: signature_payload_def)
  ultimately show ?thesis
    using * unfolding authenticated_manifest_def decode_canonical_iff by auto
qed

lemma verified_modules:
  assumes "verify_manifest ext bytes anchor expected = Inr verified"
  shows "sorted (map (\<lambda>index. string_key (index_name index)) (man_modules (ver_manifest verified)))"
    "distinct (map index_name (man_modules (ver_manifest verified)))"
    "validate_manifest ext (ver_manifest verified) = Inr ()"
proof -
  have fixed: "canonicalize_manifest (ver_manifest verified) = ver_manifest verified"
    and valid: "validate_manifest ext (ver_manifest verified) = Inr ()"
    using assms unfolding verify_manifest_steps by auto
  from valid show "validate_manifest ext (ver_manifest verified) = Inr ()" .
  from canonicalize_manifest_sorted [of "ver_manifest verified"]
  show "sorted (map (\<lambda>index. string_key (index_name index)) (man_modules (ver_manifest verified)))"
    by (simp add: fixed)
  from valid show "distinct (map index_name (man_modules (ver_manifest verified)))"
    by (auto simp: validate_manifest_def)
qed

lemma module_index_iff:
  assumes "sorted (map (\<lambda>index. string_key (index_name index)) (man_modules (ver_manifest self)))"
    "distinct (map index_name (man_modules (ver_manifest self)))"
  shows "module_index self name = Inr index \<longleftrightarrow>
    index \<in> set (man_modules (ver_manifest self)) \<and> index_name index = name"
proof -
  let ?ms = "man_modules (ver_manifest self)" and ?key = "\<lambda>index. string_key (index_name index)"
  note search = binary_search_by_iff [OF assms(1), of "string_key name"]
  have distinct: "distinct (map ?key ?ms)" using assms(2) by (simp add: string_ok.distinct_key)
  show ?thesis
  proof (cases "binary_search_by ?key (string_key name) ?ms")
    case None
    then have "\<not> (i < length ?ms \<and> index_name (?ms ! i) = name)" for i
      using search [OF distinct, of i] by auto
    then have "index_name m \<noteq> name" if "m \<in> set ?ms" for m
      using that unfolding in_set_conv_nth by blast
    then show ?thesis using None by (auto simp: module_index_def)
  next
    case (Some i)
    then have i: "i < length ?ms" "index_name (?ms ! i) = name"
      using search [OF distinct, of i] by (simp_all add: string_ok.key_eq_iff)
    have "m = ?ms ! i" if "m \<in> set ?ms" "index_name m = name" for m
      using that i assms(2) by (metis distinct_map inj_onD nth_mem)
    then show ?thesis using Some i by (auto simp: module_index_def)
  qed
qed

end
