(* ===== verification/Contract_Loading.thy ===== *)
theory Contract_Loading
  imports Contract_Artifact
begin

text \<open>
  The life of an artifact across the build side and the loader
  (\<^verbatim>\<open>crates/soac_contracts/src/artifact.rs\<close>): what \<open>encode_module_shard\<close>,
  \<open>TypeArtifactManifest::new\<close> and \<open>sign_manifest\<close> publish is accepted by
  \<open>verify_manifest\<close>, \<open>verify_shard\<close> and \<open>verify_module\<close>, and whatever those accept
  has the guarantees of validation.
\<close>

section \<open>Shards\<close>

lemma verify_shard_iff:
  "verify_shard ext index bytes = Inr facts \<longleftrightarrow>
     length bytes \<le> MAX_SHARD_BYTES \<and> fingerprint_bytes ext bytes = index_shard_digest index \<and>
     decode_canonical (facts_codec ext) bytes = Inr facts \<and>
     validate_module_facts (sha256 ext) facts None = Inr () \<and> canonicalized facts = Inr facts \<and>
     facts_module facts = index_module index \<and> facts_source_digest facts = index_source_digest index \<and>
     facts_source_size facts = index_source_size index \<and>
     policy_fingerprint ext (facts_language_policy facts) = Inr (index_effective_policy index) \<and>
     facts_consumed_dependencies facts = index_consumed_dependencies index"
  unfolding verify_shard_def shard_mismatch_def by (simp cong: conj_cong) blast

lemma encode_module_shard_iff:
  "encode_module_shard ext facts = Inr shard \<longleftrightarrow>
     canonicalized facts = Inr (shard_facts shard) \<and>
     validate_module_facts (sha256 ext) (shard_facts shard) None = Inr () \<and>
     canonical_bytes (facts_codec ext) (shard_facts shard) = Inr (shard_bytes shard) \<and>
     length (shard_bytes shard) \<le> MAX_SHARD_BYTES \<and>
     shard_digest shard = fingerprint_bytes ext (shard_bytes shard)"
  by (cases shard) (auto simp: encode_module_shard_def)

lemma index_from_shard_iff:
  "index_from_shard ext shard = Inr index \<longleftrightarrow>
     policy_fingerprint ext (facts_language_policy (shard_facts shard)) = Inr (index_effective_policy index) \<and>
     index_module index = facts_module (shard_facts shard) \<and>
     index_source_digest index = facts_source_digest (shard_facts shard) \<and>
     index_source_size index = facts_source_size (shard_facts shard) \<and>
     index_shard_digest index = shard_digest shard \<and>
     index_consumed_dependencies index = facts_consumed_dependencies (shard_facts shard)"
  by (cases index) (auto simp: index_from_shard_def)

lemma encoded_shard_verifies:
  assumes "serde_roundtrip (facts_codec ext)" "encode_module_shard ext facts = Inr shard"
    "index_from_shard ext shard = Inr index"
  shows "verify_shard ext index (shard_bytes shard) = Inr (shard_facts shard)"
proof -
  have "canonicalized (shard_facts shard) = Inr (shard_facts shard)"
    using assms(2) canonicalized_idem unfolding encode_module_shard_iff by blast
  moreover have "decode_canonical (facts_codec ext) (shard_bytes shard) = Inr (shard_facts shard)"
    using assms(2) decode_encoded [OF assms(1)] unfolding encode_module_shard_iff by blast
  ultimately show ?thesis
    using assms(2,3) unfolding verify_shard_iff encode_module_shard_iff index_from_shard_iff by simp
qed

section \<open>Manifests\<close>

lemma manifest_new_Inr:
  assumes "manifest_new ext environment modules = Inr manifest"
  shows "validate_manifest ext manifest = Inr ()" "canonicalize_manifest manifest = manifest"
    "man_environment manifest = environment"
    "man_modules manifest = map canonicalize_index
       (sort_key (\<lambda>index. string_key (index_name index)) modules)"
proof -
  let ?m = "canonicalize_manifest \<lparr>man_versions = artifact_versions_default,
      man_generation = ArtifactGenerationId (fingerprint_bytes ext []),
      man_environment = environment, man_modules = modules\<rparr>"
  obtain g where g: "manifest = ?m\<lparr>man_generation := g\<rparr>" "validate_manifest ext manifest = Inr ()"
    using assms by (auto simp: manifest_new_def Let_def)
  show "validate_manifest ext manifest = Inr ()" by (rule g)
  have "canonicalize_manifest (?m\<lparr>man_generation := g\<rparr>) = (canonicalize_manifest ?m)\<lparr>man_generation := g\<rparr>"
    by (simp add: canonicalize_manifest_def)
  then show "canonicalize_manifest manifest = manifest" using g(1) by simp
  show "man_environment manifest = environment" "man_modules manifest = map canonicalize_index
       (sort_key (\<lambda>index. string_key (index_name index)) modules)"
    by (simp_all add: g(1) canonicalize_manifest_def)
qed

lemma signed_manifest_verifies:
  assumes "serde_roundtrip (envelope_codec ext)" "ed25519_correct ext seed"
    and "sign_manifest ext manifest seed = Inr bytes"
  shows "verify_manifest ext bytes (trust_anchor ext seed)
      \<lparr>expected_generation = man_generation manifest, expected_environment = man_environment manifest\<rparr> =
    Inr \<lparr>ver_manifest = canonicalize_manifest manifest, ver_manifest_digest = fingerprint_bytes ext bytes\<rparr>"
proof -
  let ?m = "canonicalize_manifest manifest"
  obtain payload where valid: "validate_manifest ext ?m = Inr ()"
    and payload: "signature_payload ext ?m = Inr payload"
    and bytes: "canonical_bytes (envelope_codec ext)
        \<lparr>env_manifest = ?m, env_signature = encode_hex (ed25519_sign ext seed payload)\<rparr> = Inr bytes"
      "length bytes \<le> MAX_MANIFEST_BYTES"
    using assms(3) by (auto simp: sign_manifest_def Let_def)
  have "decode_hex 64 (encode_hex (ed25519_sign ext seed payload)) = Inr (ed25519_sign ext seed payload)"
    and "ed25519_verify_strict ext (trust_anchor ext seed) payload (ed25519_sign ext seed payload)"
    using assms(2) by (simp_all add: decode_hex_text ed25519_correct_def trust_anchor_def)
  moreover have "man_generation ?m = man_generation manifest" "man_environment ?m = man_environment manifest"
    by (simp_all add: canonicalize_manifest_def)
  moreover have "validate_environment (man_environment manifest) = Inr ()"
    using valid by (auto simp: validate_manifest_def canonicalize_manifest_def)
  ultimately show ?thesis
    unfolding verify_manifest_steps
    using decode_encoded [OF assms(1) bytes(1)] bytes(2) payload valid
    by (intro exI [of _ "\<lparr>env_manifest = ?m, env_signature = encode_hex (ed25519_sign ext seed payload)\<rparr>"])
      simp
qed

lemma canonical_dependencies:
  assumes "canonicalized facts = Inr facts'"
  shows "canonicalize_dependencies (facts_consumed_dependencies facts') = facts_consumed_dependencies facts'"
  using canonicalized_idem [OF assms] unfolding canonicalized_fixed_iff sorted_fixed_def by blast

lemma published_index:
  assumes "encode_module_shard ext facts = Inr shard" "index_from_shard ext shard = Inr index"
    and "manifest_new ext environment modules = Inr manifest" "index \<in> set modules"
  shows "index \<in> set (man_modules manifest)"
proof -
  have "canonicalize_dependencies (index_consumed_dependencies index) = index_consumed_dependencies index"
    using assms(1,2) canonical_dependencies unfolding encode_module_shard_iff index_from_shard_iff by metis
  then have "canonicalize_index index = index" by (simp add: canonicalize_index_def)
  then have "index \<in> canonicalize_index ` set modules" using assms(4) by (metis imageI)
  then show ?thesis by (simp add: manifest_new_Inr(4) [OF assms(3)])
qed

section \<open>From the build to the loader\<close>

definition serialization_total :: "externals \<Rightarrow> bool" where
  "serialization_total ext \<longleftrightarrow>
     (\<forall>environment. \<exists>bytes. canonical_bytes (environment_codec ext) environment = Inr bytes) \<and>
     (\<forall>identity. \<exists>bytes. canonical_bytes (cache_codec ext) identity = Inr bytes)"

lemma cache_identity_total:
  assumes "serialization_total ext"
  shows "\<exists>identity. cache_identity ext self index = Inr identity"
proof -
  obtain bytes where "canonical_bytes (environment_codec ext) (man_environment (ver_manifest self)) = Inr bytes"
    using assms unfolding serialization_total_def by blast
  moreover obtain bytes' where "canonical_bytes (cache_codec ext) (ver_manifest_digest self,
      man_generation (ver_manifest self), index_shard_digest index, fingerprint_bytes ext bytes) = Inr bytes'"
    using assms unfolding serialization_total_def by blast
  ultimately show ?thesis by (simp add: cache_identity_def environment_fingerprint_def)
qed

section \<open>A published sample\<close>

text \<open>
  Serializers of the sample: one that encodes a single value and one that encodes every value alike.
\<close>

definition single_codec :: "'a \<Rightarrow> 'a codec" where
  "single_codec x = \<lparr>to_value = \<lambda>y. if y = x then Inr JNull else Inl ''unsupported value'',
     to_vec = \<lambda>_. Inr [], from_slice = \<lambda>_. Inr x\<rparr>"

definition constant_codec :: "'a codec" where
  "constant_codec = \<lparr>to_value = \<lambda>_. Inr JNull, to_vec = \<lambda>_. Inr [], from_slice = \<lambda>_. Inl ''opaque''\<rparr>"

lemma single_codec_law [simp]: "serde_roundtrip (single_codec x)"
  by (simp add: serde_roundtrip_def single_codec_def)

lemma codec_bytes [simp]:
  "canonical_bytes (single_codec x) x = Inr []" "canonical_bytes constant_codec y = Inr []"
  by (simp_all add: canonical_bytes_def single_codec_def constant_codec_def encoding_error_def)

definition sample_environment :: artifact_environment where
  "sample_environment = \<lparr>ty_revision = ''t'', checker_source_fingerprint = sample_digest,
     exporter_revision = ''e'', env_python_version = \<lparr>py_major = 3, py_minor = 14\<rparr>,
     python_platform = ''linux'', cpython_abi_fingerprint = sample_digest,
     normalized_project_policy = sample_digest, resolved_typechecker_configuration = sample_digest,
     import_search_path = sample_digest, typeshed_fingerprint = sample_digest,
     installed_stub_fingerprint = sample_digest, installed_dependency_fingerprint = sample_digest,
     env_analysis = conservative_analysis_default\<rparr>"

definition sample_index :: module_artifact_index where
  "sample_index = \<lparr>index_module = sample_module, index_source_digest = sample_digest,
     index_source_size = 28, index_effective_policy = sample_digest, index_shard_digest = sample_digest,
     index_consumed_dependencies = []\<rparr>"

definition sample_manifest :: type_artifact_manifest where
  "sample_manifest = \<lparr>man_versions = artifact_versions_default,
     man_generation = ArtifactGenerationId sample_digest, man_environment = sample_environment,
     man_modules = [sample_index]\<rparr>"

definition sample_externals :: externals where
  "sample_externals = \<lparr>sha256 = sample_sha256, facts_codec = single_codec sample_sorted,
     policy_codec = constant_codec, environment_codec = constant_codec, manifest_codec = constant_codec,
     envelope_codec = single_codec
       \<lparr>env_manifest = sample_manifest, env_signature = encode_hex (replicate 64 0)\<rparr>,
     generation_codec = constant_codec, cache_codec = constant_codec,
     ed25519_verifying_key = \<lambda>seed. seed, ed25519_valid_key = \<lambda>key. length key = 32,
     ed25519_sign = \<lambda>_ _. replicate 64 0,
     ed25519_verify_strict = \<lambda>_ _ signature. signature = replicate 64 0\<rparr>"

lemma sample_externals_simps [simp]:
  "sha256 sample_externals = sample_sha256" "facts_codec sample_externals = single_codec sample_sorted"
  "policy_codec sample_externals = constant_codec" "environment_codec sample_externals = constant_codec"
  "manifest_codec sample_externals = constant_codec"
  "envelope_codec sample_externals = single_codec
     \<lparr>env_manifest = sample_manifest, env_signature = encode_hex (replicate 64 0)\<rparr>"
  "generation_codec sample_externals = constant_codec" "cache_codec sample_externals = constant_codec"
  "ed25519_verifying_key sample_externals seed = seed"
  "ed25519_sign sample_externals seed message = replicate 64 0"
  "ed25519_verify_strict sample_externals anchor message signature \<longleftrightarrow> signature = replicate 64 0"
  by (simp_all add: sample_externals_def)

lemma sample_fingerprint [simp]: "fingerprint_bytes sample_externals bytes = sample_digest"
  by (simp add: fingerprint_bytes_def digest_def sample_sha256_def sample_digest_def)

lemma sample_laws [simp]:
  "serde_roundtrip (facts_codec sample_externals)" "serde_roundtrip (envelope_codec sample_externals)"
  "serialization_total sample_externals" "ed25519_correct sample_externals seed"
  by (simp_all add: serialization_total_def ed25519_correct_def)

lemma sample_encoded:
  "encode_module_shard sample_externals sample_facts =
     Inr \<lparr>shard_facts = sample_sorted, shard_bytes = [], shard_digest = sample_digest\<rparr>"
  unfolding encode_module_shard_iff
  by (simp add: sample_canonical sample_valid)

lemma sample_indexed:
  "index_from_shard sample_externals
     \<lparr>shard_facts = sample_sorted, shard_bytes = [], shard_digest = sample_digest\<rparr> = Inr sample_index"
  unfolding index_from_shard_iff
  by (simp add: sample_index_def policy_fingerprint_def)

lemma sample_manifest_valid: "validate_manifest sample_externals sample_manifest = Inr ()"
proof -
  have "content_generation sample_externals sample_manifest = Inr (ArtifactGenerationId sample_digest)"
    by (simp add: content_generation_def)
  moreover have "validate_environment sample_environment = Inr ()"
    by (simp add: validate_environment_def sample_environment_def conservative_analysis_default_def)
  ultimately show ?thesis
    by (simp add: validate_manifest_def sample_manifest_def check_versions_def artifact_versions_default_def
        sample_index_def index_name_def validate_dependencies_def check_dependency_table_def)
qed

lemma sample_manifest_canonical: "canonicalize_manifest sample_manifest = sample_manifest"
  by (simp add: canonicalize_manifest_def sample_manifest_def canonicalize_index_def sample_index_def
      canonicalize_dependencies_def)

lemma sample_manifest_new: "manifest_new sample_externals sample_environment [sample_index] = Inr sample_manifest"
proof -
  have "canonicalize_manifest \<lparr>man_versions = artifact_versions_default,
      man_generation = ArtifactGenerationId sample_digest, man_environment = sample_environment,
      man_modules = [sample_index]\<rparr> = sample_manifest"
    using sample_manifest_canonical by (simp add: sample_manifest_def)
  moreover have "content_generation sample_externals sample_manifest = Inr (ArtifactGenerationId sample_digest)"
    by (simp add: content_generation_def)
  moreover have "sample_manifest\<lparr>man_generation := ArtifactGenerationId sample_digest\<rparr> = sample_manifest"
    by (simp add: sample_manifest_def)
  ultimately show ?thesis by (simp add: manifest_new_def sample_manifest_valid)
qed

lemma sample_signed: "sign_manifest sample_externals sample_manifest seed = Inr []"
proof -
  have "signature_payload sample_externals sample_manifest = Inr SIGNATURE_DOMAIN"
    by (simp add: signature_payload_def)
  then show ?thesis
    by (simp add: sign_manifest_def sample_manifest_canonical sample_manifest_valid)
     
qed

section \<open>Soundness and completeness of loading\<close>



text \<open>
  C1. What the loader accepts is sound. The manifest bytes are the one canonical encoding of a manifest
  whose domain-separated content is signed under the loader's anchor, for the generation and
  environment the loader expects. The catalogue handed out is canonical and the exact meaning of the
  shard bytes, whose digest the manifest pins; it belongs to the requested module, matches the
  loader's source, policy and dependencies, and validates against that source.
\<close>

theorem loaded_module_sound:
  assumes "verify_manifest ext bytes anchor expected = Inr verified"
    and "verify_module ext verified name source policy dependencies shard = Inr loaded"
  shows "authenticated_manifest ext bytes anchor (ver_manifest verified) \<and>
    man_generation (ver_manifest verified) = expected_generation expected \<and>
    man_environment (ver_manifest verified) = expected_environment expected \<and>
    vm_generation loaded = expected_generation expected \<and>
    list_ex (\<lambda>index. index_name index = name \<and> index_shard_digest index = fingerprint_bytes ext shard)
      (man_modules (ver_manifest verified)) \<and>
    canonical_bytes (facts_codec ext) (vm_facts loaded) = Inr shard \<and>
    canonicalized (vm_facts loaded) = Inr (vm_facts loaded) \<and>
    mci_name (facts_module (vm_facts loaded)) = name \<and>
    facts_source_digest (vm_facts loaded) = fingerprint_bytes ext source \<and>
    facts_language_policy (vm_facts loaded) = policy \<and>
    facts_consumed_dependencies (vm_facts loaded) = canonicalize_dependencies dependencies \<and>
    validate_module_facts (sha256 ext) (vm_facts loaded) (Some source) = Inr ()"
proof -
  obtain index where index: "module_index verified name = Inr index"
    and source: "index_source_digest index = fingerprint_bytes ext source"
    and deps: "index_consumed_dependencies index = canonicalize_dependencies dependencies"
    and shard: "verify_shard ext index shard = Inr (vm_facts loaded)"
    and policy: "facts_language_policy (vm_facts loaded) = policy"
    and valid: "validate_module_facts (sha256 ext) (vm_facts loaded) (Some source) = Inr ()"
    and generation: "vm_generation loaded = man_generation (ver_manifest verified)"
    using assms(2) by (auto simp: verify_module_def Let_def)
  have mem: "index \<in> set (man_modules (ver_manifest verified))" "index_name index = name"
    using index module_index_iff [OF verified_modules(1,2) [OF assms(1)]] by blast+
  have expected: "man_generation (ver_manifest verified) = expected_generation expected"
    "man_environment (ver_manifest verified) = expected_environment expected"
    using assms(1) unfolding verify_manifest_steps by auto
  show ?thesis
    using verified_authenticated [OF assms(1)] expected generation policy valid source deps mem
      shard [unfolded verify_shard_iff decode_canonical_iff]
    by (auto simp: list_ex_iff index_name_def)
qed

theorem loaded_module_sound_witness:
  "\<exists>verified loaded.
     verify_manifest sample_externals [] [] \<lparr>expected_generation = man_generation sample_manifest,
       expected_environment = sample_environment\<rparr> = Inr verified \<and>
     verify_module sample_externals verified ''m'' sample_source sample_policy [] [] = Inr loaded \<and>
     mci_name (facts_module (vm_facts loaded)) = ''m'' \<and> facts_language_policy (vm_facts loaded) = sample_policy"
proof -
  let ?expected = "\<lparr>expected_generation = man_generation sample_manifest,
      expected_environment = sample_environment\<rparr>"
  let ?verified = "\<lparr>ver_manifest = sample_manifest, ver_manifest_digest = sample_digest\<rparr>"
  have v: "verify_manifest sample_externals [] [] ?expected = Inr ?verified"
    using signed_manifest_verifies [OF sample_laws(2,4) sample_signed, of "[]"] sample_manifest_canonical
    by (simp add: trust_anchor_def) (simp add: sample_manifest_def)
  have "verify_shard sample_externals sample_index [] = Inr sample_sorted"
    using encoded_shard_verifies [OF sample_laws(1) sample_encoded sample_indexed] by simp
  moreover have "module_index ?verified ''m'' = Inr sample_index"
    using module_index_iff [OF verified_modules(1,2) [OF v]]
    by (simp add: sample_manifest_def sample_index_def index_name_def)
  ultimately have "verify_module sample_externals ?verified ''m'' sample_source sample_policy [] [] =
      Inr \<lparr>vm_facts = sample_sorted, vm_generation = man_generation sample_manifest,
           vm_shard_digest = sample_digest, vm_cache_identity = sample_digest\<rparr>"
    using sample_valid(2)
    by (simp add: verify_module_def sample_index_def sample_text policy_fingerprint_def
        canonicalize_dependencies_def validate_dependencies_def cache_identity_def environment_fingerprint_def)
  with loaded_module_sound [OF v this] v show ?thesis by blast
qed

section \<open>Lookup and complete generations\<close>

text \<open>
  C16. On an accepted manifest the binary search over the module table is exact: it finds the one entry of
  a listed module and reports every other name as missing.
\<close>

theorem module_index_exact:
  assumes "verify_manifest ext bytes anchor expected = Inr verified"
  shows "module_index verified name =
    (case filter (\<lambda>index. index_name index = name) (man_modules (ver_manifest verified)) of
       [index] \<Rightarrow> Inr index | _ \<Rightarrow> Inl (MissingModule name))"
proof -
  let ?ms = "man_modules (ver_manifest verified)"
  note found = module_index_iff [OF verified_modules(1,2) [OF assms]]
  show ?thesis
  proof (cases "module_index verified name")
    case (Inl e)
    then have "\<nexists>index. index \<in> set ?ms \<and> index_name index = name" using found [of name] by auto
    then have "filter (\<lambda>index. index_name index = name) ?ms = []" by (auto simp: filter_empty_conv)
    moreover have "e = MissingModule name" using Inl by (auto simp: module_index_def split: option.splits)
    ultimately show ?thesis using Inl by simp
  next
    case (Inr index)
    then have index: "index \<in> set ?ms" "index_name index = name" using found by blast+
    have "filter (\<lambda>i. index_name i = name) ?ms = [index]"
    proof -
      obtain xs ys where split: "?ms = xs @ index # ys" using index(1) by (meson split_list)
      then have "\<forall>i \<in> set xs \<union> set ys. index_name i \<noteq> name"
        using verified_modules(2) [OF assms] index(2) by (auto simp: image_iff)
      then show ?thesis using index(2) by (auto simp: split filter_empty_conv)
    qed
    then show ?thesis using Inr by simp
  qed
qed

theorem module_index_exact_witness:
  "let verified = \<lparr>ver_manifest = sample_manifest, ver_manifest_digest = sample_digest\<rparr> in
     verify_manifest sample_externals [] [] \<lparr>expected_generation = man_generation sample_manifest,
       expected_environment = sample_environment\<rparr> = Inr verified \<and>
     module_index verified ''m'' = Inr sample_index \<and> module_index verified ''n'' = Inl (MissingModule ''n'')"
proof -
  let ?verified = "\<lparr>ver_manifest = sample_manifest, ver_manifest_digest = sample_digest\<rparr>"
  have v: "verify_manifest sample_externals [] [] \<lparr>expected_generation = man_generation sample_manifest,
      expected_environment = sample_environment\<rparr> = Inr ?verified"
    using signed_manifest_verifies [OF sample_laws(2,4) sample_signed, of "[]"] sample_manifest_canonical
    by (simp add: trust_anchor_def) (simp add: sample_manifest_def)
  show ?thesis
    using v module_index_exact [OF v] by (simp add: sample_manifest_def sample_index_def index_name_def)
qed

lemma verify_shards_iff:
  "fst (verify_shards ext (\<lambda>s fp. (store fp, s)) s indexes) = Inr () \<longleftrightarrow>
     (\<forall>index \<in> set indexes. \<exists>bytes facts.
        store (index_shard_digest index) = Inr bytes \<and> verify_shard ext index bytes = Inr facts)"
  by (induction indexes) (auto split: sum.splits)


end
