(* ===== verification/Contract_Deployment.thy ===== *)
theory Contract_Deployment
  imports Contract_Artifact
begin

text \<open>
  Deployment descriptors and observed analysis inputs,
  \<^verbatim>\<open>crates/soac_contracts/src/deployment.rs\<close>.

  The file system is a parameter: a value of type \<open>filesystem\<close> answers the calls the code makes
  (\<open>metadata\<close>, \<open>canonicalize\<close>, \<open>read\<close>, \<open>open\<close> and \<open>read_dir\<close>), each of which
  may fail with a message. A path is its byte string; \<open>PathBuf\<close> compares paths by components, and
  so does \<open>same_path\<close>.

  The lemmas relate the snapshot that shares file observations between consumers to the independent
  verification of each consumer; the theorems are in \<open>Contract_Startup\<close>.
\<close>

definition DEPLOYMENT_SCHEMA_VERSION :: u32 where "DEPLOYMENT_SCHEMA_VERSION = 3"

section \<open>Paths\<close>

text \<open>\<open>std::path::Component\<close> on Unix and \<open>Path::components\<close>.\<close>

datatype path_component = RootDir | CurDir | ParentDir | NormalPart string

type_synonym path = string

definition part_component :: "string \<Rightarrow> path_component" where
  "part_component part = (if part = ''..'' then ParentDir else NormalPart part)"

definition path_components :: "path \<Rightarrow> path_component list" where
  "path_components p =
     (let parts = split_on (CHR ''/'') p;
          rest = map part_component (filter (\<lambda>part. part \<noteq> [] \<and> part \<noteq> ''.'') parts) in
      if starts_with ''/'' p then RootDir # rest
      else if hd parts = ''.'' then CurDir # rest
      else rest)"

definition same_path :: "path \<Rightarrow> path \<Rightarrow> bool" where
  "same_path p q = (path_components p = path_components q)"

fun path_component_key :: "path_component \<Rightarrow> okey" where
  "path_component_key RootDir = OSeq [OAtom 0]"
| "path_component_key CurDir = OSeq [OAtom 1]"
| "path_component_key ParentDir = OSeq [OAtom 2]"
| "path_component_key (NormalPart s) = OSeq [OAtom 3, string_key s]"

definition path_key :: "path \<Rightarrow> okey" where
  "path_key p = list_key path_component_key (path_components p)"

definition absolute :: "path \<Rightarrow> unit result" where
  "absolute p =
     fail_if (\<not> starts_with ''/'' p \<or> \<not> utf8_valid (bytes_of_string p))
       (InvalidStructure ''deployment paths must be absolute UTF-8 paths'')"

section \<open>Observations\<close>

datatype analysis_directory_filter =
    FilterAll
  | FilterName string
  | FilterPrefix string
  | FilterSuffix string
  | SourceSelection (excluded_names: "string list")

fun filter_includes :: "analysis_directory_filter \<Rightarrow> string \<Rightarrow> bool \<Rightarrow> bool \<Rightarrow> bool \<Rightarrow> bool" where
  "filter_includes FilterAll name is_file is_directory is_symlink = True"
| "filter_includes (FilterName selected) name is_file is_directory is_symlink = (name = selected)"
| "filter_includes (FilterPrefix prefix) name is_file is_directory is_symlink = starts_with prefix name"
| "filter_includes (FilterSuffix suffix) name is_file is_directory is_symlink = ends_with suffix name"
| "filter_includes (SourceSelection excluded) name is_file is_directory is_symlink =
     (\<not> list_ex (\<lambda>e. e = name) excluded \<and>
      (is_directory \<or> is_symlink \<or> (is_file \<and> ends_with ''.py'' name)))"

fun filter_key :: "analysis_directory_filter \<Rightarrow> okey" where
  "filter_key FilterAll = OSeq [OAtom 0]"
| "filter_key (FilterName s) = OSeq [OAtom 1, string_key s]"
| "filter_key (FilterPrefix s) = OSeq [OAtom 2, string_key s]"
| "filter_key (FilterSuffix s) = OSeq [OAtom 3, string_key s]"
| "filter_key (SourceSelection ss) = OSeq [OAtom 4, list_key string_key ss]"

record analysis_directory_observation =
  obs_filter :: analysis_directory_filter
  obs_entries :: fingerprint

datatype analysis_input_state =
    MissingInput
  | FileInput (file_canonical: path) (file_digest: fingerprint) (file_size: u64)
  | DirectoryInput (directory_canonical: path) (directory_observations: "analysis_directory_observation list")

text \<open>The derived equality, in which paths compare by components.\<close>

fun same_state :: "analysis_input_state \<Rightarrow> analysis_input_state \<Rightarrow> bool" where
  "same_state MissingInput MissingInput = True"
| "same_state (FileInput p d n) (FileInput q e m) = (same_path p q \<and> d = e \<and> n = m)"
| "same_state (DirectoryInput p os) (DirectoryInput q ps) = (same_path p q \<and> os = ps)"
| "same_state _ _ = False"

record analysis_input =
  input_path :: path
  input_state :: analysis_input_state

record analysis_environment_variable =
  variable_name :: string
  variable_value :: "fingerprint option"

record deployed_module =
  deployed_name :: string
  deployed_source_path :: path
  deployed_policy :: resolved_strict_policy

record analysis_file_configuration =
  cfg_python_version :: python_version
  cfg_python_platform :: string
  cfg_analysis :: conservative_analysis
  respect_type_ignore_comments :: bool
  import_search_paths :: "string list"
  enabled_diagnostics :: "(string \<times> string) list"

datatype analysis_dependency_source = SystemSource path | VendoredSource string

record analysis_dependency =
  ad_importer_module :: string
  ad_module :: module_content_id
  ad_source :: analysis_dependency_source
  ad_source_digest :: fingerprint
  ad_source_size :: u32
  ad_configuration :: analysis_file_configuration

record interpreter_identity =
  interp_version :: "u8 \<times> u8"
  interp_platform :: string
  interp_prefix :: string
  interp_executable :: string
  interp_build_directory :: string
  interp_site_packages :: "string list"
  interp_real_stdlib :: string
  interp_abi_files :: "string list"
  interp_configuration_files :: "string list"
  interp_configuration :: "(string \<times> json) list"

record strict_artifact_deployment =
  dpl_schema_version :: u32
  dpl_artifact_directory :: path
  dpl_generation :: artifact_generation_id
  dpl_environment :: artifact_environment
  dpl_target_interpreter :: interpreter_identity
  dpl_trust_anchor :: "u8 list"
  dpl_modules :: "deployed_module list"
  dpl_analysis_dependencies :: "analysis_dependency list"
  dpl_analysis_inputs :: "analysis_input list"
  dpl_analysis_environment :: "analysis_environment_variable list"

section \<open>What the platform provides\<close>

datatype file_kind = RegularFile | Directory | SymbolicLink | OtherKind

record file_metadata =
  meta_kind :: file_kind
  meta_len :: u64

text \<open>\<open>io::Error\<close>, by whether its kind is \<open>NotFound\<close>, and its message.\<close>

datatype io_failure = NotFound string | IoFailure string

primrec io_message :: "io_failure \<Rightarrow> string" where
  "io_message (NotFound message) = message"
| "io_message (IoFailure message) = message"

text \<open>An open file: its metadata, and the bytes that reading up to a limit gives.\<close>

record open_file =
  open_metadata :: "io_failure + file_metadata"
  read_limited :: "nat \<Rightarrow> io_failure + u8 list"

text \<open>A directory entry: its kind, and its name if that is UTF-8.\<close>

record directory_entry =
  entry_kind :: "io_failure + file_kind"
  entry_name :: "string option"

record filesystem =
  fs_metadata :: "path \<Rightarrow> io_failure + file_metadata"
  fs_canonicalize :: "path \<Rightarrow> io_failure + path"
  fs_read :: "path \<Rightarrow> io_failure + u8 list"
  fs_open :: "path \<Rightarrow> io_failure + open_file"
  fs_read_dir :: "path \<Rightarrow> io_failure + (io_failure + directory_entry) list"

type_synonym listing = "(string \<times> bool \<times> bool \<times> bool) list"

record platform =
  plat_ext :: externals
  plat_fs :: filesystem
  configuration_codec :: "(string \<times> fingerprint \<times> analysis_file_configuration) codec"
  system_codec :: "(string \<times> path) codec"
  vendored_codec ::
    "(string \<times> fingerprint \<times> fingerprint \<times> string \<times> module_content_id \<times> fingerprint \<times> u32) codec"
  abi_codec :: "(interpreter_identity \<times> analysis_input list) codec"
  listing_codec :: "listing codec"

definition digest_of :: "platform \<Rightarrow> ('a, 'b) codec_scheme \<Rightarrow> 'a \<Rightarrow> fingerprint result" where
  "digest_of plat codec value =
     and_then (canonical_bytes codec value) (\<lambda>bytes. Inr (fingerprint_bytes (plat_ext plat) bytes))"

section \<open>Fingerprints of configurations, dependencies and interpreters\<close>

definition configuration_fingerprint ::
  "platform \<Rightarrow> analysis_file_configuration \<Rightarrow> artifact_environment \<Rightarrow> fingerprint result"
where
  "configuration_fingerprint plat self environment =
     and_then (fail_if (cfg_python_version self \<noteq> env_python_version environment \<or>
         cfg_python_platform self \<noteq> python_platform environment \<or>
         cfg_analysis self \<noteq> conservative_analysis_default \<or>
         cfg_analysis self \<noteq> env_analysis environment \<or>
         list_ex (\<lambda>(name, level). name = [] \<or>
             level \<notin> {''info'', ''warning'', ''error'', ''fatal''}) (enabled_diagnostics self))
       (InvalidStructure ''dependency analysis policy does not match the authenticated environment'')) (\<lambda>_.
     and_then (for_each absolute (import_search_paths self)) (\<lambda>_.
       digest_of plat (configuration_codec plat)
         (''SOAC-ANALYSIS-FILE-CONFIGURATION-v1'', resolved_typechecker_configuration environment, self)))"

definition dependency_mismatch :: "analysis_dependency \<Rightarrow> contract_error" where
  "dependency_mismatch self = DependencyMismatch (mci_name (ad_module self))"

definition find_input :: "path \<Rightarrow> analysis_input list \<Rightarrow> analysis_input option" where
  "find_input p inputs = List.find (\<lambda>input. same_path (input_path input) p) inputs"

definition find_deployed :: "string \<Rightarrow> deployed_module list \<Rightarrow> deployed_module option" where
  "find_deployed name modules = List.find (\<lambda>m. deployed_name m = name) modules"

text \<open>The resolution fingerprint of a dependency and, for a deployed module, its policy.\<close>

definition system_resolution ::
  "platform \<Rightarrow> analysis_dependency \<Rightarrow> deployed_module option \<Rightarrow> analysis_input list \<Rightarrow> path \<Rightarrow>
   (fingerprint \<times> fingerprint option) result"
where
  "system_resolution plat self deployed inputs p =
     and_then (absolute p) (\<lambda>_.
     case map_option input_state (find_input p inputs) of
       Some (FileInput canonical fp bytes) \<Rightarrow>
         and_then (fail_if (fp \<noteq> ad_source_digest self \<or> bytes \<noteq> ucast (ad_source_size self) \<or>
             (case deployed of None \<Rightarrow> False | Some m \<Rightarrow> \<not> same_path (deployed_source_path m) canonical))
           (dependency_mismatch self)) (\<lambda>_.
         and_then (digest_of plat (system_codec plat) (''SOAC-SYSTEM-DEPENDENCY-v1'', p)) (\<lambda>resolution.
         and_then (map_option_result (\<lambda>m. policy_fingerprint (plat_ext plat) (deployed_policy m)) deployed)
           (\<lambda>policy. Inr (resolution, policy))))
     | _ \<Rightarrow> Inl (dependency_mismatch self))"

definition invalid_vendored_path :: "string \<Rightarrow> bool" where
  "invalid_vendored_path p =
     (p = [] \<or> list_ex (\<lambda>c. c = CHR 0x5C \<or> c = CHR 0x00) p \<or>
      list_ex (\<lambda>part. part = [] \<or> part = ''.'' \<or> part = ''..'') (split_on (CHR ''/'') p))"

definition vendored_resolution ::
  "platform \<Rightarrow> analysis_dependency \<Rightarrow> artifact_environment \<Rightarrow> deployed_module option \<Rightarrow> string \<Rightarrow>
   (fingerprint \<times> fingerprint option) result"
where
  "vendored_resolution plat self environment deployed p =
     and_then (fail_if (invalid_vendored_path p \<or> deployed \<noteq> None) (dependency_mismatch self)) (\<lambda>_.
     and_then (digest_of plat (vendored_codec plat)
       (''SOAC-VENDORED-DEPENDENCY-v1'', checker_source_fingerprint environment,
        typeshed_fingerprint environment, p, ad_module self, ad_source_digest self, ad_source_size self))
       (\<lambda>resolution. Inr (resolution, None)))"

definition dependency_fingerprint_of ::
  "platform \<Rightarrow> analysis_dependency \<Rightarrow> artifact_environment \<Rightarrow> deployed_module list \<Rightarrow>
   analysis_input list \<Rightarrow> dependency_fingerprint result"
where
  "dependency_fingerprint_of plat self environment modules inputs =
     and_then (validate_module_name (ad_importer_module self)) (\<lambda>_.
     and_then (validate_module_name (mci_name (ad_module self))) (\<lambda>_.
     and_then (fail_if (ad_importer_module self = mci_name (ad_module self) \<or>
         \<not> list_ex (\<lambda>m. deployed_name m = ad_importer_module self) modules)
       (DependencyMismatch (ad_importer_module self))) (\<lambda>_.
     let deployed = find_deployed (mci_name (ad_module self)) modules in
     and_then (case ad_source self of
         SystemSource p \<Rightarrow> system_resolution plat self deployed inputs p
       | VendoredSource p \<Rightarrow> vendored_resolution plat self environment deployed p) (\<lambda>(resolution, policy).
     and_then (configuration_fingerprint plat (ad_configuration self) environment) (\<lambda>configuration.
       Inr \<lparr>dep_module = ad_module self, dep_source_digest = ad_source_digest self,
            dep_source_size = ad_source_size self, dep_import_resolution = resolution,
            dep_effective_configuration = configuration, dep_strict_policy = policy,
            dep_type_contract = None\<rparr>)))))"

definition strictly_ascending :: "string list \<Rightarrow> bool" where
  "strictly_ascending xs = successively (\<lambda>a b. string_key a < string_key b) xs"

definition abi_input :: "analysis_input list \<Rightarrow> string \<Rightarrow> analysis_input result" where
  "abi_input inputs p =
     and_then (ok_or (find_input p inputs)
       (InvalidStructure ''target ABI file is absent from observed inputs'')) (\<lambda>input.
     and_then (fail_if (case input_state input of FileInput _ _ n \<Rightarrow> n = 0 | _ \<Rightarrow> True)
       (InvalidStructure ''target ABI input must be a nonempty file'')) (\<lambda>_. Inr input))"

definition abi_fingerprint ::
  "platform \<Rightarrow> interpreter_identity \<Rightarrow> analysis_input list \<Rightarrow> fingerprint result"
where
  "abi_fingerprint plat self inputs =
     and_then (for_each absolute
       ([interp_prefix self, interp_executable self, interp_build_directory self, interp_real_stdlib self] @
        interp_site_packages self @ interp_abi_files self @ interp_configuration_files self)) (\<lambda>_.
     and_then (fail_if (\<not> strictly_ascending (interp_abi_files self) \<or>
         interp_executable self \<notin> set (interp_abi_files self))
       (InvalidStructure ''target ABI files must be sorted, unique, and include the executable'')) (\<lambda>_.
     and_then (map_result (abi_input inputs) (interp_abi_files self)) (\<lambda>abi_inputs.
     and_then (for_each (\<lambda>p. fail_if (find_input p inputs = None)
         (InvalidStructure ''target interpreter configuration is not an observed input''))
       (interp_configuration_files self)) (\<lambda>_.
       digest_of plat (abi_codec plat)
         (self, sort_key (\<lambda>input. path_key (input_path input)) abi_inputs)))))"

section \<open>Validation of a descriptor\<close>

definition invalid_entry_name :: "string \<Rightarrow> bool" where
  "invalid_entry_name name =
     (name = [] \<or> name = ''.'' \<or> name = ''..'' \<or>
      list_ex (\<lambda>c. c = CHR ''/'' \<or> c = CHR 0x5C \<or> c = CHR 0x00) name)"

definition check_selection :: "analysis_directory_filter \<Rightarrow> unit result" where
  "check_selection flt =
     (case flt of
        SourceSelection excluded \<Rightarrow>
          fail_if (\<not> strictly_ascending excluded \<or> list_ex invalid_entry_name excluded)
            (InvalidStructure ''source-selection exclusions must be sorted directory entry names'')
      | _ \<Rightarrow> Inr ())"

primrec check_observations ::
  "analysis_directory_filter option \<Rightarrow> analysis_directory_observation list \<Rightarrow> unit result"
where
  "check_observations previous [] = Inr ()"
| "check_observations previous (observation # rest) =
     and_then (fail_if (case previous of None \<Rightarrow> False
         | Some p \<Rightarrow> \<not> filter_key p < filter_key (obs_filter observation))
       (InvalidStructure ''directory observations must be sorted and unique'')) (\<lambda>_.
     and_then (check_selection (obs_filter observation)) (\<lambda>_.
       check_observations (Some (obs_filter observation)) rest))"

definition check_input_state :: "analysis_input_state \<Rightarrow> unit result" where
  "check_input_state state =
     (case state of
        FileInput canonical _ _ \<Rightarrow> absolute canonical
      | DirectoryInput canonical observations \<Rightarrow>
          and_then (absolute canonical) (\<lambda>_. check_observations None observations)
      | MissingInput \<Rightarrow> Inr ())"

definition check_interpreter :: "platform \<Rightarrow> strict_artifact_deployment \<Rightarrow> unit result" where
  "check_interpreter plat self =
     (let interpreter = dpl_target_interpreter self; environment = dpl_environment self;
          mismatch = InvalidStructure ''deployment interpreter does not match its ABI environment'' in
      and_then (fail_if (interp_version interpreter \<noteq>
            (py_major (env_python_version environment), py_minor (env_python_version environment)) \<or>
          interp_platform interpreter \<noteq> python_platform environment) mismatch) (\<lambda>_.
      and_then (abi_fingerprint plat interpreter (dpl_analysis_inputs self)) (\<lambda>fp.
        fail_if (fp \<noteq> cpython_abi_fingerprint environment) mismatch)))"

definition deployment_fingerprint ::
  "platform \<Rightarrow> strict_artifact_deployment \<Rightarrow> analysis_dependency \<Rightarrow> dependency_fingerprint result"
where
  "deployment_fingerprint plat self dependency =
     dependency_fingerprint_of plat dependency (dpl_environment self) (dpl_modules self)
       (dpl_analysis_inputs self)"

definition deployment_validate :: "platform \<Rightarrow> strict_artifact_deployment \<Rightarrow> unit result" where
  "deployment_validate plat self =
     and_then (fail_if (dpl_schema_version self \<noteq> DEPLOYMENT_SCHEMA_VERSION)
       (InvalidStructure ''unsupported strict deployment schema'')) (\<lambda>_.
     and_then (trust_anchor_from_bytes (plat_ext plat) (dpl_trust_anchor self)) (\<lambda>_.
     and_then (check_interpreter plat self) (\<lambda>_.
     and_then (absolute (dpl_artifact_directory self)) (\<lambda>_.
     and_then (for_unique (\<lambda>m. and_then (validate_module_name (deployed_name m)) (\<lambda>_.
           absolute (deployed_source_path m))) deployed_name
       (\<lambda>_. InvalidStructure ''duplicate deployment module identity'') (\<lambda>_. Inr ()) {}
       (dpl_modules self)) (\<lambda>_.
     and_then (for_unique (\<lambda>input. absolute (input_path input)) (\<lambda>input. path_components (input_path input))
       (\<lambda>_. InvalidStructure ''duplicate deployment analysis input'')
       (\<lambda>input. check_input_state (input_state input)) {} (dpl_analysis_inputs self)) (\<lambda>_.
     and_then (for_unique (\<lambda>v. fail_if (variable_name v = [] \<or>
           list_ex (\<lambda>c. c = CHR 0x00 \<or> c = CHR ''='') (variable_name v))
           (InvalidStructure ''invalid or duplicate analysis environment variable''))
       variable_name (\<lambda>_. InvalidStructure ''invalid or duplicate analysis environment variable'')
       (\<lambda>_. Inr ()) {} (dpl_analysis_environment self)) (\<lambda>_.
       for_unique (\<lambda>_. Inr ()) (\<lambda>d. (ad_importer_module d, mci_name (ad_module d))) dependency_mismatch
         (\<lambda>d. and_then (deployment_fingerprint plat self d) (\<lambda>_. Inr ())) {}
         (dpl_analysis_dependencies self))))))))"

section \<open>Reading the file system\<close>

definition io_error :: "path \<Rightarrow> io_failure \<Rightarrow> contract_error" where
  "io_error p error =
     InvalidStructure (''cannot read analysis input '' @ p @ '': '' @ io_message error)"

definition io_result :: "path \<Rightarrow> io_failure + 'a \<Rightarrow> 'a result" where
  "io_result p r = (case r of Inl error \<Rightarrow> Inl (io_error p error) | Inr x \<Rightarrow> Inr x)"

definition size_changed :: "path \<Rightarrow> contract_error" where
  "size_changed p = InvalidStructure (''offline analysis input size changed: '' @ p)"

definition saturating_succ :: "u64 \<Rightarrow> u64" where
  "saturating_succ n = (if n = - 1 then n else n + 1)"

definition read_file_bounded :: "filesystem \<Rightarrow> path \<Rightarrow> u64 \<Rightarrow> u8 list result" where
  "read_file_bounded fs p bytes_expected =
     and_then (io_result p (fs_open fs p)) (\<lambda>file.
     and_then (io_result p (open_metadata file)) (\<lambda>metadata.
     and_then (fail_if (meta_kind metadata \<noteq> RegularFile \<or> meta_len metadata \<noteq> bytes_expected)
       (size_changed p)) (\<lambda>_.
     and_then (io_result p (read_limited file (unat (saturating_succ bytes_expected)))) (\<lambda>bytes.
     and_then (fail_if (of_nat (length bytes) \<noteq> bytes_expected) (size_changed p)) (\<lambda>_.
       Inr bytes)))))"

definition listing_entry ::
  "path \<Rightarrow> io_failure + directory_entry \<Rightarrow> (string \<times> bool \<times> bool \<times> bool) result"
where
  "listing_entry p r =
     and_then (io_result p r) (\<lambda>entry.
     and_then (io_result p (entry_kind entry)) (\<lambda>kind.
     and_then (ok_or (entry_name entry) (InvalidStructure ''non-UTF-8 analysis directory entry'')) (\<lambda>name.
       Inr (name, kind = RegularFile, kind = Directory, kind = SymbolicLink))))"

definition listing_entry_key :: "string \<times> bool \<times> bool \<times> bool \<Rightarrow> okey" where
  "listing_entry_key e =
     (case e of (name, f, d, s) \<Rightarrow> OSeq [string_key name, bool_key f, bool_key d, bool_key s])"

definition observe_listing ::
  "platform \<Rightarrow> listing \<Rightarrow> analysis_directory_filter \<Rightarrow> analysis_directory_observation result"
where
  "observe_listing plat entries flt =
     and_then (digest_of plat (listing_codec plat)
       (filter (\<lambda>(name, f, d, s). filter_includes flt name f d s) entries)) (\<lambda>fp.
     Inr \<lparr>obs_filter = flt, obs_entries = fp\<rparr>)"

definition capture_directory ::
  "platform \<Rightarrow> path \<Rightarrow> analysis_directory_filter list \<Rightarrow> analysis_directory_observation list result"
where
  "capture_directory plat p filters =
     (if filters = [] then Inr []
      else
        and_then (io_result p (fs_read_dir (plat_fs plat) p)) (\<lambda>raw.
        and_then (map_result (listing_entry p) raw) (\<lambda>entries.
          map_result (observe_listing plat (sort_key listing_entry_key entries))
            (sort_dedup filter_key filters))))"

definition capture_file :: "platform \<Rightarrow> path \<Rightarrow> u64 option \<Rightarrow> u8 list result" where
  "capture_file plat p expected =
     (case expected of
        Some n \<Rightarrow> read_file_bounded (plat_fs plat) p n
      | None \<Rightarrow> io_result p (fs_read (plat_fs plat) p))"

definition capture_analysis_input_bounded ::
  "platform \<Rightarrow> path \<Rightarrow> analysis_directory_filter list \<Rightarrow> u64 option \<Rightarrow> analysis_input_state result"
where
  "capture_analysis_input_bounded plat p filters expected =
     and_then (absolute p) (\<lambda>_.
     case fs_metadata (plat_fs plat) p of
       Inl (NotFound _) \<Rightarrow> Inr MissingInput
     | Inl error \<Rightarrow> Inl (io_error p error)
     | Inr metadata \<Rightarrow>
         and_then (io_result p (fs_canonicalize (plat_fs plat) p)) (\<lambda>canonical.
         if meta_kind metadata = RegularFile then
           and_then (fail_if (case expected of None \<Rightarrow> False | Some n \<Rightarrow> meta_len metadata \<noteq> n)
             (size_changed p)) (\<lambda>_.
           and_then (capture_file plat p expected) (\<lambda>bytes.
             Inr (FileInput canonical (fingerprint_bytes (plat_ext plat) bytes) (of_nat (length bytes)))))
         else
           and_then (fail_if (meta_kind metadata \<noteq> Directory)
             (InvalidStructure (''unsupported analysis input kind at '' @ p))) (\<lambda>_.
           and_then (capture_directory plat p filters) (\<lambda>observations.
             Inr (DirectoryInput canonical observations)))))"

definition capture_analysis_input_with_filters ::
  "platform \<Rightarrow> path \<Rightarrow> analysis_directory_filter list \<Rightarrow> analysis_input_state result"
where
  "capture_analysis_input_with_filters plat p filters = capture_analysis_input_bounded plat p filters None"

definition capture_analysis_input :: "platform \<Rightarrow> path \<Rightarrow> bool \<Rightarrow> analysis_input_state result" where
  "capture_analysis_input plat p enumerate_directory =
     capture_analysis_input_with_filters plat p (if enumerate_directory then [FilterAll] else [])"

definition state_filters :: "analysis_input_state \<Rightarrow> analysis_directory_filter list" where
  "state_filters state =
     (case state of DirectoryInput _ observations \<Rightarrow> map obs_filter observations | _ \<Rightarrow> [])"

definition state_size :: "analysis_input_state \<Rightarrow> u64" where
  "state_size state = (case state of FileInput _ _ n \<Rightarrow> n | _ \<Rightarrow> 0)"

definition verify_analysis_input :: "platform \<Rightarrow> analysis_input \<Rightarrow> unit result" where
  "verify_analysis_input plat input =
     and_then (capture_analysis_input_bounded plat (input_path input) (state_filters (input_state input))
       (Some (state_size (input_state input)))) (\<lambda>state.
       fail_if (\<not> same_state state (input_state input))
         (InvalidStructure (''offline analysis input changed: '' @ input_path input)))"

definition verify_analysis_inputs :: "platform \<Rightarrow> analysis_input list \<Rightarrow> unit result" where
  "verify_analysis_inputs plat inputs = for_each (verify_analysis_input plat) inputs"

section \<open>Verified dependencies\<close>

record observed_dependency_source =
  ods_size :: u64
  ods_digest :: fingerprint
  ods_source_hash :: u64

definition observed_read :: "platform \<Rightarrow> path \<Rightarrow> u32 \<Rightarrow> observed_dependency_source result" where
  "observed_read plat p n =
     and_then (read_file_bounded (plat_fs plat) p (ucast n)) (\<lambda>bytes.
       Inr \<lparr>ods_size = of_nat (length bytes), ods_digest = fingerprint_bytes (plat_ext plat) bytes,
            ods_source_hash = legacy_source_hash bytes\<rparr>)"

definition observed_verify :: "observed_dependency_source \<Rightarrow> analysis_dependency \<Rightarrow> unit result" where
  "observed_verify self dependency =
     fail_if (ods_size self \<noteq> ucast (ad_source_size dependency) \<or>
         ods_digest self \<noteq> ad_source_digest dependency \<or>
         ods_source_hash self \<noteq> source_hash (ad_module dependency))
       (dependency_mismatch dependency)"

type_synonym source_table = "path_component list \<rightharpoonup> observed_dependency_source"
type_synonym snapshot = "string \<rightharpoonup> dependency_fingerprint list"

definition observe_source :: "platform \<Rightarrow> source_table \<Rightarrow> analysis_dependency \<Rightarrow> source_table result" where
  "observe_source plat sources dependency =
     (case ad_source dependency of
        SystemSource p \<Rightarrow>
          and_then (case sources (path_components p) of
              Some observed \<Rightarrow> Inr observed
            | None \<Rightarrow> observed_read plat p (ad_source_size dependency)) (\<lambda>observed.
          and_then (observed_verify observed dependency) (\<lambda>_.
            Inr (sources(path_components p \<mapsto> observed))))
      | VendoredSource _ \<Rightarrow> Inr sources)"

definition snapshot_step ::
  "platform \<Rightarrow> strict_artifact_deployment \<Rightarrow> snapshot \<times> source_table \<Rightarrow> analysis_dependency \<Rightarrow>
   (snapshot \<times> source_table) result"
where
  "snapshot_step plat self state dependency =
     (case state of (dependencies, sources) \<Rightarrow>
      and_then (observe_source plat sources dependency) (\<lambda>sources'.
      and_then (ok_or (dependencies (ad_importer_module dependency))
        (DependencyMismatch (ad_importer_module dependency))) (\<lambda>fingerprints.
      and_then (deployment_fingerprint plat self dependency) (\<lambda>fp.
        Inr (dependencies(ad_importer_module dependency \<mapsto> fingerprints @ [fp]), sources')))))"

definition empty_snapshot :: "strict_artifact_deployment \<Rightarrow> snapshot" where
  "empty_snapshot self name = (if list_ex (\<lambda>m. deployed_name m = name) (dpl_modules self) then Some [] else None)"

definition verified_analysis_snapshot :: "platform \<Rightarrow> strict_artifact_deployment \<Rightarrow> snapshot result" where
  "verified_analysis_snapshot plat self =
     and_then (deployment_validate plat self) (\<lambda>_.
     and_then (verify_analysis_inputs plat (dpl_analysis_inputs self)) (\<lambda>_.
     and_then (fold_result (snapshot_step plat self) (empty_snapshot self, Map.empty)
       (dpl_analysis_dependencies self)) (\<lambda>(dependencies, _).
       Inr (\<lambda>name. map_option canonicalize_dependencies (dependencies name)))))"

definition snapshot_dependencies :: "snapshot \<Rightarrow> string \<Rightarrow> dependency_fingerprint list result" where
  "snapshot_dependencies self importer = ok_or (self importer) (DependencyMismatch importer)"

definition verified_dependency ::
  "platform \<Rightarrow> strict_artifact_deployment \<Rightarrow> analysis_dependency \<Rightarrow> dependency_fingerprint result"
where
  "verified_dependency plat self dependency =
     and_then (case ad_source dependency of
         SystemSource p \<Rightarrow>
           and_then (read_file_bounded (plat_fs plat) p (ucast (ad_source_size dependency))) (\<lambda>bytes.
             fail_if (fingerprint_bytes (plat_ext plat) bytes \<noteq> ad_source_digest dependency \<or>
                 legacy_source_hash bytes \<noteq> source_hash (ad_module dependency))
               (dependency_mismatch dependency))
       | VendoredSource _ \<Rightarrow> Inr ()) (\<lambda>_.
       deployment_fingerprint plat self dependency)"

definition verified_analysis_dependencies ::
  "platform \<Rightarrow> strict_artifact_deployment \<Rightarrow> string \<Rightarrow> dependency_fingerprint list result"
where
  "verified_analysis_dependencies plat self importer =
     and_then (deployment_validate plat self) (\<lambda>_.
     and_then (fail_if (\<not> list_ex (\<lambda>m. deployed_name m = importer) (dpl_modules self))
       (DependencyMismatch importer)) (\<lambda>_.
     and_then (verify_analysis_inputs plat (dpl_analysis_inputs self)) (\<lambda>_.
     and_then (map_result (verified_dependency plat self)
       (filter (\<lambda>d. ad_importer_module d = importer) (dpl_analysis_dependencies self))) (\<lambda>fingerprints.
       Inr (canonicalize_dependencies fingerprints)))))"

section \<open>Orders of the model\<close>

interpretation path_component_ok: order_key path_component_key
proof
  fix a b
  assume "path_component_key a = path_component_key b"
  then show "a = b" by (cases a; cases b) (simp_all add: string_ok.key_eq_iff)
qed

interpretation filter_ok: order_key filter_key
proof
  fix a b
  assume "filter_key a = filter_key b"
  then show "a = b"
    by (cases a; cases b) (simp_all add: string_ok.key_eq_iff string_ok.list_key_inj)
qed

interpretation listing_entry_ok: order_key listing_entry_key
proof
  fix a b
  assume "listing_entry_key a = listing_entry_key b"
  then show "a = b"
    by (cases a; cases b) (simp add: listing_entry_key_def string_ok.key_eq_iff bool_ok.key_eq_iff)
qed

lemma path_key_eq: "path_key p = path_key q \<longleftrightarrow> same_path p q"
  using path_component_ok.list_key_inj by (auto simp: path_key_def same_path_def)

lemma same_path_refl [simp]: "same_path p p"
  by (simp add: same_path_def)

lemma same_state_refl [simp]: "same_state s s"
  by (cases s) simp_all

section \<open>Bounded reads\<close>

lemma io_result_Inr [simp]: "io_result p r = Inr x \<longleftrightarrow> r = Inr x"
  by (cases r) (simp_all add: io_result_def)

lemma read_file_bounded_iff:
  "read_file_bounded fs p n = Inr bytes \<longleftrightarrow>
     (\<exists>file metadata. fs_open fs p = Inr file \<and> open_metadata file = Inr metadata \<and>
        meta_kind metadata = RegularFile \<and> meta_len metadata = n \<and>
        read_limited file (unat (saturating_succ n)) = Inr bytes \<and> of_nat (length bytes) = n)"
  by (auto simp: read_file_bounded_def)

lemma read_file_bounded_unique:
  "read_file_bounded fs p n = Inr bytes \<Longrightarrow> read_file_bounded fs p m = Inr bytes' \<Longrightarrow> n = m \<and> bytes = bytes'"
  by (auto simp: read_file_bounded_iff)

text \<open>The bytes a system dependency has on disk are the ones it names.\<close>

definition source_verified :: "platform \<Rightarrow> analysis_dependency \<Rightarrow> bool" where
  "source_verified plat d =
     (case ad_source d of
        SystemSource p \<Rightarrow>
          (case read_file_bounded (plat_fs plat) p (ucast (ad_source_size d)) of
             Inl _ \<Rightarrow> False
           | Inr bytes \<Rightarrow> fingerprint_bytes (plat_ext plat) bytes = ad_source_digest d \<and>
                          legacy_source_hash bytes = source_hash (ad_module d))
      | VendoredSource _ \<Rightarrow> True)"

lemma verified_dependency_iff:
  "verified_dependency plat self d = Inr fp \<longleftrightarrow>
     source_verified plat d \<and> deployment_fingerprint plat self d = Inr fp"
  by (auto simp: verified_dependency_def source_verified_def
      split: analysis_dependency_source.splits sum.splits)

section \<open>The shared snapshot\<close>

text \<open>
  A table of observations is valid if each entry was read from some dependency's path. The table is
  keyed by path components, as \<open>PathBuf\<close> compares; spellings that are equal in this sense are
  assumed to be written alike.
\<close>

definition spelled_alike :: "analysis_dependency list \<Rightarrow> bool" where
  "spelled_alike ds \<longleftrightarrow>
     (\<forall>d \<in> set ds. \<forall>e \<in> set ds. \<forall>p q.
        ad_source d = SystemSource p \<longrightarrow> ad_source e = SystemSource q \<longrightarrow> same_path p q \<longrightarrow> p = q)"

definition table_valid :: "platform \<Rightarrow> analysis_dependency list \<Rightarrow> source_table \<Rightarrow> bool" where
  "table_valid plat ds sources \<longleftrightarrow>
     (\<forall>key observed. sources key = Some observed \<longrightarrow>
        (\<exists>d \<in> set ds. \<exists>p. ad_source d = SystemSource p \<and> path_components p = key \<and>
           observed_read plat p (ad_source_size d) = Inr observed))"

lemma observed_verify_iff:
  assumes "observed_read plat p n = Inr observed"
    and "ad_source d = SystemSource p"
  shows "observed_verify observed d = Inr () \<longleftrightarrow> source_verified plat d"
proof -
  obtain bytes where bytes: "read_file_bounded (plat_fs plat) p (ucast n) = Inr bytes"
    and observed: "observed = \<lparr>ods_size = of_nat (length bytes),
        ods_digest = fingerprint_bytes (plat_ext plat) bytes, ods_source_hash = legacy_source_hash bytes\<rparr>"
    using assms(1) by (auto simp: observed_read_def)
  have len: "of_nat (length bytes) = (ucast n :: u64)"
    using bytes by (auto simp: read_file_bounded_iff)
  show ?thesis
  proof (cases "(ucast n :: u64) = ucast (ad_source_size d)")
    case True
    then show ?thesis
      using bytes len by (simp add: observed_verify_def observed source_verified_def assms(2))
  next
    case False
    then have "\<nexists>b. read_file_bounded (plat_fs plat) p (ucast (ad_source_size d)) = Inr b"
      using read_file_bounded_unique [OF bytes] by blast
    then show ?thesis
      using False len by (auto simp: observed_verify_def observed source_verified_def assms(2) split: sum.splits)
  qed
qed

lemma observe_source_step:
  assumes "spelled_alike ds" "table_valid plat ds sources" "d \<in> set ds"
  shows "(\<exists>sources'. observe_source plat sources d = Inr sources') \<longleftrightarrow> source_verified plat d"
    and "observe_source plat sources d = Inr sources' \<Longrightarrow> table_valid plat ds sources'"
proof -
  show "(\<exists>sources'. observe_source plat sources d = Inr sources') \<longleftrightarrow> source_verified plat d"
  proof (cases "ad_source d")
    case (SystemSource p)
    show ?thesis
    proof (cases "sources (path_components p)")
      case None
      show ?thesis
      proof (cases "observed_read plat p (ad_source_size d)")
        case (Inl e)
        then have "\<not> source_verified plat d"
          by (auto simp: source_verified_def SystemSource observed_read_def split: sum.splits)
        then show ?thesis by (simp add: observe_source_def SystemSource None Inl)
      next
        case (Inr observed)
        then show ?thesis
          using observed_verify_iff [OF Inr SystemSource] by (simp add: observe_source_def SystemSource None)
      qed
    next
      case (Some observed)
      then obtain e q where "e \<in> set ds" "ad_source e = SystemSource q" "same_path q p"
        and read: "observed_read plat q (ad_source_size e) = Inr observed"
        using assms(2) unfolding table_valid_def same_path_def by metis
      then have "q = p" using assms(1,3) SystemSource unfolding spelled_alike_def by blast
      then show ?thesis
        using observed_verify_iff [of plat p _ observed d] read SystemSource
        by (simp add: observe_source_def Some)
    qed
  qed (simp add: observe_source_def source_verified_def)
  show "table_valid plat ds sources'" if "observe_source plat sources d = Inr sources'"
  proof (cases "ad_source d")
    case (SystemSource p)
    show ?thesis
    proof (cases "sources (path_components p)")
      case None
      with that SystemSource obtain observed where "observed_read plat p (ad_source_size d) = Inr observed"
        "sources' = sources(path_components p \<mapsto> observed)"
        by (auto simp: observe_source_def)
      then show ?thesis using assms(2,3) SystemSource unfolding table_valid_def by auto
    next
      case (Some observed)
      with that SystemSource have "sources' = sources"
        by (auto simp: observe_source_def)
      then show ?thesis using assms(2) by simp
    qed
  qed (use that assms(2) in \<open>simp add: observe_source_def\<close>)
qed

lemma snapshot_step_Inr:
  "snapshot_step plat self (dependencies, sources) d = Inr (dependencies', sources') \<longleftrightarrow>
     observe_source plat sources d = Inr sources' \<and>
     (\<exists>fps fp. dependencies (ad_importer_module d) = Some fps \<and> deployment_fingerprint plat self d = Inr fp \<and>
        dependencies' = dependencies(ad_importer_module d \<mapsto> fps @ [fp]))"
  by (auto simp: snapshot_step_def)

definition importer_fingerprints ::
  "platform \<Rightarrow> strict_artifact_deployment \<Rightarrow> string \<Rightarrow> analysis_dependency list \<Rightarrow>
   dependency_fingerprint list result"
where
  "importer_fingerprints plat self importer ds =
     map_result (verified_dependency plat self) (filter (\<lambda>d. ad_importer_module d = importer) ds)"

lemma snapshot_fold_sound:
  assumes "spelled_alike all" "set ds \<subseteq> set all" "table_valid plat all sources"
    and "fold_result (snapshot_step plat self) (dependencies, sources) ds = Inr (dependencies', sources')"
  shows "(\<forall>d \<in> set ds. \<exists>fp. verified_dependency plat self d = Inr fp) \<and>
    (\<forall>name fps. dependencies name = Some fps \<longrightarrow>
       (\<exists>gs. importer_fingerprints plat self name ds = Inr gs \<and> dependencies' name = Some (fps @ gs))) \<and>
    (\<forall>name. dependencies name = None \<longrightarrow> dependencies' name = None)"
  using assms(2-)
proof (induction ds arbitrary: dependencies sources)
  case Nil
  then show ?case by (simp add: importer_fingerprints_def)
next
  case (Cons d ds)
  then obtain deps1 sources1 where
    step: "snapshot_step plat self (dependencies, sources) d = Inr (deps1, sources1)"
    and rest: "fold_result (snapshot_step plat self) (deps1, sources1) ds = Inr (dependencies', sources')"
    by (auto simp del: split_paired_Ex)
  from step obtain fps0 fp where obs: "observe_source plat sources d = Inr sources1"
    and fps0: "dependencies (ad_importer_module d) = Some fps0"
    and fp: "deployment_fingerprint plat self d = Inr fp"
    and deps1: "deps1 = dependencies(ad_importer_module d \<mapsto> fps0 @ [fp])"
    unfolding snapshot_step_Inr by blast
  note observe = observe_source_step [OF assms(1) Cons.prems(2), of d]
  have d: "verified_dependency plat self d = Inr fp"
    using obs fp observe(1) Cons.prems(1) unfolding verified_dependency_iff by auto
  have ih: "(\<forall>d \<in> set ds. \<exists>fp. verified_dependency plat self d = Inr fp) \<and>
    (\<forall>name fps. deps1 name = Some fps \<longrightarrow>
       (\<exists>gs. importer_fingerprints plat self name ds = Inr gs \<and> dependencies' name = Some (fps @ gs))) \<and>
    (\<forall>name. deps1 name = None \<longrightarrow> dependencies' name = None)"
    using Cons.IH [OF _ observe(2) [OF _ obs] rest] Cons.prems(1) by simp
  have "\<exists>gs. importer_fingerprints plat self name (d # ds) = Inr gs \<and> dependencies' name = Some (fps @ gs)"
    if "dependencies name = Some fps" for name fps
  proof (cases "name = ad_importer_module d")
    case True
    then have "deps1 name = Some (fps @ [fp])" using that fps0 deps1 by simp
    then obtain gs where "importer_fingerprints plat self name ds = Inr gs"
      "dependencies' name = Some ((fps @ [fp]) @ gs)"
      using ih by blast
    then show ?thesis using True d by (simp add: importer_fingerprints_def)
  next
    case False
    then have "deps1 name = Some fps" using that deps1 by simp
    then obtain gs where "importer_fingerprints plat self name ds = Inr gs" "dependencies' name = Some (fps @ gs)"
      using ih by blast
    then show ?thesis using False by (simp add: importer_fingerprints_def)
  qed
  moreover have "dependencies' name = None" if "dependencies name = None" for name
    using that ih fps0 unfolding deps1 by (cases "name = ad_importer_module d") auto
  ultimately show ?case using d ih by simp
qed

lemma snapshot_fold_complete:
  assumes "spelled_alike all" "set ds \<subseteq> set all" "table_valid plat all sources"
    and "\<forall>d \<in> set ds. \<exists>fp. verified_dependency plat self d = Inr fp"
    and "\<forall>d \<in> set ds. dependencies (ad_importer_module d) \<noteq> None"
  shows "\<exists>r. fold_result (snapshot_step plat self) (dependencies, sources) ds = Inr r"
  using assms(2-)
proof (induction ds arbitrary: dependencies sources)
  case (Cons d ds)
  obtain fp where fp: "source_verified plat d" "deployment_fingerprint plat self d = Inr fp"
    using Cons.prems(3) unfolding verified_dependency_iff by auto
  obtain sources1 where obs: "observe_source plat sources d = Inr sources1"
    using observe_source_step(1) [OF assms(1) Cons.prems(2), of d] fp(1) Cons.prems(1) by auto
  obtain fps where "dependencies (ad_importer_module d) = Some fps" using Cons.prems(4) by auto
  then have step: "snapshot_step plat self (dependencies, sources) d =
      Inr (dependencies(ad_importer_module d \<mapsto> fps @ [fp]), sources1)"
    unfolding snapshot_step_Inr using obs fp(2) by blast
  have "table_valid plat all sources1"
    using observe_source_step(2) [OF assms(1) Cons.prems(2) _ obs] Cons.prems(1) by simp
  from Cons.IH [OF _ this] show ?case using Cons.prems by (simp add: step)
qed simp

lemma deployment_validate_dependencies:
  assumes "deployment_validate plat self = Inr ()"
  shows "distinct (map (\<lambda>d. (ad_importer_module d, mci_name (ad_module d))) (dpl_analysis_dependencies self))"
    "\<forall>d \<in> set (dpl_analysis_dependencies self). \<exists>fp. deployment_fingerprint plat self d = Inr fp"
  using assms by (auto simp: deployment_validate_def)

lemma deployment_fingerprint_parts:
  assumes "deployment_fingerprint plat self d = Inr fp"
  shows "dep_module fp = ad_module d" "dep_source_digest fp = ad_source_digest d"
    "dep_source_size fp = ad_source_size d" "validate_module_name (mci_name (ad_module d)) = Inr ()"
    "mci_name (ad_module d) \<noteq> ad_importer_module d"
    "list_ex (\<lambda>m. deployed_name m = ad_importer_module d) (dpl_modules self)"
  using assms
  by (auto simp: deployment_fingerprint_def dependency_fingerprint_of_def Let_def)

lemma snapshot_agrees:
  assumes "spelled_alike (dpl_analysis_dependencies self)"
    and "verified_analysis_snapshot plat self = Inr snap"
  shows "snapshot_dependencies snap importer = verified_analysis_dependencies plat self importer"
proof -
  let ?ds = "dpl_analysis_dependencies self"
  obtain deps sources where valid: "deployment_validate plat self = Inr ()"
    and inputs: "verify_analysis_inputs plat (dpl_analysis_inputs self) = Inr ()"
    and fold: "fold_result (snapshot_step plat self) (empty_snapshot self, Map.empty) ?ds = Inr (deps, sources)"
    and snap: "snap = (\<lambda>name. map_option canonicalize_dependencies (deps name))"
    using assms(2) by (auto simp: verified_analysis_snapshot_def)
  have "table_valid plat ?ds Map.empty" by (simp add: table_valid_def)
  note sound = snapshot_fold_sound [OF assms(1) subset_refl this fold]
  show ?thesis
  proof (cases "list_ex (\<lambda>m. deployed_name m = importer) (dpl_modules self)")
    case True
    then have "empty_snapshot self importer = Some []" by (simp add: empty_snapshot_def)
    with sound obtain gs where "importer_fingerprints plat self importer ?ds = Inr gs" "deps importer = Some gs"
      by fastforce
    then show ?thesis
      using True valid inputs
      by (simp add: snapshot_dependencies_def snap verified_analysis_dependencies_def
          importer_fingerprints_def ok_or_def)
  next
    case False
    then have "empty_snapshot self importer = None" by (simp add: empty_snapshot_def)
    with sound have "deps importer = None" by blast
    then show ?thesis
      using False valid by (simp add: snapshot_dependencies_def snap verified_analysis_dependencies_def ok_or_def)
  qed
qed

lemma snapshot_succeeds:
  assumes "spelled_alike (dpl_analysis_dependencies self)"
    and "deployment_validate plat self = Inr ()"
    and "verify_analysis_inputs plat (dpl_analysis_inputs self) = Inr ()"
    and "\<forall>m \<in> set (dpl_modules self). \<not> is_err (verified_analysis_dependencies plat self (deployed_name m))"
  shows "\<exists>snap. verified_analysis_snapshot plat self = Inr snap"
proof -
  let ?ds = "dpl_analysis_dependencies self"
  have known: "\<exists>m \<in> set (dpl_modules self). deployed_name m = ad_importer_module d" if "d \<in> set ?ds" for d
    using deployment_validate_dependencies(2) [OF assms(2)] deployment_fingerprint_parts(6) that
    unfolding list_ex_iff by blast
  have "\<exists>fp. verified_dependency plat self d = Inr fp" if d: "d \<in> set ?ds" for d
  proof -
    obtain m where "m \<in> set (dpl_modules self)" "deployed_name m = ad_importer_module d" using known [OF d] by blast
    then obtain fps where "verified_analysis_dependencies plat self (ad_importer_module d) = Inr fps"
      using assms(4) by (metis is_err_iff)
    then have "\<exists>gs. map_result (verified_dependency plat self)
        (filter (\<lambda>e. ad_importer_module e = ad_importer_module d) ?ds) = Inr gs"
      by (auto simp: verified_analysis_dependencies_def)
    then show ?thesis using d unfolding map_result_Ex_iff by simp
  qed
  moreover have "empty_snapshot self (ad_importer_module d) \<noteq> None" if "d \<in> set ?ds" for d
    using known [OF that] by (auto simp: empty_snapshot_def list_ex_iff)
  moreover have "table_valid plat ?ds Map.empty" by (simp add: table_valid_def)
  ultimately obtain r where "fold_result (snapshot_step plat self) (empty_snapshot self, Map.empty) ?ds = Inr r"
    using snapshot_fold_complete [OF assms(1) subset_refl] by blast
  then show ?thesis
    using assms(2,3) by (cases r) (simp add: verified_analysis_snapshot_def)
qed

end
