(* ===== verification/Contract_Startup.thy ===== *)
theory Contract_Startup
  imports Contract_Loading Contract_Deployment
begin

text \<open>
  What the loader may rely on at startup (\<^verbatim>\<open>crates/soac_contracts/src/deployment.rs\<close>): the
  shared snapshot over all consumers agrees with the independent verification of each of them; what
  is verified is what is on disk; what is captured verifies while the file system does not change;
  the dependencies handed to the loader are ones its module check admits.
\<close>

section \<open>A deployed sample\<close>

definition tiny_fs :: filesystem where
  "tiny_fs = \<lparr>
     fs_metadata = \<lambda>p. if p = ''/p'' then Inr \<lparr>meta_kind = RegularFile, meta_len = 1\<rparr> else Inl (NotFound ''none''),
     fs_canonicalize = Inr,
     fs_read = \<lambda>p. if p = ''/p'' then Inr [0] else Inl (NotFound ''none''),
     fs_open = \<lambda>p. if p = ''/p''
       then Inr \<lparr>open_metadata = Inr \<lparr>meta_kind = RegularFile, meta_len = 1\<rparr>,
                 read_limited = \<lambda>n. Inr (take n [0])\<rparr>
       else Inl (NotFound ''none''),
     fs_read_dir = \<lambda>_. Inl (IoFailure ''not a directory'')\<rparr>"


definition tiny_configuration :: analysis_file_configuration where
  "tiny_configuration = \<lparr>cfg_python_version = \<lparr>py_major = 3, py_minor = 14\<rparr>, cfg_python_platform = ''linux'',
     cfg_analysis = conservative_analysis_default, respect_type_ignore_comments = False,
     import_search_paths = [], enabled_diagnostics = []\<rparr>"

definition tiny_input :: analysis_input where
  "tiny_input = \<lparr>input_path = ''/p'', input_state = FileInput ''/p'' sample_digest 1\<rparr>"

definition tiny_module :: deployed_module where
  "tiny_module = \<lparr>deployed_name = ''m'', deployed_source_path = ''/p'', deployed_policy = sample_policy\<rparr>"

definition tiny_dependency :: analysis_dependency where
  "tiny_dependency = \<lparr>ad_importer_module = ''m'',
     ad_module = \<lparr>mci_name = ''n'', source_hash = legacy_source_hash [0]\<rparr>,
     ad_source = SystemSource ''/p'', ad_source_digest = sample_digest, ad_source_size = 1,
     ad_configuration = tiny_configuration\<rparr>"

definition tiny_interpreter :: interpreter_identity where
  "tiny_interpreter = \<lparr>interp_version = (3, 14), interp_platform = ''linux'', interp_prefix = ''/p'',
     interp_executable = ''/p'', interp_build_directory = ''/p'', interp_site_packages = [],
     interp_real_stdlib = ''/p'', interp_abi_files = [''/p''], interp_configuration_files = [],
     interp_configuration = []\<rparr>"

definition tiny_deployment :: strict_artifact_deployment where
  "tiny_deployment = \<lparr>dpl_schema_version = DEPLOYMENT_SCHEMA_VERSION, dpl_artifact_directory = ''/p'',
     dpl_generation = ArtifactGenerationId sample_digest, dpl_environment = sample_environment,
     dpl_target_interpreter = tiny_interpreter, dpl_trust_anchor = replicate 32 0,
     dpl_modules = [tiny_module], dpl_analysis_dependencies = [tiny_dependency],
     dpl_analysis_inputs = [tiny_input], dpl_analysis_environment = []\<rparr>"

definition tiny_platform :: platform where
  "tiny_platform = \<lparr>plat_ext = sample_externals, plat_fs = tiny_fs, configuration_codec = constant_codec,
     system_codec = constant_codec, vendored_codec = constant_codec, abi_codec = constant_codec,
     listing_codec = constant_codec\<rparr>"

lemma tiny_digest [simp]:
  "digest_of tiny_platform constant_codec x = Inr sample_digest"
  "plat_ext tiny_platform = sample_externals" "plat_fs tiny_platform = tiny_fs"
  "configuration_codec tiny_platform = constant_codec" "system_codec tiny_platform = constant_codec"
  "abi_codec tiny_platform = constant_codec"
  by (simp_all add: digest_of_def tiny_platform_def)

lemma tiny_absolute [simp]: "absolute ''/p'' = Inr ()"
  by code_simp

lemma tiny_fingerprint:
  "deployment_fingerprint tiny_platform tiny_deployment tiny_dependency =
     Inr \<lparr>dep_module = ad_module tiny_dependency, dep_source_digest = sample_digest, dep_source_size = 1,
          dep_import_resolution = sample_digest, dep_effective_configuration = sample_digest,
          dep_strict_policy = None, dep_type_contract = None\<rparr>"
proof -
  have "configuration_fingerprint tiny_platform tiny_configuration sample_environment = Inr sample_digest"
    by (simp add: configuration_fingerprint_def tiny_configuration_def sample_environment_def)
  moreover have "find_input ''/p'' [tiny_input] = Some tiny_input"
    by (simp add: find_input_def tiny_input_def)
  then have "system_resolution tiny_platform tiny_dependency None [tiny_input] ''/p'' = Inr (sample_digest, None)"
    by (simp add: system_resolution_def tiny_dependency_def) (simp add: tiny_input_def)
  moreover have "validate_module_name ''n'' = Inr ()"
    by (simp add: validate_module_name_def is_err_def validate_name_def)
  ultimately show ?thesis
    by (simp add: deployment_fingerprint_def dependency_fingerprint_of_def tiny_deployment_def
        tiny_dependency_def tiny_module_def find_deployed_def)
qed

lemma tiny_valid: "deployment_validate tiny_platform tiny_deployment = Inr ()"
proof -
  have "abi_fingerprint tiny_platform tiny_interpreter [tiny_input] = Inr sample_digest"
    by (simp add: abi_fingerprint_def tiny_interpreter_def strictly_ascending_def abi_input_def
        find_input_def tiny_input_def)
  then have "check_interpreter tiny_platform tiny_deployment = Inr ()"
    by (simp add: check_interpreter_def tiny_deployment_def tiny_interpreter_def sample_environment_def)
  then show ?thesis
    using tiny_fingerprint
    by (simp add: deployment_validate_def)
      (simp add: tiny_deployment_def trust_anchor_from_bytes_def sample_externals_def tiny_module_def
        tiny_input_def check_input_state_def)
qed

lemma tiny_read: "read_file_bounded tiny_fs ''/p'' 1 = Inr [0]"
  by (simp add: read_file_bounded_iff tiny_fs_def saturating_succ_def)

lemma tiny_metadata:
  "fs_metadata tiny_fs ''/p'' = Inr \<lparr>meta_kind = RegularFile, meta_len = 1\<rparr>"
  "fs_canonicalize tiny_fs p = Inr p"
  by (simp_all add: tiny_fs_def)

lemma tiny_inputs: "verify_analysis_inputs tiny_platform [tiny_input] = Inr ()"
proof -
  have "capture_analysis_input_bounded tiny_platform ''/p'' [] (Some 1) = Inr (FileInput ''/p'' sample_digest 1)"
    by (simp add: capture_analysis_input_bounded_def tiny_metadata capture_file_def tiny_read io_result_def)
  then show ?thesis
    by (simp add: verify_analysis_inputs_def verify_analysis_input_def tiny_input_def state_filters_def
        state_size_def)
qed

lemma tiny_verified: "source_verified tiny_platform tiny_dependency"
  using tiny_read by (simp add: source_verified_def tiny_dependency_def)

lemma tiny_dependencies:
  "verified_analysis_dependencies tiny_platform tiny_deployment ''m'' =
     Inr [\<lparr>dep_module = ad_module tiny_dependency, dep_source_digest = sample_digest, dep_source_size = 1,
          dep_import_resolution = sample_digest, dep_effective_configuration = sample_digest,
          dep_strict_policy = None, dep_type_contract = None\<rparr>]"
proof -
  have lists: "dpl_modules tiny_deployment = [tiny_module]" "dpl_analysis_inputs tiny_deployment = [tiny_input]"
    "dpl_analysis_dependencies tiny_deployment = [tiny_dependency]"
    "deployed_name tiny_module = ''m''" "ad_importer_module tiny_dependency = ''m''"
    by (simp_all add: tiny_deployment_def tiny_module_def tiny_dependency_def)
  show ?thesis
    using tiny_verified tiny_fingerprint
    by (simp add: verified_analysis_dependencies_def tiny_valid tiny_inputs lists verified_dependency_iff
        canonicalize_dependencies_def)
qed

lemma tiny_spelled: "spelled_alike (dpl_analysis_dependencies tiny_deployment)"
  by (simp add: spelled_alike_def tiny_deployment_def)

section \<open>Snapshots\<close>



section \<open>What the loader gets\<close>

lemma canonicalize_dependencies_set [simp]: "set (canonicalize_dependencies ds) = set ds"
  by (simp add: canonicalize_dependencies_def)

lemma canonicalize_dependencies_distinct:
  "distinct (map (\<lambda>d. mci_name (dep_module d)) (canonicalize_dependencies ds)) =
   distinct (map (\<lambda>d. mci_name (dep_module d)) ds)"
  unfolding canonicalize_dependencies_def
  by (rule mset_eq_imp_distinct_iff) simp

lemma validate_dependencies_iff:
  "validate_dependencies ds owner = Inr () \<longleftrightarrow>
     (\<forall>d \<in> set ds. validate_module_name (mci_name (dep_module d)) = Inr () \<and> mci_name (dep_module d) \<noteq> owner) \<and>
     distinct (map (\<lambda>d. mci_name (dep_module d)) ds)"
  by (auto simp: validate_dependencies_def)

text \<open>
  C12. The dependencies that are verified for a consumer are ones the loader's module check admits: they
  are canonical and pass its dependency validation. Each comes from a dependency record of that
  consumer whose source, if it is a file, is on disk with the recorded digest, source hash and size.
\<close>

theorem verified_dependencies_admissible:
  assumes "verified_analysis_dependencies plat self importer = Inr fps"
  shows "validate_dependencies fps importer = Inr () \<and> canonicalize_dependencies fps = fps \<and>
    list_all (\<lambda>fp. list_ex (\<lambda>d. ad_importer_module d = importer \<and> dep_module fp = ad_module d \<and>
        dep_source_digest fp = ad_source_digest d \<and> source_verified plat d)
      (dpl_analysis_dependencies self)) fps"
proof -
  let ?ds = "filter (\<lambda>d. ad_importer_module d = importer) (dpl_analysis_dependencies self)"
  obtain gs where valid: "deployment_validate plat self = Inr ()"
    and gs: "map_result (verified_dependency plat self) ?ds = Inr gs"
    and fps: "fps = canonicalize_dependencies gs"
    using assms by (auto simp: verified_analysis_dependencies_def)
  have pairs: "list_all2 (\<lambda>d fp. source_verified plat d \<and> deployment_fingerprint plat self d = Inr fp) ?ds gs"
    using gs unfolding map_result_eq_Inr verified_dependency_iff .
  have names: "map (\<lambda>fp. mci_name (dep_module fp)) gs = map (\<lambda>d. mci_name (ad_module d)) ?ds"
    using pairs by (induction rule: list_all2_induct) (auto dest: deployment_fingerprint_parts(1))
  have "distinct (map (\<lambda>d. (ad_importer_module d, mci_name (ad_module d))) ?ds)"
    using deployment_validate_dependencies(1) [OF valid] by (rule distinct_map_filter)
  then have "distinct (map (\<lambda>d. mci_name (ad_module d)) ?ds)"
    by (auto simp: distinct_map inj_on_def)
  then have "distinct (map (\<lambda>fp. mci_name (dep_module fp)) gs)" by (simp only: names)
  moreover have "validate_module_name (mci_name (dep_module fp)) = Inr () \<and> mci_name (dep_module fp) \<noteq> importer \<and>
      (\<exists>d \<in> set (dpl_analysis_dependencies self). ad_importer_module d = importer \<and> dep_module fp = ad_module d \<and>
        dep_source_digest fp = ad_source_digest d \<and> source_verified plat d)"
    if mem: "fp \<in> set gs" for fp
  proof -
    obtain d where d: "d \<in> set ?ds" "source_verified plat d" "deployment_fingerprint plat self d = Inr fp"
      using map_result_set [OF gs mem] verified_dependency_iff by fast
    from deployment_fingerprint_parts [OF d(3)] d(1,2) show ?thesis by auto
  qed
  ultimately show ?thesis
    unfolding validate_dependencies_iff fps canonicalize_dependencies_distinct
    by (simp add: list_all_iff list_ex_iff)
qed

theorem verified_dependencies_admissible_witness:
  "\<exists>fps. verified_analysis_dependencies tiny_platform tiny_deployment ''m'' = Inr fps \<and> length fps = 1 \<and>
     validate_dependencies fps ''m'' = Inr ()"
  using verified_dependencies_admissible [OF tiny_dependencies] tiny_dependencies by simp

section \<open>Inputs\<close>

text \<open>
  The documented behaviour of a quiescent file system at one path: what \<open>metadata\<close>, \<open>open\<close> and
  \<open>read\<close> say about a regular file is the same file.
\<close>

definition coherent_file :: "filesystem \<Rightarrow> path \<Rightarrow> bool" where
  "coherent_file fs p \<longleftrightarrow>
     (\<forall>metadata bytes. fs_metadata fs p = Inr metadata \<longrightarrow> meta_kind metadata = RegularFile \<longrightarrow>
        fs_read fs p = Inr bytes \<longrightarrow>
        length bytes < 2 ^ 64 - 1 \<and> meta_len metadata = of_nat (length bytes) \<and>
        (\<exists>file. fs_open fs p = Inr file \<and> open_metadata file = Inr metadata \<and>
           (\<forall>n. read_limited file n = Inr (take n bytes))))"

lemma unat_saturating_succ:
  assumes "length bytes < 2 ^ 64 - 1"
  shows "unat (saturating_succ (of_nat (length bytes))) = Suc (length bytes)"
proof -
  let ?n = "of_nat (length bytes) :: u64"
  have n: "unat ?n = length bytes" using assms by (simp add: unat_of_nat take_bit_nat_def)
  have "unat (- 1 :: u64) = 2 ^ 64 - 1"
    by (simp add: unsigned_minus_1_eq_mask mask_eq_exp_minus_1)
  then have "?n \<noteq> - 1" using n assms by auto
  moreover have "?n + 1 \<noteq> 0" using \<open>?n \<noteq> - 1\<close> by (simp add: eq_neg_iff_add_eq_0)
  then have "unat (?n + 1) = Suc (unat ?n)" by (simp add: unatSuc add.commute)
  ultimately show ?thesis using n by (simp add: saturating_succ_def)
qed

lemma coherent_bounded:
  assumes "coherent_file fs p" "fs_metadata fs p = Inr metadata" "meta_kind metadata = RegularFile"
    and "fs_read fs p = Inr bytes"
  shows "read_file_bounded fs p (of_nat (length bytes)) = Inr bytes \<and> meta_len metadata = of_nat (length bytes)"
proof -
  obtain handle where "length bytes < 2 ^ 64 - 1" "meta_len metadata = of_nat (length bytes)"
    "fs_open fs p = Inr handle" "open_metadata handle = Inr metadata" "\<forall>n. read_limited handle n = Inr (take n bytes)"
    using assms unfolding coherent_file_def by blast
  then show ?thesis
    using assms(3) by (auto simp: read_file_bounded_iff unat_saturating_succ)
qed

lemma capture_directory_again:
  assumes "capture_directory plat p filters = Inr observations"
  shows "capture_directory plat p (map obs_filter observations) = Inr observations"
proof (cases "filters = []")
  case False
  then obtain raw entries where raw: "fs_read_dir (plat_fs plat) p = Inr raw"
    "map_result (listing_entry p) raw = Inr entries"
    and obs: "map_result (observe_listing plat (sort_key listing_entry_key entries))
      (sort_dedup filter_key filters) = Inr observations"
    using assms by (auto simp: capture_directory_def)
  have "list_all2 (\<lambda>f obs. f = obs_filter obs) (sort_dedup filter_key filters) observations"
    using obs unfolding map_result_eq_Inr
    by (rule list_all2_mono) (auto simp: observe_listing_def)
  then have filters: "map obs_filter observations = sort_dedup filter_key filters"
    by (simp add: list_all2_conv_all_nth list_eq_iff_nth_eq)
  show ?thesis
    unfolding filters using False raw obs by (simp add: capture_directory_def)
qed (use assms in \<open>simp add: capture_directory_def\<close>)

text \<open>
  C13. Observations are stable: what \<open>capture_analysis_input_with_filters\<close> records for a path is
  accepted by \<open>verify_analysis_inputs\<close> on the same quiescent file system, for files (where the
  capture reads the whole file and the verification a bounded number of bytes), for directories with
  any list of filters, and for missing inputs.
\<close>

theorem captured_input_verifies:
  assumes "coherent_file (plat_fs plat) p"
    and "capture_analysis_input_with_filters plat p filters = Inr state"
  shows "verify_analysis_inputs plat [\<lparr>input_path = p, input_state = state\<rparr>] = Inr ()"
proof -
  have capture: "capture_analysis_input_bounded plat p filters None = Inr state"
    using assms(2) by (simp add: capture_analysis_input_with_filters_def)
  then have p: "absolute p = Inr ()" by (auto simp: capture_analysis_input_bounded_def)
  have "capture_analysis_input_bounded plat p (state_filters state) (Some (state_size state)) = Inr state"
  proof (cases "fs_metadata (plat_fs plat) p")
    case (Inl e)
    with capture p show ?thesis
      by (cases e) (auto simp: capture_analysis_input_bounded_def)
  next
    case (Inr metadata)
    then obtain canonical where canonical: "fs_canonicalize (plat_fs plat) p = Inr canonical"
      using capture p by (auto simp: capture_analysis_input_bounded_def)
    show ?thesis
    proof (cases "meta_kind metadata = RegularFile")
      case True
      then obtain bytes where bytes: "fs_read (plat_fs plat) p = Inr bytes"
        "state = FileInput canonical (fingerprint_bytes (plat_ext plat) bytes) (of_nat (length bytes))"
        using capture p Inr canonical by (auto simp: capture_analysis_input_bounded_def capture_file_def)
      with coherent_bounded [OF assms(1) Inr True bytes(1)] show ?thesis
        using p Inr canonical True
        by (simp add: capture_analysis_input_bounded_def capture_file_def state_size_def io_result_def)
    next
      case False
      then obtain observations where "meta_kind metadata = Directory"
        "capture_directory plat p filters = Inr observations" "state = DirectoryInput canonical observations"
        using capture p Inr canonical by (auto simp: capture_analysis_input_bounded_def)
      then show ?thesis
        using p Inr canonical capture_directory_again
        by (simp add: capture_analysis_input_bounded_def state_filters_def io_result_def)
    qed
  qed
  then show ?thesis by (simp add: verify_analysis_inputs_def verify_analysis_input_def)
qed

lemma tiny_coherent: "coherent_file tiny_fs ''/p''"
  by (simp add: coherent_file_def tiny_fs_def)

theorem captured_input_verifies_witness:
  "coherent_file (plat_fs tiny_platform) ''/p'' \<and>
   capture_analysis_input_with_filters tiny_platform ''/p'' [] = Inr (FileInput ''/p'' sample_digest 1) \<and>
   verify_analysis_inputs tiny_platform [\<lparr>input_path = ''/p'', input_state = FileInput ''/p'' sample_digest 1\<rparr>] = Inr ()"
proof -
  have "fs_read tiny_fs ''/p'' = Inr [0]" by (simp add: tiny_fs_def)
  then have capture: "capture_analysis_input_with_filters tiny_platform ''/p'' [] = Inr (FileInput ''/p'' sample_digest 1)"
    by (simp add: capture_analysis_input_with_filters_def capture_analysis_input_bounded_def tiny_metadata
        capture_file_def io_result_def)
  show ?thesis
    using captured_input_verifies [OF _ capture] capture tiny_coherent by simp
qed

text \<open>
  C14. What verifies is what is on disk. For a recorded file the path now names a regular file of the
  recorded size whose bytes have the recorded digest and which resolves to the recorded path; for a
  missing input nothing is there; for a directory every recorded view has the digest of the current
  listing under its filter.
\<close>

theorem verified_input_current:
  assumes "verify_analysis_inputs plat inputs = Inr ()" "input \<in> set inputs"
  shows "case input_state input of
      MissingInput \<Rightarrow> \<exists>message. fs_metadata (plat_fs plat) (input_path input) = Inl (NotFound message)
    | FileInput canonical fp n \<Rightarrow>
        \<exists>bytes resolved. read_file_bounded (plat_fs plat) (input_path input) n = Inr bytes \<and>
          fingerprint_bytes (plat_ext plat) bytes = fp \<and> of_nat (length bytes) = n \<and>
          fs_canonicalize (plat_fs plat) (input_path input) = Inr resolved \<and> same_path resolved canonical
    | DirectoryInput canonical observations \<Rightarrow>
        capture_directory plat (input_path input) (map obs_filter observations) = Inr observations"
proof -
  let ?p = "input_path input" and ?state = "input_state input"
  obtain state where capture: "capture_analysis_input_bounded plat ?p (state_filters ?state)
      (Some (state_size ?state)) = Inr state" and same: "same_state state ?state"
    using assms by (auto simp: verify_analysis_inputs_def verify_analysis_input_def)
  show ?thesis
  proof (cases ?state)
    case MissingInput
    then have "state = MissingInput" using same by (cases state) simp_all
    with capture MissingInput show ?thesis
      by (auto simp: capture_analysis_input_bounded_def split: sum.splits io_failure.splits if_splits)
  next
    case (FileInput canonical fp n)
    then obtain resolved where "state = FileInput resolved fp n" "same_path resolved canonical"
      using same by (cases state) auto
    with capture FileInput show ?thesis
      by (auto simp: capture_analysis_input_bounded_def capture_file_def state_size_def
          split: sum.splits io_failure.splits if_splits)
  next
    case (DirectoryInput canonical observations)
    then obtain resolved where "state = DirectoryInput resolved observations"
      using same by (cases state) auto
    with capture DirectoryInput show ?thesis
      by (auto simp: capture_analysis_input_bounded_def state_filters_def
          split: sum.splits io_failure.splits if_splits)
  qed
qed

theorem verified_input_current_witness:
  "verify_analysis_inputs tiny_platform [tiny_input] = Inr () \<and>
   (\<exists>bytes. read_file_bounded tiny_fs ''/p'' 1 = Inr bytes \<and> fingerprint_bytes sample_externals bytes = sample_digest)"
  using verified_input_current [OF tiny_inputs, of tiny_input] tiny_inputs by (auto simp: tiny_input_def)

end
