(* ===== verification/BlockPy_IR.thy ===== *)
theory BlockPy_IR
  imports Contract_Identity
begin

text \<open>
  The final lowered BlockPy form, the input of optimization and of the JIT:
  \<^verbatim>\<open>crates/soac_ir_blockpy/src/lib.rs\<close> (\<open>InstrBlockPy\<close>) over the operations of
  \<^verbatim>\<open>crates/soac_core/src/block_py/\<close> (\<open>instr.rs\<close>, \<open>call_arguments.rs\<close>,
  \<open>build_collection.rs\<close>, \<open>iteration.rs\<close>, \<open>counters.rs\<close>), names and storage locations
  (\<open>mod.rs\<close>, \<open>name_gen.rs\<close>), metadata (\<open>meta.rs\<close>), blocks, terminators, functions
  and modules (\<open>mod.rs\<close>), and the visitors of \<open>visit.rs\<close>.

  \<^item> \<open>instr\<close> has one constructor per variant of \<open>InstrBlockPy\<close>; its arguments are the metadata and
    the fields of the variant in declaration order. \<open>Extra\<close> is the unit type there and is left out.
  \<^item> \<open>children\<close> lists the sub-instructions in the order in which \<open>visit_children\<close> visits them, and
    \<open>replace_children\<close> puts a list of the same length back, as \<open>visit_children_mut\<close> does in place.
    Every visitor of the source is a recursion over the two.
  \<^item> A \<open>RuntimeName\<close> is identified with its spelling in the table of \<open>define_runtime_names!\<close>, in
    which no spelling occurs twice.
\<close>

section \<open>Function, block and instruction identities\<close>

type_synonym runtime_function_id = u64
type_synonym block_label = u32
type_synonym local_location = u32

definition runtime_function_id_new :: "u32 \<Rightarrow> u32 \<Rightarrow> runtime_function_id" where
  "runtime_function_id_new module_id function_id =
     or (push_bit 32 (ucast module_id)) (ucast function_id)"

definition function_module_id :: "runtime_function_id \<Rightarrow> u32" where
  "function_module_id f = ucast (drop_bit 32 f)"

definition local_function_id :: "runtime_function_id \<Rightarrow> u32" where
  "local_function_id f = ucast f"

definition fallthrough :: block_label where
  "fallthrough = -1"

definition is_fallthrough :: "block_label \<Rightarrow> bool" where
  "is_fallthrough label = (label = -1)"

record meta =
  node_index :: nat
  instr_id :: "u32 option"
  meta_range :: "u32 \<times> u32"

definition synthetic :: meta where
  "synthetic = \<lparr>node_index = 0, instr_id = None, meta_range = (0, 0)\<rparr>"

record instr_key =
  key_function_id :: runtime_function_id
  key_instr_id :: u32

section \<open>Names and storage locations\<close>

text \<open>\<open>RuntimeName::ALL\<close>, by spelling and in declaration order.\<close>

definition runtime_names :: "string list" where
  "runtime_names =
  [''generator_resume_delivery'', ''inject_generator_resume_exception'', ''async_gen_wrap_yield'', ''pep_479_exception'', ''__soac_filter_iterator'',
   ''__soac_map_iterator'', ''NO_DEFAULT'', ''ELLIPSIS'', ''TRUE'', ''FALSE'',
   ''NONE'', ''EMPTY_TUPLE'', ''ArithmeticError'', ''AssertionError'', ''AttributeError'',
   ''BaseException'', ''BaseExceptionGroup'', ''BlockingIOError'', ''BrokenPipeError'', ''BufferError'',
   ''BytesWarning'', ''ChildProcessError'', ''ConnectionAbortedError'', ''ConnectionError'', ''ConnectionRefusedError'',
   ''ConnectionResetError'', ''DeprecationWarning'', ''EOFError'', ''EncodingWarning'', ''EnvironmentError'',
   ''Exception'', ''ExceptionGroup'', ''FileExistsError'', ''FileNotFoundError'', ''FloatingPointError'',
   ''FutureWarning'', ''GeneratorExit'', ''IOError'', ''ImportError'', ''ImportWarning'',
   ''IndentationError'', ''IndexError'', ''InterruptedError'', ''IsADirectoryError'', ''KeyError'',
   ''KeyboardInterrupt'', ''LookupError'', ''MemoryError'', ''ModuleNotFoundError'', ''NameError'',
   ''NotADirectoryError'', ''NotImplemented'', ''NotImplementedError'', ''OSError'', ''OverflowError'',
   ''PendingDeprecationWarning'', ''PermissionError'', ''ProcessLookupError'', ''RecursionError'', ''ReferenceError'',
   ''ResourceWarning'', ''RuntimeError'', ''RuntimeWarning'', ''StopAsyncIteration'', ''StopIteration'',
   ''SyntaxError'', ''SyntaxWarning'', ''SystemError'', ''SystemExit'', ''TabError'',
   ''TimeoutError'', ''TypeError'', ''UnboundLocalError'', ''UnicodeDecodeError'', ''UnicodeEncodeError'',
   ''UnicodeError'', ''UnicodeTranslateError'', ''UnicodeWarning'', ''UserWarning'', ''ValueError'',
   ''Warning'', ''ZeroDivisionError'', ''__build_class__'', ''__import__'', ''abs'',
   ''aiter'', ''all'', ''anext'', ''any'', ''ascii'',
   ''bin'', ''bool'', ''breakpoint'', ''builtins'', ''bytearray'',
   ''bytes'', ''callable'', ''chr'', ''classmethod'', ''compile'',
   ''complex'', ''copyright'', ''credits'', ''delattr'', ''dict'',
   ''dir'', ''divmod'', ''enumerate'', ''eval'', ''exec'',
   ''exit'', ''filter'', ''float'', ''format'', ''frozenset'',
   ''getattr'', ''globals'', ''hasattr'', ''hash'', ''help'',
   ''hex'', ''id'', ''input'', ''int'', ''isinstance'',
   ''issubclass'', ''iter'', ''len'', ''license'', ''list'',
   ''locals'', ''map'', ''max'', ''memoryview'', ''min'',
   ''next'', ''object'', ''oct'', ''open'', ''ord'',
   ''pow'', ''print'', ''property'', ''quit'', ''range'',
   ''repr'', ''reversed'', ''round'', ''set'', ''setattr'',
   ''slice'', ''sorted'', ''staticmethod'', ''str'', ''sum'',
   ''tuple'', ''type'', ''vars'', ''zip'', ''import_'',
   ''import_attr'', ''_index'', ''_unsupported_frame_builtin'', ''tuple_from_iter'', ''constructor_call'',
   ''__deepcopy__'', ''typing_Generic'', ''typing_TypeVar'', ''typing_TypeVarTuple'', ''typing_ParamSpec'',
   ''typing_TypeAliasType'', ''typing_Unpack'', ''templatelib_Template'', ''templatelib_Interpolation'', ''bb_trace_enter'',
   ''_current_yieldfrom'', ''_is_cancelled_error'', ''_is_generator_closed'', ''_reraise_control_flow'', ''resume_generator'',
   ''resume_async_generator'', ''make_preserved_state'', ''load_preserved_state'', ''_normalize_throw_exc'', ''_current_throw_context'',
   ''complex_from_parts'', ''class_lookup_cell'', ''class_lookup_global'', ''_validate_exception_type'', ''exception_matches'',
   ''exceptiongroup_split'', ''unpack'', ''call_super'', ''call_super_noargs'', ''_match_class_validate_arity'',
   ''match_class_attr_exists'', ''match_class_attr_value'', ''code_template_gen'', ''code_template_async_gen'', ''annotation_forwardref_value'',
   ''current_exception'', ''create_class'', ''exc_info'', ''exc_info_from_exception'', ''_get_awaitable_iter'',
   ''await_iter'', ''raise_from'', ''_call_exception_class'', ''import_star'', ''store_global'',
   ''cell_ref'', ''del_quietly'', ''make_function'', ''_lookup_special_method'', ''_has_special_method'',
   ''_missing_context_protocol_message'', ''contextmanager_enter'', ''contextmanager_get_exit'', ''contextmanager_exit'', ''_ensure_awaitable'',
   ''asynccontextmanager_aenter'', ''asynccontextmanager_get_aexit'', ''asynccontextmanager_exit'', ''IterRange'', ''ClosureGenerator'',
   ''Coroutine'', ''ClosureAsyncGenerator'', ''AsyncGenSend'', ''_AwaitIterWrapper'', ''__dp_dynamic_callee'',
   ''make_generator_instance'', ''unpack_fixed'']"

datatype runtime_name = RuntimeName (runtime_spelling: string)

definition runtime_name_from_name :: "string \<Rightarrow> runtime_name option" where
  "runtime_name_from_name s = (if List.member runtime_names s then Some (RuntimeName s) else None)"

datatype cell_location =
    OwnedCell u32 | PreservedCell u32 | ClosureCell u32 | CapturedSourceCell u32 | PrivateCell u32

datatype name_location =
    Local local_location
  | Preserved u32
  | GlobalName
  | Global u32
  | AtRuntimeName runtime_name
  | Cell cell_location
  | Constant u32

fun as_local :: "name_location \<Rightarrow> local_location option" where
  "as_local (Local l) = Some l"
| "as_local _ = None"

fun as_constant :: "name_location \<Rightarrow> u32 option" where
  "as_constant (Constant i) = Some i"
| "as_constant _ = None"

fun location_runtime_name :: "name_location \<Rightarrow> runtime_name option" where
  "location_runtime_name (AtRuntimeName r) = Some r"
| "location_runtime_name _ = None"

record resolved_name =
  name_id :: string
  name_location :: name_location

definition local_of :: "resolved_name \<Rightarrow> local_location option" where
  "local_of n = as_local (name_location n)"

definition runtime_name_id :: "resolved_name \<Rightarrow> runtime_name option" where
  "runtime_name_id n = location_runtime_name (name_location n)"

definition is_runtime_name :: "resolved_name \<Rightarrow> bool" where
  "is_runtime_name n = (runtime_name_id n \<noteq> None)"

definition id_str :: "resolved_name \<Rightarrow> string" where
  "id_str n = (case runtime_name_id n of Some r \<Rightarrow> runtime_spelling r | None \<Rightarrow> name_id n)"

definition is_runtime_symbol :: "string \<Rightarrow> resolved_name \<Rightarrow> bool" where
  "is_runtime_symbol s n = (runtime_name_id n = runtime_name_from_name s)"

datatype operand_location = LocalOperand local_location | PreservedOperand u32

fun operand_from_location :: "name_location \<Rightarrow> operand_location option" where
  "operand_from_location (Local l) = Some (LocalOperand l)"
| "operand_from_location (Preserved p) = Some (PreservedOperand p)"
| "operand_from_location _ = None"

section \<open>Operations\<close>

datatype bin_op_kind =
    AddOp | SubOp | MulOp | MatMulOp | TrueDivOp | FloorDivOp | ModOp | PowOp | LShiftOp | RShiftOp
  | OrOp | XorOp | AndOp | EqOp | NeOp | LtOp | LeOp | GtOp | GeOp | ContainsOp | IsOp
  | InplaceAddOp | InplaceSubOp | InplaceMulOp | InplaceMatMulOp | InplaceTrueDivOp
  | InplaceFloorDivOp | InplaceModOp | InplacePowOp | InplaceLShiftOp | InplaceRShiftOp
  | InplaceOrOp | InplaceXorOp | InplaceAndOp

datatype unary_op_kind = PosOp | NegOp | InvertOp | NotOp | TruthOp

datatype 'e call_arg_positional = Positional (positional_expr: 'e) | Starred (positional_expr: 'e)

datatype 'e call_arg_keyword =
    NamedKeyword string (keyword_expr: 'e)
  | StarredKeyword (keyword_expr: 'e)

datatype 'e frame_namespace = ModuleGlobals | Mapping 'e

fun namespace_mapping :: "'e frame_namespace \<Rightarrow> 'e option" where
  "namespace_mapping ModuleGlobals = None"
| "namespace_mapping (Mapping e) = Some e"

datatype cell_binding_kind = OwnerBinding | CaptureBinding

record cell_load_binding =
  logical_name :: string
  cell_kind :: cell_binding_kind

datatype comprehension_insert_kind = ListAppend | SetAdd | DictSetItem

datatype store_lifetime = FrameLifetime | OperandLifetime u64

datatype store_purpose = BindingPurpose | BlockParameterTransport

datatype build_collection_kind = ListCollection | SetCollection | DictCollection

datatype call_argument_op_kind =
    ExtendPositional | MergeKeywords | FinishPositionalList | NormalizeSingletonStar

definition has_value :: "call_argument_op_kind \<Rightarrow> bool" where
  "has_value k = (k = ExtendPositional \<or> k = MergeKeywords)"

definition replaces_buffer :: "call_argument_op_kind \<Rightarrow> bool" where
  "replaces_buffer k = (k = FinishPositionalList \<or> k = NormalizeSingletonStar)"

definition consumes_buffer_before_helper :: "call_argument_op_kind \<Rightarrow> bool" where
  "consumes_buffer_before_helper k = (k = FinishPositionalList)"

datatype type_parameter_kind =
    TypeVarParameter | TypeVarBoundParameter | TypeVarConstraintsParameter | ParamSpecParameter
  | TypeVarTupleParameter

datatype blockpy_function_kind =
    FunctionKind | CoroutineKind | GeneratorKind | AsyncGeneratorKind

datatype instr =
    BinOp meta bin_op_kind instr instr
  | UnaryOp meta unary_op_kind instr
  | Tuple meta "instr list"
  | Call meta instr "instr call_arg_positional list" "instr call_arg_keyword list"
      "instr frame_namespace option"
  | GetAttr meta instr instr
  | SetAttr meta instr instr instr
  | GetItem meta instr instr
  | SetItem meta instr instr instr
  | DelItem meta instr instr
  | Load meta resolved_name "cell_load_binding option"
  | Store meta resolved_name instr store_lifetime store_purpose
  | Del meta resolved_name bool
  | TakeOperand meta resolved_name
  | ComprehensionInsert meta comprehension_insert_kind resolved_name "instr option" instr
  | BuildCollection meta build_collection_kind "instr list"
  | CallArgumentOp meta call_argument_op_kind resolved_name resolved_name "instr option"
  | PreparedCall meta instr instr "instr option" "instr frame_namespace option"
  | IteratorStep meta resolved_name
  | MakeCell meta "instr option"
  | NewAnnotationSet meta
  | SetupAnnotations meta "instr option"
  | ConstructTypeParameterScope meta source_identity runtime_function_id "instr option"
      "instr option" instr
  | SubscriptGeneric meta source_identity instr
  | SetFunctionTypeParameters meta source_identity runtime_function_id instr instr
  | CreateTypeAlias meta source_identity runtime_function_id instr instr instr
  | CreateTypeParameter meta source_identity type_parameter_kind instr "runtime_function_id option"
      "instr option"
  | SetTypeParameterDefault meta source_identity runtime_function_id instr instr
  | CheckAnnotationFormat meta instr
  | RecordAnnotation meta instr u32
  | IncrementCounter meta nat
  | CellRef meta cell_location
  | MakeFunctionWithClosure meta runtime_function_id blockpy_function_kind instr instr instr "instr option"
      "instr list"
  | CompleteFunctionDefinition meta source_identity runtime_function_id instr
  | ApplyFunctionDescriptor meta source_identity runtime_function_id instr instr
      "instr frame_namespace option"
  | PrepareClassDecorator meta source_identity runtime_function_id instr
      "instr call_arg_positional list" "instr call_arg_keyword list" bool
      "instr frame_namespace option"
  | ApplyClassDecorator meta source_identity runtime_function_id instr instr
      "instr frame_namespace option"
  | DiscardClassDecorator meta instr
  | DiscardClassConstructionCaptures meta instr
  | ConstructClass meta source_identity runtime_function_id instr instr instr instr instr instr
      instr "instr option"

section \<open>Metadata and children\<close>

primrec instr_meta :: "instr \<Rightarrow> meta" where
  "instr_meta (BinOp m _ _ _) = m"
| "instr_meta (UnaryOp m _ _) = m"
| "instr_meta (Tuple m _) = m"
| "instr_meta (Call m _ _ _ _) = m"
| "instr_meta (GetAttr m _ _) = m"
| "instr_meta (SetAttr m _ _ _) = m"
| "instr_meta (GetItem m _ _) = m"
| "instr_meta (SetItem m _ _ _) = m"
| "instr_meta (DelItem m _ _) = m"
| "instr_meta (Load m _ _) = m"
| "instr_meta (Store m _ _ _ _) = m"
| "instr_meta (Del m _ _) = m"
| "instr_meta (TakeOperand m _) = m"
| "instr_meta (ComprehensionInsert m _ _ _ _) = m"
| "instr_meta (BuildCollection m _ _) = m"
| "instr_meta (CallArgumentOp m _ _ _ _) = m"
| "instr_meta (PreparedCall m _ _ _ _) = m"
| "instr_meta (IteratorStep m _) = m"
| "instr_meta (MakeCell m _) = m"
| "instr_meta (NewAnnotationSet m) = m"
| "instr_meta (SetupAnnotations m _) = m"
| "instr_meta (ConstructTypeParameterScope m _ _ _ _ _) = m"
| "instr_meta (SubscriptGeneric m _ _) = m"
| "instr_meta (SetFunctionTypeParameters m _ _ _ _) = m"
| "instr_meta (CreateTypeAlias m _ _ _ _ _) = m"
| "instr_meta (CreateTypeParameter m _ _ _ _ _) = m"
| "instr_meta (SetTypeParameterDefault m _ _ _ _) = m"
| "instr_meta (CheckAnnotationFormat m _) = m"
| "instr_meta (RecordAnnotation m _ _) = m"
| "instr_meta (IncrementCounter m _) = m"
| "instr_meta (CellRef m _) = m"
| "instr_meta (MakeFunctionWithClosure m _ _ _ _ _ _ _) = m"
| "instr_meta (CompleteFunctionDefinition m _ _ _) = m"
| "instr_meta (ApplyFunctionDescriptor m _ _ _ _ _) = m"
| "instr_meta (PrepareClassDecorator m _ _ _ _ _ _ _) = m"
| "instr_meta (ApplyClassDecorator m _ _ _ _ _) = m"
| "instr_meta (DiscardClassDecorator m _) = m"
| "instr_meta (DiscardClassConstructionCaptures m _) = m"
| "instr_meta (ConstructClass m _ _ _ _ _ _ _ _ _ _) = m"

primrec with_meta :: "meta \<Rightarrow> instr \<Rightarrow> instr" where
  "with_meta m (BinOp _ kind left right) = BinOp m kind left right"
| "with_meta m (UnaryOp _ kind operand) = UnaryOp m kind operand"
| "with_meta m (Tuple _ vals) = Tuple m vals"
| "with_meta m (Call _ func args kws ns) = Call m func args kws ns"
| "with_meta m (GetAttr _ val attr) = GetAttr m val attr"
| "with_meta m (SetAttr _ val attr repl) = SetAttr m val attr repl"
| "with_meta m (GetItem _ val idx) = GetItem m val idx"
| "with_meta m (SetItem _ val idx repl) = SetItem m val idx repl"
| "with_meta m (DelItem _ val idx) = DelItem m val idx"
| "with_meta m (Load _ name binding) = Load m name binding"
| "with_meta m (Store _ name val lifetime purpose) = Store m name val lifetime purpose"
| "with_meta m (Del _ name quietly) = Del m name quietly"
| "with_meta m (TakeOperand _ name) = TakeOperand m name"
| "with_meta m (ComprehensionInsert _ kind container key val) = ComprehensionInsert m kind container key val"
| "with_meta m (BuildCollection _ kind vals) = BuildCollection m kind vals"
| "with_meta m (CallArgumentOp _ kind callee buffer val) = CallArgumentOp m kind callee buffer val"
| "with_meta m (PreparedCall _ func args kws ns) = PreparedCall m func args kws ns"
| "with_meta m (IteratorStep _ name) = IteratorStep m name"
| "with_meta m (MakeCell _ initial) = MakeCell m initial"
| "with_meta m (NewAnnotationSet _) = NewAnnotationSet m"
| "with_meta m (SetupAnnotations _ namespace) = SetupAnnotations m namespace"
| "with_meta m (ConstructTypeParameterScope _ def fid pos_defaults kw_defaults scope_fn) = ConstructTypeParameterScope m def fid pos_defaults kw_defaults scope_fn"
| "with_meta m (SubscriptGeneric _ def params) = SubscriptGeneric m def params"
| "with_meta m (SetFunctionTypeParameters _ def fid func params) = SetFunctionTypeParameters m def fid func params"
| "with_meta m (CreateTypeAlias _ def fid name params evaluator) = CreateTypeAlias m def fid name params evaluator"
| "with_meta m (CreateTypeParameter _ def kind name fid evaluator) = CreateTypeParameter m def kind name fid evaluator"
| "with_meta m (SetTypeParameterDefault _ def fid param evaluator) = SetTypeParameterDefault m def fid param evaluator"
| "with_meta m (CheckAnnotationFormat _ fmt) = CheckAnnotationFormat m fmt"
| "with_meta m (RecordAnnotation _ indices idx) = RecordAnnotation m indices idx"
| "with_meta m (IncrementCounter _ counter) = IncrementCounter m counter"
| "with_meta m (CellRef _ location) = CellRef m location"
| "with_meta m (MakeFunctionWithClosure _ fid kind captures defaults annotate namespace cells) = MakeFunctionWithClosure m fid kind captures defaults annotate namespace cells"
| "with_meta m (CompleteFunctionDefinition _ def fid func) = CompleteFunctionDefinition m def fid func"
| "with_meta m (ApplyFunctionDescriptor _ def fid decorator func ns) = ApplyFunctionDescriptor m def fid decorator func ns"
| "with_meta m (PrepareClassDecorator _ def fid decorator args kws factory ns) = PrepareClassDecorator m def fid decorator args kws factory ns"
| "with_meta m (ApplyClassDecorator _ def fid preparation cls ns) = ApplyClassDecorator m def fid preparation cls ns"
| "with_meta m (DiscardClassDecorator _ preparation) = DiscardClassDecorator m preparation"
| "with_meta m (DiscardClassConstructionCaptures _ func) = DiscardClassConstructionCaptures m func"
| "with_meta m (ConstructClass _ def fid name ns_fn bases kws cell dict_cell line preparation) = ConstructClass m def fid name ns_fn bases kws cell dict_cell line preparation"

definition try_semantic_instr_id :: "instr \<Rightarrow> u32 option" where
  "try_semantic_instr_id e = instr_id (instr_meta e)"

definition set_instr_id :: "u32 option \<Rightarrow> instr \<Rightarrow> instr" where
  "set_instr_id i e = with_meta ((instr_meta e)\<lparr>instr_id := i\<rparr>) e"

fun option_list :: "'a option \<Rightarrow> 'a list" where
  "option_list None = []"
| "option_list (Some x) = [x]"

definition namespace_children :: "'e frame_namespace option \<Rightarrow> 'e list" where
  "namespace_children ns = (case ns of None \<Rightarrow> [] | Some n \<Rightarrow> option_list (namespace_mapping n))"

primrec children :: "instr \<Rightarrow> instr list" where
  "children (BinOp _ _ left right) = [left, right]"
| "children (UnaryOp _ _ operand) = [operand]"
| "children (Tuple _ vals) = vals"
| "children (Call _ func args kws ns) =
     [func] @ map positional_expr args @ map keyword_expr kws @ namespace_children ns"
| "children (GetAttr _ val attr) = [val, attr]"
| "children (SetAttr _ val attr repl) = [val, attr, repl]"
| "children (GetItem _ val idx) = [val, idx]"
| "children (SetItem _ val idx repl) = [val, idx, repl]"
| "children (DelItem _ val idx) = [val, idx]"
| "children (Load _ _ _) = []"
| "children (Store _ _ val _ _) = [val]"
| "children (Del _ _ _) = []"
| "children (TakeOperand _ _) = []"
| "children (ComprehensionInsert _ _ _ key val) = option_list key @ [val]"
| "children (BuildCollection _ _ vals) = vals"
| "children (CallArgumentOp _ _ _ _ val) = option_list val"
| "children (PreparedCall _ func args kws ns) =
     [func, args] @ option_list kws @ namespace_children ns"
| "children (IteratorStep _ _) = []"
| "children (MakeCell _ initial) = option_list initial"
| "children (NewAnnotationSet _) = []"
| "children (SetupAnnotations _ namespace) = option_list namespace"
| "children (ConstructTypeParameterScope _ _ _ pos_defaults kw_defaults scope_fn) =
     option_list pos_defaults @ option_list kw_defaults @ [scope_fn]"
| "children (SubscriptGeneric _ _ params) = [params]"
| "children (SetFunctionTypeParameters _ _ _ func params) = [func, params]"
| "children (CreateTypeAlias _ _ _ name params evaluator) = [name, params, evaluator]"
| "children (CreateTypeParameter _ _ _ name _ evaluator) = [name] @ option_list evaluator"
| "children (SetTypeParameterDefault _ _ _ param evaluator) = [param, evaluator]"
| "children (CheckAnnotationFormat _ fmt) = [fmt]"
| "children (RecordAnnotation _ indices _) = [indices]"
| "children (IncrementCounter _ _) = []"
| "children (CellRef _ _) = []"
| "children (MakeFunctionWithClosure _ _ _ captures defaults annotate namespace cells) =
     [captures, defaults, annotate] @ option_list namespace @ cells"
| "children (CompleteFunctionDefinition _ _ _ func) = [func]"
| "children (ApplyFunctionDescriptor _ _ _ decorator func ns) =
     [decorator, func] @ namespace_children ns"
| "children (PrepareClassDecorator _ _ _ decorator args kws _ ns) =
     [decorator] @ map positional_expr args @ map keyword_expr kws @ namespace_children ns"
| "children (ApplyClassDecorator _ _ _ preparation cls ns) =
     [preparation, cls] @ namespace_children ns"
| "children (DiscardClassDecorator _ preparation) = [preparation]"
| "children (DiscardClassConstructionCaptures _ func) = [func]"
| "children (ConstructClass _ _ _ name ns_fn bases kws cell dict_cell line preparation) =
     [name, ns_fn, bases, kws, cell, dict_cell, line] @ option_list preparation"

text \<open>
  \<open>refill_*\<close> take the new sub-instructions of one field from the front of a list and return the
  rest of the list.
\<close>

fun refill_option :: "'a option \<Rightarrow> 'a list \<Rightarrow> 'a option \<times> 'a list" where
  "refill_option (Some _) (e # es) = (Some e, es)"
| "refill_option x es = (x, es)"

fun refill_namespace :: "'a frame_namespace option \<Rightarrow> 'a list \<Rightarrow> 'a frame_namespace option \<times> 'a list" where
  "refill_namespace (Some (Mapping _)) (e # es) = (Some (Mapping e), es)"
| "refill_namespace x es = (x, es)"

fun refill_positional ::
  "'a call_arg_positional list \<Rightarrow> 'a list \<Rightarrow> 'a call_arg_positional list \<times> 'a list"
where
  "refill_positional (a # as) (e # es) =
     (let (as', es') = refill_positional as es in (map_call_arg_positional (\<lambda>_. e) a # as', es'))"
| "refill_positional as es = (as, es)"

fun refill_keyword :: "'a call_arg_keyword list \<Rightarrow> 'a list \<Rightarrow> 'a call_arg_keyword list \<times> 'a list"
where
  "refill_keyword (a # as) (e # es) =
     (let (as', es') = refill_keyword as es in (map_call_arg_keyword (\<lambda>_. e) a # as', es'))"
| "refill_keyword as es = (as, es)"

definition refill_list :: "'a list \<Rightarrow> 'a list \<Rightarrow> 'a list \<times> 'a list" where
  "refill_list xs es = (take (length xs) es, drop (length xs) es)"

primrec replace_children :: "instr \<Rightarrow> instr list \<Rightarrow> instr" where
  "replace_children (BinOp m kind _ _) es = BinOp m kind (es ! 0) (es ! 1)"
| "replace_children (UnaryOp m kind _) es = UnaryOp m kind (es ! 0)"
| "replace_children (Tuple m vals) es =
     (let (vals', r1) = refill_list vals es
      in Tuple m vals')"
| "replace_children (Call m _ args kws ns) es =
     (let (args', r1) = refill_positional args (drop 1 es);
          (kws', r2) = refill_keyword kws r1;
          (ns', r3) = refill_namespace ns r2
      in Call m (es ! 0) args' kws' ns')"
| "replace_children (GetAttr m _ _) es = GetAttr m (es ! 0) (es ! 1)"
| "replace_children (SetAttr m _ _ _) es = SetAttr m (es ! 0) (es ! 1) (es ! 2)"
| "replace_children (GetItem m _ _) es = GetItem m (es ! 0) (es ! 1)"
| "replace_children (SetItem m _ _ _) es = SetItem m (es ! 0) (es ! 1) (es ! 2)"
| "replace_children (DelItem m _ _) es = DelItem m (es ! 0) (es ! 1)"
| "replace_children (Load m name binding) es = Load m name binding"
| "replace_children (Store m name _ lifetime purpose) es =
     Store m name (es ! 0) lifetime purpose"
| "replace_children (Del m name quietly) es = Del m name quietly"
| "replace_children (TakeOperand m name) es = TakeOperand m name"
| "replace_children (ComprehensionInsert m kind container key _) es =
     (let (key', r1) = refill_option key es
      in ComprehensionInsert m kind container key' (hd r1))"
| "replace_children (BuildCollection m kind vals) es =
     (let (vals', r1) = refill_list vals es
      in BuildCollection m kind vals')"
| "replace_children (CallArgumentOp m kind callee buffer val) es =
     (let (val', r1) = refill_option val es
      in CallArgumentOp m kind callee buffer val')"
| "replace_children (PreparedCall m _ _ kws ns) es =
     (let (kws', r1) = refill_option kws (drop 2 es);
          (ns', r2) = refill_namespace ns r1
      in PreparedCall m (es ! 0) (es ! 1) kws' ns')"
| "replace_children (IteratorStep m name) es = IteratorStep m name"
| "replace_children (MakeCell m initial) es =
     (let (initial', r1) = refill_option initial es
      in MakeCell m initial')"
| "replace_children (NewAnnotationSet m) es = NewAnnotationSet m"
| "replace_children (SetupAnnotations m namespace) es =
     (let (namespace', r1) = refill_option namespace es
      in SetupAnnotations m namespace')"
| "replace_children (ConstructTypeParameterScope m def fid pos_defaults kw_defaults _) es =
     (let (pos_defaults', r1) = refill_option pos_defaults es;
          (kw_defaults', r2) = refill_option kw_defaults r1
      in ConstructTypeParameterScope m def fid pos_defaults' kw_defaults' (hd r2))"
| "replace_children (SubscriptGeneric m def _) es = SubscriptGeneric m def (es ! 0)"
| "replace_children (SetFunctionTypeParameters m def fid _ _) es =
     SetFunctionTypeParameters m def fid (es ! 0) (es ! 1)"
| "replace_children (CreateTypeAlias m def fid _ _ _) es =
     CreateTypeAlias m def fid (es ! 0) (es ! 1) (es ! 2)"
| "replace_children (CreateTypeParameter m def kind _ fid evaluator) es =
     (let (evaluator', r1) = refill_option evaluator (drop 1 es)
      in CreateTypeParameter m def kind (es ! 0) fid evaluator')"
| "replace_children (SetTypeParameterDefault m def fid _ _) es =
     SetTypeParameterDefault m def fid (es ! 0) (es ! 1)"
| "replace_children (CheckAnnotationFormat m _) es = CheckAnnotationFormat m (es ! 0)"
| "replace_children (RecordAnnotation m _ idx) es = RecordAnnotation m (es ! 0) idx"
| "replace_children (IncrementCounter m counter) es = IncrementCounter m counter"
| "replace_children (CellRef m location) es = CellRef m location"
| "replace_children (MakeFunctionWithClosure m fid kind _ _ _ namespace cells) es =
     (let (namespace', r1) = refill_option namespace (drop 3 es);
          (cells', r2) = refill_list cells r1
      in MakeFunctionWithClosure m fid kind (es ! 0) (es ! 1) (es ! 2) namespace' cells')"
| "replace_children (CompleteFunctionDefinition m def fid _) es =
     CompleteFunctionDefinition m def fid (es ! 0)"
| "replace_children (ApplyFunctionDescriptor m def fid _ _ ns) es =
     (let (ns', r1) = refill_namespace ns (drop 2 es)
      in ApplyFunctionDescriptor m def fid (es ! 0) (es ! 1) ns')"
| "replace_children (PrepareClassDecorator m def fid _ args kws factory ns) es =
     (let (args', r1) = refill_positional args (drop 1 es);
          (kws', r2) = refill_keyword kws r1;
          (ns', r3) = refill_namespace ns r2
      in PrepareClassDecorator m def fid (es ! 0) args' kws' factory ns')"
| "replace_children (ApplyClassDecorator m def fid _ _ ns) es =
     (let (ns', r1) = refill_namespace ns (drop 2 es)
      in ApplyClassDecorator m def fid (es ! 0) (es ! 1) ns')"
| "replace_children (DiscardClassDecorator m _) es = DiscardClassDecorator m (es ! 0)"
| "replace_children (DiscardClassConstructionCaptures m _) es =
     DiscardClassConstructionCaptures m (es ! 0)"
| "replace_children (ConstructClass m def fid _ _ _ _ _ _ _ preparation) es =
     (let (preparation', r1) = refill_option preparation (drop 7 es)
      in ConstructClass m def fid (es ! 0) (es ! 1) (es ! 2) (es ! 3) (es ! 4) (es ! 5) (es ! 6) preparation')"

section \<open>Visitors\<close>

lemma size_positional [simp]: "a \<in> set as \<Longrightarrow> size (positional_expr a) < size_list (size_call_arg_positional size) as"
  by (induction as) (auto split: call_arg_positional.splits, (case_tac a; simp)+)

lemma size_keyword [simp]: "a \<in> set as \<Longrightarrow> size (keyword_expr a) < size_list (size_call_arg_keyword size) as"
  by (induction as) (auto, (case_tac a; simp)+)

lemma size_option_list: "c \<in> set (option_list x) \<Longrightarrow> size c < size_option size x"
  by (cases x) auto

lemma size_namespace:
  "c \<in> set (namespace_children ns) \<Longrightarrow> size c < size_option (size_frame_namespace size) ns"
  by (cases ns; cases "the ns") (auto simp: namespace_children_def)

lemma size_in_list: "(c :: instr) \<in> set cs \<Longrightarrow> size c < Suc (size_list size cs)"
  by (induction cs) auto

lemma size_children: "c \<in> set (children e) \<Longrightarrow> size c < size e"
  by (cases e)
    (auto dest!: size_option_list size_namespace size_positional size_keyword dest: size_in_list)

text \<open>\<open>instr_any\<close> of \<open>visit.rs\<close>: the instruction or one below it satisfies the predicate.\<close>

function instr_any :: "(instr \<Rightarrow> bool) \<Rightarrow> instr \<Rightarrow> bool" where
  "instr_any P e = (P e \<or> list_ex (instr_any P) (children e))"
  by pat_completeness auto
termination by (relation "measure (size \<circ> snd)") (auto simp: size_children)

declare instr_any.simps [simp del]

text \<open>The instructions a visitor that calls \<open>walk_expr\<close> after its own work meets, in order.\<close>

function instrs :: "instr \<Rightarrow> instr list" where
  "instrs e = e # concat (map instrs (children e))"
  by pat_completeness auto
termination by (relation "measure size") (auto simp: size_children)

declare instrs.simps [simp del]

fun take_location :: "instr \<Rightarrow> operand_location option" where
  "take_location (TakeOperand _ name) = operand_from_location (name_location name)"
| "take_location _ = None"

text \<open>\<open>visit_operand_takes\<close>: the consuming reads, in the order of evaluation.\<close>

function operand_takes :: "instr \<Rightarrow> operand_location list" where
  "operand_takes e = concat (map operand_takes (children e)) @ option_list (take_location e)"
  by pat_completeness auto
termination by (relation "measure size") (auto simp: size_children)

declare operand_takes.simps [simp del]

definition written_names :: "call_argument_op_kind \<Rightarrow> resolved_name \<Rightarrow> resolved_name list" where
  "written_names kind buffer = (if replaces_buffer kind then [buffer] else [])"

section \<open>Blocks, functions and modules\<close>

datatype abrupt_kind =
    AbruptFallthrough | AbruptReturn | AbruptException | AbruptBreak | AbruptContinue

datatype block_arg = NameArg string | NoneArg | CurrentExceptionArg | AbruptKindArg abrupt_kind

record block_edge =
  edge_target :: block_label
  edge_args :: "block_arg list"

datatype raise_disposition = SourceRaise | PropagateNormalized | SourceNormalized

datatype block_term =
    Jump block_edge
  | IfTerm instr block_label block_label
  | BranchTable instr "block_label list" block_label
  | Raise "instr option" raise_disposition
  | Return instr
  | GeneratorReturn instr

datatype generator_resume_param_role =
    SelfValue | StateValue | SendValue | ResumeExc | TransportSent

datatype block_param_role =
    ValueRole
  | GeneratorResumeRole generator_resume_param_role
  | EnclosingExceptionRole
  | ExceptionRole
  | AbruptKindRole
  | AbruptPayloadRole
  | EnclosingAbruptPayloadRole

record block_param =
  param_name :: string
  param_role :: block_param_role

datatype handled_exception_context =
    RegionsContext | PreserveContext | UnwindContext | TerminalContext

record block_context =
  handled_exception :: handled_exception_context
  suspension_resume :: "block_label option"

record block =
  label :: block_label
  body :: "instr list"
  block_terminator :: block_term
  params :: "block_param list"
  exc_edge :: "block_edge option"
  block_extra :: block_context

fun term_instrs :: "block_term \<Rightarrow> instr list" where
  "term_instrs (Jump _) = []"
| "term_instrs (IfTerm test _ _) = [test]"
| "term_instrs (BranchTable idx _ _) = [idx]"
| "term_instrs (Raise exc _) = option_list exc"
| "term_instrs (Return v) = [v]"
| "term_instrs (GeneratorReturn v) = [v]"

fun replace_term_instrs :: "block_term \<Rightarrow> instr list \<Rightarrow> block_term" where
  "replace_term_instrs (Jump edge) es = Jump edge"
| "replace_term_instrs (IfTerm _ t e) es = IfTerm (es ! 0) t e"
| "replace_term_instrs (BranchTable _ targets d) es = BranchTable (es ! 0) targets d"
| "replace_term_instrs (Raise exc disposition) es = Raise (fst (refill_option exc es)) disposition"
| "replace_term_instrs (Return _) es = Return (es ! 0)"
| "replace_term_instrs (GeneratorReturn _) es = GeneratorReturn (es ! 0)"

definition block_roots :: "block \<Rightarrow> instr list" where
  "block_roots b = body b @ term_instrs (block_terminator b)"

definition term_operand_takes :: "block_term \<Rightarrow> operand_location list" where
  "term_operand_takes t = concat (map operand_takes (term_instrs t))"

datatype param_kind = AnyParam | PosOnlyParam | VarArgParam | KwOnlyParam | KwArgParam

record param =
  fparam_name :: string
  fparam_kind :: param_kind
  has_default :: bool

record function_name =
  bind_name :: string
  fn_name :: string
  display_name :: string
  qualname :: string

record blockpy_function =
  function_id :: runtime_function_id
  names :: function_name
  kind_of_function :: blockpy_function_kind
  function_params :: "param list"
  body_params :: "param list option"
  blocks :: "block list"
  doc :: "string option"

text \<open>\<open>ParamSpec::param_index\<close>.\<close>

fun position :: "('a \<Rightarrow> bool) \<Rightarrow> 'a list \<Rightarrow> nat option" where
  "position P [] = None"
| "position P (x # xs) = (if P x then Some 0 else map_option Suc (position P xs))"

definition param_index :: "string \<Rightarrow> param list \<Rightarrow> nat option" where
  "param_index name ps = position (\<lambda>p. fparam_name p = name) ps"

text \<open>
  Literals of the module constant table. An integer literal is its decimal text; a float is the
  value of its 64-bit pattern, which only \<open>!= 0.0\<close> inspects.
\<close>

datatype number_literal_value = IntLiteral string | FloatLiteral u64

datatype literal = StringLiteral string | BytesLiteral "u8 list" | NumberLiteral number_literal_value

datatype constant_expr = LiteralConstant literal | RuntimeNameConstant runtime_name

record blockpy_module =
  global_names :: "string list"
  callable_defs :: "blockpy_function list"
  module_constants :: "constant_expr list"

end
