(* ===== verification/Value_Facts.thy ===== *)
theory Value_Facts
  imports BlockPy_IR "HOL-Library.AList"
begin

text \<open>
  The domain of static facts about Python values,
  \<^verbatim>\<open>crates/soac_ir_typed/src/value_facts.rs\<close>: facts about one object (\<open>PyObjFacts\<close>), facts about
  a machine value (\<open>ValueFacts\<close>), the facts of the locals at a program point (\<open>EnvFacts\<close>) and the
  store the passes share (\<open>FactStore\<close>).

  A \<open>HashMap\<close> is an association list without repeated keys; its order stands for the unspecified
  iteration order. Where two environments meet, a component survives only if both agree on it:
  \<open>facts_below\<close> is that order, and the lemmas say that \<open>intersect\<close> is its greatest lower bound,
  which is what makes the inference loop of the optimizer end.
\<close>

section \<open>Facts about one value\<close>

datatype truthiness_fact = TruthinessUnknown | AlwaysTrue | AlwaysFalse

datatype py_exact_type = NoneTypeExact | BoolExact | StrExact | BytesExact | IntExact | FloatExact

datatype type_fact = TypeUnknown | Exact py_exact_type

datatype runtime_singleton = NoneSingleton | TrueSingleton | FalseSingleton

datatype none_fact = NoneUnknown | IsNone | IsNotNone

datatype nullability_fact = NullabilityUnknown | NonNull

datatype bool_singleton_fact = BoolSingletonUnknown | IsTrue | IsFalse

datatype refcount_fact = RefcountUnknown | Immortal

datatype provenance_fact =
    ProvenanceUnknown
  | SingletonProvenance runtime_singleton
  | ModuleConstantProvenance u32

datatype runtime_helper_id =
    GlobalsHelper | IndexHelper | StrHelper | CellRefHelper | TupleFromIterHelper
  | MakeFunctionHelper | CreateClassHelper | ImportHelper | ImportAttrHelper
  | ClassLookupGlobalHelper | ClassLookupCellHelper

datatype throw_spec =
    NeverThrows
  | ThrowsOnNullPyObj
  | ThrowsOnI32Sentinel "32 word"
  | ThrowsOnI64Sentinel "64 word"
  | ThrowsOnNonZeroI32

datatype callable_fact = CallableUnknown | RuntimeHelper runtime_helper_id

record py_obj_facts =
  ty :: type_fact
  truthiness :: truthiness_fact
  none :: none_fact
  nullability :: nullability_fact
  bool_singleton :: bool_singleton_fact
  refcount :: refcount_fact
  provenance :: provenance_fact
  callable :: callable_fact

definition unknown_facts :: py_obj_facts where
  "unknown_facts =
     \<lparr>ty = TypeUnknown, truthiness = TruthinessUnknown, none = NoneUnknown,
      nullability = NullabilityUnknown, bool_singleton = BoolSingletonUnknown,
      refcount = RefcountUnknown, provenance = ProvenanceUnknown, callable = CallableUnknown\<rparr>"

definition none_singleton :: py_obj_facts where
  "none_singleton =
     \<lparr>ty = Exact NoneTypeExact, truthiness = AlwaysFalse, none = IsNone, nullability = NonNull,
      bool_singleton = BoolSingletonUnknown, refcount = Immortal,
      provenance = SingletonProvenance NoneSingleton, callable = CallableUnknown\<rparr>"

definition bool_singleton_facts :: "bool \<Rightarrow> py_obj_facts" where
  "bool_singleton_facts value =
     \<lparr>ty = Exact BoolExact, truthiness = (if value then AlwaysTrue else AlwaysFalse),
      none = IsNotNone, nullability = NonNull,
      bool_singleton = (if value then IsTrue else IsFalse), refcount = Immortal,
      provenance = SingletonProvenance (if value then TrueSingleton else FalseSingleton),
      callable = CallableUnknown\<rparr>"

definition bool_object :: py_obj_facts where
  "bool_object =
     \<lparr>ty = Exact BoolExact, truthiness = TruthinessUnknown, none = IsNotNone,
      nullability = NonNull, bool_singleton = BoolSingletonUnknown, refcount = Immortal,
      provenance = ProvenanceUnknown, callable = CallableUnknown\<rparr>"

fun none_fact_for_exact_type :: "py_exact_type \<Rightarrow> none_fact" where
  "none_fact_for_exact_type NoneTypeExact = IsNone"
| "none_fact_for_exact_type _ = IsNotNone"

definition exact_type_with_truthiness :: "py_exact_type \<Rightarrow> truthiness_fact \<Rightarrow> py_obj_facts" where
  "exact_type_with_truthiness exact_type truth =
     \<lparr>ty = Exact exact_type, truthiness = truth, none = none_fact_for_exact_type exact_type,
      nullability = NonNull, bool_singleton = BoolSingletonUnknown, refcount = RefcountUnknown,
      provenance = ProvenanceUnknown, callable = CallableUnknown\<rparr>"

definition exact_type :: "py_exact_type \<Rightarrow> py_obj_facts" where
  "exact_type t =
     \<lparr>ty = Exact t, truthiness = TruthinessUnknown, none = none_fact_for_exact_type t,
      nullability = NonNull, bool_singleton = BoolSingletonUnknown, refcount = RefcountUnknown,
      provenance = ProvenanceUnknown, callable = CallableUnknown\<rparr>"

definition module_constant :: "u32 \<Rightarrow> py_obj_facts" where
  "module_constant index =
     \<lparr>ty = TypeUnknown, truthiness = TruthinessUnknown, none = NoneUnknown,
      nullability = NullabilityUnknown, bool_singleton = BoolSingletonUnknown,
      refcount = RefcountUnknown, provenance = ModuleConstantProvenance index,
      callable = CallableUnknown\<rparr>"

definition with_module_constant :: "u32 \<Rightarrow> py_obj_facts \<Rightarrow> py_obj_facts" where
  "with_module_constant index f = f\<lparr>provenance := ModuleConstantProvenance index\<rparr>"

definition with_immortal_refcount :: "py_obj_facts \<Rightarrow> py_obj_facts" where
  "with_immortal_refcount f = f\<lparr>refcount := Immortal\<rparr>"

definition runtime_helper_facts :: "runtime_helper_id \<Rightarrow> py_obj_facts" where
  "runtime_helper_facts helper =
     \<lparr>ty = TypeUnknown, truthiness = AlwaysTrue, none = IsNotNone, nullability = NonNull,
      bool_singleton = BoolSingletonUnknown, refcount = RefcountUnknown,
      provenance = ProvenanceUnknown, callable = RuntimeHelper helper\<rparr>"

definition known_not_none :: py_obj_facts where
  "known_not_none =
     \<lparr>ty = TypeUnknown, truthiness = TruthinessUnknown, none = IsNotNone, nullability = NonNull,
      bool_singleton = BoolSingletonUnknown, refcount = RefcountUnknown,
      provenance = ProvenanceUnknown, callable = CallableUnknown\<rparr>"

definition is_none_facts :: "py_obj_facts \<Rightarrow> bool" where
  "is_none_facts f = (none f = IsNone)"

definition is_known_not_none :: "py_obj_facts \<Rightarrow> bool" where
  "is_known_not_none f = (none f = IsNotNone)"

definition with_non_null_ref :: "py_obj_facts \<Rightarrow> py_obj_facts" where
  "with_non_null_ref f = f\<lparr>nullability := NonNull\<rparr>"

definition without_non_null_ref :: "py_obj_facts \<Rightarrow> py_obj_facts" where
  "without_non_null_ref f = f\<lparr>nullability := NullabilityUnknown\<rparr>"

definition is_non_null_ref :: "py_obj_facts \<Rightarrow> bool" where
  "is_non_null_ref f = (nullability f = NonNull)"

definition is_truthy :: "py_obj_facts \<Rightarrow> bool option" where
  "is_truthy f =
     (case truthiness f of AlwaysTrue \<Rightarrow> Some True | AlwaysFalse \<Rightarrow> Some False
      | TruthinessUnknown \<Rightarrow> None)"

definition is_immortal :: "py_obj_facts \<Rightarrow> bool" where
  "is_immortal f = (refcount f = Immortal)"

definition is_exact_type :: "py_obj_facts \<Rightarrow> py_exact_type \<Rightarrow> bool" where
  "is_exact_type f expected =
     (case ty f of Exact actual \<Rightarrow> actual = expected | TypeUnknown \<Rightarrow> False)"

definition is_true_singleton :: "py_obj_facts \<Rightarrow> bool" where
  "is_true_singleton f = (bool_singleton f = IsTrue)"

definition is_false_singleton :: "py_obj_facts \<Rightarrow> bool" where
  "is_false_singleton f = (bool_singleton f = IsFalse)"

definition is_uninformative_for_local_env :: "py_obj_facts \<Rightarrow> bool" where
  "is_uninformative_for_local_env f =
     (ty f = TypeUnknown \<and> truthiness f = TruthinessUnknown \<and> none f = NoneUnknown \<and>
      nullability f = NullabilityUnknown \<and> bool_singleton f = BoolSingletonUnknown \<and>
      refcount f = RefcountUnknown \<and> callable f = CallableUnknown)"

section \<open>Meeting facts\<close>

definition intersect_type_fact :: "type_fact \<Rightarrow> type_fact \<Rightarrow> type_fact" where
  "intersect_type_fact l r = (if l = r then l else TypeUnknown)"

definition intersect_truthiness_fact :: "truthiness_fact \<Rightarrow> truthiness_fact \<Rightarrow> truthiness_fact" where
  "intersect_truthiness_fact l r = (if l = r then l else TruthinessUnknown)"

definition intersect_none_fact :: "none_fact \<Rightarrow> none_fact \<Rightarrow> none_fact" where
  "intersect_none_fact l r = (if l = r then l else NoneUnknown)"

definition intersect_nullability_fact :: "nullability_fact \<Rightarrow> nullability_fact \<Rightarrow> nullability_fact" where
  "intersect_nullability_fact l r = (if l = r then l else NullabilityUnknown)"

definition intersect_bool_singleton_fact ::
  "bool_singleton_fact \<Rightarrow> bool_singleton_fact \<Rightarrow> bool_singleton_fact"
where
  "intersect_bool_singleton_fact l r = (if l = r then l else BoolSingletonUnknown)"

definition intersect_refcount_fact :: "refcount_fact \<Rightarrow> refcount_fact \<Rightarrow> refcount_fact" where
  "intersect_refcount_fact l r = (if l = r then l else RefcountUnknown)"

definition intersect_provenance_fact :: "provenance_fact \<Rightarrow> provenance_fact \<Rightarrow> provenance_fact" where
  "intersect_provenance_fact l r = (if l = r then l else ProvenanceUnknown)"

definition intersect_callable_fact :: "callable_fact \<Rightarrow> callable_fact \<Rightarrow> callable_fact" where
  "intersect_callable_fact l r = (if l = r then l else CallableUnknown)"

lemmas intersect_component_defs =
  intersect_type_fact_def intersect_truthiness_fact_def intersect_none_fact_def
  intersect_nullability_fact_def intersect_bool_singleton_fact_def intersect_refcount_fact_def
  intersect_provenance_fact_def intersect_callable_fact_def

definition intersect :: "py_obj_facts \<Rightarrow> py_obj_facts \<Rightarrow> py_obj_facts" where
  "intersect f g =
     \<lparr>ty = intersect_type_fact (ty f) (ty g),
      truthiness = intersect_truthiness_fact (truthiness f) (truthiness g),
      none = intersect_none_fact (none f) (none g),
      nullability = intersect_nullability_fact (nullability f) (nullability g),
      bool_singleton = intersect_bool_singleton_fact (bool_singleton f) (bool_singleton g),
      refcount = intersect_refcount_fact (refcount f) (refcount g),
      provenance = intersect_provenance_fact (provenance f) (provenance g),
      callable = intersect_callable_fact (callable f) (callable g)\<rparr>"

section \<open>Machine values and runtime helpers\<close>

datatype value_facts =
    PyObj py_obj_facts
  | I32 "32 word option"
  | I64 "64 word option"
  | BoolValue

definition unknown_pyobj :: value_facts where
  "unknown_pyobj = PyObj unknown_facts"

fun as_pyobj :: "value_facts \<Rightarrow> py_obj_facts option" where
  "as_pyobj (PyObj f) = Some f"
| "as_pyobj _ = None"

fun runtime_helper :: "value_facts \<Rightarrow> runtime_helper_id option" where
  "runtime_helper (PyObj f) =
     (case callable f of RuntimeHelper helper \<Rightarrow> Some helper | CallableUnknown \<Rightarrow> None)"
| "runtime_helper _ = None"

definition from_runtime_symbol :: "string \<Rightarrow> runtime_helper_id option" where
  "from_runtime_symbol s =
     (if s = ''globals'' then Some GlobalsHelper
      else if s = ''_index'' then Some IndexHelper
      else if s = ''str'' then Some StrHelper
      else if s = ''cell_ref'' then Some CellRefHelper
      else if s = ''tuple_from_iter'' then Some TupleFromIterHelper
      else if s = ''make_function'' then Some MakeFunctionHelper
      else if s = ''create_class'' then Some CreateClassHelper
      else if s = ''import_'' then Some ImportHelper
      else if s = ''import_attr'' then Some ImportAttrHelper
      else if s = ''class_lookup_global'' then Some ClassLookupGlobalHelper
      else if s = ''class_lookup_cell'' then Some ClassLookupCellHelper
      else None)"

fun runtime_helper_result :: "runtime_helper_id \<Rightarrow> value_facts" where
  "runtime_helper_result IndexHelper = PyObj (exact_type IntExact)"
| "runtime_helper_result StrHelper = PyObj (exact_type StrExact)"
| "runtime_helper_result _ = PyObj known_not_none"

fun runtime_helper_throw_spec :: "runtime_helper_id \<Rightarrow> throw_spec" where
  "runtime_helper_throw_spec GlobalsHelper = NeverThrows"
| "runtime_helper_throw_spec CellRefHelper = NeverThrows"
| "runtime_helper_throw_spec _ = ThrowsOnNullPyObj"

record runtime_helper_signature =
  signature_helper :: runtime_helper_id
  signature_result :: value_facts
  signature_throws :: throw_spec

definition helper_signature :: "runtime_helper_id \<Rightarrow> runtime_helper_signature" where
  "helper_signature helper =
     \<lparr>signature_helper = helper, signature_result = runtime_helper_result helper,
      signature_throws = runtime_helper_throw_spec helper\<rparr>"

section \<open>Facts about the locals of a frame\<close>

type_synonym env_facts = "(local_location \<times> py_obj_facts) list"

definition local_pyobj_fact :: "env_facts \<Rightarrow> local_location \<Rightarrow> py_obj_facts option" where
  "local_pyobj_fact env location = map_of env location"

definition set_local_pyobj_fact ::
  "local_location \<Rightarrow> py_obj_facts \<Rightarrow> env_facts \<Rightarrow> env_facts"
where
  "set_local_pyobj_fact location f env =
     (if is_uninformative_for_local_env f then AList.delete location env
      else AList.update location f env)"

definition remove_local_pyobj_fact :: "local_location \<Rightarrow> env_facts \<Rightarrow> env_facts" where
  "remove_local_pyobj_fact location env = AList.delete location env"

definition retain_common :: "env_facts \<Rightarrow> local_location \<times> py_obj_facts \<Rightarrow> env_facts" where
  "retain_common other entry =
     (case local_pyobj_fact other (fst entry) of
        None \<Rightarrow> []
      | Some g \<Rightarrow>
          (let f = intersect (snd entry) g
           in if is_uninformative_for_local_env f then [] else [(fst entry, f)]))"

definition intersect_with :: "env_facts \<Rightarrow> env_facts \<Rightarrow> env_facts" where
  "intersect_with env other = concat (map (retain_common other) env)"

section \<open>The fact store\<close>

record fact_store =
  expr_facts :: "(instr_key \<times> value_facts) list"
  block_entry_facts :: "((runtime_function_id \<times> block_label) \<times> env_facts) list"

definition empty_store :: fact_store where
  "empty_store = \<lparr>expr_facts = [], block_entry_facts = []\<rparr>"

definition fact_for :: "fact_store \<Rightarrow> instr_key \<Rightarrow> value_facts option" where
  "fact_for store key = map_of (expr_facts store) key"

definition block_entry_fact ::
  "fact_store \<Rightarrow> runtime_function_id \<Rightarrow> block_label \<Rightarrow> env_facts option"
where
  "block_entry_fact store fid lbl = map_of (block_entry_facts store) (fid, lbl)"

definition insert_expr_fact :: "instr_key \<Rightarrow> value_facts \<Rightarrow> fact_store \<Rightarrow> fact_store" where
  "insert_expr_fact key f store = store\<lparr>expr_facts := AList.update key f (expr_facts store)\<rparr>"

definition insert_block_entry_fact ::
  "runtime_function_id \<Rightarrow> block_label \<Rightarrow> env_facts \<Rightarrow> fact_store \<Rightarrow> fact_store"
where
  "insert_block_entry_fact fid lbl f store =
     store\<lparr>block_entry_facts := AList.update (fid, lbl) f (block_entry_facts store)\<rparr>"

definition extend_expr_facts ::
  "(instr_key \<times> value_facts) list \<Rightarrow> fact_store \<Rightarrow> fact_store"
where
  "extend_expr_facts facts store =
     store\<lparr>expr_facts := fold (\<lambda>(k, f). AList.update k f) facts (expr_facts store)\<rparr>"

definition extend_block_entry_facts ::
  "((runtime_function_id \<times> block_label) \<times> env_facts) list \<Rightarrow> fact_store \<Rightarrow> fact_store"
where
  "extend_block_entry_facts facts store =
     store\<lparr>block_entry_facts := fold (\<lambda>(k, f). AList.update k f) facts (block_entry_facts store)\<rparr>"

definition remap_function_ids ::
  "(runtime_function_id \<Rightarrow> runtime_function_id) \<Rightarrow> fact_store \<Rightarrow> fact_store"
where
  "remap_function_ids remap store =
     \<lparr>expr_facts =
        fold (\<lambda>(k, f). AList.update (k\<lparr>key_function_id := remap (key_function_id k)\<rparr>) f)
          (expr_facts store) [],
      block_entry_facts =
        fold (\<lambda>((fid, lbl), f). AList.update (remap fid, lbl) f) (block_entry_facts store) []\<rparr>"

section \<open>The order of facts\<close>

text \<open>\<open>facts_below f g\<close>: \<open>f\<close> claims nothing that \<open>g\<close> does not claim.\<close>

definition facts_below :: "py_obj_facts \<Rightarrow> py_obj_facts \<Rightarrow> bool" where
  "facts_below f g =
     ((ty f = TypeUnknown \<or> ty f = ty g) \<and>
      (truthiness f = TruthinessUnknown \<or> truthiness f = truthiness g) \<and>
      (none f = NoneUnknown \<or> none f = none g) \<and>
      (nullability f = NullabilityUnknown \<or> nullability f = nullability g) \<and>
      (bool_singleton f = BoolSingletonUnknown \<or> bool_singleton f = bool_singleton g) \<and>
      (refcount f = RefcountUnknown \<or> refcount f = refcount g) \<and>
      (provenance f = ProvenanceUnknown \<or> provenance f = provenance g) \<and>
      (callable f = CallableUnknown \<or> callable f = callable g))"

lemma facts_below_refl [simp]: "facts_below f f"
  by (simp add: facts_below_def)

lemma facts_below_trans: "facts_below f g \<Longrightarrow> facts_below g h \<Longrightarrow> facts_below f h"
  unfolding facts_below_def by metis

lemma flat_antisym: "a = u \<or> a = b \<Longrightarrow> b = u \<or> b = a \<Longrightarrow> a = b"
  by auto

lemma flat_meet: "c = u \<or> c = a \<Longrightarrow> c = u \<or> c = b \<Longrightarrow> c = u \<or> c = (if a = b then a else u)"
  by auto

lemma facts_below_antisym: "facts_below f g \<Longrightarrow> facts_below g f \<Longrightarrow> f = (g :: py_obj_facts)"
  unfolding facts_below_def
  by (elim conjE, rule py_obj_facts.equality) (rule flat_antisym, assumption, assumption | simp)+

lemma intersect_lower: "facts_below (intersect f g) f" "facts_below (intersect f g) g"
  by (simp_all add: facts_below_def intersect_def intersect_component_defs)

lemma intersect_greatest: "facts_below h f \<Longrightarrow> facts_below h g \<Longrightarrow> facts_below h (intersect f g)"
  unfolding facts_below_def intersect_def intersect_component_defs py_obj_facts.simps
  by (elim conjE, intro conjI) (rule flat_meet, assumption, assumption)+

lemma intersect_idem [simp]: "intersect f f = f"
  by (simp add: intersect_def intersect_component_defs)

lemma below_iff_intersect: "facts_below f g \<longleftrightarrow> intersect f g = f"
  by (metis facts_below_antisym facts_below_refl intersect_greatest intersect_lower)

lemma intersect_commute: "intersect f g = intersect g f"
  by (blast intro: facts_below_antisym intersect_greatest intersect_lower)

lemma uninformative_below:
  "facts_below f g \<Longrightarrow> is_uninformative_for_local_env g \<Longrightarrow> is_uninformative_for_local_env f"
  by (auto simp: facts_below_def is_uninformative_for_local_env_def)

text \<open>The number of claims of a fact, which every proper meet lowers.\<close>

definition claims :: "py_obj_facts \<Rightarrow> nat" where
  "claims f =
     of_bool (ty f \<noteq> TypeUnknown) + of_bool (truthiness f \<noteq> TruthinessUnknown) +
     of_bool (none f \<noteq> NoneUnknown) + of_bool (nullability f \<noteq> NullabilityUnknown) +
     of_bool (bool_singleton f \<noteq> BoolSingletonUnknown) + of_bool (refcount f \<noteq> RefcountUnknown) +
     of_bool (provenance f \<noteq> ProvenanceUnknown) + of_bool (callable f \<noteq> CallableUnknown)"

lemma of_bool_le: "(P \<Longrightarrow> Q) \<Longrightarrow> (of_bool P :: nat) \<le> of_bool Q"
  by (cases P) auto

lemma claims_mono: "facts_below f g \<Longrightarrow> claims f \<le> claims g"
  unfolding claims_def facts_below_def by (intro add_mono of_bool_le) auto

lemma eight_equal:
  fixes a1 :: nat
  assumes "a1 \<le> b1" "a2 \<le> b2" "a3 \<le> b3" "a4 \<le> b4" "a5 \<le> b5" "a6 \<le> b6" "a7 \<le> b7" "a8 \<le> b8"
    and "\<not> a1 + a2 + a3 + a4 + a5 + a6 + a7 + a8 < b1 + b2 + b3 + b4 + b5 + b6 + b7 + b8"
  shows "a1 = b1 \<and> a2 = b2 \<and> a3 = b3 \<and> a4 = b4 \<and> a5 = b5 \<and> a6 = b6 \<and> a7 = b7 \<and> a8 = b8"
  using assms by linarith

lemma flat_claimed:
  "a = u \<or> a = b \<Longrightarrow> (of_bool (a \<noteq> u) :: nat) = of_bool (b \<noteq> u) \<Longrightarrow> b = u \<or> b = a"
  by (auto simp: of_bool_def split: if_splits)

lemma equal_claims:
  assumes below: "facts_below f g" and same: "\<not> claims f < claims g"
  shows
    "(of_bool (ty f \<noteq> TypeUnknown) :: nat) = of_bool (ty g \<noteq> TypeUnknown) \<and>
     (of_bool (truthiness f \<noteq> TruthinessUnknown) :: nat) = of_bool (truthiness g \<noteq> TruthinessUnknown) \<and>
     (of_bool (none f \<noteq> NoneUnknown) :: nat) = of_bool (none g \<noteq> NoneUnknown) \<and>
     (of_bool (nullability f \<noteq> NullabilityUnknown) :: nat) = of_bool (nullability g \<noteq> NullabilityUnknown) \<and>
     (of_bool (bool_singleton f \<noteq> BoolSingletonUnknown) :: nat) = of_bool (bool_singleton g \<noteq> BoolSingletonUnknown) \<and>
     (of_bool (refcount f \<noteq> RefcountUnknown) :: nat) = of_bool (refcount g \<noteq> RefcountUnknown) \<and>
     (of_bool (provenance f \<noteq> ProvenanceUnknown) :: nat) = of_bool (provenance g \<noteq> ProvenanceUnknown) \<and>
     (of_bool (callable f \<noteq> CallableUnknown) :: nat) = of_bool (callable g \<noteq> CallableUnknown)"
  using below unfolding facts_below_def
  by (intro eight_equal same [unfolded claims_def] of_bool_le) auto

lemma claims_strict:
  assumes below: "facts_below f g" and "f \<noteq> g"
  shows "claims f < claims g"
proof (rule ccontr)
  assume same: "\<not> claims f < claims g"
  have "facts_below g f"
    using below equal_claims [OF below same] unfolding facts_below_def
    by (elim conjE, intro conjI) (rule flat_claimed, assumption, assumption)+
  with assms show False
    by (simp add: facts_below_antisym)
qed

section \<open>Environments\<close>

definition env_below :: "env_facts \<Rightarrow> env_facts \<Rightarrow> bool" where
  "env_below env other =
     (\<forall>l f. map_of env l = Some f \<longrightarrow> (\<exists>g. map_of other l = Some g \<and> facts_below f g))"

definition env_ok :: "env_facts \<Rightarrow> bool" where
  "env_ok env \<longleftrightarrow>
     distinct (map fst env) \<and> (\<forall>(l, f) \<in> set env. \<not> is_uninformative_for_local_env f)"

lemma map_of_set_local:
  "map_of (set_local_pyobj_fact l f env) =
     (map_of env)(l := if is_uninformative_for_local_env f then None else Some f)"
  by (auto simp: set_local_pyobj_fact_def update_conv' delete_conv' fun_eq_iff)

lemma map_of_remove_local:
  "map_of (remove_local_pyobj_fact l env) = (map_of env)(l := None)"
  by (auto simp: remove_local_pyobj_fact_def delete_conv' fun_eq_iff)

lemma retain_common_cases:
  "retain_common other e =
     (case map_of other (fst e) of
        None \<Rightarrow> []
      | Some g \<Rightarrow> if is_uninformative_for_local_env (intersect (snd e) g) then []
                  else [(fst e, intersect (snd e) g)])"
  by (cases "map_of other (fst e)") (simp_all add: retain_common_def local_pyobj_fact_def Let_def)

lemma set_retain_common:
  "(l, h) \<in> set (retain_common other e) \<longleftrightarrow>
     l = fst e \<and>
     (\<exists>g. map_of other l = Some g \<and> h = intersect (snd e) g \<and> \<not> is_uninformative_for_local_env h)"
  by (cases "map_of other (fst e)") (auto simp: retain_common_cases)

lemma intersect_with_Cons:
  "intersect_with (e # env) other = retain_common other e @ intersect_with env other"
  by (simp add: intersect_with_def)

lemma intersect_with_Nil [simp]: "intersect_with [] other = []"
  by (simp add: intersect_with_def)

lemma intersect_with_keys: "fst ` set (intersect_with env other) \<subseteq> fst ` set env"
  by (induction env) (auto simp: intersect_with_Cons set_retain_common)

lemma map_of_intersect_with:
  assumes "distinct (map fst env)"
  shows "map_of (intersect_with env other) l =
     (case (map_of env l, map_of other l) of
        (Some f, Some g) \<Rightarrow>
          if is_uninformative_for_local_env (intersect f g) then None else Some (intersect f g)
      | _ \<Rightarrow> None)"
  using assms
proof (induction env)
  case (Cons e env)
  have rest: "map_of (intersect_with env other) (fst e) = None"
    using Cons.prems intersect_with_keys [of env other] by (auto simp: map_of_eq_None_iff)
  show ?case
  proof (cases "l = fst e")
    case True
    then show ?thesis
      using rest
      by (cases e; cases "map_of other (fst e)")
        (auto simp: intersect_with_Cons retain_common_cases map_add_def)
  next
    case False
    then have "map_of (retain_common other e) l = None"
      by (cases "map_of other (fst e)") (auto simp: retain_common_cases)
    then show ?thesis
      using Cons False by (cases e) (simp add: intersect_with_Cons map_add_def split: option.splits)
  qed
qed simp

lemma env_below_refl [simp]: "env_below env env"
  by (simp add: env_below_def)

lemma env_below_trans: "env_below a b \<Longrightarrow> env_below b c \<Longrightarrow> env_below a c"
  unfolding env_below_def by (meson facts_below_trans)

lemma intersect_with_lower:
  assumes "distinct (map fst env)"
  shows "env_below (intersect_with env other) env" "env_below (intersect_with env other) other"
  by (auto simp: env_below_def map_of_intersect_with [OF assms] intersect_lower
      split: option.splits if_splits)

lemma subset_singleton_disjoint: "A \<subseteq> {x} \<Longrightarrow> x \<notin> B \<Longrightarrow> A \<inter> B = {}"
  by auto

lemma distinct_retain_common: "distinct (map fst (retain_common other e))"
  by (cases "map_of other (fst e)") (simp_all add: retain_common_cases)

lemma retain_common_keys: "fst ` set (retain_common other e) \<subseteq> {fst e}"
  by (cases "map_of other (fst e)") (simp_all add: retain_common_cases)

lemma distinct_intersect_with:
  "distinct (map fst env) \<Longrightarrow> distinct (map fst (intersect_with env other))"
proof (induction env)
  case (Cons e env)
  have new: "fst e \<notin> fst ` set env" and distinct: "distinct (map fst env)"
    using Cons.prems by simp_all
  have "fst e \<notin> fst ` set (intersect_with env other)"
    by (rule contra_subsetD [OF intersect_with_keys new])
  with retain_common_keys [of other e]
  have "fst ` set (retain_common other e) \<inter> fst ` set (intersect_with env other) = {}"
    by (rule subset_singleton_disjoint)
  then show ?case
    using Cons.IH [OF distinct] distinct_retain_common [of other e]
    by (simp only: intersect_with_Cons map_append distinct_append set_map)
qed simp

lemma intersect_with_informative:
  "(l, h) \<in> set (intersect_with env other) \<Longrightarrow> \<not> is_uninformative_for_local_env h"
  by (induction env) (auto simp: intersect_with_Cons set_retain_common)

lemma env_ok_intersect_with: "env_ok env \<Longrightarrow> env_ok (intersect_with env other)"
  using intersect_with_informative [of _ _ env other]
  by (auto simp: env_ok_def distinct_intersect_with)

lemma set_update_subset: "set (AList.update k v xs) \<subseteq> insert (k, v) (set xs)"
  by (induction xs) auto

lemma set_delete_subset: "set (AList.delete k xs) \<subseteq> set xs"
  by (auto simp: AList.delete_eq)

lemma env_ok_set_local: "env_ok env \<Longrightarrow> env_ok (set_local_pyobj_fact l f env)"
  using set_update_subset [of l f env] set_delete_subset [of l env]
  by (auto simp: env_ok_def set_local_pyobj_fact_def distinct_update distinct_delete)

lemma env_ok_remove_local: "env_ok env \<Longrightarrow> env_ok (remove_local_pyobj_fact l env)"
  using set_delete_subset [of l env]
  by (auto simp: env_ok_def remove_local_pyobj_fact_def distinct_delete)

lemma env_ok_Nil [simp]: "env_ok []"
  by (simp add: env_ok_def)

end
