(* ===== verification/Fact_Inference.thy ===== *)
theory Fact_Inference
  imports Value_Facts
begin

text \<open>
  Inference of value facts for a BlockPy module, \<^verbatim>\<open>crates/soac_opt/src/passes/value_facts.rs\<close>:
  facts of module constants and of expressions, the transfer of local facts through a block, the
  refinement of facts on the edges of a branch, and the loop that propagates block-entry facts
  through the control-flow graph until nothing changes.

  The parameter \<open>mcf\<close> is the field \<open>module_constant_facts\<close> of \<open>FunctionFactInferer\<close>. The
  loop \<open>propagate\<close> is a total function: a pass either adds an entry for a label that had none, or
  removes a claim of an entry, or is the last one.
\<close>

section \<open>Facts of module constants\<close>

definition digit_value :: "char \<Rightarrow> nat" where
  "digit_value c = of_char c - 48"

definition decimal_value :: "string \<Rightarrow> nat" where
  "decimal_value ds = foldl (\<lambda>n c. 10 * n + digit_value c) 0 ds"

definition parse_digits :: "string \<Rightarrow> nat option" where
  "parse_digits ds = (if ds \<noteq> [] \<and> list_all is_ascii_digit ds then Some (decimal_value ds) else None)"

text \<open>\<open>str::parse::<i64>\<close>: an optional sign, digits, and a value that fits.\<close>

definition parse_i64 :: "string \<Rightarrow> int option" where
  "parse_i64 s =
     (case s of
        [] \<Rightarrow> None
      | c # ds \<Rightarrow>
          if c = CHR ''-'' then
            (case parse_digits ds of
               None \<Rightarrow> None | Some n \<Rightarrow> if n \<le> 2 ^ 63 then Some (- int n) else None)
          else
            (case parse_digits (if c = CHR ''+'' then ds else s) of
               None \<Rightarrow> None | Some n \<Rightarrow> if n < 2 ^ 63 then Some (int n) else None))"

definition truthiness_of :: "bool \<Rightarrow> truthiness_fact" where
  "truthiness_of b = (if b then AlwaysTrue else AlwaysFalse)"

text \<open>\<open>value != 0.0\<close> for the 64-bit float with the given pattern: only the two zeros are equal to it.\<close>

definition float_nonzero :: "u64 \<Rightarrow> bool" where
  "float_nonzero bits = (and bits 0x7FFFFFFFFFFFFFFF \<noteq> 0)"

fun infer_literal_facts :: "literal \<Rightarrow> value_facts" where
  "infer_literal_facts (StringLiteral s) =
     PyObj (exact_type_with_truthiness StrExact (truthiness_of (s \<noteq> [])))"
| "infer_literal_facts (BytesLiteral bs) =
     PyObj (exact_type_with_truthiness BytesExact (truthiness_of (bs \<noteq> [])))"
| "infer_literal_facts (NumberLiteral (IntLiteral s)) =
     PyObj (exact_type_with_truthiness IntExact
       (truthiness_of (case parse_i64 s of None \<Rightarrow> True | Some v \<Rightarrow> v \<noteq> 0)))"
| "infer_literal_facts (NumberLiteral (FloatLiteral bits)) =
     PyObj (exact_type_with_truthiness FloatExact (truthiness_of (float_nonzero bits)))"

definition infer_runtime_name_facts :: "runtime_name \<Rightarrow> value_facts option" where
  "infer_runtime_name_facts name =
     (if name = RuntimeName ''NONE'' then Some (PyObj none_singleton)
      else if name = RuntimeName ''TRUE'' then Some (PyObj (bool_singleton_facts True))
      else if name = RuntimeName ''FALSE'' then Some (PyObj (bool_singleton_facts False))
      else map_option (PyObj \<circ> runtime_helper_facts) (from_runtime_symbol (runtime_spelling name)))"

fun infer_module_constant_facts :: "constant_expr \<Rightarrow> value_facts" where
  "infer_module_constant_facts (RuntimeNameConstant name) =
     (case infer_runtime_name_facts name of Some f \<Rightarrow> f | None \<Rightarrow> unknown_pyobj)"
| "infer_module_constant_facts (LiteralConstant l) = infer_literal_facts l"

definition infer_runtime_name_load_facts :: "resolved_name \<Rightarrow> value_facts option" where
  "infer_runtime_name_load_facts name =
     (if is_runtime_symbol ''NONE'' name then Some (PyObj none_singleton)
      else if is_runtime_symbol ''TRUE'' name then Some (PyObj (bool_singleton_facts True))
      else if is_runtime_symbol ''FALSE'' name then Some (PyObj (bool_singleton_facts False))
      else if is_runtime_name name then
        map_option (PyObj \<circ> runtime_helper_facts) (from_runtime_symbol (id_str name))
      else None)"

definition module_constant_load_fact :: "u32 \<Rightarrow> value_facts list \<Rightarrow> value_facts" where
  "module_constant_load_fact index mcf =
     (if unat index < length mcf then
        (case mcf ! unat index of
           PyObj f \<Rightarrow> PyObj (with_immortal_refcount (with_module_constant index f))
         | other \<Rightarrow> other)
      else PyObj (with_immortal_refcount (module_constant index)))"

section \<open>Facts of expressions\<close>

definition is_exact_int_fact :: "value_facts \<Rightarrow> bool" where
  "is_exact_int_fact f =
     (case as_pyobj f of Some p \<Rightarrow> is_exact_type p IntExact | None \<Rightarrow> False)"

fun int_binop_facts :: "bin_op_kind \<Rightarrow> py_obj_facts option" where
  "int_binop_facts EqOp = Some bool_object"
| "int_binop_facts NeOp = Some bool_object"
| "int_binop_facts LtOp = Some bool_object"
| "int_binop_facts LeOp = Some bool_object"
| "int_binop_facts GtOp = Some bool_object"
| "int_binop_facts GeOp = Some bool_object"
| "int_binop_facts TrueDivOp = Some (exact_type FloatExact)"
| "int_binop_facts InplaceTrueDivOp = Some (exact_type FloatExact)"
| "int_binop_facts PowOp = None"
| "int_binop_facts InplacePowOp = None"
| "int_binop_facts MatMulOp = None"
| "int_binop_facts InplaceMatMulOp = None"
| "int_binop_facts ContainsOp = None"
| "int_binop_facts IsOp = None"
| "int_binop_facts AddOp = Some (exact_type IntExact)"
| "int_binop_facts SubOp = Some (exact_type IntExact)"
| "int_binop_facts MulOp = Some (exact_type IntExact)"
| "int_binop_facts FloorDivOp = Some (exact_type IntExact)"
| "int_binop_facts ModOp = Some (exact_type IntExact)"
| "int_binop_facts LShiftOp = Some (exact_type IntExact)"
| "int_binop_facts RShiftOp = Some (exact_type IntExact)"
| "int_binop_facts OrOp = Some (exact_type IntExact)"
| "int_binop_facts XorOp = Some (exact_type IntExact)"
| "int_binop_facts AndOp = Some (exact_type IntExact)"
| "int_binop_facts InplaceAddOp = Some (exact_type IntExact)"
| "int_binop_facts InplaceSubOp = Some (exact_type IntExact)"
| "int_binop_facts InplaceMulOp = Some (exact_type IntExact)"
| "int_binop_facts InplaceFloorDivOp = Some (exact_type IntExact)"
| "int_binop_facts InplaceModOp = Some (exact_type IntExact)"
| "int_binop_facts InplaceLShiftOp = Some (exact_type IntExact)"
| "int_binop_facts InplaceRShiftOp = Some (exact_type IntExact)"
| "int_binop_facts InplaceOrOp = Some (exact_type IntExact)"
| "int_binop_facts InplaceXorOp = Some (exact_type IntExact)"
| "int_binop_facts InplaceAndOp = Some (exact_type IntExact)"

definition infer_binop_result_facts ::
  "bin_op_kind \<Rightarrow> value_facts \<Rightarrow> value_facts \<Rightarrow> value_facts option"
where
  "infer_binop_result_facts kind left right =
     (if is_exact_int_fact left \<and> is_exact_int_fact right
      then map_option PyObj (int_binop_facts kind) else None)"

fun int_unary_facts :: "unary_op_kind \<Rightarrow> py_obj_facts" where
  "int_unary_facts PosOp = exact_type IntExact"
| "int_unary_facts NegOp = exact_type IntExact"
| "int_unary_facts InvertOp = exact_type IntExact"
| "int_unary_facts NotOp = bool_object"
| "int_unary_facts TruthOp = bool_object"

definition infer_unary_result_facts :: "unary_op_kind \<Rightarrow> value_facts \<Rightarrow> value_facts option" where
  "infer_unary_result_facts kind operand =
     (if is_exact_int_fact operand then Some (PyObj (int_unary_facts kind)) else None)"

definition or_unknown :: "value_facts option \<Rightarrow> value_facts" where
  "or_unknown f = (case f of Some g \<Rightarrow> g | None \<Rightarrow> unknown_pyobj)"

fun is_positional :: "'e call_arg_positional \<Rightarrow> bool" where
  "is_positional (Positional _) = True"
| "is_positional (Starred _) = False"

definition load_facts :: "value_facts list \<Rightarrow> resolved_name \<Rightarrow> value_facts" where
  "load_facts mcf name =
     (case infer_runtime_name_load_facts name of
        Some f \<Rightarrow> f
      | None \<Rightarrow>
          (case as_constant (name_location name) of
             Some index \<Rightarrow> module_constant_load_fact index mcf
           | None \<Rightarrow> unknown_pyobj))"

fun infer_expr_facts :: "value_facts list \<Rightarrow> instr \<Rightarrow> value_facts" where
  "infer_expr_facts mcf expr =
     (case expr of
        Load _ name _ \<Rightarrow> load_facts mcf name
      | Call _ func args kws _ \<Rightarrow>
          if kws = [] \<and> list_all is_positional args then
            or_unknown (map_option (signature_result \<circ> helper_signature)
              (runtime_helper (infer_expr_facts mcf func)))
          else unknown_pyobj
      | BinOp _ kind left right \<Rightarrow>
          or_unknown (infer_binop_result_facts kind (infer_expr_facts mcf left)
            (infer_expr_facts mcf right))
      | UnaryOp _ kind operand \<Rightarrow>
          or_unknown (infer_unary_result_facts kind (infer_expr_facts mcf operand))
      | SetAttr _ _ _ _ \<Rightarrow> PyObj none_singleton
      | SetItem _ _ _ _ \<Rightarrow> PyObj none_singleton
      | DelItem _ _ _ \<Rightarrow> PyObj none_singleton
      | Del _ _ _ \<Rightarrow> PyObj none_singleton
      | Tuple _ _ \<Rightarrow> PyObj known_not_none
      | _ \<Rightarrow> unknown_pyobj)"

declare infer_expr_facts.simps [simp del]

fun infer_expr_facts_in_env :: "value_facts list \<Rightarrow> env_facts \<Rightarrow> instr \<Rightarrow> value_facts" where
  "infer_expr_facts_in_env mcf env expr =
     (case expr of
        Load _ name _ \<Rightarrow>
          (case Option.bind (local_of name) (local_pyobj_fact env) of
             Some f \<Rightarrow> PyObj f
           | None \<Rightarrow> infer_expr_facts mcf expr)
      | BinOp _ kind left right \<Rightarrow>
          or_unknown (infer_binop_result_facts kind (infer_expr_facts_in_env mcf env left)
            (infer_expr_facts_in_env mcf env right))
      | UnaryOp _ kind operand \<Rightarrow>
          or_unknown (infer_unary_result_facts kind (infer_expr_facts_in_env mcf env operand))
      | _ \<Rightarrow> infer_expr_facts mcf expr)"

declare infer_expr_facts_in_env.simps [simp del]

section \<open>Transfer through a block\<close>

fun operand_local :: "operand_location \<Rightarrow> local_location option" where
  "operand_local (LocalOperand l) = Some l"
| "operand_local (PreservedOperand _) = None"

definition remove_takes :: "operand_location list \<Rightarrow> env_facts \<Rightarrow> env_facts" where
  "remove_takes takes env =
     fold (\<lambda>location. case operand_local location of
         Some l \<Rightarrow> remove_local_pyobj_fact l | None \<Rightarrow> id) takes env"

definition remove_name_fact :: "resolved_name \<Rightarrow> env_facts \<Rightarrow> env_facts" where
  "remove_name_fact name env =
     (case local_of name of Some l \<Rightarrow> remove_local_pyobj_fact l env | None \<Rightarrow> env)"

definition store_local_facts :: "value_facts list \<Rightarrow> resolved_name \<Rightarrow> instr \<Rightarrow> env_facts \<Rightarrow> env_facts" where
  "store_local_facts mcf name val env =
     (case local_of name of
        None \<Rightarrow> env
      | Some l \<Rightarrow>
          (case as_pyobj (infer_expr_facts_in_env mcf env val) of
             Some f \<Rightarrow> set_local_pyobj_fact l f env
           | None \<Rightarrow> remove_local_pyobj_fact l env))"

definition transfer_instr_env :: "value_facts list \<Rightarrow> instr \<Rightarrow> env_facts \<Rightarrow> env_facts" where
  "transfer_instr_env mcf instr entry =
     (let env = remove_takes (operand_takes instr) entry
      in case instr of
           Store _ name val _ _ \<Rightarrow> store_local_facts mcf name val env
         | Del _ name _ \<Rightarrow> remove_name_fact name env
         | CallArgumentOp _ kind _ buffer _ \<Rightarrow>
             fold remove_name_fact (written_names kind buffer) env
         | _ \<Rightarrow> env)"

definition transfer_block_env :: "value_facts list \<Rightarrow> block \<Rightarrow> env_facts \<Rightarrow> env_facts" where
  "transfer_block_env mcf b entry =
     remove_takes (term_operand_takes (block_terminator b))
       (fold (transfer_instr_env mcf) (body b) entry)"

section \<open>Refinement on branches\<close>

type_synonym branch_facts = "py_obj_facts option \<times> py_obj_facts option"

definition expr_singleton_branch_facts :: "value_facts list \<Rightarrow> instr \<Rightarrow> branch_facts option" where
  "expr_singleton_branch_facts mcf expr =
     (case infer_expr_facts mcf expr of
        PyObj f \<Rightarrow>
          if is_none_facts f then Some (Some none_singleton, Some known_not_none)
          else if is_true_singleton f then Some (Some (bool_singleton_facts True), None)
          else if is_false_singleton f then Some (Some (bool_singleton_facts False), None)
          else None
      | _ \<Rightarrow> None)"

definition local_load_location :: "instr \<Rightarrow> local_location option" where
  "local_load_location expr = (case expr of Load _ name _ \<Rightarrow> local_of name | _ \<Rightarrow> None)"

definition infer_local_is_singleton_comparison ::
  "value_facts list \<Rightarrow> instr \<Rightarrow> instr \<Rightarrow> (local_location \<times> branch_facts) option"
where
  "infer_local_is_singleton_comparison mcf left right =
     (case expr_singleton_branch_facts mcf right of
        Some facts \<Rightarrow> map_option (\<lambda>l. (l, facts)) (local_load_location left)
      | None \<Rightarrow>
          (case expr_singleton_branch_facts mcf left of
             Some facts \<Rightarrow> map_option (\<lambda>l. (l, facts)) (local_load_location right)
           | None \<Rightarrow> None))"

fun infer_branch_local_fact ::
  "value_facts list \<Rightarrow> instr \<Rightarrow> (local_location \<times> branch_facts) option"
where
  "infer_branch_local_fact mcf test =
     (case test of
        BinOp _ kind left right \<Rightarrow>
          if kind = IsOp then infer_local_is_singleton_comparison mcf left right else None
      | UnaryOp _ kind operand \<Rightarrow>
          if kind = NotOp then
            map_option (\<lambda>(l, then_fact, else_fact). (l, else_fact, then_fact))
              (infer_branch_local_fact mcf operand)
          else None
      | _ \<Rightarrow> None)"

declare infer_branch_local_fact.simps [simp del]

definition refine :: "local_location \<Rightarrow> py_obj_facts option \<Rightarrow> env_facts \<Rightarrow> env_facts" where
  "refine l claim env = (case claim of Some f \<Rightarrow> set_local_pyobj_fact l f env | None \<Rightarrow> env)"

definition infer_if_edge_facts ::
  "value_facts list \<Rightarrow> instr \<Rightarrow> env_facts \<Rightarrow> env_facts \<times> env_facts"
where
  "infer_if_edge_facts mcf test exit =
     (case infer_branch_local_fact mcf test of
        None \<Rightarrow> (exit, exit)
      | Some (l, then_fact, else_fact) \<Rightarrow> (refine l then_fact exit, refine l else_fact exit))"

definition successor_envs :: "value_facts list \<Rightarrow> block \<Rightarrow> env_facts \<Rightarrow> (block_label \<times> env_facts) list" where
  "successor_envs mcf b exit =
     (case block_terminator b of
        Jump edge \<Rightarrow> [(edge_target edge, exit)]
      | IfTerm test then_label else_label \<Rightarrow>
          (case infer_if_edge_facts mcf test exit of
             (then_facts, else_facts) \<Rightarrow> [(then_label, then_facts), (else_label, else_facts)])
      | BranchTable _ targets default_label \<Rightarrow>
          map (\<lambda>target. (target, exit)) targets @ [(default_label, exit)]
      | Raise _ _ \<Rightarrow> []
      | Return _ \<Rightarrow> []
      | GeneratorReturn _ \<Rightarrow> [])"

section \<open>Propagation through the control-flow graph\<close>

type_synonym entry_facts = "(block_label \<times> env_facts) list"

definition meet_entry :: "block_label \<times> env_facts \<Rightarrow> entry_facts \<times> bool \<Rightarrow> entry_facts \<times> bool" where
  "meet_entry edge state =
     (case (edge, state) of
        ((target, incoming), (entries, changed)) \<Rightarrow>
          (case map_of entries target of
             Some existing \<Rightarrow>
               (let met = intersect_with existing incoming
                in (AList.update target met entries, changed \<or> met \<noteq> existing))
           | None \<Rightarrow> (AList.update target incoming entries, True)))"

definition visit_entry_block ::
  "value_facts list \<Rightarrow> block \<Rightarrow> entry_facts \<times> bool \<Rightarrow> entry_facts \<times> bool"
where
  "visit_entry_block mcf b state =
     (case map_of (fst state) (label b) of
        None \<Rightarrow> state
      | Some entry \<Rightarrow>
          fold meet_entry (successor_envs mcf b (transfer_block_env mcf b entry)) state)"

definition propagation_pass ::
  "value_facts list \<Rightarrow> block list \<Rightarrow> entry_facts \<Rightarrow> entry_facts \<times> bool"
where
  "propagation_pass mcf bs entries = fold (visit_entry_block mcf) bs (entries, False)"

fun term_labels :: "block_term \<Rightarrow> block_label list" where
  "term_labels (Jump edge) = [edge_target edge]"
| "term_labels (IfTerm _ t e) = [t, e]"
| "term_labels (BranchTable _ targets d) = targets @ [d]"
| "term_labels _ = []"

definition env_weight :: "env_facts \<Rightarrow> nat" where
  "env_weight env = sum_list (map (\<lambda>(l, f). Suc (claims f)) env)"

definition open_labels :: "block list \<Rightarrow> entry_facts \<Rightarrow> nat" where
  "open_labels bs entries =
     card ((\<Union>b \<in> set bs. set (term_labels (block_terminator b))) - fst ` set entries)"

definition entries_weight :: "entry_facts \<Rightarrow> nat" where
  "entries_weight entries = sum_list (map (env_weight \<circ> snd) entries)"

lemma successor_envs_labels:
  "map fst (successor_envs mcf b exit) = term_labels (block_terminator b)"
  by (cases "block_terminator b")
    (simp_all add: successor_envs_def comp_def split: prod.splits)

lemma retain_common_weight:
  "env_weight (retain_common other e) \<le> env_weight [e] \<and>
   (retain_common other e \<noteq> [e] \<longrightarrow> env_weight (retain_common other e) < env_weight [e])"
proof (cases "map_of other (fst e)")
  case None
  then show ?thesis by (simp add: retain_common_cases env_weight_def split: prod.splits)
next
  case (Some g)
  have below: "facts_below (intersect (snd e) g) (snd e)"
    by (rule intersect_lower)
  show ?thesis
    using Some claims_mono [OF below] claims_strict [OF below]
    by (cases e) (auto simp: retain_common_cases env_weight_def)
qed

lemma intersect_with_weight:
  "env_weight (intersect_with env other) \<le> env_weight env \<and>
   (intersect_with env other \<noteq> env \<longrightarrow> env_weight (intersect_with env other) < env_weight env)"
proof (induction env)
  case (Cons e env)
  have split: "env_weight (xs @ ys) = env_weight xs + env_weight ys" for xs ys
    by (simp add: env_weight_def)
  have cons: "env_weight (e # env) = env_weight [e] + env_weight env"
    by (simp add: env_weight_def split: prod.splits)
  show ?case
    unfolding intersect_with_Cons split cons
    using Cons.IH retain_common_weight [of other e] by fastforce
qed simp


lemma entries_weight_update:
  "map_of entries t = Some existing \<Longrightarrow>
   entries_weight (AList.update t met entries) + env_weight existing =
   entries_weight entries + env_weight met"
  by (induction entries) (auto simp: entries_weight_def split: if_splits)

definition progress :: "block list \<Rightarrow> (entry_facts \<times> entry_facts) set" where
  "progress bs = measures [open_labels bs, entries_weight]"

lemma trans_progress: "trans (progress bs)"
  by (auto simp: progress_def trans_def measures_less measures_lesseq)

lemma wf_progress: "wf (progress bs)"
  by (simp add: progress_def)

definition advances :: "block list \<Rightarrow> entry_facts \<times> bool \<Rightarrow> entry_facts \<times> bool \<Rightarrow> bool" where
  "advances bs s s' \<longleftrightarrow> s' = s \<or> snd s' \<and> (fst s', fst s) \<in> progress bs"

lemma advances_refl [simp]: "advances bs s s"
  by (simp add: advances_def)

lemma advances_trans: "advances bs s s' \<Longrightarrow> advances bs s' s'' \<Longrightarrow> advances bs s s''"
  unfolding advances_def using transD [OF trans_progress] by metis

lemma open_labels_new:
  assumes "t \<in> (\<Union>b \<in> set bs. set (term_labels (block_terminator b)))" and "t \<notin> fst ` set entries"
  shows "open_labels bs (AList.update t inc entries) < open_labels bs entries"
proof -
  let ?L = "\<Union>b \<in> set bs. set (term_labels (block_terminator b))"
  have "fst ` set (AList.update t inc entries) = insert t (fst ` set entries)"
    by (simp add: dom_map_of_conv_image_fst [symmetric] update_conv')
  then have "?L - fst ` set (AList.update t inc entries) \<subset> ?L - fst ` set entries"
    using assms by auto
  then show ?thesis
    unfolding open_labels_def by (intro psubset_card_mono) auto
qed

lemma open_labels_old:
  "map_of entries t = Some existing \<Longrightarrow>
   open_labels bs (AList.update t met entries) = open_labels bs entries"
proof -
  assume old: "map_of entries t = Some existing"
  then have "fst ` set (AList.update t met entries) = fst ` set entries"
    by (simp add: dom_map_of_conv_image_fst [symmetric] update_conv' domI insert_absorb)
  then show ?thesis
    by (simp add: open_labels_def)
qed

lemma meet_entry_new:
  "map_of (fst s) (fst edge) = None \<Longrightarrow>
   meet_entry edge s = (AList.update (fst edge) (snd edge) (fst s), True)"
  by (cases edge; cases s) (simp add: meet_entry_def)

lemma meet_entry_old:
  "map_of (fst s) (fst edge) = Some existing \<Longrightarrow>
   meet_entry edge s =
     (AList.update (fst edge) (intersect_with existing (snd edge)) (fst s),
      snd s \<or> intersect_with existing (snd edge) \<noteq> existing)"
  by (cases edge; cases s) (simp add: meet_entry_def Let_def)

lemma meet_entry_advances:
  assumes "fst edge \<in> (\<Union>b \<in> set bs. set (term_labels (block_terminator b)))"
  shows "advances bs s (meet_entry edge s)"
proof (cases "map_of (fst s) (fst edge)")
  case None
  then have "fst edge \<notin> fst ` set (fst s)"
    by (simp add: map_of_eq_None_iff)
  then show ?thesis
    using None open_labels_new [OF assms, of "fst s" "snd edge"]
    by (simp add: meet_entry_new advances_def progress_def)
next
  case (Some existing)
  let ?met = "intersect_with existing (snd edge)"
  show ?thesis
  proof (cases "?met = existing")
    case True
    then show ?thesis
      using Some by (cases s) (simp add: meet_entry_old advances_def update_triv)
  next
    case False
    then have "entries_weight (AList.update (fst edge) ?met (fst s)) < entries_weight (fst s)"
      using entries_weight_update [OF Some, of ?met] intersect_with_weight [of existing "snd edge"]
      by linarith
    then show ?thesis
      using Some False open_labels_old [OF Some, of bs ?met]
      by (simp add: meet_entry_old advances_def progress_def)
  qed
qed

lemma fold_advances:
  "(\<And>x s. x \<in> set xs \<Longrightarrow> advances bs s (f x s)) \<Longrightarrow> advances bs s (fold f xs s)"
proof (induction xs arbitrary: s)
  case (Cons x xs)
  have "advances bs s (f x s)" and "advances bs (f x s) (fold f xs (f x s))"
    using Cons by simp_all
  then show ?case
    using advances_trans by fastforce
qed simp

lemma visit_entry_block_advances:
  assumes "b \<in> set bs"
  shows "advances bs s (visit_entry_block mcf b s)"
proof (cases "map_of (fst s) (label b)")
  case (Some entry)
  let ?edges = "successor_envs mcf b (transfer_block_env mcf b entry)"
  have "advances bs s (fold meet_entry ?edges s)"
  proof (rule fold_advances, rule meet_entry_advances)
    fix edge s
    assume "edge \<in> set ?edges"
    then have "fst edge \<in> set (term_labels (block_terminator b))"
      by (metis image_eqI set_map successor_envs_labels)
    then show "fst edge \<in> (\<Union>b \<in> set bs. set (term_labels (block_terminator b)))"
      using assms by blast
  qed
  then show ?thesis
    using Some by (simp add: visit_entry_block_def)
qed (simp add: visit_entry_block_def)

lemma propagation_pass_advances:
  "advances bs (entries, False) (propagation_pass mcf bs entries)"
  unfolding propagation_pass_def by (rule fold_advances) (rule visit_entry_block_advances)

definition propagation_order ::
  "((value_facts list \<times> block list \<times> entry_facts) \<times> (value_facts list \<times> block list \<times> entry_facts)) set"
where
  "propagation_order =
     {((mcf', bs', entries'), (mcf, bs, entries)). bs' = bs \<and> (entries', entries) \<in> progress bs}"

lemma wf_propagation_order: "wf propagation_order"
proof (rule wf_subset)
  show "wf (inv_image (less_than <*lex*> less_than)
      (\<lambda>(mcf, bs, entries). (open_labels bs entries, entries_weight entries)))"
    by auto
  show "propagation_order \<subseteq> inv_image (less_than <*lex*> less_than)
      (\<lambda>(mcf, bs, entries). (open_labels bs entries, entries_weight entries))"
    by (auto simp: propagation_order_def progress_def)
qed

text \<open>The loop \<open>while changed\<close> of \<open>infer_block_entry_facts\<close>.\<close>

function propagate :: "value_facts list \<Rightarrow> block list \<Rightarrow> entry_facts \<Rightarrow> entry_facts" where
  "propagate mcf bs entries =
     (case propagation_pass mcf bs entries of
        (entries', changed) \<Rightarrow> if changed then propagate mcf bs entries' else entries')"
  by pat_completeness auto
termination
proof (relation "propagation_order", goal_cases)
  case 1
  show ?case by (rule wf_propagation_order)
next
  case (2 cs bs entries entries' changed)
  then show ?case
    using propagation_pass_advances [of bs entries cs]
    by (cases "propagation_pass cs bs entries") (auto simp: propagation_order_def advances_def)
qed

declare propagate.simps [simp del]

definition infer_block_entry_facts :: "value_facts list \<Rightarrow> block list \<Rightarrow> entry_facts" where
  "infer_block_entry_facts mcf bs =
     (case bs of [] \<Rightarrow> [] | entry_block # _ \<Rightarrow> propagate mcf bs [(label entry_block, [])])"


section \<open>Facts of functions and modules\<close>

definition function_instrs :: "blockpy_function \<Rightarrow> instr list" where
  "function_instrs f = concat (map instrs (concat (map block_roots (blocks f))))"

definition record_expr_fact ::
  "value_facts list \<Rightarrow> runtime_function_id \<Rightarrow> instr \<Rightarrow> fact_store \<Rightarrow> fact_store"
where
  "record_expr_fact mcf fid expr store =
     (case try_semantic_instr_id expr of
        Some i \<Rightarrow>
          insert_expr_fact \<lparr>key_function_id = fid, key_instr_id = i\<rparr> (infer_expr_facts mcf expr)
            store
      | None \<Rightarrow> store)"

definition infer_function_value_facts :: "value_facts list \<Rightarrow> blockpy_function \<Rightarrow> fact_store" where
  "infer_function_value_facts mcf f =
     (let store = fold (record_expr_fact mcf (function_id f)) (function_instrs f) empty_store;
          entries = infer_block_entry_facts mcf (blocks f)
      in fold (\<lambda>b. insert_block_entry_fact (function_id f) (label b)
             (case map_of entries (label b) of Some env \<Rightarrow> env | None \<Rightarrow> []))
           (blocks f) store)"

definition infer_module_value_facts :: "blockpy_module \<Rightarrow> fact_store" where
  "infer_module_value_facts m =
     (let mcf = map infer_module_constant_facts (module_constants m)
      in fold (\<lambda>f store.
             let fs = infer_function_value_facts mcf f
             in extend_block_entry_facts (block_entry_facts fs)
                  (extend_expr_facts (expr_facts fs) store))
           (callable_defs m) empty_store)"

section \<open>The result is a fixed point\<close>

lemma meet_entry_flag: "snd s \<Longrightarrow> snd (meet_entry edge s)"
  by (cases edge; cases s) (auto simp: meet_entry_def Let_def split: option.splits)

lemma fold_flag: "(\<And>x s. snd s \<Longrightarrow> snd (f x s)) \<Longrightarrow> snd s \<Longrightarrow> snd (fold f xs s)"
  by (induction xs arbitrary: s) auto

lemma visit_entry_block_flag: "snd s \<Longrightarrow> snd (visit_entry_block mcf b s)"
  by (auto simp: visit_entry_block_def meet_entry_flag intro!: fold_flag split: option.splits)

text \<open>An entry meets an edge when it claims nothing the edge does not deliver.\<close>

definition covers :: "entry_facts \<Rightarrow> block_label \<times> env_facts \<Rightarrow> bool" where
  "covers entries edge =
     (\<exists>env. map_of entries (fst edge) = Some env \<and> intersect_with env (snd edge) = env)"

lemma meet_entry_unchanged:
  assumes "\<not> snd (meet_entry edge s)"
  shows "meet_entry edge s = s \<and> covers (fst s) edge"
proof (cases "map_of (fst s) (fst edge)")
  case None
  then show ?thesis using assms by (simp add: meet_entry_new)
next
  case (Some existing)
  then show ?thesis
    using assms by (cases s) (auto simp: meet_entry_old covers_def update_triv)
qed

lemma fold_unchanged:
  assumes step: "\<And>x s. \<not> snd (f x s) \<Longrightarrow> f x s = s \<and> Q (fst s) x"
    and flag: "\<And>x s. snd s \<Longrightarrow> snd (f x s)"
    and unchanged: "\<not> snd (fold f xs s)"
  shows "fold f xs s = s \<and> (\<forall>x \<in> set xs. Q (fst s) x)"
  using unchanged
proof (induction xs arbitrary: s)
  case (Cons x xs)
  have "\<not> snd (f x s)"
    using Cons.prems fold_flag [of f "f x s" xs] flag by auto
  then have "f x s = s" "Q (fst s) x"
    using step by blast+
  then show ?case
    using Cons by simp
qed simp

lemma visit_entry_block_unchanged:
  assumes "\<not> snd (visit_entry_block mcf b s)"
  shows "visit_entry_block mcf b s = s \<and>
    (\<forall>entry. map_of (fst s) (label b) = Some entry \<longrightarrow>
       (\<forall>edge \<in> set (successor_envs mcf b (transfer_block_env mcf b entry)). covers (fst s) edge))"
proof (cases "map_of (fst s) (label b)")
  case (Some entry)
  let ?edges = "successor_envs mcf b (transfer_block_env mcf b entry)"
  have "fold meet_entry ?edges s = s \<and> (\<forall>edge \<in> set ?edges. covers (fst s) edge)"
    by (rule fold_unchanged) (use assms Some in \<open>auto simp: visit_entry_block_def meet_entry_flag
        dest: meet_entry_unchanged\<close>)
  then show ?thesis
    using Some by (simp add: visit_entry_block_def)
qed (simp add: visit_entry_block_def)

definition closed_entries :: "value_facts list \<Rightarrow> block list \<Rightarrow> entry_facts \<Rightarrow> bool" where
  "closed_entries mcf bs entries =
     (\<forall>b \<in> set bs. \<forall>entry. map_of entries (label b) = Some entry \<longrightarrow>
        (\<forall>edge \<in> set (successor_envs mcf b (transfer_block_env mcf b entry)). covers entries edge))"

lemma propagation_pass_unchanged:
  assumes "propagation_pass mcf bs entries = (entries', False)"
  shows "entries' = entries \<and> closed_entries mcf bs entries"
proof -
  have "fold (visit_entry_block mcf) bs (entries, False) = (entries, False) \<and>
    (\<forall>b \<in> set bs. \<forall>entry. map_of (fst (entries, False)) (label b) = Some entry \<longrightarrow>
       (\<forall>edge \<in> set (successor_envs mcf b (transfer_block_env mcf b entry)).
          covers (fst (entries, False)) edge))"
    by (rule fold_unchanged)
      (use assms in \<open>auto simp: propagation_pass_def visit_entry_block_flag
        dest: visit_entry_block_unchanged\<close>)
  then show ?thesis
    using assms by (simp add: closed_entries_def propagation_pass_def)
qed

lemma propagate_closed: "closed_entries mcf bs (propagate mcf bs entries)"
proof (induction mcf bs entries rule: propagate.induct)
  case (1 cs bs entries)
  obtain entries' changed where pass: "propagation_pass cs bs entries = (entries', changed)"
    by (cases "propagation_pass cs bs entries")
  show ?case
  proof (cases changed)
    case True
    then show ?thesis
      using 1 pass by (simp add: propagate.simps [of cs bs entries])
  next
    case False
    then show ?thesis
      using pass propagation_pass_unchanged [of cs bs entries entries']
      by (simp add: propagate.simps [of cs bs entries])
  qed
qed

text \<open>What every pass keeps: environments stay well formed and the entry block claims nothing.\<close>

definition entries_ok :: "block_label \<Rightarrow> entry_facts \<Rightarrow> bool" where
  "entries_ok start entries =
     (map_of entries start = Some [] \<and> (\<forall>l env. map_of entries l = Some env \<longrightarrow> env_ok env))"


lemma env_ok_remove_takes: "env_ok env \<Longrightarrow> env_ok (remove_takes takes env)"
proof (induction takes arbitrary: env)
  case (Cons t takes)
  then show ?case
    by (cases "operand_local t") (simp_all add: remove_takes_def env_ok_remove_local)
qed (simp add: remove_takes_def)

lemma env_ok_remove_name: "env_ok env \<Longrightarrow> env_ok (remove_name_fact name env)"
  by (cases "local_of name") (simp_all add: remove_name_fact_def env_ok_remove_local)

lemma env_ok_fold: "(\<And>x env. env_ok env \<Longrightarrow> env_ok (f x env)) \<Longrightarrow> env_ok env \<Longrightarrow> env_ok (fold f xs env)"
  by (induction xs arbitrary: env) simp_all

lemma env_ok_store_local: "env_ok env \<Longrightarrow> env_ok (store_local_facts mcf name val env)"
  by (simp add: store_local_facts_def env_ok_set_local env_ok_remove_local split: option.splits)

lemma env_ok_transfer_instr: "env_ok env \<Longrightarrow> env_ok (transfer_instr_env mcf e env)"
  by (cases e)
    (simp_all add: transfer_instr_env_def env_ok_remove_takes env_ok_store_local env_ok_remove_name
      env_ok_fold)

lemma env_ok_transfer_block: "env_ok env \<Longrightarrow> env_ok (transfer_block_env mcf b env)"
  by (auto simp: transfer_block_env_def intro!: env_ok_remove_takes env_ok_fold env_ok_transfer_instr)

lemma env_ok_refine: "env_ok env \<Longrightarrow> env_ok (refine l claim env)"
  by (cases claim) (simp_all add: refine_def env_ok_set_local)

lemma env_ok_successor:
  "env_ok exit \<Longrightarrow> (t, env) \<in> set (successor_envs mcf b exit) \<Longrightarrow> env_ok env"
  by (cases "block_terminator b")
    (auto simp: successor_envs_def infer_if_edge_facts_def env_ok_refine split: option.splits)

lemma meet_entry_ok:
  assumes "entries_ok start (fst s)" and "env_ok (snd edge)"
  shows "entries_ok start (fst (meet_entry edge s))"
proof (cases "map_of (fst s) (fst edge)")
  case None
  then show ?thesis
    using assms by (auto simp: entries_ok_def meet_entry_new update_conv')
next
  case (Some existing)
  then show ?thesis
    using assms
    by (auto simp: entries_ok_def meet_entry_old update_conv' env_ok_intersect_with)
qed

lemma fold_entries_ok:
  "(\<And>x s. x \<in> set xs \<Longrightarrow> entries_ok start (fst s) \<Longrightarrow> entries_ok start (fst (f x s))) \<Longrightarrow>
   entries_ok start (fst s) \<Longrightarrow> entries_ok start (fst (fold f xs s))"
  by (induction xs arbitrary: s) simp_all

lemma visit_entry_block_ok:
  "entries_ok start (fst s) \<Longrightarrow> entries_ok start (fst (visit_entry_block mcf b s))"
proof (cases "map_of (fst s) (label b)")
  case (Some entry)
  assume ok: "entries_ok start (fst s)"
  then have "env_ok entry"
    using Some by (auto simp: entries_ok_def)
  then have "entries_ok start (fst (fold meet_entry
      (successor_envs mcf b (transfer_block_env mcf b entry)) s))"
    by (intro fold_entries_ok meet_entry_ok ok)
      (auto dest: env_ok_successor [OF env_ok_transfer_block])
  then show ?thesis
    using Some by (simp add: visit_entry_block_def)
qed (simp add: visit_entry_block_def)

lemma propagation_pass_ok:
  "entries_ok start entries \<Longrightarrow> entries_ok start (fst (propagation_pass mcf bs entries))"
  unfolding propagation_pass_def by (rule fold_entries_ok) (simp_all add: visit_entry_block_ok)

lemma propagate_ok: "entries_ok start entries \<Longrightarrow> entries_ok start (propagate mcf bs entries)"
proof (induction mcf bs entries rule: propagate.induct)
  case (1 mcf bs entries)
  have "entries_ok start (fst (propagation_pass mcf bs entries))"
    by (rule propagation_pass_ok [OF 1(2)])
  then show ?case
    using 1 by (cases "propagation_pass mcf bs entries") (simp add: propagate.simps [of mcf bs entries])
qed

lemma infer_block_entry_facts_closed:
  "bs = first_block # rest \<Longrightarrow> closed_entries mcf bs (infer_block_entry_facts mcf bs)"
  unfolding infer_block_entry_facts_def by (simp only: list.case) (rule propagate_closed)

lemma infer_block_entry_facts_ok:
  "bs = first_block # rest \<Longrightarrow> entries_ok (label first_block) (infer_block_entry_facts mcf bs)"
  unfolding infer_block_entry_facts_def
  by (simp only: list.case) (rule propagate_ok, simp add: entries_ok_def)

end
