(* ===== verification/Fact_Soundness.thy ===== *)
theory Fact_Soundness
  imports Fact_Inference
begin

text \<open>
  What the inferred facts mean, and that they are true of every execution that leaves the analysed
  part of a function only through its ordinary edges.

  CPython is not part of the repository. It is the parameter \<open>P :: 'v python\<close>: an abstract type of
  objects with the observations the facts speak about and the relations of results operators and
  calls may return. What the analysis relies on is collected in \<open>python_laws\<close>.

  \<open>evaluates\<close>, \<open>exec_instr\<close> and \<open>exec_term\<close> describe which values and frames an instruction may
  produce when it succeeds. They leave open everything the analysis does not look at: the value of a
  global, of a cell or of an unknown call is arbitrary. An instruction below the statement level
  changes a local only by taking an operand, as
  \<^verbatim>\<open>soac_lowering/src/passes/blockpy_to_bb/exception_pass/operand_cleanup.rs\<close> notes (``the only
  nested binding write is TakeOperand'').
\<close>

section \<open>Python objects\<close>

record 'v python =
  py_none :: 'v
  py_true :: 'v
  py_false :: 'v
  py_type :: "'v \<Rightarrow> py_exact_type option"
  py_truth :: "'v \<Rightarrow> bool"
  py_immortal :: "'v \<Rightarrow> bool"
  py_tuple :: "'v \<Rightarrow> bool"
  py_runtime :: "runtime_name \<Rightarrow> 'v"
  py_constant :: "nat \<Rightarrow> 'v"
  py_binary :: "bin_op_kind \<Rightarrow> 'v \<Rightarrow> 'v \<Rightarrow> 'v \<Rightarrow> bool"
  py_unary :: "unary_op_kind \<Rightarrow> 'v \<Rightarrow> 'v \<Rightarrow> bool"
  py_call :: "'v \<Rightarrow> 'v \<Rightarrow> bool"

fun singleton_object :: "'v python \<Rightarrow> runtime_singleton \<Rightarrow> 'v" where
  "singleton_object P NoneSingleton = py_none P"
| "singleton_object P TrueSingleton = py_true P"
| "singleton_object P FalseSingleton = py_false P"

text \<open>\<open>holds P f v\<close>: every claim of \<open>f\<close> is true of the object \<open>v\<close>.\<close>

definition holds :: "'v python \<Rightarrow> py_obj_facts \<Rightarrow> 'v \<Rightarrow> bool" where
  "holds P f v \<longleftrightarrow>
     (\<forall>t. ty f = Exact t \<longrightarrow> py_type P v = Some t) \<and>
     (truthiness f = AlwaysTrue \<longrightarrow> py_truth P v) \<and>
     (truthiness f = AlwaysFalse \<longrightarrow> \<not> py_truth P v) \<and>
     (none f = IsNone \<longrightarrow> v = py_none P) \<and>
     (none f = IsNotNone \<longrightarrow> v \<noteq> py_none P) \<and>
     (bool_singleton f = IsTrue \<longrightarrow> v = py_true P) \<and>
     (bool_singleton f = IsFalse \<longrightarrow> v = py_false P) \<and>
     (refcount f = Immortal \<longrightarrow> py_immortal P v) \<and>
     (\<forall>s. provenance f = SingletonProvenance s \<longrightarrow> v = singleton_object P s) \<and>
     (\<forall>i. provenance f = ModuleConstantProvenance i \<longrightarrow> v = py_constant P (unat i)) \<and>
     (\<forall>h. callable f = RuntimeHelper h \<longrightarrow>
        (\<exists>r. from_runtime_symbol (runtime_spelling r) = Some h \<and> v = py_runtime P r))"

section \<open>What the analysis relies on\<close>

definition singleton_laws :: "'v python \<Rightarrow> bool" where
  "singleton_laws P \<longleftrightarrow>
     py_none P \<noteq> py_true P \<and> py_none P \<noteq> py_false P \<and> py_true P \<noteq> py_false P \<and>
     (\<forall>v. py_type P v = Some NoneTypeExact \<longleftrightarrow> v = py_none P) \<and>
     (\<forall>v. py_type P v = Some BoolExact \<longleftrightarrow> v = py_true P \<or> v = py_false P) \<and>
     \<not> py_truth P (py_none P) \<and> py_truth P (py_true P) \<and> \<not> py_truth P (py_false P) \<and>
     py_immortal P (py_none P) \<and> py_immortal P (py_true P) \<and> py_immortal P (py_false P) \<and>
     \<not> py_tuple P (py_none P)"

definition runtime_laws :: "'v python \<Rightarrow> bool" where
  "runtime_laws P \<longleftrightarrow>
     py_runtime P (RuntimeName ''NONE'') = py_none P \<and>
     py_runtime P (RuntimeName ''TRUE'') = py_true P \<and>
     py_runtime P (RuntimeName ''FALSE'') = py_false P \<and>
     (\<forall>r h. from_runtime_symbol (runtime_spelling r) = Some h \<longrightarrow>
        py_runtime P r \<noteq> py_none P \<and> py_truth P (py_runtime P r))"

text \<open>
  The helpers whose result is never \<open>None\<close> whatever the program does: a dictionary, a cell, a tuple
  and a function. The other helpers hand on objects the program chooses, see \<open>Runtime_Helpers\<close>.
\<close>

definition trusted_helpers :: "runtime_helper_id list" where
  "trusted_helpers = [GlobalsHelper, CellRefHelper, TupleFromIterHelper, MakeFunctionHelper]"

definition helper_laws :: "'v python \<Rightarrow> bool" where
  "helper_laws P \<longleftrightarrow>
     (\<forall>r h v. from_runtime_symbol (runtime_spelling r) = Some h \<longrightarrow> List.member trusted_helpers h \<longrightarrow>
        py_call P (py_runtime P r) v \<longrightarrow> v \<noteq> py_none P)"

definition trusted_call :: "value_facts list \<Rightarrow> instr \<Rightarrow> bool" where
  "trusted_call mcf e =
     (case e of
        Call _ func _ _ _ \<Rightarrow>
          (case runtime_helper (infer_expr_facts mcf func) of
             Some h \<Rightarrow> List.member trusted_helpers h
           | None \<Rightarrow> True)
      | _ \<Rightarrow> True)"

definition int_arithmetic :: "bin_op_kind list" where
  "int_arithmetic =
     [AddOp, SubOp, MulOp, FloorDivOp, ModOp, LShiftOp, RShiftOp, OrOp, XorOp, AndOp, InplaceAddOp,
      InplaceSubOp, InplaceMulOp, InplaceFloorDivOp, InplaceModOp, InplaceLShiftOp, InplaceRShiftOp,
      InplaceOrOp, InplaceXorOp, InplaceAndOp]"

definition operator_laws :: "'v python \<Rightarrow> bool" where
  "operator_laws P \<longleftrightarrow>
     (\<forall>k a b v. py_type P a = Some IntExact \<longrightarrow> py_type P b = Some IntExact \<longrightarrow> py_binary P k a b v \<longrightarrow>
        (k \<in> set int_arithmetic \<longrightarrow> py_type P v = Some IntExact) \<and>
        (k \<in> {TrueDivOp, InplaceTrueDivOp} \<longrightarrow> py_type P v = Some FloatExact) \<and>
        (k \<in> {EqOp, NeOp, LtOp, LeOp, GtOp, GeOp} \<longrightarrow> py_type P v = Some BoolExact)) \<and>
     (\<forall>k a v. py_type P a = Some IntExact \<longrightarrow> py_unary P k a v \<longrightarrow>
        (k \<in> {PosOp, NegOp, InvertOp} \<longrightarrow> py_type P v = Some IntExact)) \<and>
     (\<forall>a v. py_unary P TruthOp a v \<longleftrightarrow> v = (if py_truth P a then py_true P else py_false P)) \<and>
     (\<forall>a v. py_unary P NotOp a v \<longleftrightarrow> v = (if py_truth P a then py_false P else py_true P)) \<and>
     (\<forall>a b v. py_binary P IsOp a b v \<longleftrightarrow> v = (if a = b then py_true P else py_false P))"

text \<open>The integer a decimal text denotes; it may exceed every machine width.\<close>

definition int_text :: "string \<Rightarrow> bool" where
  "int_text s =
     (case s of c # ds \<Rightarrow> parse_digits (if c = CHR ''-'' then ds else s) \<noteq> None | [] \<Rightarrow> False)"

definition int_of_text :: "string \<Rightarrow> int" where
  "int_of_text s =
     (case s of
        c # ds \<Rightarrow> if c = CHR ''-'' then - int (decimal_value ds) else int (decimal_value s)
      | [] \<Rightarrow> 0)"

fun literal_object :: "'v python \<Rightarrow> literal \<Rightarrow> 'v \<Rightarrow> bool" where
  "literal_object P (StringLiteral s) v \<longleftrightarrow>
     py_type P v = Some StrExact \<and> (py_truth P v \<longleftrightarrow> s \<noteq> [])"
| "literal_object P (BytesLiteral bs) v \<longleftrightarrow>
     py_type P v = Some BytesExact \<and> (py_truth P v \<longleftrightarrow> bs \<noteq> [])"
| "literal_object P (NumberLiteral (IntLiteral s)) v \<longleftrightarrow>
     int_text s \<and> py_type P v = Some IntExact \<and> (py_truth P v \<longleftrightarrow> int_of_text s \<noteq> 0)"
| "literal_object P (NumberLiteral (FloatLiteral bits)) v \<longleftrightarrow>
     py_type P v = Some FloatExact \<and> (py_truth P v \<longleftrightarrow> bits \<noteq> 0 \<and> bits \<noteq> 0x8000000000000000)"

fun constant_object :: "'v python \<Rightarrow> constant_expr \<Rightarrow> 'v \<Rightarrow> bool" where
  "constant_object P (LiteralConstant l) v \<longleftrightarrow> literal_object P l v"
| "constant_object P (RuntimeNameConstant r) v \<longleftrightarrow> v = py_runtime P r"

definition constant_laws :: "'v python \<Rightarrow> constant_expr list \<Rightarrow> bool" where
  "constant_laws P ks \<longleftrightarrow>
     (\<forall>i < length ks. constant_object P (ks ! i) (py_constant P i) \<and> py_immortal P (py_constant P i))"

definition python_laws :: "'v python \<Rightarrow> constant_expr list \<Rightarrow> bool" where
  "python_laws P ks \<longleftrightarrow>
     singleton_laws P \<and> runtime_laws P \<and> helper_laws P \<and> operator_laws P \<and> constant_laws P ks"

section \<open>Execution\<close>

type_synonym 'v frame = "local_location \<Rightarrow> 'v option"

fun unread_location :: "name_location \<Rightarrow> bool" where
  "unread_location (Local _) = False"
| "unread_location (Constant _) = False"
| "unread_location (AtRuntimeName _) = False"
| "unread_location _ = True"

fun opaque :: "instr \<Rightarrow> bool" where
  "opaque (Load _ _ _) = False"
| "opaque (Call _ _ args kws _) = (kws \<noteq> [] \<or> \<not> list_all is_positional args)"
| "opaque (BinOp _ _ _ _) = False"
| "opaque (UnaryOp _ _ _) = False"
| "opaque (SetAttr _ _ _ _) = False"
| "opaque (SetItem _ _ _ _) = False"
| "opaque (DelItem _ _ _) = False"
| "opaque (Del _ _ _) = False"
| "opaque (Tuple _ _) = False"
| "opaque _ = True"

fun returns_none :: "instr \<Rightarrow> bool" where
  "returns_none (SetAttr _ _ _ _) = True"
| "returns_none (SetItem _ _ _ _) = True"
| "returns_none (DelItem _ _ _) = True"
| "returns_none (Del _ _ _) = True"
| "returns_none _ = False"

inductive evaluates :: "'v python \<Rightarrow> constant_expr list \<Rightarrow> 'v frame \<Rightarrow> instr \<Rightarrow> 'v \<Rightarrow> bool"
  for P ks fr
where
  load_local: "local_of name = Some l \<Longrightarrow> fr l = Some v \<Longrightarrow> evaluates P ks fr (Load m name c) v"
| load_constant:
    "name_location name = Constant i \<Longrightarrow> unat i < length ks \<Longrightarrow> v = py_constant P (unat i) \<Longrightarrow>
     evaluates P ks fr (Load m name c) v"
| load_runtime:
    "name_location name = AtRuntimeName r \<Longrightarrow> v = py_runtime P r \<Longrightarrow>
     evaluates P ks fr (Load m name c) v"
| load_other: "unread_location (name_location name) \<Longrightarrow> evaluates P ks fr (Load m name c) v"
| call:
    "evaluates P ks fr func callee \<Longrightarrow> py_call P callee v \<Longrightarrow>
     evaluates P ks fr (Call m func args [] ns) v"
| binary:
    "evaluates P ks fr left a \<Longrightarrow> evaluates P ks fr right b \<Longrightarrow> py_binary P kind a b v \<Longrightarrow>
     evaluates P ks fr (BinOp m kind left right) v"
| unary:
    "evaluates P ks fr operand a \<Longrightarrow> py_unary P kind a v \<Longrightarrow>
     evaluates P ks fr (UnaryOp m kind operand) v"
| returns_none: "returns_none e \<Longrightarrow> v = py_none P \<Longrightarrow> evaluates P ks fr e v"
| tuple: "py_tuple P v \<Longrightarrow> evaluates P ks fr (Tuple m es) v"
| opaque: "opaque e \<Longrightarrow> evaluates P ks fr e v"

inductive_cases evaluates_LoadE: "evaluates P ks fr (Load m name c) v"
inductive_cases evaluates_BinOpE: "evaluates P ks fr (BinOp m kind left right) v"
inductive_cases evaluates_UnaryOpE: "evaluates P ks fr (UnaryOp m kind operand) v"

text \<open>A frame after the operands of an instruction have been taken.\<close>

definition take_operands :: "operand_location list \<Rightarrow> 'v frame \<Rightarrow> 'v frame" where
  "take_operands takes fr = (\<lambda>l. if LocalOperand l \<in> set takes then None else fr l)"

fun written_local :: "instr \<Rightarrow> local_location option" where
  "written_local (Store _ name _ _ _) = local_of name"
| "written_local (Del _ name _) = local_of name"
| "written_local (CallArgumentOp _ kind _ buffer _) =
     (if replaces_buffer kind then local_of buffer else None)"
| "written_local _ = None"

inductive exec_instr :: "'v python \<Rightarrow> constant_expr list \<Rightarrow> 'v frame \<Rightarrow> instr \<Rightarrow> 'v frame \<Rightarrow> bool"
  for P ks fr
where
  exec_store:
    "evaluates P ks fr val v \<Longrightarrow> local_of name = Some l \<Longrightarrow>
     fr' = (take_operands (operand_takes (Store m name val lt p)) fr)(l := Some v) \<Longrightarrow>
     exec_instr P ks fr (Store m name val lt p) fr'"
| exec_delete:
    "local_of name = Some l \<Longrightarrow> fr' = fr(l := None) \<Longrightarrow> exec_instr P ks fr (Del m name q) fr'"
| exec_replace_buffer:
    "replaces_buffer kind \<Longrightarrow> local_of buffer = Some l \<Longrightarrow>
     fr' = (take_operands (operand_takes (CallArgumentOp m kind callee buffer val)) fr)(l := x) \<Longrightarrow>
     exec_instr P ks fr (CallArgumentOp m kind callee buffer val) fr'"
| exec_other:
    "written_local e = None \<Longrightarrow> fr' = take_operands (operand_takes e) fr \<Longrightarrow>
     exec_instr P ks fr e fr'"

fun exec_body :: "'v python \<Rightarrow> constant_expr list \<Rightarrow> 'v frame \<Rightarrow> instr list \<Rightarrow> 'v frame \<Rightarrow> bool" where
  "exec_body P ks fr [] fr' = (fr' = fr)"
| "exec_body P ks fr (e # es) fr' = (\<exists>fr1. exec_instr P ks fr e fr1 \<and> exec_body P ks fr1 es fr')"

inductive exec_term ::
  "'v python \<Rightarrow> constant_expr list \<Rightarrow> 'v frame \<Rightarrow> block_term \<Rightarrow> block_label \<Rightarrow> 'v frame \<Rightarrow> bool"
  for P ks fr
where
  term_jump:
    "target = edge_target edge \<Longrightarrow> (edge_args edge = [] \<Longrightarrow> fr' = fr) \<Longrightarrow>
     exec_term P ks fr (Jump edge) target fr'"
| term_if:
    "evaluates P ks fr test v \<Longrightarrow> target = (if py_truth P v then t else e) \<Longrightarrow>
     fr' = take_operands (operand_takes test) fr \<Longrightarrow> exec_term P ks fr (IfTerm test t e) target fr'"
| term_branch:
    "target \<in> set (targets @ [d]) \<Longrightarrow> fr' = take_operands (operand_takes idx) fr \<Longrightarrow>
     exec_term P ks fr (BranchTable idx targets d) target fr'"

text \<open>
  The states of a function are a block label and the frame on entry to that block. An exception
  leaves a block after a prefix of its body; operands it had taken are gone.
\<close>

inductive transition ::
  "'v python \<Rightarrow> constant_expr list \<Rightarrow> block list \<Rightarrow> block_label \<times> 'v frame \<Rightarrow> block_label \<times> 'v frame \<Rightarrow> bool"
  for P ks bs
where
  ordinary:
    "b \<in> set bs \<Longrightarrow> exec_body P ks fr (body b) fr1 \<Longrightarrow>
     exec_term P ks fr1 (block_terminator b) target fr' \<Longrightarrow>
     transition P ks bs (label b, fr) (target, fr')"
| exceptional:
    "b \<in> set bs \<Longrightarrow> exc_edge b = Some edge \<Longrightarrow> body b = done @ rest \<Longrightarrow>
     exec_body P ks fr done fr1 \<Longrightarrow>
     (edge_args edge = [] \<Longrightarrow> \<forall>l. fr' l = fr1 l \<or> fr' l = None) \<Longrightarrow>
     transition P ks bs (label b, fr) (edge_target edge, fr')"

inductive reachable :: "'v python \<Rightarrow> constant_expr list \<Rightarrow> block list \<Rightarrow> block_label \<times> 'v frame \<Rightarrow> bool"
  for P ks bs
where
  start: "bs = b # rest \<Longrightarrow> reachable P ks bs (label b, fr)"
| step: "reachable P ks bs s \<Longrightarrow> transition P ks bs s s' \<Longrightarrow> reachable P ks bs s'"

text \<open>The labels an exception can reach, directly or through the code of its handlers.\<close>

inductive_set exceptional_labels :: "block list \<Rightarrow> block_label set" for bs where
  handler: "b \<in> set bs \<Longrightarrow> exc_edge b = Some edge \<Longrightarrow> edge_target edge \<in> exceptional_labels bs"
| continues:
    "b \<in> set bs \<Longrightarrow> label b \<in> exceptional_labels bs \<Longrightarrow> t \<in> set (term_labels (block_terminator b)) \<Longrightarrow>
     t \<in> exceptional_labels bs"

text \<open>The facts about a local: its object, if it is bound, and \<open>NonNull\<close> only if it is bound.\<close>

definition slot_holds :: "'v python \<Rightarrow> py_obj_facts \<Rightarrow> 'v option \<Rightarrow> bool" where
  "slot_holds P f slot = (case slot of Some v \<Rightarrow> holds P f v | None \<Rightarrow> nullability f \<noteq> NonNull)"

definition frame_ok :: "'v python \<Rightarrow> 'v frame \<Rightarrow> env_facts \<Rightarrow> bool" where
  "frame_ok P fr env = (\<forall>l f. map_of env l = Some f \<longrightarrow> slot_holds P f (fr l))"

section \<open>Facts of constants and operators\<close>

lemma holds_type: "holds P f v \<Longrightarrow> ty f = Exact t \<Longrightarrow> py_type P v = Some t"
  unfolding holds_def by blast

lemma holds_helper:
  "holds P f v \<Longrightarrow> callable f = RuntimeHelper h \<Longrightarrow>
   \<exists>r. from_runtime_symbol (runtime_spelling r) = Some h \<and> v = py_runtime P r"
  unfolding holds_def by blast

lemma holds_is_none: "holds P f v \<Longrightarrow> none f = IsNone \<Longrightarrow> v = py_none P"
  unfolding holds_def by blast

lemma holds_is_true: "holds P f v \<Longrightarrow> bool_singleton f = IsTrue \<Longrightarrow> v = py_true P"
  unfolding holds_def by blast

lemma holds_is_false: "holds P f v \<Longrightarrow> bool_singleton f = IsFalse \<Longrightarrow> v = py_false P"
  unfolding holds_def by blast

lemma holds_unknown [simp]: "holds P unknown_facts v"
  by (simp add: holds_def unknown_facts_def)

lemma below_claims:
  assumes "facts_below f g"
  shows "ty f = Exact t \<Longrightarrow> ty g = Exact t"
    and "truthiness f \<noteq> TruthinessUnknown \<Longrightarrow> truthiness g = truthiness f"
    and "none f \<noteq> NoneUnknown \<Longrightarrow> none g = none f"
    and "nullability f \<noteq> NullabilityUnknown \<Longrightarrow> nullability g = nullability f"
    and "bool_singleton f \<noteq> BoolSingletonUnknown \<Longrightarrow> bool_singleton g = bool_singleton f"
    and "refcount f \<noteq> RefcountUnknown \<Longrightarrow> refcount g = refcount f"
    and "provenance f \<noteq> ProvenanceUnknown \<Longrightarrow> provenance g = provenance f"
    and "callable f \<noteq> CallableUnknown \<Longrightarrow> callable g = callable f"
  using assms unfolding facts_below_def by (metis type_fact.distinct(1))+

lemma holds_below:
  assumes "facts_below f g" and "holds P g v"
  shows "holds P f v"
  using assms(2) below_claims [OF assms(1)] unfolding holds_def
  by (elim conjE, intro conjI allI impI) (metis below_claims [OF assms(1)]
      truthiness_fact.distinct none_fact.distinct bool_singleton_fact.distinct
      refcount_fact.distinct provenance_fact.distinct callable_fact.distinct)+

lemma slot_holds_below:
  assumes "facts_below f g" and "slot_holds P g slot"
  shows "slot_holds P f slot"
  using assms holds_below [OF assms(1)] below_claims(4) [OF assms(1)]
  by (cases slot) (auto simp: slot_holds_def)

lemma slot_holds_Some [simp]: "slot_holds P f (Some v) = holds P f v"
  by (simp add: slot_holds_def)

lemma none_type:
  "singleton_laws P \<Longrightarrow> py_type P v = Some NoneTypeExact \<longleftrightarrow> v = py_none P"
  by (simp add: singleton_laws_def)

lemma bool_type:
  "singleton_laws P \<Longrightarrow> py_type P v = Some BoolExact \<longleftrightarrow> v = py_true P \<or> v = py_false P"
  by (simp add: singleton_laws_def)

lemma singleton_objects:
  assumes "singleton_laws P"
  shows "py_true P \<noteq> py_none P" "py_false P \<noteq> py_none P" "\<not> py_truth P (py_none P)"
    "py_truth P (py_true P)" "\<not> py_truth P (py_false P)" "py_immortal P (py_none P)"
    "py_immortal P (py_true P)" "py_immortal P (py_false P)" "\<not> py_tuple P (py_none P)"
    "py_true P \<noteq> py_false P"
  using assms unfolding singleton_laws_def by metis+

lemma holds_none: "singleton_laws P \<Longrightarrow> holds P none_singleton (py_none P)"
  by (simp add: none_type singleton_objects holds_def none_singleton_def)

lemma holds_bool:
  "singleton_laws P \<Longrightarrow> holds P (bool_singleton_facts b) (if b then py_true P else py_false P)"
  by (cases b) (simp_all add: bool_type singleton_objects holds_def bool_singleton_facts_def)

lemma holds_not_none: "v \<noteq> py_none P \<Longrightarrow> holds P known_not_none v"
  by (simp add: holds_def known_not_none_def)

lemma none_fact_for_exact_type_holds:
  "singleton_laws P \<Longrightarrow> py_type P v = Some t \<Longrightarrow>
   (none_fact_for_exact_type t = IsNone \<longrightarrow> v = py_none P) \<and>
   (none_fact_for_exact_type t = IsNotNone \<longrightarrow> v \<noteq> py_none P)"
  using none_type [of P v] by (cases t) auto

lemma holds_exact_truth:
  "singleton_laws P \<Longrightarrow> py_type P v = Some t \<Longrightarrow>
   (truth = AlwaysTrue \<longrightarrow> py_truth P v) \<Longrightarrow> (truth = AlwaysFalse \<longrightarrow> \<not> py_truth P v) \<Longrightarrow>
   holds P (exact_type_with_truthiness t truth) v"
  using none_fact_for_exact_type_holds [of P v t]
  by (simp add: holds_def exact_type_with_truthiness_def)

lemma exact_type_unknown_truth: "exact_type t = exact_type_with_truthiness t TruthinessUnknown"
  by (simp add: exact_type_def exact_type_with_truthiness_def)

lemma holds_exact: "singleton_laws P \<Longrightarrow> py_type P v = Some t \<Longrightarrow> holds P (exact_type t) v"
  unfolding exact_type_unknown_truth by (rule holds_exact_truth) simp_all

lemma holds_bool_object: "singleton_laws P \<Longrightarrow> py_type P v = Some BoolExact \<Longrightarrow> holds P bool_object v"
  using bool_type [of P v] singleton_objects [of P]
  by (auto simp: holds_def bool_object_def)

lemma truthiness_of_simps [simp]:
  "truthiness_of b = AlwaysTrue \<longleftrightarrow> b" "truthiness_of b = AlwaysFalse \<longleftrightarrow> \<not> b"
  by (simp_all add: truthiness_of_def)

text \<open>The machine parse of an integer literal decides whether the unbounded integer is zero.\<close>

lemma parse_digits_value: "parse_digits ds = Some n \<Longrightarrow> n = decimal_value ds"
  by (simp add: parse_digits_def split: if_splits)

lemma plus_no_digit: "\<not> is_ascii_digit CHR ''+''"
  by (simp add: is_ascii_digit_def)

lemma parse_digits_plus: "parse_digits (CHR ''+'' # ds) = None"
  by (simp add: parse_digits_def plus_no_digit)

lemma int_text_parse:
  assumes "int_text s"
  shows "(case parse_i64 s of None \<Rightarrow> True | Some v \<Rightarrow> v \<noteq> 0) \<longleftrightarrow> int_of_text s \<noteq> 0"
proof (cases s)
  case (Cons c ds)
  show ?thesis
  proof (cases "c = CHR ''-''")
    case True
    then obtain n where "parse_digits ds = Some n"
      using assms Cons by (auto simp: int_text_def)
    then show ?thesis
      using Cons True parse_digits_value [of ds n]
      by (auto simp: parse_i64_def int_of_text_def)
  next
    case False
    then obtain n where n: "parse_digits s = Some n"
      using assms Cons by (auto simp: int_text_def)
    then have "c \<noteq> CHR ''+''"
      using Cons parse_digits_plus by auto
    then show ?thesis
      using Cons False n parse_digits_value [of s n]
      by (auto simp: parse_i64_def int_of_text_def)
  qed
qed (use assms in \<open>simp add: int_text_def\<close>)

lemma multiple_below_two:
  fixes n m :: nat
  assumes "n < 2 * m"
  shows "n mod m = 0 \<longleftrightarrow> n = 0 \<or> n = m"
proof
  assume "n mod m = 0"
  then obtain k where k: "n = m * k"
    by (auto simp: mod_eq_0_iff_dvd elim: dvdE)
  then have "k < 2"
    using assms by (simp add: mult.commute)
  then show "n = 0 \<or> n = m"
    using k by (auto simp: less_2_cases_iff)
qed auto

lemma float_nonzero_iff: "float_nonzero bits \<longleftrightarrow> bits \<noteq> 0 \<and> bits \<noteq> 0x8000000000000000"
proof -
  have "and bits (0x7FFFFFFFFFFFFFFF :: u64) = take_bit 63 bits"
    by (simp add: take_bit_eq_mask mask_eq_exp_minus_1)
  moreover have "unat (take_bit 63 bits) = unat bits mod 2 ^ 63"
    unfolding unsigned_take_bit_eq by (rule take_bit_eq_mod)
  moreover have "unat bits mod 2 ^ 63 = 0 \<longleftrightarrow> unat bits = 0 \<or> unat bits = 2 ^ 63"
  proof (rule multiple_below_two)
    have "unat bits < 2 ^ LENGTH(64)" by (rule unsigned_less)
    then show "unat bits < 2 * 2 ^ 63" by simp
  qed
  moreover have "bits = 0x8000000000000000 \<longleftrightarrow> unat bits = 2 ^ 63" "bits = 0 \<longleftrightarrow> unat bits = 0"
    by (simp_all add: word_unat_eq_iff)
  ultimately show ?thesis
    unfolding float_nonzero_def by (metis unat_eq_zero)
qed

lemma literal_facts_hold:
  assumes "singleton_laws P" and "literal_object P l v"
  shows "\<exists>f. infer_literal_facts l = PyObj f \<and> holds P f v"
proof (cases l)
  case (NumberLiteral n)
  then show ?thesis
    using assms int_text_parse float_nonzero_iff
    by (cases n) (auto intro!: holds_exact_truth)
qed (use assms in \<open>auto intro!: holds_exact_truth\<close>)

lemma runtime_name_facts_hold:
  assumes "singleton_laws P" and "runtime_laws P" and "infer_runtime_name_facts r = Some g"
  shows "\<exists>f. g = PyObj f \<and> holds P f (py_runtime P r)"
proof -
  have helper: "holds P (runtime_helper_facts h) (py_runtime P r)"
    if "from_runtime_symbol (runtime_spelling r) = Some h" for h
    using assms(2) that by (auto simp: runtime_laws_def holds_def runtime_helper_facts_def)
  show ?thesis
    using assms holds_none [of P] holds_bool [of P True] holds_bool [of P False] helper
    by (auto simp: infer_runtime_name_facts_def runtime_laws_def split: if_splits)
qed



section \<open>Facts of expressions\<close>

definition value_holds :: "'v python \<Rightarrow> value_facts \<Rightarrow> 'v \<Rightarrow> bool" where
  "value_holds P g v = (case as_pyobj g of Some f \<Rightarrow> holds P f v | None \<Rightarrow> False)"

lemma value_holds_PyObj [simp]: "value_holds P (PyObj f) v = holds P f v"
  by (simp add: value_holds_def)

lemma value_holds_unknown [simp]: "value_holds P unknown_pyobj v"
  by (simp add: unknown_pyobj_def)

lemma value_holds_or_unknown:
  "(\<And>g. f = Some g \<Longrightarrow> value_holds P g v) \<Longrightarrow> value_holds P (or_unknown f) v"
  by (cases f) (simp_all add: or_unknown_def)

lemma constant_facts_hold:
  assumes "singleton_laws P" and "runtime_laws P" and "constant_object P k v"
  shows "value_holds P (infer_module_constant_facts k) v"
proof (cases k)
  case (LiteralConstant l)
  then show ?thesis
    using literal_facts_hold [OF assms(1), of l v] assms(3) by auto
next
  case (RuntimeNameConstant r)
  then show ?thesis
    using runtime_name_facts_hold [OF assms(1,2), of r] assms(3)
    by (auto split: option.splits)
qed

lemma infer_module_constant_facts_PyObj: "\<exists>f. infer_module_constant_facts k = PyObj f"
proof (cases k)
  case (LiteralConstant l)
  then show ?thesis
    by (cases l rule: infer_literal_facts.cases) simp_all
next
  case (RuntimeNameConstant r)
  then show ?thesis
    by (auto simp: infer_runtime_name_facts_def unknown_pyobj_def split: option.splits)
qed

lemma constant_load_holds:
  assumes "python_laws P ks" and "unat i < length ks"
  shows "value_holds P (module_constant_load_fact i (map infer_module_constant_facts ks))
    (py_constant P (unat i))"
proof -
  obtain f where f: "infer_module_constant_facts (ks ! unat i) = PyObj f"
    using infer_module_constant_facts_PyObj by blast
  have "value_holds P (PyObj f) (py_constant P (unat i))" "py_immortal P (py_constant P (unat i))"
    using assms constant_facts_hold [of P "ks ! unat i" "py_constant P (unat i)"]
    by (auto simp: python_laws_def constant_laws_def f [symmetric])
  then show ?thesis
    using assms(2) f
    by (simp add: module_constant_load_fact_def holds_def with_immortal_refcount_def
        with_module_constant_def)
qed

lemma singleton_spellings:
  "runtime_name_from_name ''NONE'' = Some (RuntimeName ''NONE'')"
  "runtime_name_from_name ''TRUE'' = Some (RuntimeName ''TRUE'')"
  "runtime_name_from_name ''FALSE'' = Some (RuntimeName ''FALSE'')"
  by (simp_all add: runtime_name_from_name_def runtime_names_def)

lemma infer_runtime_name_load:
  "infer_runtime_name_load_facts name =
     Option.bind (location_runtime_name (name_location name)) infer_runtime_name_facts"
  by (cases "location_runtime_name (name_location name)")
    (simp_all add: infer_runtime_name_load_facts_def infer_runtime_name_facts_def is_runtime_symbol_def
      singleton_spellings runtime_name_id_def is_runtime_name_def id_str_def)

lemma load_local_facts: "local_of name = Some l \<Longrightarrow> load_facts mcf name = unknown_pyobj"
  by (cases "name_location name") (simp_all add: load_facts_def infer_runtime_name_load local_of_def)

lemma load_constant_facts:
  "name_location name = Constant i \<Longrightarrow> load_facts mcf name = module_constant_load_fact i mcf"
  by (simp add: load_facts_def infer_runtime_name_load)

lemma load_runtime_facts:
  "name_location name = AtRuntimeName r \<Longrightarrow> load_facts mcf name = or_unknown (infer_runtime_name_facts r)"
  by (simp add: load_facts_def infer_runtime_name_load or_unknown_def split: option.split)

lemma load_unread_facts: "unread_location (name_location name) \<Longrightarrow> load_facts mcf name = unknown_pyobj"
  by (cases "name_location name") (simp_all add: load_facts_def infer_runtime_name_load)

lemma trusted_result: "List.member trusted_helpers h \<Longrightarrow> runtime_helper_result h = PyObj known_not_none"
  by (cases h) (simp_all add: trusted_helpers_def)

lemma helper_result_holds:
  assumes "python_laws P ks" and "value_holds P g callee" and "runtime_helper g = Some h"
    and "List.member trusted_helpers h" and "py_call P callee v"
  shows "value_holds P (runtime_helper_result h) v"
proof -
  obtain f where f: "g = PyObj f" "callable f = RuntimeHelper h"
    using assms(3) by (cases g) (auto split: callable_fact.splits)
  then obtain r where r: "from_runtime_symbol (runtime_spelling r) = Some h" "callee = py_runtime P r"
    using assms(2) holds_helper [of P f callee h] by auto
  have "helper_laws P"
    using assms(1) by (simp add: python_laws_def)
  then have "v \<noteq> py_none P"
    using r assms(4,5) unfolding helper_laws_def by blast
  then show ?thesis
    by (simp add: trusted_result [OF assms(4)] holds_not_none)
qed


definition trusted_calls :: "value_facts list \<Rightarrow> instr \<Rightarrow> bool" where
  "trusted_calls mcf e = list_all (trusted_call mcf) (instrs e)"

lemma trusted_calls_call: "trusted_calls mcf e \<Longrightarrow> trusted_call mcf e"
  by (simp add: trusted_calls_def instrs.simps [of e])

lemma trusted_calls_child: "trusted_calls mcf e \<Longrightarrow> c \<in> set (children e) \<Longrightarrow> trusted_calls mcf c"
  by (auto simp: trusted_calls_def instrs.simps [of e] list_all_iff)

lemma exact_int_type:
  "is_exact_int_fact g \<Longrightarrow> value_holds P g v \<Longrightarrow> py_type P v = Some IntExact"
  by (cases g) (auto simp: is_exact_int_fact_def is_exact_type_def holds_type split: type_fact.splits)

lemma operator_truth:
  "operator_laws P \<Longrightarrow> py_unary P TruthOp a v \<longleftrightarrow> v = (if py_truth P a then py_true P else py_false P)"
  by (simp add: operator_laws_def)

lemma operator_not:
  "operator_laws P \<Longrightarrow> py_unary P NotOp a v \<longleftrightarrow> v = (if py_truth P a then py_false P else py_true P)"
  by (simp add: operator_laws_def)

lemma operator_is:
  "operator_laws P \<Longrightarrow> py_binary P IsOp a b v \<longleftrightarrow> v = (if a = b then py_true P else py_false P)"
  by (simp add: operator_laws_def)

lemma operator_sign:
  "operator_laws P \<Longrightarrow> py_type P a = Some IntExact \<Longrightarrow> py_unary P kind a v \<Longrightarrow>
   kind \<in> {PosOp, NegOp, InvertOp} \<Longrightarrow> py_type P v = Some IntExact"
  unfolding operator_laws_def by metis

lemma int_binop_facts_cases:
  "int_binop_facts kind = Some f \<Longrightarrow>
     f = exact_type IntExact \<and> kind \<in> set int_arithmetic \<or>
     f = exact_type FloatExact \<and> kind \<in> {TrueDivOp, InplaceTrueDivOp} \<or>
     f = bool_object \<and> kind \<in> {EqOp, NeOp, LtOp, LeOp, GtOp, GeOp}"
  by (cases kind) (simp_all add: int_arithmetic_def)

lemma int_binop_facts_hold:
  assumes "python_laws P ks" and "py_type P a = Some IntExact" and "py_type P b = Some IntExact"
    and "py_binary P kind a b v" and "int_binop_facts kind = Some f"
  shows "holds P f v"
proof -
  have laws: "singleton_laws P" "operator_laws P"
    using assms(1) by (simp_all add: python_laws_def)
  have types: "(kind \<in> set int_arithmetic \<longrightarrow> py_type P v = Some IntExact) \<and>
      (kind \<in> {TrueDivOp, InplaceTrueDivOp} \<longrightarrow> py_type P v = Some FloatExact) \<and>
      (kind \<in> {EqOp, NeOp, LtOp, LeOp, GtOp, GeOp} \<longrightarrow> py_type P v = Some BoolExact)"
    using laws(2) assms(2-4) unfolding operator_laws_def by blast
  show ?thesis
    using int_binop_facts_cases [OF assms(5)] types holds_exact [OF laws(1)]
      holds_bool_object [OF laws(1)]
    by metis
qed

lemma int_unary_facts_hold:
  assumes "python_laws P ks" and "py_type P a = Some IntExact" and "py_unary P kind a v"
  shows "holds P (int_unary_facts kind) v"
proof -
  have laws: "singleton_laws P" "operator_laws P"
    using assms(1) by (simp_all add: python_laws_def)
  show ?thesis
    using assms(3) operator_sign [OF laws(2) assms(2,3)] operator_truth [OF laws(2), of a v]
      operator_not [OF laws(2), of a v] holds_exact [OF laws(1), of v]
      holds_bool_object [OF laws(1), of v] bool_type [OF laws(1), of v]
    by (cases kind) (simp_all split: if_splits)
qed

lemma binop_result_holds:
  assumes "python_laws P ks" and "value_holds P g a" and "value_holds P h b"
    and "py_binary P kind a b v"
  shows "value_holds P (or_unknown (infer_binop_result_facts kind g h)) v"
proof (rule value_holds_or_unknown)
  fix r
  assume "infer_binop_result_facts kind g h = Some r"
  then obtain f where f: "is_exact_int_fact g" "is_exact_int_fact h" "int_binop_facts kind = Some f"
      "r = PyObj f"
    by (auto simp: infer_binop_result_facts_def split: if_splits)
  then have "py_type P a = Some IntExact" "py_type P b = Some IntExact"
    using exact_int_type [OF f(1) assms(2)] exact_int_type [OF f(2) assms(3)] by simp_all
  then show "value_holds P r v"
    using int_binop_facts_hold [OF assms(1) _ _ assms(4) f(3)] f(4) by simp
qed

lemma unary_result_holds:
  assumes "python_laws P ks" and "value_holds P g a" and "py_unary P kind a v"
  shows "value_holds P (or_unknown (infer_unary_result_facts kind g)) v"
proof (rule value_holds_or_unknown)
  fix r
  assume "infer_unary_result_facts kind g = Some r"
  then have r: "is_exact_int_fact g" "r = PyObj (int_unary_facts kind)"
    by (simp_all add: infer_unary_result_facts_def split: if_splits)
  show "value_holds P r v"
    using int_unary_facts_hold [OF assms(1) exact_int_type [OF r(1) assms(2)] assms(3)] r(2) by simp
qed

lemma infer_load: "infer_expr_facts mcf (Load m name c) = load_facts mcf name"
  by (simp add: infer_expr_facts.simps)

lemma opaque_facts: "opaque e \<Longrightarrow> infer_expr_facts mcf e = unknown_pyobj"
  by (subst infer_expr_facts.simps, cases e) auto

lemma returns_none_facts: "returns_none e \<Longrightarrow> infer_expr_facts mcf e = PyObj none_singleton"
  by (cases e) (simp_all add: infer_expr_facts.simps)

lemma call_result_holds:
  assumes "python_laws P ks" and "trusted_calls mcf (Call m func args [] ns)"
    and "value_holds P (infer_expr_facts mcf func) callee" and "py_call P callee v"
  shows "value_holds P (infer_expr_facts mcf (Call m func args [] ns)) v"
proof (cases "list_all is_positional args")
  case True
  have "value_holds P (or_unknown (map_option (signature_result \<circ> helper_signature)
      (runtime_helper (infer_expr_facts mcf func)))) v"
    using trusted_calls_call [OF assms(2)] helper_result_holds [OF assms(1,3) _ _ assms(4)]
    by (auto intro!: value_holds_or_unknown simp: trusted_call_def helper_signature_def)
  then show ?thesis
    using True by (simp add: infer_expr_facts.simps [of _ "Call m func args [] ns"])
qed (simp add: infer_expr_facts.simps)

lemma not_none_tuple: "singleton_laws P \<Longrightarrow> py_tuple P v \<Longrightarrow> v \<noteq> py_none P"
  by (auto simp: singleton_laws_def)

lemma infer_expr_facts_hold:
  assumes laws: "python_laws P ks" and mcf: "mcf = map infer_module_constant_facts ks"
  shows "evaluates P ks fr e v \<Longrightarrow> trusted_calls mcf e \<Longrightarrow> value_holds P (infer_expr_facts mcf e) v"
proof (induction rule: evaluates.induct)
  case (load_runtime name r v m c)
  have "\<exists>f. g = PyObj f \<and> holds P f (py_runtime P r)" if "infer_runtime_name_facts r = Some g" for g
    using runtime_name_facts_hold [of P r g] laws that by (simp add: python_laws_def)
  then show ?case
    using load_runtime
    by (auto simp: infer_load load_runtime_facts intro!: value_holds_or_unknown)
next
  case (call func callee v m args ns)
  then show ?case
    using call_result_holds [OF laws call.prems _ call.hyps(2)] trusted_calls_child [OF call.prems, of func]
    by simp
next
  case (binary left a right b kind v m)
  then show ?case
    using binop_result_holds [OF laws _ _ binary.hyps(3)] trusted_calls_child [OF binary.prems]
    by (simp add: infer_expr_facts.simps [of mcf "BinOp m kind left right"])
next
  case (unary operand a kind v m)
  then show ?case
    using unary_result_holds [OF laws _ unary.hyps(2)] trusted_calls_child [OF unary.prems]
    by (simp add: infer_expr_facts.simps [of mcf "UnaryOp m kind operand"])
next
  case (returns_none e v)
  then show ?case
    using laws by (simp add: returns_none_facts python_laws_def holds_none)
next
  case (tuple v m es)
  then show ?case
    using laws not_none_tuple [of P v]
    by (simp add: infer_expr_facts.simps holds_not_none python_laws_def)
qed (use laws mcf in \<open>simp_all add: infer_load load_local_facts load_constant_facts
    load_unread_facts constant_load_holds opaque_facts\<close>)


lemma in_env_call:
  "infer_expr_facts_in_env mcf env (Call m func args kws ns) = infer_expr_facts mcf (Call m func args kws ns)"
  by (simp add: infer_expr_facts_in_env.simps)

lemma in_env_opaque: "opaque e \<Longrightarrow> infer_expr_facts_in_env mcf env e = infer_expr_facts mcf e"
  by (subst infer_expr_facts_in_env.simps, cases e) simp_all

lemma in_env_returns_none:
  "returns_none e \<Longrightarrow> infer_expr_facts_in_env mcf env e = infer_expr_facts mcf e"
  by (subst infer_expr_facts_in_env.simps, cases e) simp_all

lemma in_env_load:
  "infer_expr_facts_in_env mcf env (Load m name c) =
     (case Option.bind (local_of name) (map_of env) of
        Some f \<Rightarrow> PyObj f | None \<Rightarrow> load_facts mcf name)"
  by (simp add: infer_expr_facts_in_env.simps infer_load local_pyobj_fact_def [abs_def] cong: option.case_cong)

lemma in_env_load_global:
  "local_of name = None \<Longrightarrow>
   infer_expr_facts_in_env mcf env (Load m name c) = infer_expr_facts mcf (Load m name c)"
  by (simp add: in_env_load infer_load)

lemma unread_not_local: "unread_location (name_location name) \<Longrightarrow> local_of name = None"
  by (cases "name_location name") (simp_all add: local_of_def)

lemma infer_expr_facts_in_env_hold:
  assumes laws: "python_laws P ks" and mcf: "mcf = map infer_module_constant_facts ks"
    and ok: "frame_ok P fr env"
  shows "evaluates P ks fr e v \<Longrightarrow> trusted_calls mcf e \<Longrightarrow>
    value_holds P (infer_expr_facts_in_env mcf env e) v"
proof (induction rule: evaluates.induct)
  case (load_local name l v m c)
  have "slot_holds P f (Some v)" if "map_of env l = Some f" for f
    using ok that load_local(2) unfolding frame_ok_def by metis
  then show ?case
    using load_local(1) load_local_facts [of name l mcf]
    by (simp add: in_env_load split: option.split)
next
  case (binary left a right b kind v m)
  then show ?case
    using binop_result_holds [OF laws _ _ binary.hyps(3)] trusted_calls_child [OF binary.prems]
    by (simp add: infer_expr_facts_in_env.simps [of mcf env "BinOp m kind left right"])
next
  case (unary operand a kind v m)
  then show ?case
    using unary_result_holds [OF laws _ unary.hyps(2)] trusted_calls_child [OF unary.prems]
    by (simp add: infer_expr_facts_in_env.simps [of mcf env "UnaryOp m kind operand"])
next
  case (load_constant name i v m c)
  then show ?case
    using infer_expr_facts_hold [OF laws mcf evaluates.load_constant load_constant.prems]
    by (simp add: in_env_load_global local_of_def)
next
  case (load_runtime name r v m c)
  then show ?case
    using infer_expr_facts_hold [OF laws mcf evaluates.load_runtime load_runtime.prems]
    by (simp add: in_env_load_global local_of_def)
next
  case (call func callee v m args ns)
  then show ?case
    using infer_expr_facts_hold [OF laws mcf evaluates.call call.prems] by (simp add: in_env_call)
next
  case (returns_none e v)
  then show ?case
    using infer_expr_facts_hold [OF laws mcf evaluates.returns_none returns_none.prems]
    by (simp add: in_env_returns_none)
next
  case (tuple v m es)
  then show ?case
    using infer_expr_facts_hold [OF laws mcf evaluates.tuple tuple.prems]
    by (simp add: infer_expr_facts_in_env.simps)
qed (simp_all add: in_env_opaque opaque_facts in_env_load_global infer_load unread_not_local
    load_unread_facts)

end
