(* ===== verification/Fact_Flow.thy ===== *)
theory Fact_Flow
  imports Fact_Soundness
begin

text \<open>
  The facts inferred for the entry of a block are true of the locals of every frame that reaches the
  block through ordinary control flow. Each step of the analysis is matched with a step of the
  execution: an instruction with \<open>transfer_instr_env\<close>, a branch with \<open>infer_if_edge_facts\<close>, an edge
  with the fixed point that \<open>propagate\<close> ends in.
\<close>

section \<open>Instructions\<close>

lemma map_of_remove_takes:
  "map_of (remove_takes takes env) l = (if LocalOperand l \<in> set takes then None else map_of env l)"
proof (induction takes arbitrary: env)
  case (Cons t takes)
  then show ?case
    by (cases t) (auto simp: remove_takes_def map_of_remove_local)
qed (simp add: remove_takes_def)

lemma frame_ok_remove_takes: "frame_ok P fr env \<Longrightarrow> frame_ok P fr (remove_takes takes env)"
  by (simp add: frame_ok_def map_of_remove_takes)

lemma frame_ok_take: "frame_ok P fr env \<Longrightarrow> frame_ok P (take_operands takes fr) (remove_takes takes env)"
  by (simp add: frame_ok_def map_of_remove_takes take_operands_def)

lemma frame_ok_remove:
  "frame_ok P fr env \<Longrightarrow> frame_ok P (fr(l := x)) (remove_local_pyobj_fact l env)"
  by (simp add: frame_ok_def map_of_remove_local)

lemma frame_ok_set:
  "frame_ok P fr env \<Longrightarrow> holds P f v \<Longrightarrow> frame_ok P (fr(l := Some v)) (set_local_pyobj_fact l f env)"
  by (simp add: frame_ok_def map_of_set_local)

lemma frame_ok_refine:
  "frame_ok P fr env \<Longrightarrow> (\<And>f. claim = Some f \<Longrightarrow> slot_holds P f (fr l)) \<Longrightarrow>
   frame_ok P fr (refine l claim env)"
  by (cases claim) (auto simp: frame_ok_def refine_def map_of_set_local split: if_splits)

lemma frame_ok_store:
  assumes "python_laws P ks" and "mcf = map infer_module_constant_facts ks"
    and "frame_ok P fr env" and "frame_ok P fr' env" and "local_of name = Some l"
    and "evaluates P ks fr val v" and "trusted_calls mcf val"
  shows "frame_ok P (fr'(l := Some v)) (store_local_facts mcf name val env)"
proof -
  have "value_holds P (infer_expr_facts_in_env mcf env val) v"
    by (rule infer_expr_facts_in_env_hold [OF assms(1-3,6,7)])
  then obtain f where "as_pyobj (infer_expr_facts_in_env mcf env val) = Some f" "holds P f v"
    by (auto simp: value_holds_def split: option.splits)
  then show ?thesis
    using assms(4,5) by (simp add: store_local_facts_def frame_ok_set)
qed

lemma transfer_other:
  "written_local e = None \<Longrightarrow>
   transfer_instr_env mcf e env = remove_takes (operand_takes e) env"
  by (cases e)
    (simp_all add: transfer_instr_env_def store_local_facts_def remove_name_fact_def
      written_names_def split: if_splits)

lemma exec_instr_frame_ok:
  assumes "python_laws P ks" and "mcf = map infer_module_constant_facts ks"
    and "frame_ok P fr env" and "trusted_calls mcf e" and "exec_instr P ks fr e fr'"
  shows "frame_ok P fr' (transfer_instr_env mcf e env)"
  using assms(5)
proof cases
  case (exec_store val v name l m lt p)
  let ?takes = "operand_takes (Store m name val lt p)"
  have "trusted_calls mcf val"
    using assms(4) exec_store trusted_calls_child [of mcf e val] by simp
  then show ?thesis
    using exec_store frame_ok_store [OF assms(1,2) frame_ok_remove_takes [OF assms(3)]
        frame_ok_take [OF assms(3)]]
    by (simp add: transfer_instr_env_def)
next
  case (exec_delete name l m q)
  then show ?thesis
    using frame_ok_remove [OF frame_ok_remove_takes [OF assms(3)]]
    by (simp add: transfer_instr_env_def remove_name_fact_def)
next
  case (exec_replace_buffer kind buffer l m callee val x)
  then show ?thesis
    using frame_ok_remove [OF frame_ok_take [OF assms(3)]]
    by (simp add: transfer_instr_env_def remove_name_fact_def written_names_def)
next
  case exec_other
  then show ?thesis
    using frame_ok_take [OF assms(3)] by (simp add: transfer_other)
qed

lemma exec_body_frame_ok:
  assumes "python_laws P ks" and "mcf = map infer_module_constant_facts ks"
  shows "frame_ok P fr env \<Longrightarrow> list_all (trusted_calls mcf) es \<Longrightarrow> exec_body P ks fr es fr' \<Longrightarrow>
    frame_ok P fr' (fold (transfer_instr_env mcf) es env)"
proof (induction es arbitrary: fr env)
  case (Cons e es)
  from Cons.prems(3) obtain fr1 where steps: "exec_instr P ks fr e fr1" "exec_body P ks fr1 es fr'"
    by auto
  have "frame_ok P fr1 (transfer_instr_env mcf e env)"
    using Cons.prems(1,2) exec_instr_frame_ok [OF assms _ _ steps(1)] by simp
  then show ?case
    using Cons.IH [OF _ _ steps(2)] Cons.prems(2) by simp
qed simp

section \<open>Branches\<close>

lemma evaluates_local:
  "evaluates P ks fr e v \<Longrightarrow> local_load_location e = Some l \<Longrightarrow> fr l = Some v"
  using unread_not_local
  by (cases e) (auto simp: local_load_location_def local_of_def elim!: evaluates_LoadE)

definition branch_holds :: "'v python \<Rightarrow> bool \<Rightarrow> 'v option \<Rightarrow> branch_facts \<Rightarrow> bool" where
  "branch_holds P truth slot facts \<longleftrightarrow>
     (\<forall>f v. (if truth then fst facts else snd facts) = Some f \<longrightarrow> slot = Some v \<longrightarrow> holds P f v)"

lemma singleton_branch_holds:
  assumes "python_laws P ks" and "mcf = map infer_module_constant_facts ks"
    and "expr_singleton_branch_facts mcf e = Some facts" and "evaluates P ks fr e b"
    and "trusted_calls mcf e"
  shows "branch_holds P (a = b) (Some a) facts"
proof -
  have laws: "singleton_laws P"
    using assms(1) by (simp add: python_laws_def)
  obtain f where f: "infer_expr_facts mcf e = PyObj f"
    using assms(3) by (cases "infer_expr_facts mcf e") (simp_all add: expr_singleton_branch_facts_def)
  have "holds P f b"
    using infer_expr_facts_hold [OF assms(1,2,4,5)] f by simp
  then have object: "is_none_facts f \<Longrightarrow> b = py_none P" "is_true_singleton f \<Longrightarrow> b = py_true P"
      "is_false_singleton f \<Longrightarrow> b = py_false P"
    by (simp_all add: is_none_facts_def is_true_singleton_def is_false_singleton_def
        holds_is_none holds_is_true holds_is_false)
  show ?thesis
    using assms(3) f object holds_none [OF laws] holds_bool [OF laws, of True]
      holds_bool [OF laws, of False] holds_not_none [of a P]
    by (auto simp: expr_singleton_branch_facts_def branch_holds_def split: if_splits)
qed


lemma evaluates_is:
  assumes "python_laws P ks" and "evaluates P ks fr (BinOp m IsOp left right) v"
  obtains a b where "evaluates P ks fr left a" "evaluates P ks fr right b" "py_truth P v \<longleftrightarrow> a = b"
proof -
  have laws: "singleton_laws P" "operator_laws P"
    using assms(1) by (simp_all add: python_laws_def)
  obtain a b where ab: "evaluates P ks fr left a" "evaluates P ks fr right b" "py_binary P IsOp a b v"
    using assms(2) by (auto elim: evaluates_BinOpE)
  then have "py_truth P v \<longleftrightarrow> a = b"
    using operator_is [OF laws(2), of a b v] singleton_objects(4,5) [OF laws(1)] by simp
  with ab(1,2) show thesis
    by (rule that)
qed

lemma evaluates_not:
  assumes "python_laws P ks" and "evaluates P ks fr (UnaryOp m NotOp operand) v"
  obtains a where "evaluates P ks fr operand a" "py_truth P v \<longleftrightarrow> \<not> py_truth P a"
proof -
  have laws: "singleton_laws P" "operator_laws P"
    using assms(1) by (simp_all add: python_laws_def)
  obtain a where a: "evaluates P ks fr operand a" "py_unary P NotOp a v"
    using assms(2) by (auto elim: evaluates_UnaryOpE)
  then have "py_truth P v \<longleftrightarrow> \<not> py_truth P a"
    using operator_not [OF laws(2), of a v] singleton_objects(4,5) [OF laws(1)] by simp
  with a(1) show thesis
    by (rule that)
qed

lemma comparison_branch_holds:
  assumes "python_laws P ks" and "mcf = map infer_module_constant_facts ks"
    and "evaluates P ks fr left a" and "evaluates P ks fr right b"
    and "trusted_calls mcf left" and "trusted_calls mcf right"
    and "infer_local_is_singleton_comparison mcf left right = Some (l, facts)"
  shows "branch_holds P (a = b) (fr l) facts"
proof (cases "expr_singleton_branch_facts mcf right")
  case None
  then have "expr_singleton_branch_facts mcf left = Some facts" "local_load_location right = Some l"
    using assms(7) by (auto simp: infer_local_is_singleton_comparison_def split: option.splits)
  then show ?thesis
    using singleton_branch_holds [OF assms(1,2) _ assms(3,5), of facts b]
      evaluates_local [OF assms(4)] by (simp add: eq_commute)
next
  case (Some found)
  then have "expr_singleton_branch_facts mcf right = Some facts" "local_load_location left = Some l"
    using assms(7) by (auto simp: infer_local_is_singleton_comparison_def)
  then show ?thesis
    using singleton_branch_holds [OF assms(1,2) _ assms(4,6), of facts a]
      evaluates_local [OF assms(3)] by simp
qed

lemma branch_holds_swap: "branch_holds P (\<not> t) slot (e, f) \<longleftrightarrow> branch_holds P t slot (f, e)"
  by (simp add: branch_holds_def)

lemma branch_local_fact_cases:
  assumes "infer_branch_local_fact mcf test = Some (l, facts)"
  obtains
    (comparison) m left right where "test = BinOp m IsOp left right"
      "infer_local_is_singleton_comparison mcf left right = Some (l, facts)"
  | (negation) m operand where "test = UnaryOp m NotOp operand"
      "infer_branch_local_fact mcf operand = Some (l, snd facts, fst facts)"
  using assms by (subst (asm) infer_branch_local_fact.simps, cases test) (auto split: if_splits)

lemma branch_facts_hold:
  assumes "python_laws P ks" and "mcf = map infer_module_constant_facts ks"
  shows "infer_branch_local_fact mcf test = Some (l, facts) \<Longrightarrow> evaluates P ks fr test v \<Longrightarrow>
    trusted_calls mcf test \<Longrightarrow> branch_holds P (py_truth P v) (fr l) facts"
proof (induction "size test" arbitrary: test facts v rule: less_induct)
  case less
  from less.prems(1) show ?case
  proof (cases rule: branch_local_fact_cases)
    case (comparison m left right)
    obtain a b where ab: "evaluates P ks fr left a" "evaluates P ks fr right b"
        "py_truth P v \<longleftrightarrow> a = b"
      using evaluates_is [OF assms(1)] less.prems(2) comparison(1) by metis
    have "trusted_calls mcf left" "trusted_calls mcf right"
      using trusted_calls_child [OF less.prems(3)] comparison(1) by simp_all
    then show ?thesis
      using comparison_branch_holds [OF assms ab(1,2) _ _ comparison(2)] ab(3) by simp
  next
    case (negation m operand)
    obtain a where a: "evaluates P ks fr operand a" "py_truth P v \<longleftrightarrow> \<not> py_truth P a"
      using evaluates_not [OF assms(1)] less.prems(2) negation(1) by metis
    have "trusted_calls mcf operand"
      using trusted_calls_child [OF less.prems(3)] negation(1) by simp
    then have "branch_holds P (py_truth P a) (fr l) (snd facts, fst facts)"
      using less.hyps [OF _ negation(2) a(1)] negation(1) by simp
    then show ?thesis
      using a(2) by (cases facts) (simp add: branch_holds_swap)
  qed
qed

section \<open>Edges\<close>

lemma frame_ok_below: "env_below env other \<Longrightarrow> frame_ok P fr other \<Longrightarrow> frame_ok P fr env"
  unfolding frame_ok_def env_below_def using slot_holds_below by metis

lemma covers_frame_ok:
  assumes "covers entries edge" and "entries_ok start entries" and "frame_ok P fr (snd edge)"
  shows "\<exists>env. map_of entries (fst edge) = Some env \<and> frame_ok P fr env"
proof -
  obtain env where env: "map_of entries (fst edge) = Some env" "intersect_with env (snd edge) = env"
    using assms(1) by (auto simp: covers_def)
  then have "distinct (map fst env)"
    using assms(2) by (auto simp: entries_ok_def env_ok_def)
  then have "env_below env (snd edge)"
    using intersect_with_lower(2) [of env "snd edge"] env(2) by simp
  then show ?thesis
    using env(1) frame_ok_below assms(3) by blast
qed

fun plain_edges :: "block_term \<Rightarrow> bool" where
  "plain_edges (Jump edge) = (edge_args edge = [])"
| "plain_edges _ = True"

text \<open>A test that compares a local with a singleton does not also consume that local.\<close>

fun plain_branch :: "value_facts list \<Rightarrow> block_term \<Rightarrow> bool" where
  "plain_branch mcf (IfTerm test _ _) =
     (case infer_branch_local_fact mcf test of
        Some (l, _) \<Rightarrow> \<not> List.member (operand_takes test) (LocalOperand l)
      | None \<Rightarrow> True)"
| "plain_branch mcf _ = True"

lemma branch_local_bound:
  assumes "python_laws P ks"
  shows "infer_branch_local_fact mcf test = Some (l, facts) \<Longrightarrow> evaluates P ks fr test v \<Longrightarrow>
    \<exists>x. fr l = Some x"
proof (induction "size test" arbitrary: test facts v rule: less_induct)
  case less
  from less.prems(1) show ?case
  proof (cases rule: branch_local_fact_cases)
    case (comparison m left right)
    obtain a b where ab: "evaluates P ks fr left a" "evaluates P ks fr right b"
      using evaluates_is [OF assms] less.prems(2) comparison(1) by metis
    show ?thesis
      using comparison(2) evaluates_local [OF ab(1)] evaluates_local [OF ab(2)]
      by (auto simp: infer_local_is_singleton_comparison_def split: option.splits)
  next
    case (negation m operand)
    obtain a where a: "evaluates P ks fr operand a"
      using evaluates_not [OF assms] less.prems(2) negation(1) by metis
    show ?thesis
      using less.hyps [OF _ negation(2) a] negation(1) by simp
  qed
qed

lemma frame_ok_branch:
  assumes "python_laws P ks" and "mcf = map infer_module_constant_facts ks"
    and "evaluates P ks fr test v" and "trusted_calls mcf test" and "frame_ok P fr env"
    and "plain_branch mcf (IfTerm test t e)"
  defines "takes \<equiv> operand_takes test"
  shows "frame_ok P (take_operands takes fr)
    ((if py_truth P v then fst else snd) (infer_if_edge_facts mcf test (remove_takes takes env)))"
proof (cases "infer_branch_local_fact mcf test")
  case None
  then show ?thesis
    using frame_ok_take [OF assms(5)] by (simp add: infer_if_edge_facts_def)
next
  case (Some found)
  obtain l facts where found: "found = (l, facts)"
    by (cases found)
  let ?claim = "if py_truth P v then fst facts else snd facts"
  have holds: "branch_holds P (py_truth P v) (fr l) facts"
    using branch_facts_hold [OF assms(1,2) _ assms(3,4), of l facts] Some found by simp
  obtain x where x: "fr l = Some x"
    using branch_local_bound [OF assms(1) _ assms(3)] Some found by blast
  have "take_operands takes fr l = fr l"
    using assms(6) Some found by (simp add: take_operands_def takes_def)
  then have "frame_ok P (take_operands takes fr) (refine l ?claim (remove_takes takes env))"
    using holds x by (intro frame_ok_refine frame_ok_take [OF assms(5)]) (simp add: branch_holds_def)
  then show ?thesis
    using Some found by (cases facts) (simp add: infer_if_edge_facts_def split: if_splits)
qed

lemma exec_term_successor:
  assumes "python_laws P ks" and "mcf = map infer_module_constant_facts ks"
    and "frame_ok P fr env" and "list_all (trusted_calls mcf) (term_instrs (block_terminator b))"
    and "plain_edges (block_terminator b)" and "plain_branch mcf (block_terminator b)"
    and "exec_term P ks fr (block_terminator b) target fr'"
  shows "\<exists>edge \<in> set (successor_envs mcf b (remove_takes (term_operand_takes (block_terminator b)) env)).
    fst edge = target \<and> frame_ok P fr' (snd edge)"
  using assms(7)
proof cases
  case (term_jump edge)
  then show ?thesis
    using assms(3,5) by (simp add: successor_envs_def term_operand_takes_def remove_takes_def)
next
  case (term_if test v t e)
  let ?exit = "remove_takes (operand_takes test) env"
  have "frame_ok P fr' ((if py_truth P v then fst else snd) (infer_if_edge_facts mcf test ?exit))"
    using frame_ok_branch [OF assms(1,2) term_if(2) _ assms(3)] assms(4,6) term_if by simp
  then show ?thesis
    using term_if
    by (cases "infer_if_edge_facts mcf test ?exit")
      (auto simp: successor_envs_def term_operand_takes_def split: if_splits)
next
  case (term_branch targets d idx)
  then show ?thesis
    using frame_ok_take [OF assms(3), of "operand_takes idx"]
    by (auto simp: successor_envs_def term_operand_takes_def)
qed


section \<open>Reachable frames\<close>

lemma exec_term_label: "exec_term P ks fr t target fr' \<Longrightarrow> target \<in> set (term_labels t)"
  by (induction rule: exec_term.induct) auto

definition trusted_block :: "value_facts list \<Rightarrow> block \<Rightarrow> bool" where
  "trusted_block mcf b \<longleftrightarrow>
     list_all (trusted_calls mcf) (block_roots b) \<and> plain_edges (block_terminator b) \<and>
     plain_branch mcf (block_terminator b)"

definition entry_ok :: "'v python \<Rightarrow> entry_facts \<Rightarrow> block_label \<times> 'v frame \<Rightarrow> bool" where
  "entry_ok P entries s = (\<exists>env. map_of entries (fst s) = Some env \<and> frame_ok P (snd s) env)"

lemma ordinary_step_ok:
  assumes laws: "python_laws P ks" "mcf = map infer_module_constant_facts ks"
    and closed: "closed_entries mcf bs entries" "entries_ok start entries"
    and block: "b \<in> set bs" "trusted_block mcf b" and ok: "entry_ok P entries (label b, fr)"
    and steps: "exec_body P ks fr (body b) fr1" "exec_term P ks fr1 (block_terminator b) target fr'"
  shows "entry_ok P entries (target, fr')"
proof -
  obtain env where env: "map_of entries (label b) = Some env" "frame_ok P fr env"
    using ok by (auto simp: entry_ok_def)
  have trusted: "list_all (trusted_calls mcf) (body b)" "plain_edges (block_terminator b)"
      "plain_branch mcf (block_terminator b)" "list_all (trusted_calls mcf) (term_instrs (block_terminator b))"
    using block(2) by (simp_all add: trusted_block_def block_roots_def)
  have "frame_ok P fr1 (fold (transfer_instr_env mcf) (body b) env)"
    by (rule exec_body_frame_ok [OF laws env(2) trusted(1) steps(1)])
  from exec_term_successor [OF laws this trusted(4,2,3) steps(2)]
  obtain edge where edge: "edge \<in> set (successor_envs mcf b (transfer_block_env mcf b env))"
      "fst edge = target" "frame_ok P fr' (snd edge)"
    by (auto simp: transfer_block_env_def)
  then have "covers entries edge"
    using closed(1) block(1) env(1) by (auto simp: closed_entries_def)
  then show ?thesis
    using covers_frame_ok [OF _ closed(2) edge(3)] edge(2) by (simp add: entry_ok_def)
qed

lemma reachable_entry_ok:
  assumes "python_laws P ks" and "mcf = map infer_module_constant_facts ks"
    and "list_all (trusted_block mcf) bs"
  shows "reachable P ks bs s \<Longrightarrow>
    fst s \<in> exceptional_labels bs \<or> entry_ok P (infer_block_entry_facts mcf bs) s"
proof (induction rule: reachable.induct)
  case (start b rest fr)
  then show ?case
    using infer_block_entry_facts_ok [OF start, of mcf]
    by (auto simp: entry_ok_def entries_ok_def frame_ok_def)
next
  case (step s s')
  from step.hyps(2) show ?case
  proof cases
    case (ordinary b fr fr1 target fr')
    obtain first rest where bs: "bs = first # rest"
      using ordinary(3) by (cases bs) auto
    have "trusted_block mcf b"
      using assms(3) ordinary(3) by (auto simp: list_all_iff)
    then show ?thesis
      using step.IH ordinary exec_term_label [OF ordinary(5)]
        ordinary_step_ok [OF assms(1,2) infer_block_entry_facts_closed [OF bs]
          infer_block_entry_facts_ok [OF bs] ordinary(3) _ _ ordinary(4,5)]
      by (auto intro: exceptional_labels.continues)
  next
    case (exceptional b edge fr1 rest fr fr2)
    then show ?thesis
      by (auto intro: exceptional_labels.handler)
  qed
qed

section \<open>The fact store\<close>

lemma fold_insert_entry:
  "map_of (block_entry_facts (fold (\<lambda>b. insert_block_entry_fact fid (label b) (g (label b))) bs store))
     (fid, l) =
   (if l \<in> label ` set bs then Some (g l) else map_of (block_entry_facts store) (fid, l))"
  by (induction bs arbitrary: store) (auto simp: insert_block_entry_fact_def update_conv')

lemma fold_record_entries:
  "block_entry_facts (fold (record_expr_fact mcf fid) es store) = block_entry_facts store"
  by (induction es arbitrary: store)
    (simp_all add: record_expr_fact_def insert_expr_fact_def split: option.split)

lemma fold_insert_entry_exprs:
  "expr_facts (fold (\<lambda>b. insert_block_entry_fact fid (label b) (g (label b))) bs store) = expr_facts store"
  by (induction bs arbitrary: store) (simp_all add: insert_block_entry_fact_def)

lemma block_entry_fact_infer:
  "block_entry_fact (infer_function_value_facts mcf f) (function_id f) l =
     (if l \<in> label ` set (blocks f)
      then Some (case map_of (infer_block_entry_facts mcf (blocks f)) l of Some env \<Rightarrow> env | None \<Rightarrow> [])
      else None)"
  unfolding infer_function_value_facts_def Let_def block_entry_fact_def
  by (subst fold_insert_entry) (simp add: fold_record_entries empty_store_def)

lemma fold_record_fact:
  "map_of (expr_facts (fold (record_expr_fact mcf fid) es store)) \<lparr>key_function_id = fid, key_instr_id = i\<rparr> =
     Some g \<Longrightarrow>
   map_of (expr_facts store) \<lparr>key_function_id = fid, key_instr_id = i\<rparr> = Some g \<or>
   (\<exists>e \<in> set es. try_semantic_instr_id e = Some i \<and> g = infer_expr_facts mcf e)"
proof (induction es arbitrary: store)
  case (Cons e es)
  from Cons.IH [of "record_expr_fact mcf fid e store"] Cons.prems show ?case
    by (cases "try_semantic_instr_id e")
      (auto simp: record_expr_fact_def insert_expr_fact_def update_conv' split: if_splits)
qed simp

lemma infer_function_exprs:
  "expr_facts (infer_function_value_facts mcf f) =
     expr_facts (fold (record_expr_fact mcf (function_id f)) (function_instrs f) empty_store)"
  unfolding infer_function_value_facts_def Let_def by (subst fold_insert_entry_exprs) simp

lemma fact_for_infer:
  "fact_for (infer_function_value_facts mcf f) \<lparr>key_function_id = function_id f, key_instr_id = i\<rparr> = Some g \<Longrightarrow>
   \<exists>e \<in> set (function_instrs f). try_semantic_instr_id e = Some i \<and> g = infer_expr_facts mcf e"
  using fold_record_fact [of mcf "function_id f" "function_instrs f" empty_store i g]
  by (simp add: infer_function_exprs fact_for_def empty_store_def)


text \<open>The store of a module is the union of the stores of its functions.\<close>

lemma map_of_fold_update:
  "map_of (fold (\<lambda>(k, v). AList.update k v) xs ys) k =
     (case map_of (rev xs) k of Some v \<Rightarrow> Some v | None \<Rightarrow> map_of ys k)"
  by (induction xs arbitrary: ys) (auto simp: update_conv' map_add_def split: option.splits)

lemma map_of_rev: "distinct (map fst xs) \<Longrightarrow> map_of (rev xs) = map_of xs"
  by (subst map_of_inject_set) (simp_all add: rev_map [symmetric])

lemma empty_store_facts [simp]:
  "fact_for empty_store k = None" "block_entry_fact empty_store fid l = None"
  by (simp_all add: fact_for_def block_entry_fact_def empty_store_def)

lemma distinct_record_keys:
  "distinct (map fst (expr_facts store)) \<Longrightarrow>
   distinct (map fst (expr_facts (fold (record_expr_fact mcf fid) es store)))"
  by (induction es arbitrary: store)
    (simp_all add: record_expr_fact_def insert_expr_fact_def distinct_update split: option.split)

lemma distinct_entry_keys:
  "distinct (map fst (block_entry_facts store)) \<Longrightarrow>
   distinct (map fst (block_entry_facts (fold (\<lambda>b. insert_block_entry_fact fid (label b) (g (label b))) bs store)))"
  by (induction bs arbitrary: store) (simp_all add: insert_block_entry_fact_def distinct_update)

lemma infer_function_distinct:
  "distinct (map fst (expr_facts (infer_function_value_facts mcf f)))"
  "distinct (map fst (block_entry_facts (infer_function_value_facts mcf f)))"
proof -
  show "distinct (map fst (expr_facts (infer_function_value_facts mcf f)))"
    unfolding infer_function_exprs by (rule distinct_record_keys) (simp add: empty_store_def)
  show "distinct (map fst (block_entry_facts (infer_function_value_facts mcf f)))"
    unfolding infer_function_value_facts_def Let_def
    by (rule distinct_entry_keys) (simp add: fold_record_entries empty_store_def)
qed

lemma fold_record_owner:
  "\<forall>k \<in> fst ` set (expr_facts store). key_function_id k = fid \<Longrightarrow>
   k \<in> fst ` set (expr_facts (fold (record_expr_fact mcf fid) es store)) \<Longrightarrow> key_function_id k = fid"
proof (induction es arbitrary: store)
  case (Cons e es)
  have "\<forall>k \<in> fst ` set (expr_facts (record_expr_fact mcf fid e store)). key_function_id k = fid"
    using Cons.prems(1)
    by (cases "try_semantic_instr_id e")
      (simp_all add: record_expr_fact_def insert_expr_fact_def dom_map_of_conv_image_fst [symmetric]
        update_conv')
  then show ?case
    using Cons.IH Cons.prems(2) by simp
qed auto

lemma fold_entry_owner:
  "\<forall>k \<in> fst ` set (block_entry_facts store). fst k = fid \<Longrightarrow>
   k \<in> fst ` set (block_entry_facts (fold (\<lambda>b. insert_block_entry_fact fid (label b) (g (label b))) bs store)) \<Longrightarrow>
   fst k = fid"
proof (induction bs arbitrary: store)
  case (Cons b bs)
  have "\<forall>k \<in> fst ` set (block_entry_facts (insert_block_entry_fact fid (label b) (g (label b)) store)).
      fst k = fid"
    using Cons.prems(1)
    by (simp add: insert_block_entry_fact_def dom_map_of_conv_image_fst [symmetric] update_conv')
  then show ?case
    using Cons.IH Cons.prems(2) by simp
qed auto

lemma infer_function_owner:
  "k \<in> fst ` set (expr_facts (infer_function_value_facts mcf f)) \<Longrightarrow> key_function_id k = function_id f"
  "q \<in> fst ` set (block_entry_facts (infer_function_value_facts mcf f)) \<Longrightarrow> fst q = function_id f"
proof -
  show "k \<in> fst ` set (expr_facts (infer_function_value_facts mcf f)) \<Longrightarrow>
      key_function_id k = function_id f"
    unfolding infer_function_exprs by (erule fold_record_owner [rotated]) (simp add: empty_store_def)
  show "q \<in> fst ` set (block_entry_facts (infer_function_value_facts mcf f)) \<Longrightarrow> fst q = function_id f"
    unfolding infer_function_value_facts_def Let_def
    by (erule fold_entry_owner [rotated]) (simp add: fold_record_entries empty_store_def)
qed

definition merge_function :: "value_facts list \<Rightarrow> blockpy_function \<Rightarrow> fact_store \<Rightarrow> fact_store" where
  "merge_function mcf f store =
     extend_block_entry_facts (block_entry_facts (infer_function_value_facts mcf f))
       (extend_expr_facts (expr_facts (infer_function_value_facts mcf f)) store)"

lemma merge_function_own:
  assumes "fact_for store k = None" and "block_entry_fact store (fst q) (snd q) = None"
  shows "fact_for (merge_function mcf f store) k = fact_for (infer_function_value_facts mcf f) k"
    and "block_entry_fact (merge_function mcf f store) (fst q) (snd q) =
      block_entry_fact (infer_function_value_facts mcf f) (fst q) (snd q)"
  using assms infer_function_distinct [of mcf f]
  by (simp_all add: merge_function_def fact_for_def block_entry_fact_def extend_block_entry_facts_def
      extend_expr_facts_def map_of_fold_update map_of_rev split: option.split)

lemma infer_function_foreign:
  "key_function_id k \<noteq> function_id f \<Longrightarrow> map_of (expr_facts (infer_function_value_facts mcf f)) k = None"
  "fid \<noteq> function_id f \<Longrightarrow> map_of (block_entry_facts (infer_function_value_facts mcf f)) (fid, l) = None"
  unfolding map_of_eq_None_iff
  using infer_function_owner(1) [of k mcf f] infer_function_owner(2) [of "(fid, l)" mcf f]
  by (metis, metis fst_conv)

lemma merge_function_other:
  "key_function_id k \<noteq> function_id f \<Longrightarrow> fact_for (merge_function mcf f store) k = fact_for store k"
  "fid \<noteq> function_id f \<Longrightarrow>
   block_entry_fact (merge_function mcf f store) fid l = block_entry_fact store fid l"
  by (simp_all add: merge_function_def fact_for_def block_entry_fact_def extend_block_entry_facts_def
      extend_expr_facts_def map_of_fold_update map_of_rev infer_function_distinct
      infer_function_foreign)

lemma fold_merge_other:
  "key_function_id k \<notin> function_id ` set fs \<Longrightarrow> fact_for (fold (merge_function mcf) fs store) k = fact_for store k"
  "fid \<notin> function_id ` set fs \<Longrightarrow>
   block_entry_fact (fold (merge_function mcf) fs store) fid l = block_entry_fact store fid l"
  by (induction fs arbitrary: store) (auto simp: merge_function_other)

lemma infer_module_function:
  assumes "distinct (map function_id (callable_defs m))" and "f \<in> set (callable_defs m)"
    and "mcf = map infer_module_constant_facts (module_constants m)"
  shows "fact_for (infer_module_value_facts m) \<lparr>key_function_id = function_id f, key_instr_id = i\<rparr> =
      fact_for (infer_function_value_facts mcf f) \<lparr>key_function_id = function_id f, key_instr_id = i\<rparr>"
    and "block_entry_fact (infer_module_value_facts m) (function_id f) l =
      block_entry_fact (infer_function_value_facts mcf f) (function_id f) l"
proof -
  obtain before rest where split: "callable_defs m = before @ f # rest"
    using assms(2) by (auto dest: split_list)
  have fresh: "function_id f \<notin> function_id ` set before" "function_id f \<notin> function_id ` set rest"
    using assms(1) split by auto
  have module: "infer_module_value_facts m =
      fold (merge_function mcf) rest (merge_function mcf f (fold (merge_function mcf) before empty_store))"
    unfolding infer_module_value_facts_def Let_def merge_function_def [symmetric] assms(3) [symmetric] split
    by simp
  let ?store = "fold (merge_function mcf) before empty_store"
  have "fact_for ?store \<lparr>key_function_id = function_id f, key_instr_id = i\<rparr> = None"
    "block_entry_fact ?store (function_id f) l = None"
    using fresh(1) by (simp_all add: fold_merge_other)
  then show "fact_for (infer_module_value_facts m) \<lparr>key_function_id = function_id f, key_instr_id = i\<rparr> =
      fact_for (infer_function_value_facts mcf f) \<lparr>key_function_id = function_id f, key_instr_id = i\<rparr>"
    and "block_entry_fact (infer_module_value_facts m) (function_id f) l =
      block_entry_fact (infer_function_value_facts mcf f) (function_id f) l"
    using fresh(2) merge_function_own [of ?store "\<lparr>key_function_id = function_id f, key_instr_id = i\<rparr>"
        "(function_id f, l)" mcf f]
    by (simp_all add: module fold_merge_other)
qed

end
