(* ===== verification/Fact_Theorems.thy ===== *)
theory Fact_Theorems
  imports Fact_Flow
begin

text \<open>
  Properties of the value-fact analysis, with a small interpreter of Python objects as the instance
  at which their hypotheses are met.
\<close>

section \<open>A concrete object model\<close>

datatype sample_object =
    ObjectNone | ObjectTrue | ObjectFalse | ObjectInt int | ObjectStr string | ObjectTuple
  | ObjectRuntime string

fun sample_type :: "sample_object \<Rightarrow> py_exact_type option" where
  "sample_type ObjectNone = Some NoneTypeExact"
| "sample_type ObjectTrue = Some BoolExact"
| "sample_type ObjectFalse = Some BoolExact"
| "sample_type (ObjectInt _) = Some IntExact"
| "sample_type (ObjectStr _) = Some StrExact"
| "sample_type _ = None"

fun sample_truth :: "sample_object \<Rightarrow> bool" where
  "sample_truth ObjectNone = False"
| "sample_truth ObjectFalse = False"
| "sample_truth (ObjectInt n) = (n \<noteq> 0)"
| "sample_truth (ObjectStr s) = (s \<noteq> [])"
| "sample_truth _ = True"

fun sample_runtime :: "runtime_name \<Rightarrow> sample_object" where
  "sample_runtime (RuntimeName s) =
     (if s = ''NONE'' then ObjectNone
      else if s = ''TRUE'' then ObjectTrue
      else if s = ''FALSE'' then ObjectFalse
      else ObjectRuntime s)"

definition sample_bool :: "bool \<Rightarrow> sample_object" where
  "sample_bool b = (if b then ObjectTrue else ObjectFalse)"

fun sample_binary :: "bin_op_kind \<Rightarrow> sample_object \<Rightarrow> sample_object \<Rightarrow> sample_object \<Rightarrow> bool" where
  "sample_binary IsOp a b v = (v = sample_bool (a = b))"
| "sample_binary AddOp (ObjectInt a) (ObjectInt b) v = (v = ObjectInt (a + b))"
| "sample_binary AddOp (ObjectStr a) (ObjectStr b) v = (v = ObjectStr (a @ b))"
| "sample_binary LtOp (ObjectInt a) (ObjectInt b) v = (v = sample_bool (a < b))"
| "sample_binary _ _ _ _ = False"

fun sample_unary :: "unary_op_kind \<Rightarrow> sample_object \<Rightarrow> sample_object \<Rightarrow> bool" where
  "sample_unary TruthOp a v = (v = sample_bool (sample_truth a))"
| "sample_unary NotOp a v = (v = sample_bool (\<not> sample_truth a))"
| "sample_unary NegOp (ObjectInt a) v = (v = ObjectInt (- a))"
| "sample_unary _ _ _ = False"

definition sample_python :: "sample_object python" where
  "sample_python =
     \<lparr>py_none = ObjectNone, py_true = ObjectTrue, py_false = ObjectFalse, py_type = sample_type,
      py_truth = sample_truth, py_immortal = (\<lambda>_. True), py_tuple = (\<lambda>v. v = ObjectTuple),
      py_runtime = sample_runtime,
      py_constant = (\<lambda>i. if i = 0 then ObjectInt 1 else ObjectStr ''s''),
      py_binary = sample_binary, py_unary = sample_unary,
      py_call = (\<lambda>callee v. callee = ObjectRuntime ''tuple_from_iter'' \<and> v = ObjectTuple)\<rparr>"

definition sample_constants :: "constant_expr list" where
  "sample_constants =
     [LiteralConstant (NumberLiteral (IntLiteral ''1'')), LiteralConstant (StringLiteral ''s'')]"

lemma sample_python_simps [simp]:
  "py_none sample_python = ObjectNone" "py_true sample_python = ObjectTrue"
  "py_false sample_python = ObjectFalse" "py_type sample_python = sample_type"
  "py_truth sample_python = sample_truth" "py_immortal sample_python v"
  "py_tuple sample_python v \<longleftrightarrow> v = ObjectTuple" "py_runtime sample_python = sample_runtime"
  "py_constant sample_python i = (if i = 0 then ObjectInt 1 else ObjectStr ''s'')"
  "py_binary sample_python = sample_binary" "py_unary sample_python = sample_unary"
  "py_call sample_python callee v \<longleftrightarrow> callee = ObjectRuntime ''tuple_from_iter'' \<and> v = ObjectTuple"
  by (simp_all add: sample_python_def)

lemma sample_singletons: "singleton_laws sample_python"
proof -
  have "sample_type v = Some NoneTypeExact \<longleftrightarrow> v = ObjectNone"
    "sample_type v = Some BoolExact \<longleftrightarrow> v = ObjectTrue \<or> v = ObjectFalse" for v
    by (cases v; simp)+
  then show ?thesis
    by (simp add: singleton_laws_def)
qed

lemma helper_spelling:
  "from_runtime_symbol s = Some h \<Longrightarrow> s \<noteq> ''NONE'' \<and> s \<noteq> ''TRUE'' \<and> s \<noteq> ''FALSE''"
  by (auto simp: from_runtime_symbol_def)

lemma sample_runtime_laws: "runtime_laws sample_python"
proof -
  have "sample_runtime r = ObjectRuntime (runtime_spelling r)"
    if "from_runtime_symbol (runtime_spelling r) = Some h" for r h
    using helper_spelling [OF that] by (cases r) simp
  then show ?thesis
    by (simp add: runtime_laws_def)
qed

lemma sample_binary_int:
  "sample_binary k (ObjectInt a) (ObjectInt b) v \<Longrightarrow>
   k \<in> {AddOp, LtOp, IsOp} \<and> (k = AddOp \<longrightarrow> sample_type v = Some IntExact) \<and>
   (k = LtOp \<longrightarrow> sample_type v = Some BoolExact)"
  by (cases k) (simp_all add: sample_bool_def)

lemma sample_unary_int:
  "sample_unary k (ObjectInt a) v \<Longrightarrow> k \<in> {PosOp, NegOp, InvertOp} \<Longrightarrow> sample_type v = Some IntExact"
  by (cases k) simp_all

lemma sample_type_int: "sample_type v = Some IntExact \<Longrightarrow> \<exists>n. v = ObjectInt n"
  by (cases v) simp_all

lemma sample_binary_types:
  assumes "sample_type a = Some IntExact" "sample_type b = Some IntExact" "sample_binary k a b v"
  shows "(k \<in> set int_arithmetic \<longrightarrow> sample_type v = Some IntExact) \<and>
    (k \<in> {TrueDivOp, InplaceTrueDivOp} \<longrightarrow> sample_type v = Some FloatExact) \<and>
    (k \<in> {EqOp, NeOp, LtOp, LeOp, GtOp, GeOp} \<longrightarrow> sample_type v = Some BoolExact)"
proof -
  obtain m n where ints: "a = ObjectInt m" "b = ObjectInt n"
    using sample_type_int [OF assms(1)] sample_type_int [OF assms(2)] by auto
  show ?thesis
    using sample_binary_int [of k m n v] assms(3) ints
    by (cases k) (simp_all add: int_arithmetic_def)
qed

lemma sample_unary_types:
  assumes "sample_type a = Some IntExact" "sample_unary k a v" "k \<in> {PosOp, NegOp, InvertOp}"
  shows "sample_type v = Some IntExact"
  using sample_type_int [OF assms(1)] assms(2,3) sample_unary_int by blast

lemma sample_operators: "operator_laws sample_python"
  unfolding operator_laws_def sample_python_simps
proof (intro conjI allI)
  fix k a b v
  show "sample_type a = Some IntExact \<longrightarrow> sample_type b = Some IntExact \<longrightarrow> sample_binary k a b v \<longrightarrow>
      (k \<in> set int_arithmetic \<longrightarrow> sample_type v = Some IntExact) \<and>
      (k \<in> {TrueDivOp, InplaceTrueDivOp} \<longrightarrow> sample_type v = Some FloatExact) \<and>
      (k \<in> {EqOp, NeOp, LtOp, LeOp, GtOp, GeOp} \<longrightarrow> sample_type v = Some BoolExact)"
    by (intro impI) (rule sample_binary_types)
  show "sample_type a = Some IntExact \<longrightarrow> sample_unary k a v \<longrightarrow> k \<in> {PosOp, NegOp, InvertOp} \<longrightarrow>
      sample_type v = Some IntExact" for k
    by (intro impI) (rule sample_unary_types)
qed (simp_all add: sample_bool_def)

lemma sample_constant_laws: "constant_laws sample_python sample_constants"
proof -
  have "literal_object sample_python (NumberLiteral (IntLiteral ''1'')) (ObjectInt 1)"
    by (simp add: int_text_def int_of_text_def parse_digits_def decimal_value_def digit_value_def
        is_ascii_digit_def)
  then show ?thesis
    by (auto simp: constant_laws_def sample_constants_def less_Suc_eq)
qed

lemma sample_python_laws: "python_laws sample_python sample_constants"
proof -
  have "helper_laws sample_python"
    by (simp add: helper_laws_def)
  then show ?thesis
    by (simp add: python_laws_def sample_singletons sample_runtime_laws sample_operators
        sample_constant_laws)
qed


section \<open>A sample module\<close>

definition sample_load :: "string \<Rightarrow> name_location \<Rightarrow> instr" where
  "sample_load s location = Load synthetic \<lparr>name_id = s, name_location = location\<rparr> None"

definition sample_store :: "instr \<Rightarrow> instr" where
  "sample_store val =
     Store synthetic \<lparr>name_id = ''x'', name_location = Local 0\<rparr> val FrameLifetime BindingPurpose"

definition sample_block :: "block_label \<Rightarrow> instr list \<Rightarrow> block_term \<Rightarrow> block_edge option \<Rightarrow> block" where
  "sample_block lbl es t exc =
     \<lparr>label = lbl, body = es, block_terminator = t, params = [], exc_edge = exc,
      block_extra = \<lparr>handled_exception = RegionsContext, suspension_resume = None\<rparr>\<rparr>"

definition sample_edge :: "block_label \<Rightarrow> block_edge" where
  "sample_edge lbl = \<lparr>edge_target = lbl, edge_args = []\<rparr>"

definition sample_function :: "block list \<Rightarrow> blockpy_function" where
  "sample_function bs =
     \<lparr>function_id = 5,
      names = \<lparr>bind_name = ''f'', fn_name = ''f'', display_name = ''f'', qualname = ''f''\<rparr>,
      kind_of_function = FunctionKind, function_params = [], body_params = None, blocks = bs, doc = None\<rparr>"

definition sample_module :: "block list \<Rightarrow> blockpy_module" where
  "sample_module bs =
     \<lparr>global_names = [], callable_defs = [sample_function bs], module_constants = sample_constants\<rparr>"

definition sample_sum :: instr where
  "sample_sum = BinOp (synthetic\<lparr>instr_id := Some 9\<rparr>) AddOp (sample_load ''c'' (Constant 0)) (sample_load ''c'' (Constant 0))"

definition sample_blocks :: "block list" where
  "sample_blocks =
     [sample_block 0 [sample_store (sample_load ''c'' (Constant 0))]
        (IfTerm (BinOp synthetic IsOp (sample_load ''y'' (Local 1))
           (sample_load ''NONE'' (AtRuntimeName (RuntimeName ''NONE'')))) 1 2) None,
      sample_block 1 [sample_store sample_sum] (Jump (sample_edge 2)) None,
      sample_block 2 [] (Return (sample_load ''x'' (Local 0))) None]"

declare infer_runtime_name_load [code]

definition sample_constant_facts :: "value_facts list" where
  "sample_constant_facts =
     [PyObj (exact_type_with_truthiness IntExact AlwaysTrue),
      PyObj (exact_type_with_truthiness StrExact AlwaysTrue)]"

lemma sample_constant_facts: "map infer_module_constant_facts sample_constants = sample_constant_facts"
  by (simp add: sample_constants_def sample_constant_facts_def truthiness_of_def parse_i64_def
      parse_digits_def decimal_value_def digit_value_def is_ascii_digit_def)

lemma sample_entry:
  "map_of (infer_block_entry_facts sample_constant_facts sample_blocks) 2 =
     Some [(0, exact_type IntExact), (1, unknown_facts\<lparr>nullability := NonNull\<rparr>)]"
  by code_simp

lemma sample_module_simps [simp]:
  "callable_defs (sample_module bs) = [sample_function bs]"
  "module_constants (sample_module bs) = sample_constants"
  "function_id (sample_function bs) = 5" "blocks (sample_function bs) = bs"
  by (simp_all add: sample_module_def sample_function_def)

lemma sample_module_entry:
  "l \<in> label ` set bs \<Longrightarrow> map_of (infer_block_entry_facts sample_constant_facts bs) l = Some env \<Longrightarrow>
   block_entry_fact (infer_module_value_facts (sample_module bs)) 5 l = Some env"
  using infer_module_function(2) [of "sample_module bs" "sample_function bs" sample_constant_facts l]
    block_entry_fact_infer [of sample_constant_facts "sample_function bs" l]
  by (simp add: sample_constant_facts)

section \<open>An execution of the sample\<close>

lemma take_operands_Nil [simp]: "take_operands [] fr = fr"
  by (simp add: take_operands_def)

lemma sample_takes [simp]:
  "operand_takes (sample_load s location) = []"
  "operand_takes (BinOp m kind (sample_load s location) (sample_load s' location')) = []"
  "operand_takes (sample_store e) = operand_takes e"
  by (simp_all add: operand_takes.simps sample_load_def sample_store_def)

lemma evaluates_sample:
  "fr l = Some v \<Longrightarrow> evaluates P ks fr (sample_load s (Local l)) v"
  "unat i < length ks \<Longrightarrow> evaluates P ks fr (sample_load s (Constant i)) (py_constant P (unat i))"
  "evaluates P ks fr (sample_load s (AtRuntimeName r)) (py_runtime P r)"
  by (auto simp: sample_load_def local_of_def intro: evaluates.intros)

lemma exec_sample_store:
  "evaluates P ks fr e v \<Longrightarrow> operand_takes e = [] \<Longrightarrow>
   exec_instr P ks fr (sample_store e) (fr(0 := Some v))"
  using exec_store [of P ks fr e v "\<lparr>name_id = ''x'', name_location = Local 0\<rparr>" 0 _ synthetic
      FrameLifetime BindingPurpose] sample_takes(3) [of e]
  by (simp add: sample_store_def local_of_def)

definition sample_frame :: "int \<Rightarrow> sample_object frame" where
  "sample_frame n = (\<lambda>l. if l = 1 then Some ObjectNone else if l = 0 then Some (ObjectInt n) else None)"

lemma sample_frame_store: "(sample_frame m)(0 := Some (ObjectInt n)) = sample_frame n"
  by (auto simp: sample_frame_def)

lemma sample_step_0:
  "transition sample_python sample_constants sample_blocks (0, sample_frame n) (1, sample_frame 1)"
proof -
  let ?test = "BinOp synthetic IsOp (sample_load ''y'' (Local 1))
    (sample_load ''NONE'' (AtRuntimeName (RuntimeName ''NONE'')))"
  have store: "exec_instr sample_python sample_constants (sample_frame n)
      (sample_store (sample_load ''c'' (Constant 0))) (sample_frame 1)"
    using exec_sample_store [OF evaluates_sample(2) [of 0 sample_constants sample_python "sample_frame n" "''c''"]]
    by (simp add: sample_constants_def sample_frame_store)
  have "evaluates sample_python sample_constants (sample_frame 1) ?test ObjectTrue"
    using evaluates.binary [OF evaluates_sample(1) [of "sample_frame 1" 1 ObjectNone sample_python
          sample_constants "''y''"] evaluates_sample(3) [of sample_python sample_constants _ "''NONE''" "RuntimeName ''NONE''"],
        of IsOp ObjectTrue synthetic]
    by (simp add: sample_frame_def sample_bool_def)
  then have "exec_term sample_python sample_constants (sample_frame 1) (IfTerm ?test 1 2) 1 (sample_frame 1)"
    using exec_term.term_if [of sample_python sample_constants "sample_frame 1" ?test ObjectTrue 1 1 2] by simp
  then show ?thesis
    using store transition.ordinary [of "hd sample_blocks" sample_blocks sample_python sample_constants]
    by (fastforce simp: sample_blocks_def sample_block_def)
qed

lemma sample_step_1:
  "transition sample_python sample_constants sample_blocks (1, sample_frame 1) (2, sample_frame 2)"
proof -
  have const_load: "evaluates sample_python sample_constants (sample_frame 1)
      (sample_load ''c'' (Constant 0)) (ObjectInt 1)"
    using evaluates_sample(2) [of 0 sample_constants sample_python "sample_frame 1" "''c''"]
    by (simp add: sample_constants_def)
  have "exec_instr sample_python sample_constants (sample_frame 1) (sample_store sample_sum) (sample_frame 2)"
    using exec_sample_store [OF evaluates.binary [OF const_load const_load, of AddOp "ObjectInt 2"
          "synthetic\<lparr>instr_id := Some 9\<rparr>"]]
    by (simp add: sample_sum_def sample_frame_store)
  moreover have "exec_term sample_python sample_constants (sample_frame 2) (Jump (sample_edge 2)) 2 (sample_frame 2)"
    by (rule exec_term.term_jump) (simp_all add: sample_edge_def)
  ultimately show ?thesis
    using transition.ordinary [of "sample_blocks ! 1" sample_blocks sample_python sample_constants]
    by (fastforce simp: sample_blocks_def sample_block_def)
qed

lemma sample_reachable:
  "reachable sample_python sample_constants sample_blocks (2, sample_frame 2)"
proof -
  have "reachable sample_python sample_constants sample_blocks (label (hd sample_blocks), sample_frame 0)"
    by (rule reachable.start) (simp add: sample_blocks_def)
  then have "reachable sample_python sample_constants sample_blocks (0, sample_frame 0)"
    by (simp add: sample_blocks_def sample_block_def)
  then show ?thesis
    using reachable.step [OF reachable.step [OF _ sample_step_0] sample_step_1] by blast
qed

lemma no_exceptional_labels: "list_all (\<lambda>b. exc_edge b = None) bs \<Longrightarrow> exceptional_labels bs = {}"
proof -
  assume none: "list_all (\<lambda>b. exc_edge b = None) bs"
  have "False" if "l \<in> exceptional_labels bs" for l
    using that none by (induction rule: exceptional_labels.induct) (auto simp: list_all_iff)
  then show ?thesis by blast
qed

lemma sample_exceptional: "exceptional_labels sample_blocks = {}"
  by (rule no_exceptional_labels) (simp add: sample_blocks_def sample_block_def)

lemma sample_trusted: "list_all (trusted_block sample_constant_facts) sample_blocks"
  by code_simp


section \<open>Soundness\<close>


lemma sample_sum_facts:
  "fact_for (infer_module_value_facts (sample_module sample_blocks)) \<lparr>key_function_id = 5, key_instr_id = 9\<rparr> =
     Some (PyObj (exact_type IntExact))"
proof -
  have "fact_for (infer_function_value_facts sample_constant_facts (sample_function sample_blocks))
      \<lparr>key_function_id = 5, key_instr_id = 9\<rparr> = Some (PyObj (exact_type IntExact))"
    by code_simp
  then show ?thesis
    using infer_module_function(1) [of "sample_module sample_blocks" "sample_function sample_blocks"
        sample_constant_facts 9]
    by (simp add: sample_constant_facts)
qed

lemma sample_sum_instr:
  "list_ex (\<lambda>e. e = sample_sum) (function_instrs (sample_function sample_blocks))"
  "list_all (\<lambda>e. try_semantic_instr_id e = Some 9 \<longrightarrow> e = sample_sum)
     (function_instrs (sample_function sample_blocks))"
  "try_semantic_instr_id sample_sum = Some 9" "trusted_calls sample_constant_facts sample_sum"
  by code_simp+

lemma sample_sum_evaluates:
  "evaluates sample_python sample_constants fr sample_sum (ObjectInt 2)"
proof -
  have const_load: "evaluates sample_python sample_constants fr (sample_load ''c'' (Constant 0)) (ObjectInt 1)"
    using evaluates_sample(2) [of 0 sample_constants sample_python fr "''c''"]
    by (simp add: sample_constants_def)
  show ?thesis
    unfolding sample_sum_def by (rule evaluates.binary [OF const_load const_load]) simp
qed




section \<open>Fixed points\<close>

lemma propagation_pass_closed:
  "propagation_pass mcf bs entries = (entries', False) \<Longrightarrow> propagation_pass mcf bs entries' = (entries', False)"
  using propagation_pass_unchanged [of mcf bs entries entries'] by simp

lemma propagate_fixed: "propagation_pass mcf bs (propagate mcf bs entries) = (propagate mcf bs entries, False)"
proof (induction mcf bs entries rule: propagate.induct)
  case (1 mcf bs entries)
  obtain entries' changed where pass: "propagation_pass mcf bs entries = (entries', changed)"
    by (cases "propagation_pass mcf bs entries")
  then show ?case
    using 1 [OF pass [symmetric]] propagation_pass_closed [of mcf bs entries entries']
    by (cases changed) (simp_all add: propagate.simps [of mcf bs entries])
qed

text \<open>
  C33. The propagation loop ends, for every control-flow graph, in a fixed point: one more pass over
  the blocks changes no entry, so the facts at the entry of a block claim no more than any edge into
  the block from an analysed block delivers.
\<close>
theorem infer_block_entry_facts_fixed_point:
  "propagation_pass mcf bs (infer_block_entry_facts mcf bs) = (infer_block_entry_facts mcf bs, False)"
proof (cases bs)
  case Nil
  then show ?thesis
    by (simp add: infer_block_entry_facts_def propagation_pass_def)
next
  case (Cons b rest)
  then show ?thesis
    using propagate_fixed [of mcf bs "[(label b, [])]"] by (simp add: infer_block_entry_facts_def)
qed


lemma env_ok_informative: "env_ok env \<Longrightarrow> map_of env l = Some f \<Longrightarrow> \<not> is_uninformative_for_local_env f"
  by (auto simp: env_ok_def dest: map_of_SomeD)

text \<open>
  C34. Meeting two environments where control flow joins keeps as much as possible: an environment
  claims no more than the met one exactly if it claims no more than either of the two.
\<close>
theorem intersect_with_greatest:
  assumes "env_ok env" and "env_ok c"
  shows "env_below c (intersect_with env other) \<longleftrightarrow> env_below c env \<and> env_below c other"
proof
  have distinct: "distinct (map fst env)"
    using assms(1) by (simp add: env_ok_def)
  show "env_below c env \<and> env_below c other" if "env_below c (intersect_with env other)"
    using env_below_trans [OF that] intersect_with_lower [OF distinct, of other] by blast
  assume below: "env_below c env \<and> env_below c other"
  show "env_below c (intersect_with env other)"
    unfolding env_below_def
  proof (intro allI impI)
    fix l h
    assume h: "map_of c l = Some h"
    then obtain f g where fg: "map_of env l = Some f" "facts_below h f" "map_of other l = Some g" "facts_below h g"
      using below unfolding env_below_def by blast
    have meet: "facts_below h (intersect f g)"
      by (rule intersect_greatest [OF fg(2,4)])
    then have "\<not> is_uninformative_for_local_env (intersect f g)"
      using env_ok_informative [OF assms(2) h] uninformative_below by blast
    then show "\<exists>k. map_of (intersect_with env other) l = Some k \<and> facts_below h k"
      using fg meet by (simp add: map_of_intersect_with [OF distinct])
  qed
qed

theorem intersect_with_greatest_witness:
  "env_below [(0, known_not_none)]
     (intersect_with [(0, exact_type IntExact), (1, none_singleton)] [(0, exact_type StrExact)])"
  using intersect_with_greatest [of "[(0, exact_type IntExact), (1, none_singleton)]" "[(0, known_not_none)]"
      "[(0, exact_type StrExact)]"]
  by (simp add: env_ok_def env_below_def facts_below_def is_uninformative_for_local_env_def
      exact_type_def known_not_none_def none_singleton_def)

section \<open>Exceptional edges\<close>

text \<open>
  The edges the analysis follows are those of the terminators. A block that an exception reaches has
  no entry of its own, so its edges are never met, and a block after a \<open>try\<close> statement keeps the
  claims of the path without an exception.
\<close>

definition handler_blocks :: "block list" where
  "handler_blocks =
     [sample_block 0 [sample_store (sample_load ''c'' (Constant 0))] (Jump (sample_edge 2)) (Some (sample_edge 1)),
      sample_block 1 [sample_store (sample_load ''d'' (Constant 1))] (Jump (sample_edge 2)) None,
      sample_block 2 [] (Return (sample_load ''x'' (Local 0))) None]"

lemma handler_entry:
  "\<exists>env f. map_of (infer_block_entry_facts sample_constant_facts handler_blocks) 2 = Some env \<and>
     map_of env 0 = Some f \<and> ty f = Exact IntExact"
proof -
  have "(case map_of (infer_block_entry_facts sample_constant_facts handler_blocks) 2 of
      Some env \<Rightarrow> (case map_of env 0 of Some f \<Rightarrow> ty f = Exact IntExact | None \<Rightarrow> False) | None \<Rightarrow> False)"
    by code_simp
  then show ?thesis
    by (simp split: option.splits)
qed

lemma handler_reachable:
  "reachable sample_python sample_constants handler_blocks (2, [0 \<mapsto> ObjectStr ''s''])"
proof -
  have blocks: "handler_blocks ! 0 \<in> set handler_blocks" "handler_blocks ! 1 \<in> set handler_blocks"
    by (simp_all add: handler_blocks_def)
  have "reachable sample_python sample_constants handler_blocks (0, Map.empty)"
    using reachable.start [of handler_blocks "handler_blocks ! 0" "tl handler_blocks"]
    by (simp add: handler_blocks_def sample_block_def)
  moreover have "transition sample_python sample_constants handler_blocks (0, Map.empty) (1, Map.empty)"
    using transition.exceptional [OF blocks(1), of "sample_edge 1" "[]" "body (handler_blocks ! 0)"
        sample_python sample_constants Map.empty Map.empty Map.empty]
    by (simp add: handler_blocks_def sample_block_def sample_edge_def)
  moreover have "transition sample_python sample_constants handler_blocks (1, Map.empty)
      (2, [0 \<mapsto> ObjectStr ''s''])"
  proof -
    have "exec_instr sample_python sample_constants Map.empty
        (sample_store (sample_load ''d'' (Constant 1))) [0 \<mapsto> ObjectStr ''s'']"
      using exec_sample_store [OF evaluates_sample(2) [of 1 sample_constants sample_python Map.empty "''d''"]]
      by (simp add: sample_constants_def)
    moreover have "exec_term sample_python sample_constants [0 \<mapsto> ObjectStr ''s'']
        (Jump (sample_edge 2)) 2 [0 \<mapsto> ObjectStr ''s'']"
      by (rule exec_term.term_jump) (simp_all add: sample_edge_def)
    ultimately show ?thesis
      using transition.ordinary [OF blocks(2), of sample_python sample_constants]
      by (fastforce simp: handler_blocks_def sample_block_def)
  qed
  ultimately show ?thesis
    by (blast intro: reachable.step)
qed


end
