(* ===== verification/Runtime_Helpers.thy ===== *)
theory Runtime_Helpers
  imports Fact_Soundness
begin

text \<open>
  Helpers of the Python runtime that transformed code calls, \<^verbatim>\<open>soac_py/src/soac/runtime.py\<close>:
  collecting an iterator, \<open>map\<close> and \<open>filter\<close>, unpacking assignments, counting ranges, lookups of a
  class body and index conversion.

  An iterator is its state together with its \<open>__next__\<close>, a function that returns an item or raises,
  and the next state. A loop over an iterator may never end: it is a partial function, and a claim
  about it assumes how the iterator ends.
\<close>

section \<open>Iterators\<close>

datatype py_exc =
    StopIteration | StopAsyncIteration | KeyError | AttributeError | TypeError string
  | ValueError string | NameError string | RuntimeError string | OtherException string

type_synonym ('s, 'v) iter_next = "'s \<Rightarrow> (py_exc + 'v) \<times> 's"

text \<open>The loop of \<open>tuple_from_iter\<close> and \<open>list_from_iter\<close>.\<close>

partial_function (option) collect_items ::
  "('s, 'v) iter_next \<Rightarrow> 'v list \<Rightarrow> 's \<Rightarrow> (py_exc + 'v list) option"
where
  "collect_items next_item result s =
     (case next_item s of
        (Inr item, s') \<Rightarrow> collect_items next_item (result @ [item]) s'
      | (Inl e, s') \<Rightarrow> Some (if e = StopIteration then Inr result else Inl e))"

text \<open>\<open>iter(value)\<close> is an argument: the iterator or the exception it raises.\<close>

definition tuple_from_iter ::
  "('s, 'v) iter_next \<Rightarrow> py_exc + 's \<Rightarrow> (py_exc + 'v list) option"
where
  "tuple_from_iter next_item iterator =
     (case iterator of Inl e \<Rightarrow> Some (Inl e) | Inr s \<Rightarrow> collect_items next_item [] s)"

definition list_from_iter ::
  "('s, 'v) iter_next \<Rightarrow> py_exc + 's \<Rightarrow> (py_exc + 'v list) option"
where
  "list_from_iter next_item iterator =
     (case iterator of Inl e \<Rightarrow> Some (Inl e) | Inr s \<Rightarrow> collect_items next_item [] s)"

text \<open>The generators \<open>__soac_map_iterator\<close> and \<open>__soac_filter_iterator\<close>; \<open>None\<close> is the state of one that has ended.\<close>

fun soac_map_iterator ::
  "('v \<Rightarrow> py_exc + 'w) \<Rightarrow> ('s, 'v) iter_next \<Rightarrow> ('s option, 'w) iter_next"
where
  "soac_map_iterator function next_item None = (Inl StopIteration, None)"
| "soac_map_iterator function next_item (Some s) =
     (case next_item s of
        (Inl e, s') \<Rightarrow> (Inl e, None)
      | (Inr item, s') \<Rightarrow>
          (case function item of Inl e \<Rightarrow> (Inl e, None) | Inr mapped \<Rightarrow> (Inr mapped, Some s')))"

partial_function (option) filter_next ::
  "('v \<Rightarrow> py_exc + bool) \<Rightarrow> ('s, 'v) iter_next \<Rightarrow> 's \<Rightarrow> ((py_exc + 'v) \<times> 's option) option"
where
  "filter_next predicate next_item s =
     (case next_item s of
        (Inl e, s') \<Rightarrow> Some (Inl e, None)
      | (Inr item, s') \<Rightarrow>
          (case predicate item of
             Inl e \<Rightarrow> Some (Inl e, None)
           | Inr keep \<Rightarrow>
               if keep then Some (Inr item, Some s') else filter_next predicate next_item s'))"

text \<open>The iterator delivers the items and then raises the exception.\<close>

fun delivers :: "('s, 'v) iter_next \<Rightarrow> 's \<Rightarrow> 'v list \<Rightarrow> py_exc \<Rightarrow> bool" where
  "delivers next_item s [] e = (\<exists>s'. next_item s = (Inl e, s'))"
| "delivers next_item s (v # vs) e = (\<exists>s'. next_item s = (Inr v, s') \<and> delivers next_item s' vs e)"

lemma collect_items_delivers:
  "delivers next_item s items e \<Longrightarrow>
   collect_items next_item result s = Some (if e = StopIteration then Inr (result @ items) else Inl e)"
  by (induction items arbitrary: s result) (auto simp: collect_items.simps)

lemma list_from_iter_delivers:
  "delivers next_item s items e \<Longrightarrow>
   list_from_iter next_item (Inr s) = Some (if e = StopIteration then Inr items else Inl e)"
  by (simp add: list_from_iter_def collect_items_delivers)

lemma map_iterator_delivers:
  "delivers next_item s items e \<Longrightarrow>
   delivers (soac_map_iterator (Inr \<circ> f) next_item) (Some s) (map f items) e"
  by (induction items arbitrary: s) auto


section \<open>Unpacking\<close>

datatype 'v target = SingleTarget 'v | RestTarget "'v list"

fun is_single :: "'v target \<Rightarrow> bool" where
  "is_single (SingleTarget _) = True"
| "is_single (RestTarget _) = False"

fun target_items :: "'v target \<Rightarrow> 'v list" where
  "target_items (SingleTarget v) = [v]"
| "target_items (RestTarget vs) = vs"

text \<open>The loop over the flags up to the starred target.\<close>

fun unpack_prefix ::
  "('s, 'v) iter_next \<Rightarrow> bool list \<Rightarrow> nat \<Rightarrow> 'v list \<Rightarrow> 's \<Rightarrow> py_exc + (nat option \<times> 'v list \<times> 's)"
where
  "unpack_prefix next_item [] idx result s = Inr (None, result, s)"
| "unpack_prefix next_item (flag # flags) idx result s =
     (if flag then
        (case next_item s of
           (Inr item, s') \<Rightarrow> unpack_prefix next_item flags (idx + 1) (result @ [item]) s'
         | (Inl e, s') \<Rightarrow> Inl (if e = StopIteration then ValueError '''' else e))
      else Inr (Some idx, result, s))"

definition unpack_suffix ::
  "('s, 'v) iter_next \<Rightarrow> bool list \<Rightarrow> 'v list \<Rightarrow> 's \<Rightarrow> (py_exc + 'v target list) option"
where
  "unpack_suffix next_item suffix_flags result s =
     (if \<not> list_all id suffix_flags then Some (Inl (ValueError ''only one starred target is supported''))
      else
        (case collect_items next_item [] s of
           None \<Rightarrow> None
         | Some (Inl e) \<Rightarrow> Some (Inl e)
         | Some (Inr items) \<Rightarrow>
             (let suffix_count = length suffix_flags
              in if length items < suffix_count then Some (Inl (ValueError ''''))
                 else
                   (let tail = drop (length items - suffix_count) items;
                        remainder = take (length items - suffix_count) items
                    in Some (Inr (map SingleTarget result @ [RestTarget remainder] @
                         map SingleTarget tail))))))"

definition unpack ::
  "string \<Rightarrow> ('s, 'v) iter_next \<Rightarrow> py_exc + 's \<Rightarrow> bool list \<Rightarrow> (py_exc + 'v target list) option"
where
  "unpack type_name next_item iterator spec =
     (case iterator of
        Inl (TypeError m) \<Rightarrow>
          Some (Inl (TypeError (''cannot unpack non-iterable '' @ type_name @ '' object'')))
      | Inl e \<Rightarrow> Some (Inl e)
      | Inr s \<Rightarrow>
          (case unpack_prefix next_item spec 0 [] s of
             Inl e \<Rightarrow> Some (Inl e)
           | Inr (None, result, s') \<Rightarrow>
               (case next_item s' of
                  (Inl e, _) \<Rightarrow>
                    Some (if e = StopIteration then Inr (map SingleTarget result) else Inl e)
                | (Inr _, _) \<Rightarrow> Some (Inl (ValueError '''')))
           | Inr (Some star_index, result, s') \<Rightarrow>
               unpack_suffix next_item (drop (star_index + 1) spec) result s'))"

definition unpack_fixed ::
  "string \<Rightarrow> ('s, 'v) iter_next \<Rightarrow> py_exc + 's \<Rightarrow> nat \<Rightarrow> (py_exc + 'v target list) option"
where
  "unpack_fixed type_name next_item iterator arity = unpack type_name next_item iterator (replicate arity True)"


lemma filter_next_delivers:
  "delivers next_item s items e \<Longrightarrow>
   (case dropWhile (\<lambda>v. \<not> p v) items of
      [] \<Rightarrow> filter_next (Inr \<circ> p) next_item s = Some (Inl e, None)
    | v # rest \<Rightarrow> \<exists>s'. filter_next (Inr \<circ> p) next_item s = Some (Inr v, Some s') \<and> delivers next_item s' rest e)"
proof (induction items arbitrary: s)
  case (Cons v items)
  then obtain s' where s': "next_item s = (Inr v, s')" "delivers next_item s' items e"
    by auto
  have "filter_next (Inr \<circ> p) next_item s =
      (if p v then Some (Inr v, Some s') else filter_next (Inr \<circ> p) next_item s')"
    using s'(1) by (simp add: filter_next.simps [of _ _ s])
  then show ?case
    using s'(2) Cons.IH [OF s'(2)]
    by (cases "dropWhile (\<lambda>v. \<not> p v) items") (simp_all del: dropWhile_eq_Nil_conv)
qed (auto simp: filter_next.simps)

lemma unpack_prefix_delivers:
  "delivers next_item s items StopIteration \<Longrightarrow> n = length (takeWhile (\<lambda>b. b) spec) \<Longrightarrow>
   if length items < n then unpack_prefix next_item spec idx result s = Inl (ValueError '''')
   else \<exists>s'. unpack_prefix next_item spec idx result s =
       Inr (if n < length spec then Some (idx + n) else None, result @ take n items, s') \<and>
     delivers next_item s' (drop n items) StopIteration"
proof (induction spec arbitrary: items idx result s n)
  case (Cons flag spec)
  show ?case
  proof (cases items)
    case Nil
    then show ?thesis
      using Cons.prems by auto
  next
    case (Cons v rest)
    then obtain s' where s': "next_item s = (Inr v, s')" "delivers next_item s' rest StopIteration"
      using Cons.prems by auto
    show ?thesis
      using Cons s' Cons.prems Cons.IH [OF s'(2) refl, of "idx + 1" "result @ [v]"] by auto
  qed
qed auto

lemma all_single:
  "map is_single ts = replicate n True \<Longrightarrow>
   ts = map SingleTarget (concat (map target_items ts)) \<and> length (concat (map target_items ts)) = n"
proof (induction ts arbitrary: n)
  case (Cons t ts)
  then show ?case
    by (cases n; cases t) auto
qed simp

lemma flatten_singles [simp]: "concat (map (target_items \<circ> SingleTarget) xs) = xs"
  by (induction xs) simp_all

lemma map_single [simp]: "map (is_single \<circ> SingleTarget) xs = replicate (length xs) True"
  by (induction xs) simp_all

definition unpacks :: "'v list \<Rightarrow> bool list \<Rightarrow> 'v target list \<Rightarrow> bool" where
  "unpacks items spec ts \<longleftrightarrow> concat (map target_items ts) = items \<and> map is_single ts = spec"

lemma unpacks_fixed: "unpacks items (replicate n True) ts \<longleftrightarrow> ts = map SingleTarget items \<and> length items = n"
  using all_single [of ts n] by (auto simp: unpacks_def)

lemma unpacks_starred:
  assumes "unpacks items (replicate n True @ False # replicate k True) ts"
  shows "n + k \<le> length items"
proof -
  have shape: "map is_single ts = replicate n True @ False # replicate k True"
    using assms by (simp add: unpacks_def)
  then obtain pre t post where ts: "ts = pre @ t # post" "map is_single pre = replicate n True"
      "map is_single post = replicate k True"
    by (auto simp: map_eq_append_conv map_eq_Cons_conv)
  then show ?thesis
    using assms all_single [of pre n] all_single [of post k] by (auto simp: unpacks_def)
qed

lemma flags_prefix [simp]: "takeWhile (\<lambda>b. b) (replicate n True @ False # flags) = replicate n True"
  by (induction n) simp_all

lemma spec_shape:
  assumes "length (filter Not spec) \<le> 1"
  obtains (fixed) "spec = replicate (length spec) True" "takeWhile (\<lambda>b. b) spec = spec"
  | (starred) n k where "spec = replicate n True @ False # replicate k True"
      "takeWhile (\<lambda>b. b) spec = replicate n True"
proof (cases "list_all id spec")
  case True
  then have "spec = replicate (length spec) True" "takeWhile (\<lambda>b. b) spec = spec"
    by (auto simp: list_all_iff intro: replicate_eqI)
  then show thesis by (rule fixed)
next
  case False
  let ?pre = "takeWhile (\<lambda>b. b) spec" and ?rest = "dropWhile (\<lambda>b. b) spec"
  have pre: "?pre = replicate (length ?pre) True"
    by (rule replicate_eqI) (auto dest: set_takeWhileD)
  obtain post where rest: "?rest = False # post"
    using False hd_dropWhile [of "\<lambda>b. b" spec]
    by (cases ?rest) (auto simp: list_all_iff dropWhile_eq_Nil_conv)
  have split: "spec = ?pre @ False # post"
    using takeWhile_dropWhile_id [of "\<lambda>b. b" spec] rest by simp
  have "length (filter Not (?pre @ False # post)) \<le> 1"
    using assms split by simp
  then have "filter Not post = []"
    by simp
  then have "post = replicate (length post) True"
    by (intro replicate_eqI) (auto simp: filter_empty_conv)
  then show thesis
    using starred [of "length ?pre" "length post"] pre split by metis
qed

lemma unpack_fixed_spec:
  assumes "delivers next_item s items StopIteration"
  shows "unpack type_name next_item (Inr s) (replicate n True) =
    Some (if length items = n then Inr (map SingleTarget items) else Inl (ValueError ''''))"
proof (cases "length items < n")
  case True
  then show ?thesis
    using unpack_prefix_delivers [OF assms refl, of "replicate n True" 0 "[]"]
    by (simp add: unpack_def takeWhile_replicate)
next
  case False
  then obtain s' where s': "unpack_prefix next_item (replicate n True) 0 [] s = Inr (None, take n items, s')"
      "delivers next_item s' (drop n items) StopIteration"
    using unpack_prefix_delivers [OF assms refl, of "replicate n True" 0 "[]"]
    by (auto simp: takeWhile_replicate)
  show ?thesis
    using s' False by (cases "drop n items") (auto simp: unpack_def)
qed

lemma unpack_starred_spec:
  assumes "delivers next_item s items StopIteration"
  shows "unpack type_name next_item (Inr s) (replicate n True @ False # replicate k True) =
    Some (if n + k \<le> length items
      then Inr (map SingleTarget (take n items) @
        [RestTarget (take (length items - n - k) (drop n items))] @
        map SingleTarget (drop (length items - k) items))
      else Inl (ValueError ''''))"
proof -
  let ?spec = "replicate n True @ False # replicate k True"
  have n: "length (takeWhile (\<lambda>b. b) ?spec) = n"
    by (simp add: flags_prefix)
  show ?thesis
  proof (cases "length items < n")
    case True
    then show ?thesis
      using unpack_prefix_delivers [OF assms refl, of ?spec 0 "[]"] n by (simp add: unpack_def)
  next
    case False
    then obtain s' where s': "unpack_prefix next_item ?spec 0 [] s = Inr (Some n, take n items, s')"
        "delivers next_item s' (drop n items) StopIteration"
      using unpack_prefix_delivers [OF assms refl, of ?spec 0 "[]"] n by auto
    have "collect_items next_item [] s' = Some (Inr (drop n items))"
      using collect_items_delivers [OF s'(2)] by simp
    then show ?thesis
      using s'(1) False
      by (auto simp: unpack_def unpack_suffix_def list_all_iff Let_def add.commute)
  qed
qed


text \<open>
  C38. Unpacking assigns all items of a finite iterator and nothing else: with at most one starred
  target, \<open>unpack\<close> returns one value per target, a list for the starred one, whose concatenation is
  the sequence of items; if no such assignment exists it raises \<open>ValueError\<close>.
\<close>
theorem unpack_assigns:
  assumes "delivers next_item s items StopIteration" and "length (filter Not spec) \<le> 1"
  shows "(\<exists>ts. unpack type_name next_item (Inr s) spec = Some (Inr ts) \<and> unpacks items spec ts) \<or>
    unpack type_name next_item (Inr s) spec = Some (Inl (ValueError '''')) \<and> (\<nexists>ts. unpacks items spec ts)"
  using assms(2)
proof (cases rule: spec_shape)
  case fixed
  then show ?thesis
    using unpack_fixed_spec [OF assms(1), of type_name "length spec"] unpacks_fixed [of items "length spec"]
    by auto
next
  case (starred n k)
  show ?thesis
  proof (cases "n + k \<le> length items")
    case True
    let ?ts = "map SingleTarget (take n items) @ [RestTarget (take (length items - n - k) (drop n items))] @
        map SingleTarget (drop (length items - k) items)"
    have "drop (length items - k) items = drop (length items - n - k) (drop n items)"
      using True by (simp add: add.commute)
    then have "unpacks items spec ?ts"
      using True starred(1) append_take_drop_id [of "length items - n - k" "drop n items"]
        append_take_drop_id [of n items]
      by (simp add: unpacks_def del: append_take_drop_id drop_drop)
    then show ?thesis
      using True starred(1) unpack_starred_spec [OF assms(1), of type_name n k] by auto
  next
    case False
    then show ?thesis
      using starred(1) unpack_starred_spec [OF assms(1), of type_name n k]
        unpacks_starred [of items n k] by auto
  qed
qed

fun list_next :: "('v list, 'v) iter_next" where
  "list_next [] = (Inl StopIteration, [])"
| "list_next (v # vs) = (Inr v, vs)"

lemma delivers_list: "delivers list_next vs vs StopIteration"
  by (induction vs) simp_all

theorem unpack_assigns_witness:
  "unpacks [1, 2, 3, 4 :: int] [True, False, True]
     [SingleTarget 1, RestTarget [2, 3], SingleTarget 4] \<and>
   unpack ''list'' list_next (Inr [1, 2, 3, 4 :: int]) [True, False, True] =
     Some (Inr [SingleTarget 1, RestTarget [2, 3], SingleTarget 4])"
proof -
  have run: "unpack ''list'' list_next (Inr [1, 2, 3, 4 :: int]) [True, False, True] =
      Some (Inr [SingleTarget 1, RestTarget [2, 3], SingleTarget 4])"
    by (simp add: unpack_def unpack_suffix_def collect_items.simps Let_def)
  then show ?thesis
    using unpack_assigns [OF delivers_list [of "[1, 2, 3, 4 :: int]"], of "[True, False, True]" "''list''"]
    by simp
qed

section \<open>Ranges\<close>

record iter_range =
  current :: int
  stop :: int
  step :: int

definition iter_range_next :: "(iter_range, int) iter_next" where
  "iter_range_next r =
     (if step r > 0 \<and> current r \<ge> stop r \<or> \<not> step r > 0 \<and> current r \<le> stop r
      then (Inl StopIteration, r)
      else (Inr (current r), r\<lparr>current := current r + step r\<rparr>))"

text \<open>The documented contents of \<open>range(start, stop, step)\<close>: \<open>start + i * step\<close> while it stays before \<open>stop\<close>.\<close>

definition in_range :: "iter_range \<Rightarrow> int \<Rightarrow> bool" where
  "in_range r v = (if step r > 0 then v < stop r else stop r < v)"

lemma iter_range_stops:
  assumes "\<not> in_range r (current r)"
  shows "iter_range_next r = (Inl StopIteration, r)" "\<not> in_range r (current r + int i * step r)"
proof -
  show "iter_range_next r = (Inl StopIteration, r)"
    using assms by (auto simp: in_range_def iter_range_next_def split: if_splits)
  show "\<not> in_range r (current r + int i * step r)"
  proof (cases "step r > 0")
    case True
    then have "0 \<le> int i * step r" by simp
    moreover have "\<not> current r < stop r"
      using assms True by (simp add: in_range_def)
    ultimately have "\<not> current r + int i * step r < stop r" by linarith
    then show ?thesis
      using True by (simp add: in_range_def)
  next
    case False
    then have "int i * step r \<le> 0" by (simp add: mult_nonneg_nonpos)
    moreover have "\<not> stop r < current r"
      using assms False by (simp add: in_range_def)
    ultimately have "\<not> stop r < current r + int i * step r" by linarith
    then show ?thesis
      using False by (simp add: in_range_def)
  qed
qed

lemma iter_range_advances:
  "in_range r (current r) \<Longrightarrow>
   iter_range_next r = (Inr (current r), r\<lparr>current := current r + step r\<rparr>)"
  by (auto simp: in_range_def iter_range_next_def split: if_splits)

lemma count_Suc:
  "[0 ..< Suc n] = 0 # map Suc [0 ..< n]"
  by (simp add: map_Suc_upt upt_conv_Cons)

lemma iter_range_delivers:
  "step r \<noteq> 0 \<Longrightarrow>
   \<exists>n. delivers iter_range_next r (map (\<lambda>i. current r + int i * step r) [0 ..< n]) StopIteration \<and>
     (\<forall>i. i < n \<longleftrightarrow> in_range r (current r + int i * step r))"
proof (induction "nat (if step r > 0 then stop r - current r else current r - stop r)" arbitrary: r
    rule: less_induct)
  case less
  show ?case
  proof (cases "in_range r (current r)")
    case False
    then show ?thesis
      using iter_range_stops [OF False] by (intro exI [of _ 0]) simp
  next
    case True
    let ?r = "r\<lparr>current := current r + step r\<rparr>"
    have shorter: "nat (if step ?r > 0 then stop ?r - current ?r else current ?r - stop ?r) <
        nat (if step r > 0 then stop r - current r else current r - stop r)"
      using True less.prems by (auto simp: in_range_def split: if_splits)
    obtain n where n: "delivers iter_range_next ?r (map (\<lambda>i. current ?r + int i * step ?r) [0 ..< n]) StopIteration"
        "\<And>i. i < n \<longleftrightarrow> in_range ?r (current ?r + int i * step ?r)"
      using less.hyps [OF shorter] less.prems by auto
    have "delivers iter_range_next r (map (\<lambda>i. current r + int i * step r) [0 ..< Suc n]) StopIteration"
      unfolding count_Suc using n(1) iter_range_advances [OF True] by (simp add: algebra_simps comp_def)
    moreover have "i < Suc n \<longleftrightarrow> in_range r (current r + int i * step r)" for i
      using True n(2) [of "i - 1"] by (cases i) (simp_all add: in_range_def algebra_simps)
    ultimately show ?thesis by blast
  qed
qed

text \<open>
  C39. Iterating an \<open>IterRange\<close> with a nonzero step ends and returns, in order, exactly the values
  \<open>start + i * step\<close> that lie before \<open>stop\<close>, as the documentation of \<open>range\<close> states.
\<close>
theorem iter_range_counts:
  assumes "step r \<noteq> 0"
  shows "\<exists>n. list_from_iter iter_range_next (Inr r) =
      Some (Inr (map (\<lambda>i. current r + int i * step r) [0 ..< n])) \<and>
    (\<forall>i. i < n \<longleftrightarrow> in_range r (current r + int i * step r))"
proof -
  obtain n where n: "delivers iter_range_next r (map (\<lambda>i. current r + int i * step r) [0 ..< n]) StopIteration"
      "\<forall>i. i < n \<longleftrightarrow> in_range r (current r + int i * step r)"
    using iter_range_delivers [OF assms] by blast
  then show ?thesis
    using list_from_iter_delivers [OF n(1)] by auto
qed

theorem iter_range_counts_witness:
  "\<exists>n. list_from_iter iter_range_next (Inr \<lparr>current = 7, stop = 1, step = -3\<rparr>) =
      Some (Inr (map (\<lambda>i. 7 + int i * (-3)) [0 ..< n])) \<and>
    (\<forall>i. i < n \<longleftrightarrow> 1 < 7 + int i * (-3))"
  using iter_range_counts [of "\<lparr>current = 7, stop = 1, step = -3\<rparr>"] by (simp add: in_range_def)


section \<open>Class bodies and index conversion\<close>

definition quoted :: "string \<Rightarrow> string" where
  "quoted s = CHR 0x27 # s @ [CHR 0x27]"

text \<open>A lookup in a mapping or a cell: the object or the exception it raises.\<close>

definition class_lookup_cell :: "(string \<Rightarrow> py_exc + 'v) \<Rightarrow> string \<Rightarrow> py_exc + 'v \<Rightarrow> py_exc + 'v" where
  "class_lookup_cell class_ns name cell_contents =
     (case class_ns name of
        Inr v \<Rightarrow> Inr v
      | Inl e \<Rightarrow>
          if e \<noteq> KeyError then Inl e
          else
            (case cell_contents of
               Inr v \<Rightarrow> Inr v
             | Inl (ValueError m) \<Rightarrow>
                 Inl (NameError (''cannot access free variable '' @ quoted name @
                   '' where it is not associated with a value in enclosing scope''))
             | Inl e' \<Rightarrow> Inl e'))"

definition class_lookup_global ::
  "(string \<Rightarrow> py_exc + 'v) \<Rightarrow> string \<Rightarrow> (string \<Rightarrow> py_exc + 'v) \<Rightarrow> (string \<Rightarrow> py_exc + 'v) \<Rightarrow> py_exc + 'v"
where
  "class_lookup_global class_ns name globals_dict builtins_dict =
     (case class_ns name of
        Inr v \<Rightarrow> Inr v
      | Inl e \<Rightarrow>
          if e \<noteq> KeyError then Inl e
          else
            (case globals_dict name of
               Inr v \<Rightarrow> Inr v
             | Inl e' \<Rightarrow>
                 if e' \<noteq> KeyError then Inl e'
                 else
                   (case builtins_dict name of
                      Inr v \<Rightarrow> Inr v
                    | Inl e'' \<Rightarrow>
                        if e'' \<noteq> KeyError then Inl e''
                        else Inl (NameError (''name '' @ quoted name @ '' is not defined'')))))"

text \<open>\<open>value.__index__()\<close> and \<open>isinstance(result, int)\<close> are arguments.\<close>

definition index_helper ::
  "('v \<Rightarrow> py_exc + 'v) \<Rightarrow> ('v \<Rightarrow> bool) \<Rightarrow> ('v \<Rightarrow> string) \<Rightarrow> 'v \<Rightarrow> py_exc + 'v"
where
  "index_helper index_method is_int type_name val =
     (case index_method val of
        Inl e \<Rightarrow>
          if e = AttributeError
          then Inl (TypeError (quoted (type_name val) @ '' object cannot be interpreted as an integer''))
          else Inl e
      | Inr result \<Rightarrow>
          if is_int result then Inr result
          else Inl (TypeError (''__index__ returned non-int (type '' @ type_name result @ '')'')))"

text \<open>
  The analysis of value facts promises more about these helpers than they do: a class body that binds
  a name to \<open>None\<close> makes the lookup return \<open>None\<close>, and \<open>__index__\<close> may return any instance of \<open>int\<close>,
  also \<open>True\<close>.
\<close>

lemma class_lookup_result_unsound:
  "\<exists>class_ns. class_lookup_global class_ns name globals_dict builtins_dict = Inr (py_none P) \<and>
     class_lookup_cell class_ns name cell_contents = Inr (py_none P) \<and>
     \<not> value_holds P (runtime_helper_result ClassLookupGlobalHelper) (py_none P) \<and>
     \<not> value_holds P (runtime_helper_result ClassLookupCellHelper) (py_none P)"
  by (rule exI [of _ "\<lambda>_. Inr (py_none P)"])
    (simp add: class_lookup_global_def class_lookup_cell_def holds_def known_not_none_def)

lemma index_result_unsound:
  assumes "singleton_laws P" and "is_int (py_true P)" and "index_method val = Inr (py_true P)"
  shows "index_helper index_method is_int type_name val = Inr (py_true P) \<and>
    \<not> value_holds P (runtime_helper_result IndexHelper) (py_true P)"
  using assms bool_type [OF assms(1), of "py_true P"]
  by (auto simp: index_helper_def exact_type_def dest: holds_type [of P _ _ IntExact])

end
