(* ===== verification/Instr_Ids.thy ===== *)
theory Instr_Ids
  imports Fact_Inference
begin

text \<open>
  Instruction ids of a BlockPy function, \<^verbatim>\<open>crates/soac_ir_blockpy/src/instr_id.rs\<close>: numbering all
  instructions, numbering those without an id, and the validation that later passes rely on when they
  key facts by function and instruction id.

  A counter that would leave \<open>u32\<close> makes the Rust code panic; here the result is \<open>None\<close>.
\<close>

section \<open>Traversal\<close>

fun thread :: "('a \<Rightarrow> 's \<Rightarrow> ('b \<times> 's) option) \<Rightarrow> 'a list \<Rightarrow> 's \<Rightarrow> ('b list \<times> 's) option" where
  "thread f [] s = Some ([], s)"
| "thread f (x # xs) s =
     (case f x s of
        None \<Rightarrow> None
      | Some (y, s') \<Rightarrow> map_option (\<lambda>(ys, s''). (y # ys, s'')) (thread f xs s'))"

lemma thread_cong [fundef_cong]:
  "xs = ys \<Longrightarrow> (\<And>x s. x \<in> set ys \<Longrightarrow> f x s = g x s) \<Longrightarrow> s = t \<Longrightarrow> thread f xs s = thread g ys t"
proof -
  have "(\<And>x s. x \<in> set ys \<Longrightarrow> f x s = g x s) \<Longrightarrow> thread f ys t = thread g ys t"
    by (induction ys arbitrary: t) (auto split: option.split)
  then show "xs = ys \<Longrightarrow> (\<And>x s. x \<in> set ys \<Longrightarrow> f x s = g x s) \<Longrightarrow> s = t \<Longrightarrow> thread f xs s = thread g ys t"
    by simp
qed

text \<open>
  \<open>visit_instr_mut\<close> of an assigner: first the instruction itself, then its sub-instructions from left
  to right. The step gets the id of the instruction and returns the new one.
\<close>

function visit_instr_mut ::
  "(u32 option \<Rightarrow> 's \<Rightarrow> (u32 option \<times> 's) option) \<Rightarrow> instr \<Rightarrow> 's \<Rightarrow> (instr \<times> 's) option"
where
  "visit_instr_mut assign e s =
     (case assign (try_semantic_instr_id e) s of
        None \<Rightarrow> None
      | Some (i, s') \<Rightarrow>
          map_option (\<lambda>(cs, s''). (replace_children (set_instr_id i e) cs, s''))
            (thread (visit_instr_mut assign) (children e) s'))"
  by pat_completeness auto
termination by (relation "measure (\<lambda>(_, e, _). size e)") (auto simp: size_children)

declare visit_instr_mut.simps [simp del]

definition visit_block_mut ::
  "(u32 option \<Rightarrow> 's \<Rightarrow> (u32 option \<times> 's) option) \<Rightarrow> block \<Rightarrow> 's \<Rightarrow> (block \<times> 's) option"
where
  "visit_block_mut assign b s =
     map_option
       (\<lambda>(es, s').
          (b\<lparr>body := take (length (body b)) es,
             block_terminator := replace_term_instrs (block_terminator b) (drop (length (body b)) es)\<rparr>,
           s'))
       (thread (visit_instr_mut assign) (block_roots b) s)"

definition visit_fn_mut ::
  "(u32 option \<Rightarrow> 's \<Rightarrow> (u32 option \<times> 's) option) \<Rightarrow> blockpy_function \<Rightarrow> 's \<Rightarrow> (blockpy_function \<times> 's) option"
where
  "visit_fn_mut assign f s =
     map_option (\<lambda>(bs, s'). (f\<lparr>blocks := bs\<rparr>, s')) (thread (visit_block_mut assign) (blocks f) s)"

section \<open>Assigning ids\<close>

definition checked_add_one :: "u32 \<Rightarrow> u32 option" where
  "checked_add_one n = (if n = - 1 then None else Some (n + 1))"

definition block_assign :: "u32 option \<Rightarrow> u32 \<Rightarrow> (u32 option \<times> u32) option" where
  "block_assign i next_instr_index =
     map_option (\<lambda>n. (Some next_instr_index, n)) (checked_add_one next_instr_index)"

definition reassign_blockpy_function_instr_ids :: "blockpy_function \<Rightarrow> blockpy_function option" where
  "reassign_blockpy_function_instr_ids f = map_option fst (visit_fn_mut block_assign f 0)"

lemma unat_next: "(n :: u32) \<noteq> - 1 \<Longrightarrow> unat (n + 1) = Suc (unat n)"
  using unatSuc [of n] by (simp add: eq_neg_iff_add_eq_0 add.commute)

text \<open>The loop \<open>while used.contains(next)\<close>.\<close>

function skip_used :: "u32 list \<Rightarrow> u32 \<Rightarrow> u32 option" where
  "skip_used used n =
     (if List.member used n then
        (if n = - 1 then None else skip_used used (n + 1))
      else Some n)"
  by pat_completeness auto
termination
proof (relation "measure (\<lambda>(used, n). 2 ^ 32 - unat n)", goal_cases)
  case (2 used n)
  have "unat n < 2 ^ LENGTH(32)" by (rule unsigned_less)
  moreover have "unat (n + 1) = Suc (unat n)"
    by (rule unat_next [OF 2(2)])
  ultimately show ?case by simp
qed simp

declare skip_used.simps [simp del]

definition missing_assign :: "u32 option \<Rightarrow> u32 \<times> u32 list \<Rightarrow> (u32 option \<times> u32 \<times> u32 list) option" where
  "missing_assign i state =
     (if i \<noteq> None then Some (i, state)
      else
        (case skip_used (snd state) (fst state) of
           None \<Rightarrow> None
         | Some n \<Rightarrow> map_option (\<lambda>n'. (Some n, n', n # snd state)) (checked_add_one n)))"

definition collect_id :: "instr \<Rightarrow> (u32 \<times> u32 list) option \<Rightarrow> (u32 \<times> u32 list) option" where
  "collect_id e state =
     (case (state, try_semantic_instr_id e) of
        (Some (next_instr_index, used), Some i) \<Rightarrow>
          map_option (\<lambda>n. (max next_instr_index n, List.insert i used)) (checked_add_one i)
      | _ \<Rightarrow> state)"

definition assign_missing_blockpy_function_instr_ids :: "blockpy_function \<Rightarrow> blockpy_function option" where
  "assign_missing_blockpy_function_instr_ids f =
     (case fold collect_id (function_instrs f) (Some (0, [])) of
        None \<Rightarrow> None
      | Some state \<Rightarrow> map_option fst (visit_fn_mut missing_assign f state))"

definition reassign_blockpy_module_instr_ids :: "blockpy_module \<Rightarrow> blockpy_module option" where
  "reassign_blockpy_module_instr_ids m =
     map_option (\<lambda>fs. m\<lparr>callable_defs := fs\<rparr>)
       (map_option fst (thread (\<lambda>f (). map_option (\<lambda>f'. (f', ())) (reassign_blockpy_function_instr_ids f))
          (callable_defs m) ()))"

section \<open>Validation\<close>

datatype instr_id_error =
    MissingInstrId string runtime_function_id
  | DuplicateInstrId instr_key string

definition validate_instr ::
  "blockpy_function \<Rightarrow> instr \<Rightarrow> instr_key list \<times> instr_id_error list \<Rightarrow> instr_key list \<times> instr_id_error list"
where
  "validate_instr f e state =
     (case try_semantic_instr_id e of
        None \<Rightarrow>
          (case e of
             IncrementCounter _ _ \<Rightarrow> state
           | _ \<Rightarrow> (fst state, snd state @ [MissingInstrId (qualname (names f)) (function_id f)]))
      | Some i \<Rightarrow>
          (let key = \<lparr>key_function_id = function_id f, key_instr_id = i\<rparr>
           in if List.member (fst state) key
              then (fst state, snd state @ [DuplicateInstrId key (qualname (names f))])
              else (key # fst state, snd state)))"

definition validate_function :: "blockpy_function \<Rightarrow> instr_id_error list + unit" where
  "validate_function f =
     (let errors = snd (fold (validate_instr f) (function_instrs f) ([], []))
      in if errors = [] then Inr () else Inl errors)"

definition validate_blockpy_instr_ids :: "blockpy_module \<Rightarrow> instr_id_error list + unit" where
  "validate_blockpy_instr_ids m =
     (let errors = concat (map (\<lambda>f. case validate_function f of Inl es \<Rightarrow> es | Inr _ \<Rightarrow> []) (callable_defs m))
      in if errors = [] then Inr () else Inl errors)"


section \<open>Traversals seen as lists of ids\<close>

lemma instr_meta_with_meta [simp]: "instr_meta (with_meta m e) = m"
  by (cases e) simp_all

lemma children_with_meta [simp]: "children (with_meta m e) = children e"
  by (cases e) simp_all

lemma instr_meta_replace [simp]: "instr_meta (replace_children e cs) = instr_meta e"
  by (cases e) (simp_all split: prod.splits)

lemma refill_option_list:
  "length (option_list x) \<le> length es \<Longrightarrow>
   option_list (fst (refill_option x es)) = take (length (option_list x)) es \<and>
   snd (refill_option x es) = drop (length (option_list x)) es"
  by (cases x; cases es) simp_all

lemma refill_namespace_list:
  "length (namespace_children ns) \<le> length es \<Longrightarrow>
   namespace_children (fst (refill_namespace ns es)) = take (length (namespace_children ns)) es \<and>
   snd (refill_namespace ns es) = drop (length (namespace_children ns)) es"
  by (cases "(ns, es)" rule: refill_namespace.cases) (simp_all add: namespace_children_def)

lemma refill_positional_list:
  "length as \<le> length es \<Longrightarrow>
   map positional_expr (fst (refill_positional as es)) = take (length as) es \<and>
   snd (refill_positional as es) = drop (length as) es"
proof (induction as es rule: refill_positional.induct)
  case (1 a as e es)
  then show ?case
    by (cases a) (auto split: prod.splits)
qed simp_all

lemma refill_keyword_list:
  "length as \<le> length es \<Longrightarrow>
   map keyword_expr (fst (refill_keyword as es)) = take (length as) es \<and>
   snd (refill_keyword as es) = drop (length as) es"
proof (induction as es rule: refill_keyword.induct)
  case (1 a as e es)
  then show ?case
    by (cases a) (auto split: prod.splits)
qed simp_all

lemmas refill_fst =
  refill_option_list [THEN conjunct1] refill_namespace_list [THEN conjunct1]
  refill_positional_list [THEN conjunct1] refill_keyword_list [THEN conjunct1]

lemmas refill_snd =
  refill_option_list [THEN conjunct2] refill_namespace_list [THEN conjunct2]
  refill_positional_list [THEN conjunct2] refill_keyword_list [THEN conjunct2]

lemma join_two: "length es = a + b \<Longrightarrow> take a es @ take b (drop a es) = es"
  by simp

lemma join_three:
  "length es = a + (b + c) \<Longrightarrow> take a es @ take b (drop a es) @ take c (drop (b + a) es) = es"
  using join_two [of "drop a es" b c] by simp

lemma nth_list:
  "length es = 1 \<Longrightarrow> [es ! 0] = es"
  "length es = 2 \<Longrightarrow> [es ! 0, es ! 1] = es"
  "length es = 3 \<Longrightarrow> [es ! 0, es ! 1, es ! 2] = es"
  by (auto simp: length_Suc_conv numeral_nat)

lemma join_rest: "take a es @ take b (drop a es) @ drop (b + a) es = es"
  using append_take_drop_id [of b "drop a es"] append_take_drop_id [of a es] by simp

lemma take_last: "length es = Suc a \<Longrightarrow> take a es @ [hd (drop a es)] = es"
  by (simp add: take_hd_drop)

lemma take_take_last:
  "length es = Suc (a + b) \<Longrightarrow> take a es @ take b (drop a es) @ [hd (drop (b + a) es)] = es"
  using take_last [of "drop a es" b] append_take_drop_id [of a es] by simp

lemma children_replace:
  "length cs = length (children e) \<Longrightarrow> children (replace_children e cs) = cs"
  by (cases e)
    (simp_all add: Let_def case_prod_beta refill_list_def refill_fst refill_snd nth_list
      nth_list [simplified] take_last take_take_last,
      (auto simp: length_Suc_conv join_rest numeral_3_eq_3))


lemma thread_length: "thread f xs s = Some (ys, s') \<Longrightarrow> length ys = length xs"
  by (induction xs arbitrary: s ys) (auto split: option.splits)

lemma thread_append:
  "thread f (xs @ ys) s =
     (case thread f xs s of
        None \<Rightarrow> None
      | Some (xs', s') \<Rightarrow> map_option (\<lambda>(ys', s''). (xs' @ ys', s'')) (thread f ys s'))"
proof (induction xs arbitrary: s)
  case (Cons x xs)
  then show ?case
    by (cases "f x s") (auto simp: option.map_comp comp_def prod.case_distrib split: option.splits prod.splits)
qed (simp add: option.map_id)

definition ids_of :: "instr \<Rightarrow> u32 option list" where
  "ids_of e = map try_semantic_instr_id (instrs e)"

lemma ids_of_unfold: "ids_of e = try_semantic_instr_id e # concat (map ids_of (children e))"
  by (simp add: ids_of_def [abs_def] instrs.simps [of e] map_concat comp_def)

definition flat :: "('a \<Rightarrow> u32 option list) \<Rightarrow> ('a \<times> 's) option \<Rightarrow> (u32 option list \<times> 's) option" where
  "flat ids r = map_option (\<lambda>(x, s). (ids x, s)) r"

lemma thread_flat:
  assumes "\<And>x s. x \<in> set xs \<Longrightarrow> flat ids (f x s) = thread assign (ids x) s"
  shows "flat (\<lambda>ys. concat (map ids ys)) (thread f xs s) = thread assign (concat (map ids xs)) s"
  using assms
proof (induction xs arbitrary: s)
  case (Cons x xs)
  have head: "flat ids (f x s) = thread assign (ids x) s"
    using Cons.prems by simp
  have rest: "flat (\<lambda>ys. concat (map ids ys)) (thread f xs t) = thread assign (concat (map ids xs)) t" for t
    using Cons by simp
  show ?case
  proof (cases "f x s")
    case None
    then show ?thesis
      using head by (simp add: flat_def thread_append)
  next
    case (Some r)
    obtain y t where r: "r = (y, t)" by (cases r)
    then have "thread assign (ids x) s = Some (ids y, t)"
      using head Some by (simp add: flat_def)
    then show ?thesis
      using Some r rest [of t, symmetric]
      by (cases "thread f xs t") (auto simp: flat_def thread_append)
  qed
qed (simp add: flat_def)

lemma visit_instr_flat: "flat ids_of (visit_instr_mut assign e s) = thread assign (ids_of e) s"
proof (induction "size e" arbitrary: e s rule: less_induct)
  case less
  have below: "flat (\<lambda>ys. concat (map ids_of ys)) (thread (visit_instr_mut assign) (children e) t) =
      thread assign (concat (map ids_of (children e))) t" for t
    by (rule thread_flat) (use less size_children in blast)
  show ?case
  proof (cases "assign (try_semantic_instr_id e) s")
    case None
    then show ?thesis
      by (simp add: visit_instr_mut.simps [of _ e] ids_of_unfold [of e] flat_def)
  next
    case (Some r)
    obtain i t where r: "r = (i, t)" by (cases r)
    show ?thesis
    proof (cases "thread (visit_instr_mut assign) (children e) t")
      case None
      then show ?thesis
        using Some r below [of t, symmetric] by (simp add: visit_instr_mut.simps [of _ e] ids_of_unfold [of e] flat_def)
    next
      case thr: (Some q)
      obtain cs u where q: "q = (cs, u)" by (cases q)
      have "ids_of (replace_children (set_instr_id i e) cs) = i # concat (map ids_of cs)"
        using thr q thread_length [of _ "children e" t cs u]
        by (simp add: ids_of_unfold [of "replace_children _ _"] children_replace set_instr_id_def
            try_semantic_instr_id_def)
      then show ?thesis
        using Some r thr q below [of t, symmetric]
        by (simp add: visit_instr_mut.simps [of _ e] ids_of_unfold [of e] flat_def)
    qed
  qed
qed


definition block_ids :: "block \<Rightarrow> u32 option list" where
  "block_ids b = concat (map ids_of (block_roots b))"

definition function_ids :: "blockpy_function \<Rightarrow> u32 option list" where
  "function_ids f = map try_semantic_instr_id (function_instrs f)"

lemma function_ids_blocks: "function_ids f = concat (map block_ids (blocks f))"
proof -
  have "map try_semantic_instr_id (concat (map instrs (concat (map block_roots bs)))) =
      concat (map (\<lambda>b. concat (map (\<lambda>e. map try_semantic_instr_id (instrs e)) (block_roots b))) bs)" for bs
    by (induction bs) (simp_all add: map_concat comp_def)
  then show ?thesis
    by (simp add: function_ids_def function_instrs_def block_ids_def [abs_def] ids_of_def [abs_def])
qed

lemma term_instrs_replace:
  "length es = length (term_instrs t) \<Longrightarrow> term_instrs (replace_term_instrs t es) = es"
proof (cases t)
  case (Raise exc disposition)
  assume "length es = length (term_instrs t)"
  then show ?thesis
    using Raise refill_option_list [of exc es] by simp
qed (simp_all add: nth_list [simplified])

lemma block_roots_rewrite:
  assumes "length es = length (block_roots b)"
  shows "block_roots (b\<lparr>body := take (length (body b)) es,
    block_terminator := replace_term_instrs (block_terminator b) (drop (length (body b)) es)\<rparr>) = es"
  using assms term_instrs_replace [of "drop (length (body b)) es" "block_terminator b"]
  by (simp add: block_roots_def)

lemma visit_block_flat: "flat block_ids (visit_block_mut assign b s) = thread assign (block_ids b) s"
proof -
  have roots: "flat (\<lambda>ys. concat (map ids_of ys)) (thread (visit_instr_mut assign) (block_roots b) s) =
      thread assign (concat (map ids_of (block_roots b))) s"
    by (rule thread_flat) (rule visit_instr_flat)
  show ?thesis
  proof (cases "thread (visit_instr_mut assign) (block_roots b) s")
    case None
    then show ?thesis
      using roots by (simp add: visit_block_mut_def flat_def block_ids_def)
  next
    case (Some q)
    obtain es t where q: "q = (es, t)" by (cases q)
    have "length es = length (block_roots b)"
      using Some q by (simp add: thread_length)
    then show ?thesis
      using Some q roots [symmetric]
      by (simp add: visit_block_mut_def flat_def block_ids_def block_roots_rewrite)
  qed
qed

lemma visit_fn_flat: "flat function_ids (visit_fn_mut assign f s) = thread assign (function_ids f) s"
proof -
  have "flat (\<lambda>ys. concat (map block_ids ys)) (thread (visit_block_mut assign) (blocks f) s) =
      thread assign (concat (map block_ids (blocks f))) s"
    by (rule thread_flat) (rule visit_block_flat)
  then show ?thesis
    by (cases "thread (visit_block_mut assign) (blocks f) s")
      (auto simp: visit_fn_mut_def flat_def function_ids_blocks)
qed

section \<open>Numbering\<close>

lemma u32_bound: "unat (n :: u32) < 2 ^ 32"
proof -
  have "unat n < 2 ^ LENGTH(32)" by (rule unsigned_less)
  then show ?thesis by simp
qed

lemma unat_last: "unat (- 1 :: u32) = 2 ^ 32 - 1"
  by (simp add: unsigned_minus_1_eq_mask mask_eq_exp_minus_1)

lemma checked_add_one_Some: "checked_add_one n = Some n' \<Longrightarrow> unat n' = Suc (unat n)"
  by (auto simp: checked_add_one_def unat_next split: if_splits)

lemma checked_add_one_None: "checked_add_one n = None \<longleftrightarrow> unat n + 1 = 2 ^ 32"
proof -
  have "n = - 1 \<longleftrightarrow> unat n = unat (- 1 :: u32)"
    by (rule word_unat_eq_iff)
  then show ?thesis
    by (auto simp: checked_add_one_def unat_last)
qed

lemma thread_block_assign:
  "case thread block_assign xs n of
     None \<Rightarrow> 2 ^ 32 \<le> unat n + length xs
   | Some (ys, n') \<Rightarrow>
       unat n' = unat n + length xs \<and> ys = map (Some \<circ> of_nat) [unat n ..< unat n + length xs]"
proof (induction xs arbitrary: n)
  case (Cons x xs)
  show ?case
  proof (cases "checked_add_one n")
    case None
    then show ?thesis
      using checked_add_one_None [of n] by (simp add: block_assign_def)
  next
    case (Some m)
    have m: "unat m = Suc (unat n)"
      by (rule checked_add_one_Some [OF Some])
    have step: "block_assign x n = Some (Some n, m)"
      using Some by (simp add: block_assign_def)
    have ids: "map (Some \<circ> of_nat) [unat n ..< unat n + length (x # xs)] =
        Some n # map (Some \<circ> of_nat) [unat m ..< unat m + length xs]"
      by (simp add: m upt_conv_Cons del: upt_Suc)
    show ?thesis
      unfolding ids using Cons.IH [of m] step m
      by (cases "thread block_assign xs m") auto
  qed
qed simp

lemma reassign_ids:
  "case reassign_blockpy_function_instr_ids f of
     None \<Rightarrow> 2 ^ 32 \<le> length (function_instrs f)
   | Some f' \<Rightarrow>
       length (function_instrs f) < 2 ^ 32 \<and>
       function_ids f' = map (Some \<circ> of_nat) [0 ..< length (function_instrs f)]"
proof (cases "visit_fn_mut block_assign f 0")
  case None
  then have "thread block_assign (function_ids f) 0 = None"
    using visit_fn_flat [of block_assign f 0] by (simp add: flat_def)
  then show ?thesis
    using thread_block_assign [where xs = "function_ids f" and n = 0] None
    by (simp add: reassign_blockpy_function_instr_ids_def function_ids_def)
next
  case (Some r)
  obtain f' n where r: "r = (f', n)" by (cases r)
  then have "thread block_assign (function_ids f) 0 = Some (function_ids f', n)"
    using visit_fn_flat [of block_assign f 0] Some by (simp add: flat_def)
  then show ?thesis
    using thread_block_assign [where xs = "function_ids f" and n = 0] u32_bound [of n] Some r
    by (simp add: reassign_blockpy_function_instr_ids_def function_ids_def)
qed


section \<open>Validation accepts exactly the functions with unique ids\<close>

fun is_increment_counter :: "instr \<Rightarrow> bool" where
  "is_increment_counter (IncrementCounter _ _) = True"
| "is_increment_counter _ = False"

definition somes :: "'a option list \<Rightarrow> 'a list" where
  "somes xs = concat (map option_list xs)"

lemma somes_simps [simp]:
  "somes [] = []" "somes (None # xs) = somes xs" "somes (Some x # xs) = x # somes xs"
  by (simp_all add: somes_def)

lemma set_somes: "x \<in> set (somes xs) \<longleftrightarrow> Some x \<in> set xs"
proof (induction xs)
  case (Cons y xs)
  then show ?case by (cases y) auto
qed simp

lemma validate_missing:
  "try_semantic_instr_id e = None \<Longrightarrow>
   validate_instr f e s =
     (if is_increment_counter e then s
      else (fst s, snd s @ [MissingInstrId (qualname (names f)) (function_id f)]))"
  by (cases e) (simp_all add: validate_instr_def)

definition key_of :: "blockpy_function \<Rightarrow> u32 \<Rightarrow> instr_key" where
  "key_of f i = \<lparr>key_function_id = function_id f, key_instr_id = i\<rparr>"

lemma key_of_inject [simp]: "key_of f i = key_of f j \<longleftrightarrow> i = j"
  by (simp add: key_of_def)

lemma validate_present:
  "try_semantic_instr_id e = Some i \<Longrightarrow>
   validate_instr f e s =
     (if key_of f i \<in> set (fst s)
      then (fst s, snd s @ [DuplicateInstrId (key_of f i) (qualname (names f))])
      else (key_of f i # fst s, snd s))"
  by (simp add: validate_instr_def key_of_def Let_def)

lemma validate_errors_kept: "snd s \<noteq> [] \<Longrightarrow> snd (fold (validate_instr f) es s) \<noteq> []"
proof (induction es arbitrary: s)
  case (Cons e es)
  then show ?case
    by (cases "try_semantic_instr_id e") (simp_all add: validate_missing validate_present)
qed simp

lemma validate_fold:
  "snd (fold (validate_instr f) es (seen, [])) = [] \<longleftrightarrow>
     list_all (\<lambda>e. try_semantic_instr_id e \<noteq> None \<or> is_increment_counter e) es \<and>
     distinct (somes (map try_semantic_instr_id es)) \<and>
     (\<forall>i \<in> set (somes (map try_semantic_instr_id es)). key_of f i \<notin> set seen)"
proof (induction es arbitrary: seen)
  case (Cons e es)
  show ?case
  proof (cases "try_semantic_instr_id e")
    case None
    then show ?thesis
      using Cons.IH [of seen]
        validate_errors_kept [of "(seen, [MissingInstrId (qualname (names f)) (function_id f)])" f es]
      by (simp add: validate_missing)
  next
    case (Some i)
    then show ?thesis
      using Cons.IH [of "key_of f i # seen"]
        validate_errors_kept [of "(seen, [DuplicateInstrId (key_of f i) (qualname (names f))])" f es]
      by (auto simp: validate_present)
  qed
qed simp

lemma validate_function_iff:
  "validate_function f = Inr () \<longleftrightarrow>
     list_all (\<lambda>e. try_semantic_instr_id e \<noteq> None \<or> is_increment_counter e) (function_instrs f) \<and>
     distinct (somes (function_ids f))"
  using validate_fold [of f "function_instrs f" "[]"]
  by (simp add: validate_function_def Let_def function_ids_def)

lemma validate_all_present:
  "None \<notin> set (function_ids f) \<Longrightarrow> distinct (somes (function_ids f)) \<Longrightarrow> validate_function f = Inr ()"
  unfolding validate_function_iff function_ids_def list_all_iff set_map by (metis image_eqI)

lemma somes_map_Some [simp]: "somes (map (Some \<circ> g) xs) = map g xs"
  by (induction xs) simp_all

lemma distinct_of_nat: "n \<le> 2 ^ 32 \<Longrightarrow> distinct (map (of_nat :: nat \<Rightarrow> u32) [0 ..< n])"
proof -
  assume "n \<le> 2 ^ 32"
  then have "inj_on (of_nat :: nat \<Rightarrow> u32) (set [0 ..< n])"
    by (intro inj_onI) (simp add: word_of_nat_eq_iff take_bit_nat_eq_self)
  then show ?thesis
    by (simp add: distinct_map)
qed

text \<open>
  C36. Renumbering a function gives its instructions the ids 0, 1, 2, \<dots> in visiting order, which the
  validation accepts. It fails only for a function with \<open>2 ^ 32\<close> or more instructions.
\<close>
theorem reassigned_ids_valid:
  "case reassign_blockpy_function_instr_ids f of
     None \<Rightarrow> 2 ^ 32 \<le> length (function_instrs f)
   | Some f' \<Rightarrow>
       function_ids f' = map (Some \<circ> of_nat) [0 ..< length (function_instrs f)] \<and>
       length (function_instrs f) < 2 ^ 32 \<and> validate_function f' = Inr ()"
proof (cases "reassign_blockpy_function_instr_ids f")
  case None
  then show ?thesis
    using reassign_ids [of f] by simp
next
  case (Some f')
  then have ids: "function_ids f' = map (Some \<circ> of_nat) [0 ..< length (function_instrs f)]"
    and small: "length (function_instrs f) < 2 ^ 32"
    using reassign_ids [of f] by simp_all
  have "validate_function f' = Inr ()"
    by (rule validate_all_present)
      (use small in \<open>auto simp: ids distinct_of_nat [simplified]\<close>)
  then show ?thesis
    using Some ids small by simp
qed

section \<open>Filling in missing ids\<close>

lemma skip_used_fresh: "skip_used used n = Some m \<Longrightarrow> m \<notin> set used"
proof (induction used n rule: skip_used.induct)
  case (1 used n)
  then show ?case
    by (simp add: skip_used.simps [of used n] split: if_splits)
qed

lemma missing_assign_None:
  assumes "missing_assign None (n, used) = Some (y, st)"
  obtains m k where "y = Some m" "st = (k, m # used)" "m \<notin> set used"
  using assms
  by (auto simp: missing_assign_def dest: skip_used_fresh split: option.splits)

lemma thread_missing_assign:
  "thread missing_assign xs (n, used) = Some (ys, st) \<Longrightarrow> set (somes xs) \<subseteq> set used \<Longrightarrow>
   distinct (somes xs) \<Longrightarrow>
   list_all2 (\<lambda>x y. x \<noteq> None \<longrightarrow> y = x) xs ys \<and> None \<notin> set ys \<and> distinct (somes ys) \<and>
   set (somes ys) \<inter> set used \<subseteq> set (somes xs)"
proof (induction xs arbitrary: n used ys)
  case (Cons x xs)
  from Cons.prems(1) obtain y n' used' ys' where
    step: "missing_assign x (n, used) = Some (y, n', used')" and ys: "ys = y # ys'"
    and rest: "thread missing_assign xs (n', used') = Some (ys', st)"
    by (auto split: option.splits)
  show ?case
  proof (cases x)
    case None
    with step obtain m where m: "y = Some m" "used' = m # used" "m \<notin> set used"
      using missing_assign_None by blast
    have "set (somes xs) \<subseteq> set used'" "distinct (somes xs)"
      using Cons.prems None m(2) by auto
    from Cons.IH [OF rest this] show ?thesis
      using None m ys Cons.prems(2) by auto
  next
    case (Some i)
    then have same: "y = Some i" "used' = used"
      using step by (simp_all add: missing_assign_def)
    have "set (somes xs) \<subseteq> set used'" "distinct (somes xs)"
      using Cons.prems Some same(2) by auto
    from Cons.IH [OF rest this] show ?thesis
      using Some same ys Cons.prems(2,3) by auto
  qed
qed simp

lemma collect_id_None: "fold collect_id es None = None"
  by (induction es) (simp_all add: collect_id_def)

lemma collect_id_Some:
  "try_semantic_instr_id e = Some i \<Longrightarrow>
   collect_id e (Some (n, used)) = map_option (\<lambda>m. (max n m, List.insert i used)) (checked_add_one i)"
  "try_semantic_instr_id e = None \<Longrightarrow> collect_id e (Some (n, used)) = Some (n, used)"
  by (simp_all add: collect_id_def)

lemma collect_ids:
  "fold collect_id es (Some (n, used)) = Some (n', used') \<Longrightarrow>
   set used' = set used \<union> set (somes (map try_semantic_instr_id es))"
proof (induction es arbitrary: n used)
  case (Cons e es)
  show ?case
  proof (cases "try_semantic_instr_id e")
    case None
    then show ?thesis
      using Cons by (simp add: collect_id_Some)
  next
    case (Some i)
    then show ?thesis
      using Cons.IH [of _ "List.insert i used"] Cons.prems
      by (cases "checked_add_one i") (auto simp: collect_id_Some collect_id_None)
  qed
qed simp

text \<open>
  C37. Filling in missing ids keeps every id the function has, gives each other instruction an id that
  no instruction had, and makes a function whose ids were unique pass the validation.
\<close>
theorem missing_ids_filled:
  assumes "assign_missing_blockpy_function_instr_ids f = Some f'" and "distinct (somes (function_ids f))"
  shows "list_all2 (\<lambda>i i'. i \<noteq> None \<longrightarrow> i' = i) (function_ids f) (function_ids f') \<and>
    None \<notin> set (function_ids f') \<and> validate_function f' = Inr ()"
proof -
  obtain n used r where used: "fold collect_id (function_instrs f) (Some (0, [])) = Some (n, used)"
      and r: "visit_fn_mut missing_assign f (n, used) = Some (f', r)"
    using assms(1) by (auto simp: assign_missing_blockpy_function_instr_ids_def split: option.splits)
  have "set used = set (somes (function_ids f))"
    using collect_ids [OF used] by (simp add: function_ids_def)
  moreover have "thread missing_assign (function_ids f) (n, used) = Some (function_ids f', r)"
    using visit_fn_flat [of missing_assign f "(n, used)", symmetric] r by (simp add: flat_def)
  ultimately have filled: "list_all2 (\<lambda>i i'. i \<noteq> None \<longrightarrow> i' = i) (function_ids f) (function_ids f')"
      "None \<notin> set (function_ids f')" "distinct (somes (function_ids f'))"
    using thread_missing_assign [of "function_ids f" n used "function_ids f'" r] assms(2) by simp_all
  then show ?thesis
    using validate_all_present by blast
qed


definition partly_numbered :: blockpy_function where
  "partly_numbered =
     \<lparr>function_id = 1,
      names = \<lparr>bind_name = ''f'', fn_name = ''f'', display_name = ''f'', qualname = ''f''\<rparr>,
      kind_of_function = FunctionKind, function_params = [], body_params = None,
      blocks =
        [\<lparr>label = 0,
          body = [UnaryOp (synthetic\<lparr>instr_id := Some 3\<rparr>) NotOp
            (Load synthetic \<lparr>name_id = ''x'', name_location = Local 0\<rparr> None)],
          block_terminator = Return (Load synthetic \<lparr>name_id = ''x'', name_location = Local 0\<rparr> None),
          params = [], exc_edge = None,
          block_extra = \<lparr>handled_exception = RegionsContext, suspension_resume = None\<rparr>\<rparr>],
      doc = None\<rparr>"

theorem missing_ids_filled_witness:
  "function_ids partly_numbered = [Some 3, None, None] \<and>
   map_option function_ids (assign_missing_blockpy_function_instr_ids partly_numbered) =
     Some [Some 3, Some 4, Some 5] \<and>
   validate_function (the (assign_missing_blockpy_function_instr_ids partly_numbered)) = Inr ()"
proof -
  let ?r = "assign_missing_blockpy_function_instr_ids partly_numbered"
  have ids: "function_ids partly_numbered = [Some 3, None, None]"
      "map_option function_ids ?r = Some [Some 3, Some 4, Some 5]"
    by code_simp+
  then have "?r = Some (the ?r)"
    by (cases ?r) simp_all
  then show ?thesis
    using missing_ids_filled [of partly_numbered "the ?r"] ids by simp
qed

end
