(* ===== verification/Region_Extraction.thy ===== *)
theory Region_Extraction
  imports BlockPy_IR
begin

text \<open>
  Extraction of linear regions for the optimizer, \<^verbatim>\<open>crates/soac_opt/src/region_v3.rs\<close>: an expression
  tree becomes a list of values, each named by a number and computed from earlier ones.

  The value and region counters are \<open>u32\<close> and increments wrap, as in an optimized build. The claims
  about regions assume fewer than \<open>2 ^ 32\<close> values.
\<close>

section \<open>Extracted regions\<close>

datatype extracted_value_kind =
    LoadName resolved_name "cell_load_binding option"
  | Binary bin_op_kind u32 u32
  | GetAttrValue u32 u32
  | Truthiness u32

record extracted_value =
  value_id :: u32
  value_origin :: "u32 option"
  value_kind :: extracted_value_kind

datatype extracted_exit =
    BranchExit "u32 option" u32 block_label block_label
  | ReturnExit "u32 option" u32

record extracted_store_context =
  store_target :: resolved_name
  continuation :: "block_label option"

record extracted_region =
  region_id :: u32
  region_block :: block_label
  block_body_len :: nat
  region_store :: "extracted_store_context option"
  region_values :: "extracted_value list"
  region_exit :: extracted_exit

datatype region_extraction_error =
    BlockHasBody block_label nat
  | BlockHasExceptionEdge block_label
  | UnsupportedTerm block_label string
  | UnsupportedInstr "u32 option" string

record region_extraction_attempt =
  attempt_block :: block_label
  attempt_result :: "region_extraction_error + extracted_region"

primrec instr_codegen_kind :: "instr \<Rightarrow> string" where
  "instr_codegen_kind (BinOp _ _ _ _) = ''BinOp''"
| "instr_codegen_kind (UnaryOp _ _ _) = ''UnaryOp''"
| "instr_codegen_kind (Tuple _ _) = ''Tuple''"
| "instr_codegen_kind (Call _ _ _ _ _) = ''Call''"
| "instr_codegen_kind (GetAttr _ _ _) = ''GetAttr''"
| "instr_codegen_kind (SetAttr _ _ _ _) = ''SetAttr''"
| "instr_codegen_kind (GetItem _ _ _) = ''GetItem''"
| "instr_codegen_kind (SetItem _ _ _ _) = ''SetItem''"
| "instr_codegen_kind (DelItem _ _ _) = ''DelItem''"
| "instr_codegen_kind (Load _ _ _) = ''Load''"
| "instr_codegen_kind (Store _ _ _ _ _) = ''Store''"
| "instr_codegen_kind (Del _ _ _) = ''Del''"
| "instr_codegen_kind (TakeOperand _ _) = ''TakeOperand''"
| "instr_codegen_kind (ComprehensionInsert _ _ _ _ _) = ''ComprehensionInsert''"
| "instr_codegen_kind (BuildCollection _ _ _) = ''BuildCollection''"
| "instr_codegen_kind (CallArgumentOp _ _ _ _ _) = ''CallArgumentOp''"
| "instr_codegen_kind (PreparedCall _ _ _ _ _) = ''PreparedCall''"
| "instr_codegen_kind (IteratorStep _ _) = ''IteratorStep''"
| "instr_codegen_kind (MakeCell _ _) = ''MakeCell''"
| "instr_codegen_kind (NewAnnotationSet _) = ''NewAnnotationSet''"
| "instr_codegen_kind (SetupAnnotations _ _) = ''SetupAnnotations''"
| "instr_codegen_kind (ConstructTypeParameterScope _ _ _ _ _ _) = ''ConstructTypeParameterScope''"
| "instr_codegen_kind (SubscriptGeneric _ _ _) = ''SubscriptGeneric''"
| "instr_codegen_kind (SetFunctionTypeParameters _ _ _ _ _) = ''SetFunctionTypeParameters''"
| "instr_codegen_kind (CreateTypeAlias _ _ _ _ _ _) = ''CreateTypeAlias''"
| "instr_codegen_kind (CreateTypeParameter _ _ _ _ _ _) = ''CreateTypeParameter''"
| "instr_codegen_kind (SetTypeParameterDefault _ _ _ _ _) = ''SetTypeParameterDefault''"
| "instr_codegen_kind (CheckAnnotationFormat _ _) = ''CheckAnnotationFormat''"
| "instr_codegen_kind (RecordAnnotation _ _ _) = ''RecordAnnotation''"
| "instr_codegen_kind (IncrementCounter _ _) = ''IncrementCounter''"
| "instr_codegen_kind (CellRef _ _) = ''CellRef''"
| "instr_codegen_kind (MakeFunctionWithClosure _ _ _ _ _ _ _ _) = ''MakeFunctionWithClosure''"
| "instr_codegen_kind (CompleteFunctionDefinition _ _ _ _) = ''CompleteFunctionDefinition''"
| "instr_codegen_kind (ApplyFunctionDescriptor _ _ _ _ _ _) = ''ApplyFunctionDescriptor''"
| "instr_codegen_kind (PrepareClassDecorator _ _ _ _ _ _ _ _) = ''PrepareClassDecorator''"
| "instr_codegen_kind (ApplyClassDecorator _ _ _ _ _ _) = ''ApplyClassDecorator''"
| "instr_codegen_kind (DiscardClassDecorator _ _) = ''DiscardClassDecorator''"
| "instr_codegen_kind (DiscardClassConstructionCaptures _ _) = ''DiscardClassConstructionCaptures''"
| "instr_codegen_kind (ConstructClass _ _ _ _ _ _ _ _ _ _ _) = ''ConstructClass''"

definition unsupported_instr_error :: "instr \<Rightarrow> region_extraction_error" where
  "unsupported_instr_error e = UnsupportedInstr (try_semantic_instr_id e) (instr_codegen_kind e)"

section \<open>Linearization\<close>

record region_builder =
  next_value :: u32
  builder_values :: "extracted_value list"

definition new_builder :: region_builder where
  "new_builder = \<lparr>next_value = 0, builder_values = []\<rparr>"

definition push_value :: "u32 option \<Rightarrow> extracted_value_kind \<Rightarrow> region_builder \<Rightarrow> u32 \<times> region_builder" where
  "push_value source kind b =
     (next_value b,
      \<lparr>next_value = next_value b + 1,
       builder_values =
         builder_values b @ [\<lparr>value_id = next_value b, value_origin = source, value_kind = kind\<rparr>]\<rparr>)"

fun linearize_instr ::
  "instr \<Rightarrow> region_builder \<Rightarrow> region_extraction_error + (u32 \<times> region_builder)"
where
  "linearize_instr e b =
     (case e of
        Load _ name binding \<Rightarrow> Inr (push_value (try_semantic_instr_id e) (LoadName name binding) b)
      | BinOp _ kind left right \<Rightarrow>
          (case linearize_instr left b of
             Inl err \<Rightarrow> Inl err
           | Inr (l, b1) \<Rightarrow>
               (case linearize_instr right b1 of
                  Inl err \<Rightarrow> Inl err
                | Inr (r, b2) \<Rightarrow> Inr (push_value (try_semantic_instr_id e) (Binary kind l r) b2)))
      | UnaryOp _ kind operand \<Rightarrow>
          if kind = TruthOp then
            (case linearize_instr operand b of
               Inl err \<Rightarrow> Inl err
             | Inr (v, b1) \<Rightarrow> Inr (push_value (try_semantic_instr_id e) (Truthiness v) b1))
          else Inl (unsupported_instr_error e)
      | GetAttr _ val attr \<Rightarrow>
          (case linearize_instr val b of
             Inl err \<Rightarrow> Inl err
           | Inr (v, b1) \<Rightarrow>
               (case linearize_instr attr b1 of
                  Inl err \<Rightarrow> Inl err
                | Inr (a, b2) \<Rightarrow> Inr (push_value (try_semantic_instr_id e) (GetAttrValue v a) b2)))
      | _ \<Rightarrow> Inl (unsupported_instr_error e))"

declare linearize_instr.simps [simp del]

definition value_source :: "extracted_value list \<Rightarrow> u32 \<Rightarrow> u32 option" where
  "value_source values v = Option.bind (List.find (\<lambda>entry. value_id entry = v) values) value_origin"

definition extract_if_term ::
  "instr \<Rightarrow> block_label \<Rightarrow> block_label \<Rightarrow> region_builder \<Rightarrow>
   region_extraction_error + (extracted_exit \<times> region_builder)"
where
  "extract_if_term test then_label else_label b =
     (case linearize_instr test b of
        Inl err \<Rightarrow> Inl err
      | Inr (v, b1) \<Rightarrow>
          (case push_value (try_semantic_instr_id test) (Truthiness v) b1 of
             (condition, b2) \<Rightarrow>
               Inr (BranchExit (try_semantic_instr_id test) condition then_label else_label, b2)))"

definition extract_return ::
  "instr \<Rightarrow> region_builder \<Rightarrow> region_extraction_error + (extracted_exit \<times> region_builder)"
where
  "extract_return val b =
     (case linearize_instr val b of
        Inl err \<Rightarrow> Inl err
      | Inr (v, b1) \<Rightarrow> Inr (ReturnExit (value_source (builder_values b1) v) v, b1))"

definition extract_term ::
  "block \<Rightarrow> region_builder \<Rightarrow> region_extraction_error + (extracted_exit \<times> region_builder)"
where
  "extract_term b builder =
     (case block_terminator b of
        IfTerm test t e \<Rightarrow> extract_if_term test t e builder
      | Return val \<Rightarrow> extract_return val builder
      | Jump _ \<Rightarrow> Inl (UnsupportedTerm (label b) ''Jump'')
      | BranchTable _ _ _ \<Rightarrow> Inl (UnsupportedTerm (label b) ''BranchTable'')
      | Raise _ _ \<Rightarrow> Inl (UnsupportedTerm (label b) ''Raise'')
      | GeneratorReturn _ \<Rightarrow> Inl (UnsupportedTerm (label b) ''GeneratorReturn''))"

definition extract_block_term_region_v3 :: "block \<Rightarrow> u32 \<Rightarrow> region_extraction_error + extracted_region" where
  "extract_block_term_region_v3 b rid =
     (if exc_edge b \<noteq> None then Inl (BlockHasExceptionEdge (label b))
      else
        (case extract_term b new_builder of
           Inl err \<Rightarrow> Inl err
         | Inr (exit, builder) \<Rightarrow>
             Inr \<lparr>region_id = rid, region_block = label b, block_body_len = length (body b),
                  region_store = None, region_values = builder_values builder, region_exit = exit\<rparr>))"

definition block_jump_continuation :: "block \<Rightarrow> block_label option" where
  "block_jump_continuation b =
     (case block_terminator b of
        Jump edge \<Rightarrow> if edge_args edge = [] then Some (edge_target edge) else None
      | _ \<Rightarrow> None)"

definition extract_block_body_instr_region_v3 ::
  "block \<Rightarrow> instr \<Rightarrow> u32 \<Rightarrow> region_extraction_error + extracted_region"
where
  "extract_block_body_instr_region_v3 b e rid =
     (if exc_edge b \<noteq> None then Inl (BlockHasExceptionEdge (label b))
      else
        (case e of
           Store _ name val _ _ \<Rightarrow>
             (case extract_return val new_builder of
                Inl err \<Rightarrow> Inl err
              | Inr (exit, builder) \<Rightarrow>
                  Inr \<lparr>region_id = rid, region_block = label b, block_body_len = length (body b),
                       region_store =
                         Some \<lparr>store_target = name, continuation = block_jump_continuation b\<rparr>,
                       region_values = builder_values builder, region_exit = exit\<rparr>)
         | _ \<Rightarrow> Inl (unsupported_instr_error e)))"

definition extract_block_region_v3 :: "block \<Rightarrow> u32 \<Rightarrow> region_extraction_error + extracted_region" where
  "extract_block_region_v3 b rid =
     (if body b \<noteq> [] then Inl (BlockHasBody (label b) (length (body b)))
      else if exc_edge b \<noteq> None then Inl (BlockHasExceptionEdge (label b))
      else extract_block_term_region_v3 b rid)"

text \<open>\<open>next_primary_region_id\<close> leaves the odd number after each region id free.\<close>

definition next_primary_region_id :: "u32 \<Rightarrow> u32 \<times> u32" where
  "next_primary_region_id n = (n, n + 2)"

fun extract_body_regions :: "block \<Rightarrow> instr list \<Rightarrow> u32 \<Rightarrow> region_extraction_attempt list \<times> u32" where
  "extract_body_regions b [] n = ([], n)"
| "extract_body_regions b (e # es) n =
     (case next_primary_region_id n of
        (rid, n1) \<Rightarrow>
          (case extract_body_regions b es n1 of
             (attempts, n2) \<Rightarrow>
               (\<lparr>attempt_block = label b, attempt_result = extract_block_body_instr_region_v3 b e rid\<rparr> #
                  attempts, n2)))"

fun extract_blocks_regions :: "block list \<Rightarrow> u32 \<Rightarrow> region_extraction_attempt list" where
  "extract_blocks_regions [] n = []"
| "extract_blocks_regions (b # bs) n =
     (case extract_body_regions b (body b) n of
        (attempts, n1) \<Rightarrow>
          (case next_primary_region_id n1 of
             (rid, n2) \<Rightarrow>
               attempts @
               [\<lparr>attempt_block = label b, attempt_result = extract_block_term_region_v3 b rid\<rparr>] @
               extract_blocks_regions bs n2))"

definition extract_function_regions_v3 :: "blockpy_function \<Rightarrow> region_extraction_attempt list" where
  "extract_function_regions_v3 f = extract_blocks_regions (blocks f) 0"


section \<open>Evaluation of expressions and of regions\<close>

text \<open>
  The operations of the interpreter are parameters. Each may change the state and may raise, so two
  evaluations agree only if they perform the same operations in the same order. Instructions outside
  the linear fragment are one more operation.
\<close>

record ('x, 'v, 'st) py_ops =
  op_load :: "resolved_name \<Rightarrow> cell_load_binding option \<Rightarrow> 'st \<Rightarrow> ('x + 'v) \<times> 'st"
  op_binary :: "bin_op_kind \<Rightarrow> 'v \<Rightarrow> 'v \<Rightarrow> 'st \<Rightarrow> ('x + 'v) \<times> 'st"
  op_getattr :: "'v \<Rightarrow> 'v \<Rightarrow> 'st \<Rightarrow> ('x + 'v) \<times> 'st"
  op_truth :: "'v \<Rightarrow> 'st \<Rightarrow> ('x + bool) \<times> 'st"
  op_other :: "instr \<Rightarrow> 'st \<Rightarrow> ('x + 'v) \<times> 'st"
  op_bool :: "bool \<Rightarrow> 'v"

definition and_then_step :: "('x + 'a) \<times> 'st \<Rightarrow> ('a \<Rightarrow> 'st \<Rightarrow> ('x + 'b) \<times> 'st) \<Rightarrow> ('x + 'b) \<times> 'st" where
  "and_then_step r k = (case r of (Inl x, s) \<Rightarrow> (Inl x, s) | (Inr v, s) \<Rightarrow> k v s)"

lemma and_then_step_simps [simp]:
  "and_then_step (Inl x, s) k = (Inl x, s)" "and_then_step (Inr v, s) k = k v s"
  by (simp_all add: and_then_step_def)

definition truth_object :: "('x, 'v, 'st) py_ops \<Rightarrow> 'v \<Rightarrow> 'st \<Rightarrow> ('x + 'v) \<times> 'st" where
  "truth_object ops v st = and_then_step (op_truth ops v st) (\<lambda>b s. (Inr (op_bool ops b), s))"

fun eval_instr :: "('x, 'v, 'st) py_ops \<Rightarrow> instr \<Rightarrow> 'st \<Rightarrow> ('x + 'v) \<times> 'st" where
  "eval_instr ops e st =
     (case e of
        Load _ name binding \<Rightarrow> op_load ops name binding st
      | BinOp _ kind left right \<Rightarrow>
          and_then_step (eval_instr ops left st)
            (\<lambda>a s. and_then_step (eval_instr ops right s) (\<lambda>b. op_binary ops kind a b))
      | UnaryOp _ kind operand \<Rightarrow>
          if kind = TruthOp then and_then_step (eval_instr ops operand st) (truth_object ops)
          else op_other ops e st
      | GetAttr _ val attr \<Rightarrow>
          and_then_step (eval_instr ops val st)
            (\<lambda>a s. and_then_step (eval_instr ops attr s) (\<lambda>b. op_getattr ops a b))
      | _ \<Rightarrow> op_other ops e st)"

declare eval_instr.simps [simp del]

definition eval_kind ::
  "('x, 'v, 'st) py_ops \<Rightarrow> extracted_value_kind \<Rightarrow> (u32 \<rightharpoonup> 'v) \<Rightarrow> 'st \<Rightarrow> (('x + 'v) \<times> 'st) option"
where
  "eval_kind ops kind env st =
     (case kind of
        LoadName name binding \<Rightarrow> Some (op_load ops name binding st)
      | Binary op l r \<Rightarrow>
          (case (env l, env r) of (Some a, Some b) \<Rightarrow> Some (op_binary ops op a b st) | _ \<Rightarrow> None)
      | GetAttrValue v a \<Rightarrow>
          (case (env v, env a) of (Some x, Some y) \<Rightarrow> Some (op_getattr ops x y st) | _ \<Rightarrow> None)
      | Truthiness v \<Rightarrow> map_option (\<lambda>x. truth_object ops x st) (env v))"

fun run_values ::
  "('x, 'v, 'st) py_ops \<Rightarrow> extracted_value list \<Rightarrow> (u32 \<rightharpoonup> 'v) \<Rightarrow> 'st \<Rightarrow> (('x + (u32 \<rightharpoonup> 'v)) \<times> 'st) option"
where
  "run_values ops [] env st = Some (Inr env, st)"
| "run_values ops (x # xs) env st =
     (case eval_kind ops (value_kind x) env st of
        None \<Rightarrow> None
      | Some (Inl e, s) \<Rightarrow> Some (Inl e, s)
      | Some (Inr v, s) \<Rightarrow> run_values ops xs (env(value_id x \<mapsto> v)) s)"

datatype ('x, 'v) outcome = Raised 'x | Returned 'v | Branched block_label

definition run_region :: "('x, 'v, 'st) py_ops \<Rightarrow> extracted_region \<Rightarrow> 'st \<Rightarrow> (('x, 'v) outcome \<times> 'st) option" where
  "run_region ops r st =
     (case run_values ops (region_values r) Map.empty st of
        None \<Rightarrow> None
      | Some (Inl x, s) \<Rightarrow> Some (Raised x, s)
      | Some (Inr env, s) \<Rightarrow>
          (case region_exit r of
             ReturnExit _ v \<Rightarrow> map_option (\<lambda>w. (Returned w, s)) (env v)
           | BranchExit _ c t e \<Rightarrow>
               map_option (\<lambda>w. (Branched (if w = op_bool ops True then t else e), s)) (env c)))"

definition finish :: "('x + ('x, 'v) outcome) \<times> 'st \<Rightarrow> ('x, 'v) outcome \<times> 'st" where
  "finish r = (case r of (Inl x, s) \<Rightarrow> (Raised x, s) | (Inr out, s) \<Rightarrow> (out, s))"

text \<open>The terminators that return a value or branch on one.\<close>

fun run_term :: "('x, 'v, 'st) py_ops \<Rightarrow> block_term \<Rightarrow> 'st \<Rightarrow> (('x, 'v) outcome \<times> 'st) option" where
  "run_term ops (Return val) st =
     Some (finish (and_then_step (eval_instr ops val st) (\<lambda>w s. (Inr (Returned w), s))))"
| "run_term ops (IfTerm test t e) st =
     Some (finish (and_then_step (eval_instr ops test st)
       (\<lambda>w s. and_then_step (op_truth ops w s) (\<lambda>b s'. (Inr (Branched (if b then t else e)), s')))))"
| "run_term ops _ st = None"

section \<open>Linearization is correct\<close>

lemma run_values_append:
  "run_values ops (xs @ ys) env st =
     (case run_values ops xs env st of
        None \<Rightarrow> None
      | Some (Inl x, s) \<Rightarrow> Some (Inl x, s)
      | Some (Inr env', s) \<Rightarrow> run_values ops ys env' s)"
proof (induction xs arbitrary: env st)
  case (Cons x xs)
  show ?case
  proof (cases "eval_kind ops (value_kind x) env st")
    case (Some out)
    then obtain q s where "eval_kind ops (value_kind x) env st = Some (q, s)" by (cases out) simp
    then show ?thesis
      using Cons.IH by (cases q) (simp_all add: fun_upd_def)
  qed simp
qed simp

definition numbered :: "region_builder \<Rightarrow> bool" where
  "numbered b \<longleftrightarrow> next_value b = of_nat (length (builder_values b))"

text \<open>
  \<open>computes ops n new v e\<close>: running the values \<open>new\<close> performs the evaluation of \<open>e\<close>, binds \<open>v\<close> to
  its result and keeps the values below \<open>n\<close>.
\<close>

definition computes ::
  "('x, 'v, 'st) py_ops \<Rightarrow> nat \<Rightarrow> extracted_value list \<Rightarrow> u32 \<Rightarrow> ('st \<Rightarrow> ('x + 'v) \<times> 'st) \<Rightarrow> bool"
where
  "computes ops n new v ev \<longleftrightarrow>
     (\<forall>env st.
        case ev st of
          (Inl x, s) \<Rightarrow> run_values ops new env st = Some (Inl x, s)
        | (Inr w, s) \<Rightarrow>
            (\<exists>env'. run_values ops new env st = Some (Inr env', s) \<and> env' v = Some w \<and>
               (\<forall>i < n. env' (of_nat i) = env (of_nat i))))"

lemma computes_raise:
  "computes ops n new v ev \<Longrightarrow> ev st = (Inl x, s) \<Longrightarrow> run_values ops new env st = Some (Inl x, s)"
  unfolding computes_def by (metis (mono_tags, lifting) case_prod_conv sum.case(1))

lemma computes_value:
  assumes "computes ops n new v ev" and "ev st = (Inr w, s)"
  obtains env' where "run_values ops new env st = Some (Inr env', s)" "env' v = Some w"
    "\<And>i. i < n \<Longrightarrow> env' (of_nat i) = env (of_nat i)"
  using assms(1) [unfolded computes_def, rule_format, of env st] assms(2) by auto

lemma computesI:
  assumes "\<And>env st x s. ev st = (Inl x, s) \<Longrightarrow> run_values ops new env st = Some (Inl x, s)"
    and "\<And>env st w s. ev st = (Inr w, s) \<Longrightarrow>
      \<exists>env'. run_values ops new env st = Some (Inr env', s) \<and> env' v = Some w \<and>
        (\<forall>i < n. env' (of_nat i) = env (of_nat i))"
  shows "computes ops n new v ev"
  unfolding computes_def using assms by (auto split: prod.split sum.split)

lemma of_nat_distinct: "i < n \<Longrightarrow> n < 2 ^ 32 \<Longrightarrow> (of_nat i :: u32) \<noteq> of_nat n"
  by (simp add: word_of_nat_eq_iff take_bit_nat_eq_self)

lemma push_value_grows:
  "push_value src kind b = (v, b') \<Longrightarrow>
   v = next_value b \<and>
   builder_values b' = builder_values b @ [\<lparr>value_id = v, value_origin = src, value_kind = kind\<rparr>] \<and>
   (numbered b \<longrightarrow> numbered b')"
  by (auto simp: push_value_def numbered_def)

text \<open>What a successful linearization establishes.\<close>

definition linearized ::
  "('x, 'v, 'st) py_ops \<Rightarrow> region_builder \<Rightarrow> u32 \<Rightarrow> region_builder \<Rightarrow> ('st \<Rightarrow> ('x + 'v) \<times> 'st) \<Rightarrow> bool"
where
  "linearized ops b v b' ev \<longleftrightarrow>
     (\<exists>new. builder_values b' = builder_values b @ new \<and> numbered b' \<and>
        (\<exists>k < length (builder_values b'). v = of_nat k) \<and>
        (length (builder_values b') < 2 ^ 32 \<longrightarrow>
           computes ops (length (builder_values b)) new v ev))"

text \<open>
  \<open>feeds ops n new kind ev\<close>: the values \<open>new\<close> raise as \<open>ev\<close> does, or end in an environment in which
  the operation \<open>kind\<close> does what remains of \<open>ev\<close>.
\<close>

definition feeds ::
  "('x, 'v, 'st) py_ops \<Rightarrow> nat \<Rightarrow> extracted_value list \<Rightarrow> extracted_value_kind \<Rightarrow> ('st \<Rightarrow> ('x + 'v) \<times> 'st) \<Rightarrow> bool"
where
  "feeds ops n new kind ev \<longleftrightarrow>
     (\<forall>env st.
        (\<exists>x s. ev st = (Inl x, s) \<and> run_values ops new env st = Some (Inl x, s)) \<or>
        (\<exists>env' s. run_values ops new env st = Some (Inr env', s) \<and> eval_kind ops kind env' s = Some (ev st) \<and>
           (\<forall>i < n. env' (of_nat i) = env (of_nat i))))"

lemma linearized_push:
  assumes before: "builder_values b1 = builder_values b @ new" "numbered b1"
    and push: "push_value src kind b1 = (v, b')"
    and step: "length (builder_values b') < 2 ^ 32 \<Longrightarrow> feeds ops (length (builder_values b)) new kind ev"
  shows "linearized ops b v b' ev"
proof -
  let ?x = "\<lparr>value_id = v, value_origin = src, value_kind = kind\<rparr>"
  have v: "v = next_value b1" and grown: "builder_values b' = builder_values b @ new @ [?x]"
    and num: "numbered b'"
    using push_value_grows [OF push] before by simp_all
  have id: "v = of_nat (length (builder_values b) + length new)"
    using v before by (simp add: numbered_def)
  have "computes ops (length (builder_values b)) (new @ [?x]) v ev"
    if small: "length (builder_values b') < 2 ^ 32"
  proof (rule computesI)
    fix env st x s
    assume "ev st = (Inl x, s)"
    then show "run_values ops (new @ [?x]) env st = Some (Inl x, s)"
      using step [OF small, unfolded feeds_def, rule_format, of st env]
      by (auto simp: run_values_append)
  next
    fix env st w s
    assume ev: "ev st = (Inr w, s)"
    then obtain env' s' where run: "run_values ops new env st = Some (Inr env', s')"
        "eval_kind ops kind env' s' = Some (Inr w, s)"
        "\<forall>i < length (builder_values b). env' (of_nat i) = env (of_nat i)"
      using step [OF small, unfolded feeds_def, rule_format, of st env] by auto
    have "(of_nat i :: u32) \<noteq> v" if "i < length (builder_values b)" for i
      using of_nat_distinct [of i "length (builder_values b) + length new"] that small grown id by simp
    then show "\<exists>env'. run_values ops (new @ [?x]) env st = Some (Inr env', s) \<and> env' v = Some w \<and>
        (\<forall>i < length (builder_values b). env' (of_nat i) = env (of_nat i))"
      using run by (intro exI [of _ "env'(v \<mapsto> w)"]) (simp add: run_values_append)
  qed
  moreover have "length (builder_values b) + length new < length (builder_values b')"
    using grown by simp
  ultimately show ?thesis
    unfolding linearized_def using grown num id by blast
qed

lemma linearizedE:
  assumes "linearized ops b v b' ev"
  obtains new k where "builder_values b' = builder_values b @ new" "numbered b'"
    "k < length (builder_values b')" "v = of_nat k"
    "length (builder_values b') < 2 ^ 32 \<longrightarrow> computes ops (length (builder_values b)) new v ev"
  using assms unfolding linearized_def by blast

text \<open>One operand: evaluate it, then apply the operation to its value.\<close>

lemma feeds_unary:
  assumes "computes ops n new v ev"
    and "\<And>env w s. env v = Some w \<Longrightarrow> eval_kind ops kind env s = Some (f w s)"
  shows "feeds ops n new kind (\<lambda>st. and_then_step (ev st) f)"
  unfolding feeds_def
proof (intro allI)
  fix env st
  obtain r s where ev: "ev st = (r, s)" by (cases "ev st")
  show "(\<exists>x s. and_then_step (ev st) f = (Inl x, s) \<and> run_values ops new env st = Some (Inl x, s)) \<or>
      (\<exists>env' s. run_values ops new env st = Some (Inr env', s) \<and>
         eval_kind ops kind env' s = Some (and_then_step (ev st) f) \<and>
         (\<forall>i < n. env' (of_nat i) = env (of_nat i)))"
  proof (cases r)
    case (Inl x)
    then show ?thesis
      using computes_raise [OF assms(1)] ev by simp
  next
    case (Inr w)
    then obtain env' where "run_values ops new env st = Some (Inr env', s)" "env' v = Some w"
        "\<And>i. i < n \<Longrightarrow> env' (of_nat i) = env (of_nat i)"
      using computes_value [OF assms(1)] ev by metis
    then show ?thesis
      using assms(2) [of env' w s] ev Inr by auto
  qed
qed

text \<open>Two operands: the second is evaluated after the first and keeps its value.\<close>

lemma feeds_binary:
  assumes first: "computes ops n new1 v1 ev1" and second: "computes ops m new2 v2 ev2"
    and kept: "v1 = of_nat k" "k < m" "n \<le> m"
    and op: "\<And>env a b s. env v1 = Some a \<Longrightarrow> env v2 = Some b \<Longrightarrow> eval_kind ops kind env s = Some (f a b s)"
  shows "feeds ops n (new1 @ new2) kind
    (\<lambda>st. and_then_step (ev1 st) (\<lambda>a s. and_then_step (ev2 s) (\<lambda>b. f a b)))"
  (is "feeds ops n _ kind ?ev")
  unfolding feeds_def
proof (intro allI)
  fix env st
  obtain r s where ev1: "ev1 st = (r, s)" by (cases "ev1 st")
  show "(\<exists>x s. ?ev st = (Inl x, s) \<and> run_values ops (new1 @ new2) env st = Some (Inl x, s)) \<or>
      (\<exists>env' s. run_values ops (new1 @ new2) env st = Some (Inr env', s) \<and>
         eval_kind ops kind env' s = Some (?ev st) \<and> (\<forall>i < n. env' (of_nat i) = env (of_nat i)))"
  proof (cases r)
    case (Inl x)
    then show ?thesis
      using computes_raise [OF first] ev1 by (simp add: run_values_append)
  next
    case (Inr a)
    then obtain env1 where one: "run_values ops new1 env st = Some (Inr env1, s)" "env1 v1 = Some a"
        "\<And>i. i < n \<Longrightarrow> env1 (of_nat i) = env (of_nat i)"
      using computes_value [OF first] ev1 by metis
    obtain q t where ev2: "ev2 s = (q, t)" by (cases "ev2 s")
    show ?thesis
    proof (cases q)
      case q: (Inl x)
      then show ?thesis
        using computes_raise [OF second] ev1 ev2 Inr one(1) by (simp add: run_values_append)
    next
      case q: (Inr b)
      then obtain env2 where two: "run_values ops new2 env1 s = Some (Inr env2, t)" "env2 v2 = Some b"
          "\<And>i. i < m \<Longrightarrow> env2 (of_nat i) = env1 (of_nat i)"
        using computes_value [OF second] ev2 by metis
      have "env2 v1 = Some a"
        using two(3) [OF kept(2)] one(2) kept(1) by simp
      then show ?thesis
        using op [of env2 a b t, OF _ two(2)] one two kept(3) ev1 ev2 Inr q by (auto simp: run_values_append)
    qed
  qed
qed

lemma linearized_binary:
  assumes first: "linearized ops b v1 b1 ev1" and second: "linearized ops b1 v2 b2 ev2"
    and push: "push_value src kind b2 = (r, b')"
    and op: "\<And>env x y s. env v1 = Some x \<Longrightarrow> env v2 = Some y \<Longrightarrow> eval_kind ops kind env s = Some (f x y s)"
  shows "linearized ops b r b' (\<lambda>st. and_then_step (ev1 st) (\<lambda>x s. and_then_step (ev2 s) (\<lambda>y. f x y)))"
proof -
  obtain new1 k where one: "builder_values b1 = builder_values b @ new1" "numbered b1"
      "k < length (builder_values b1)" "v1 = of_nat k"
      and comp1: "length (builder_values b1) < 2 ^ 32 \<longrightarrow> computes ops (length (builder_values b)) new1 v1 ev1"
    using linearizedE [OF first] by metis
  obtain new2 where two: "builder_values b2 = builder_values b1 @ new2" "numbered b2"
      and comp2: "length (builder_values b2) < 2 ^ 32 \<longrightarrow> computes ops (length (builder_values b1)) new2 v2 ev2"
    using linearizedE [OF second] by metis
  have appended: "builder_values b2 = builder_values b @ (new1 @ new2)"
    using one two by simp
  show ?thesis
  proof (rule linearized_push [OF appended two(2) push])
    assume "length (builder_values b') < 2 ^ 32"
    then have small: "length (builder_values b2) < 2 ^ 32" "length (builder_values b1) < 2 ^ 32"
      using push_value_grows [OF push] two(1) by simp_all
    show "feeds ops (length (builder_values b)) (new1 @ new2) kind
        (\<lambda>st. and_then_step (ev1 st) (\<lambda>x s. and_then_step (ev2 s) (\<lambda>y. f x y)))"
      using one(1) by (intro feeds_binary [OF comp1 [rule_format, OF small(2)] comp2 [rule_format, OF small(1)] one(4,3)] op) simp_all
  qed
qed

lemma linearized_unary:
  assumes operand: "linearized ops b v b1 ev" and push: "push_value src kind b1 = (r, b')"
    and op: "\<And>env w s. env v = Some w \<Longrightarrow> eval_kind ops kind env s = Some (f w s)"
  shows "linearized ops b r b' (\<lambda>st. and_then_step (ev st) f)"
proof -
  obtain new where new: "builder_values b1 = builder_values b @ new" "numbered b1"
      and comp: "length (builder_values b1) < 2 ^ 32 \<longrightarrow> computes ops (length (builder_values b)) new v ev"
    using linearizedE [OF operand] by metis
  show ?thesis
  proof (rule linearized_push [OF new push])
    assume "length (builder_values b') < 2 ^ 32"
    then have "length (builder_values b1) < 2 ^ 32"
      using push_value_grows [OF push] by simp
    then show "feeds ops (length (builder_values b)) new kind (\<lambda>st. and_then_step (ev st) f)"
      by (intro feeds_unary [OF comp [rule_format]] op)
  qed
qed

lemma linearize_correct:
  "linearize_instr e b = Inr (v, b') \<Longrightarrow> numbered b \<Longrightarrow> linearized ops b v b' (eval_instr ops e)"
proof (induction "size e" arbitrary: e b v b' rule: less_induct)
  case less
  note unfolded = less.prems(1) [unfolded linearize_instr.simps [of e b]]
  show ?case
  proof (cases e)
    case (Load m name binding)
    then have push: "push_value (try_semantic_instr_id e) (LoadName name binding) b = (v, b')"
      using unfolded by simp
    have "feeds ops (length (builder_values b)) [] (LoadName name binding) (eval_instr ops e)"
      using Load by (simp add: feeds_def eval_kind_def eval_instr.simps)
    then show ?thesis
      using linearized_push [OF _ less.prems(2) push, of b "[]"] by simp
  next
    case (BinOp m kind left right)
    then obtain l b1 r b2 where steps: "linearize_instr left b = Inr (l, b1)" "linearize_instr right b1 = Inr (r, b2)"
        "push_value (try_semantic_instr_id e) (Binary kind l r) b2 = (v, b')"
      using unfolded by (auto split: sum.splits prod.splits)
    have one: "linearized ops b l b1 (eval_instr ops left)"
      using less.hyps [OF _ steps(1) less.prems(2)] BinOp by simp
    then have "numbered b1" by (auto simp: linearized_def)
    then have two: "linearized ops b1 r b2 (eval_instr ops right)"
      using less.hyps [OF _ steps(2)] BinOp by simp
    have "eval_instr ops e = (\<lambda>st. and_then_step (eval_instr ops left st)
        (\<lambda>x s. and_then_step (eval_instr ops right s) (\<lambda>y. op_binary ops kind x y)))"
      using BinOp by (simp add: eval_instr.simps [of ops "BinOp m kind left right"] fun_eq_iff)
    then show ?thesis
      using linearized_binary [OF one two steps(3), of "op_binary ops kind"] by (simp add: eval_kind_def)
  next
    case (GetAttr m val attr)
    then obtain l b1 r b2 where steps: "linearize_instr val b = Inr (l, b1)" "linearize_instr attr b1 = Inr (r, b2)"
        "push_value (try_semantic_instr_id e) (GetAttrValue l r) b2 = (v, b')"
      using unfolded by (auto split: sum.splits prod.splits)
    have one: "linearized ops b l b1 (eval_instr ops val)"
      using less.hyps [OF _ steps(1) less.prems(2)] GetAttr by simp
    then have "numbered b1" by (auto simp: linearized_def)
    then have two: "linearized ops b1 r b2 (eval_instr ops attr)"
      using less.hyps [OF _ steps(2)] GetAttr by simp
    have "eval_instr ops e = (\<lambda>st. and_then_step (eval_instr ops val st)
        (\<lambda>x s. and_then_step (eval_instr ops attr s) (\<lambda>y. op_getattr ops x y)))"
      using GetAttr by (simp add: eval_instr.simps [of ops "GetAttr m val attr"] fun_eq_iff)
    then show ?thesis
      using linearized_binary [OF one two steps(3), of "op_getattr ops"] by (simp add: eval_kind_def)
  next
    case (UnaryOp m kind operand)
    then have kind: "kind = TruthOp"
      using unfolded by (simp split: if_splits)
    obtain w b1 where steps: "linearize_instr operand b = Inr (w, b1)"
        "push_value (try_semantic_instr_id e) (Truthiness w) b1 = (v, b')"
      using unfolded UnaryOp kind by (auto split: sum.splits prod.splits)
    have one: "linearized ops b w b1 (eval_instr ops operand)"
      using less.hyps [OF _ steps(1) less.prems(2)] UnaryOp by simp
    have "eval_instr ops e = (\<lambda>st. and_then_step (eval_instr ops operand st) (truth_object ops))"
      using UnaryOp kind by (simp add: eval_instr.simps [of ops "UnaryOp m TruthOp operand"] fun_eq_iff)
    then show ?thesis
      using linearized_unary [OF one steps(2), of "truth_object ops"] by (simp add: eval_kind_def)
  qed (use unfolded in simp_all)
qed

lemma numbered_new: "numbered new_builder" "builder_values new_builder = []"
  by (simp_all add: numbered_def new_builder_def)

lemma linearized_run:
  assumes "linearized ops new_builder v b ev" and "length (builder_values b) < 2 ^ 32"
  shows "computes ops 0 (builder_values b) v ev"
  using assms by (auto simp: linearized_def numbered_new)

lemma run_return:
  assumes "extract_return val new_builder = Inr (exit, b)" and "length (builder_values b) < 2 ^ 32"
    and "region_values r = builder_values b" and "region_exit r = exit"
  shows "run_region ops r st = run_term ops (Return val) st"
proof -
  obtain v where v: "linearize_instr val new_builder = Inr (v, b)" "exit = ReturnExit (value_source (builder_values b) v) v"
    using assms(1) by (auto simp: extract_return_def split: sum.splits)
  have comp: "computes ops 0 (builder_values b) v (eval_instr ops val)"
    using linearized_run [OF linearize_correct [OF v(1) numbered_new(1)] assms(2)] .
  obtain q s where ev: "eval_instr ops val st = (q, s)" by (cases "eval_instr ops val st")
  show ?thesis
  proof (cases q)
    case (Inl x)
    then show ?thesis
      using computes_raise [OF comp] ev assms(3) by (simp add: run_region_def finish_def)
  next
    case (Inr w)
    then obtain env where "run_values ops (builder_values b) Map.empty st = Some (Inr env, s)" "env v = Some w"
      using computes_value [OF comp] ev by metis
    then show ?thesis
      using ev Inr assms(3,4) v(2) by (simp add: run_region_def finish_def)
  qed
qed

lemma run_if:
  assumes "extract_if_term test t e new_builder = Inr (exit, b)" and "length (builder_values b) < 2 ^ 32"
    and "region_values r = builder_values b" and "region_exit r = exit"
    and "op_bool ops True \<noteq> op_bool ops False"
  shows "run_region ops r st = run_term ops (IfTerm test t e) st"
proof -
  obtain v b1 c where steps: "linearize_instr test new_builder = Inr (v, b1)"
      "push_value (try_semantic_instr_id test) (Truthiness v) b1 = (c, b)"
      "exit = BranchExit (try_semantic_instr_id test) c t e"
    using assms(1) by (auto simp: extract_if_term_def split: sum.splits prod.splits)
  let ?ev = "\<lambda>st. and_then_step (eval_instr ops test st) (truth_object ops)"
  have "linearized ops new_builder c b ?ev"
    by (rule linearized_unary [OF linearize_correct [OF steps(1) numbered_new(1)] steps(2)])
      (simp add: eval_kind_def)
  then have comp: "computes ops 0 (builder_values b) c ?ev"
    using linearized_run assms(2) by blast
  obtain q s where ev: "eval_instr ops test st = (q, s)" by (cases "eval_instr ops test st")
  show ?thesis
  proof (cases q)
    case (Inl x)
    then show ?thesis
      using computes_raise [OF comp, of st x s] ev assms(3) by (simp add: run_region_def finish_def)
  next
    case (Inr w)
    obtain p u where truth: "op_truth ops w s = (p, u)" by (cases "op_truth ops w s")
    show ?thesis
    proof (cases p)
      case p: (Inl x)
      then show ?thesis
        using computes_raise [OF comp, of st x u] ev Inr truth assms(3)
        by (simp add: run_region_def finish_def truth_object_def)
    next
      case p: (Inr bit)
      then obtain env where "run_values ops (builder_values b) Map.empty st = Some (Inr env, u)"
          "env c = Some (op_bool ops bit)"
        using computes_value [OF comp, of st "op_bool ops bit" u Map.empty] ev Inr truth
        by (auto simp: truth_object_def)
      then show ?thesis
        using ev Inr truth p assms(3-5) steps(3) by (cases bit) (simp_all add: run_region_def finish_def)
    qed
  qed
qed

text \<open>
  C35. Running a region does what the terminator it was extracted from does: the same loads and
  operations in the same order, the same exception if one of them raises, and the same returned value
  or branch target. Region values are fewer than \<open>2 ^ 32\<close>, and the two truth objects differ.
\<close>
theorem region_executes:
  assumes "extract_block_term_region_v3 b rid = Inr r" and "length (region_values r) < 2 ^ 32"
    and "op_bool ops True \<noteq> op_bool ops False"
  shows "run_region ops r st = run_term ops (block_terminator b) st"
proof -
  obtain exit builder where extracted: "extract_term b new_builder = Inr (exit, builder)"
      "region_values r = builder_values builder" "region_exit r = exit"
    using assms(1) by (auto simp: extract_block_term_region_v3_def split: if_splits sum.splits prod.splits)
  have small: "length (builder_values builder) < 2 ^ 32"
    using assms(2) extracted(2) by simp
  show ?thesis
  proof (cases "block_terminator b")
    case (IfTerm test t e)
    then show ?thesis
      using run_if [OF _ small extracted(2,3) assms(3)] extracted(1) by (simp add: extract_term_def)
  next
    case (Return val)
    then show ?thesis
      using run_return [OF _ small extracted(2,3)] extracted(1) by (simp add: extract_term_def)
  qed (use extracted(1) in \<open>simp_all add: extract_term_def\<close>)
qed


text \<open>Integers as values and the operations performed so far as the state.\<close>

definition trace_ops :: "(string, int, string list) py_ops" where
  "trace_ops =
     \<lparr>op_load = (\<lambda>name _ st. (Inr (if name_id name = ''a'' then 3 else 5), st @ [name_id name])),
      op_binary = (\<lambda>kind a b st.
        (if kind = LtOp then Inr (if a < b then 1 else 0) else Inl ''TypeError'', st @ [''compare''])),
      op_getattr = (\<lambda>_ _ st. (Inl ''AttributeError'', st)),
      op_truth = (\<lambda>v st. (Inr (v \<noteq> 0), st @ [''truth''])),
      op_other = (\<lambda>_ st. (Inl ''NotImplemented'', st)),
      op_bool = (\<lambda>b. if b then 1 else 0)\<rparr>"

definition compare_block :: block where
  "compare_block =
     \<lparr>label = 7, body = [],
      block_terminator =
        IfTerm (BinOp synthetic LtOp
          (Load synthetic \<lparr>name_id = ''a'', name_location = Local 0\<rparr> None)
          (Load synthetic \<lparr>name_id = ''b'', name_location = Local 1\<rparr> None)) 1 2,
      params = [], exc_edge = None,
      block_extra = \<lparr>handled_exception = RegionsContext, suspension_resume = None\<rparr>\<rparr>"

definition compare_region :: extracted_region where
  "compare_region =
     \<lparr>region_id = 0, region_block = 7, block_body_len = 0, region_store = None,
      region_values =
        [\<lparr>value_id = 0, value_origin = None, value_kind = LoadName \<lparr>name_id = ''a'', name_location = Local 0\<rparr> None\<rparr>,
         \<lparr>value_id = 1, value_origin = None, value_kind = LoadName \<lparr>name_id = ''b'', name_location = Local 1\<rparr> None\<rparr>,
         \<lparr>value_id = 2, value_origin = None, value_kind = Binary LtOp 0 1\<rparr>,
         \<lparr>value_id = 3, value_origin = None, value_kind = Truthiness 2\<rparr>],
      region_exit = BranchExit None 3 1 2\<rparr>"

lemma extract_compare_block: "extract_block_term_region_v3 compare_block 0 = Inr compare_region"
  by code_simp

lemma run_compare_block:
  "run_term trace_ops (block_terminator compare_block) [] =
     Some (Branched 1, [''a'', ''b'', ''compare'', ''truth''])"
  by code_simp

theorem region_executes_witness:
  "extract_block_term_region_v3 compare_block 0 = Inr compare_region \<and>
   run_region trace_ops compare_region [] = Some (Branched 1, [''a'', ''b'', ''compare'', ''truth''])"
proof -
  have "length (region_values compare_region) < 2 ^ 32" "op_bool trace_ops True \<noteq> op_bool trace_ops False"
    by (simp_all add: compare_region_def trace_ops_def)
  then show ?thesis
    using region_executes [OF extract_compare_block, of trace_ops "[]"] extract_compare_block
    by (simp add: run_compare_block)
qed

end
